(* ===== verification/Prelude.thy ===== *)
theory Prelude
  imports Main "HOL-Library.Word"
begin

text \<open>
  Shared vocabulary of the development: Go's outcomes (value, error, panic), the
  conversions between Go's \<open>uint64\<close>, \<open>int64\<close> and arbitrary-precision integers, the
  decimal printing used in messages, and the state-passing operations through which
  the code under \<open>src/\<close> calls what is not under \<open>src/\<close>.
\<close>

named_theorems go_defs "definitions that unfold when a handler is evaluated"
named_theorems go_elims "inversion of sequenced operations"

section \<open>Numbers\<close>

type_synonym u8 = "8 word"
type_synonym u64 = "64 word"
type_synonym TokenAmount = int \<comment> \<open>\<open>abi.TokenAmount\<close>, an arbitrary-precision integer\<close>

text \<open>Go's conversion \<open>int64(x)\<close> of a \<open>uint64\<close> reinterprets the bits.\<close>

definition int64 :: "u64 \<Rightarrow> int" where
  "int64 x = sint x"

text \<open>
  \<open>big.Int.Uint64()\<close> of Go's \<open>math/big\<close> returns the low 64 bits of the absolute value
  (its documentation leaves the result open when the value does not fit).
\<close>

definition big_uint64 :: "int \<Rightarrow> u64" where
  "big_uint64 x = word_of_int \<bar>x\<bar>"

text \<open>\<open>big.Int.Div\<close> is Euclidean division; it panics when the divisor is zero.\<close>

definition euclid_div :: "int \<Rightarrow> int \<Rightarrow> int" where
  "euclid_div a b = (if 0 < b then a div b else - (a div (- b)))"

lemma int64_small: "uint x < 2 ^ 63 \<Longrightarrow> int64 x = uint x"
  by (simp add: int64_def sint_uint signed_take_bit_eq_if_positive bit_uint_iff
      take_bit_int_eq_self_iff bit_iff_odd)

lemma int64_zero [simp]: "int64 0 = 0"
  by (simp add: int64_def)

lemma big_uint64_word [simp]: "big_uint64 (uint x) = x"
  by (simp add: big_uint64_def)

lemma big_uint64_zero [simp]: "big_uint64 0 = 0"
  by (simp add: big_uint64_def)

lemma uint_big_uint64: "0 \<le> x \<Longrightarrow> x < 2 ^ 64 \<Longrightarrow> uint (big_uint64 x) = x"
  by (simp add: big_uint64_def uint_word_of_int)

lemma euclid_div_mult [simp]: "b \<noteq> 0 \<Longrightarrow> euclid_div (a * b) b = a"
proof (cases "0 < b")
  case True
  then show ?thesis by (simp add: euclid_div_def)
next
  case False
  assume "b \<noteq> 0"
  then have "a * b div (- b) = - a"
    by (metis div_minus_right minus_mult_minus nonzero_mult_div_cancel_right neg_equal_0_iff_equal
        minus_mult_left mult_minus_right)
  with False show ?thesis by (simp add: euclid_div_def)
qed

lemma euclid_div_nonneg: "0 \<le> a \<Longrightarrow> 0 < b \<Longrightarrow> 0 \<le> euclid_div a b"
  by (simp add: euclid_div_def pos_imp_zdiv_nonneg_iff)

lemma euclid_div_le: "0 \<le> a \<Longrightarrow> 0 < b \<Longrightarrow> euclid_div a b * b \<le> a"
  by (simp add: euclid_div_def) (metis minus_mod_eq_div_mult diff_ge_0_iff_ge
      cancel_comm_monoid_add_class.diff_cancel minus_mod_eq_mult_div mult.commute
      mod_int_pos_iff add.commute diff_le_eq le_add_same_cancel2 linorder_not_le)

section \<open>Decimal printing\<close>

fun show_nat :: "nat \<Rightarrow> string" where
  "show_nat n = (if n < 10 then [char_of (48 + n)]
     else show_nat (n div 10) @ [char_of (48 + n mod 10)])"

declare show_nat.simps [simp del]

definition show_int :: "int \<Rightarrow> string" where
  "show_int i = (if i < 0 then CHR ''-'' # show_nat (nat (- i)) else show_nat (nat i))"

section \<open>Outcomes\<close>

text \<open>
  Go error values. \<open>GErr\<close> is a plain error with a message (\<open>errors.New\<close>,
  \<open>fmt.Errorf\<close>); the others are the error values and types the code tells apart:
  \<open>ShortfallError\<close> (\<open>types.go\<close>), \<open>ErrInsufficientFunds\<close> and \<open>ErrChannelNotTracked\<close>
  (\<open>paychmgr.go\<close>), \<open>datastore.ErrNotFound\<close> and \<open>datatransfer.ErrPause\<close>.
\<close>

datatype gerr =
    GErr string
  | ShortfallError TokenAmount
  | ErrInsufficientFunds TokenAmount
  | ErrChannelNotTracked
  | ErrNotFound
  | ErrPause

fun Error :: "gerr \<Rightarrow> string" where
  "Error (GErr m) = m"
| "Error (ShortfallError n) = ''Inssufficient Funds. Shortfall: '' @ show_int n"
| "Error (ErrInsufficientFunds n) =
     ''not enough funds in channel to cover voucher - shortfall: '' @ show_int n"
| "Error ErrChannelNotTracked = ''channel not tracked''"
| "Error ErrNotFound = ''datastore: key not found''"
| "Error ErrPause = ''pause channel''"

text \<open>\<open>fmt.Errorf("prefix: %v", err)\<close>: a new error carrying the message only.\<close>

definition Errorf :: "string \<Rightarrow> gerr \<Rightarrow> gerr" where
  "Errorf p e = GErr (p @ '': '' @ Error e)"

text \<open>A call returns a value, returns an error, or panics.\<close>

datatype 'a go = Ok 'a | Err gerr | Panic

fun is_Ok :: "'a go \<Rightarrow> bool" where
  "is_Ok (Ok _) = True"
| "is_Ok _ = False"

definition big_Div :: "int \<Rightarrow> int \<Rightarrow> int go" where
  "big_Div a b = (if b = 0 then Panic else Ok (euclid_div a b))"

lemma big_Div_simps [simp]:
  "big_Div a 0 = Panic"
  "b \<noteq> 0 \<Longrightarrow> big_Div a b = Ok (euclid_div a b)"
  by (simp_all add: big_Div_def)

fun bind_go :: "'a go \<Rightarrow> ('a \<Rightarrow> 'b go) \<Rightarrow> 'b go" where
  "bind_go (Ok x) f = f x"
| "bind_go (Err e) f = Err e"
| "bind_go Panic f = Panic"

lemma bind_go_Ok [go_elims]:
  assumes "bind_go r f = Ok y"
  obtains x where "r = Ok x" "f x = Ok y"
  using assms by (cases r) auto

section \<open>Operations on the world\<close>

text \<open>
  An operation reads and changes the world \<open>'w\<close> (the datastore, the chain, the wallet,
  the network: whatever the called interface keeps) and has an outcome.
\<close>

type_synonym ('w, 'a) io = "'w \<Rightarrow> 'a go \<times> 'w"

definition ret :: "'a \<Rightarrow> ('w, 'a) io" where
  [go_defs]: "ret x = (\<lambda>w. (Ok x, w))"

definition fail :: "gerr \<Rightarrow> ('w, 'a) io" where
  [go_defs]: "fail e = (\<lambda>w. (Err e, w))"

definition panic :: "('w, 'a) io" where
  [go_defs]: "panic = (\<lambda>w. (Panic, w))"

text \<open>\<open>x, err := m(); if err != nil { return err }\<close>\<close>

definition bindE :: "('w, 'a) io \<Rightarrow> ('a \<Rightarrow> ('w, 'b) io) \<Rightarrow> ('w, 'b) io" where
  "bindE m f = (\<lambda>w. case m w of
       (Ok x, w') \<Rightarrow> f x w'
     | (Err e, w') \<Rightarrow> (Err e, w')
     | (Panic, w') \<Rightarrow> (Panic, w'))"

text \<open>\<open>x, err := m(); if err != nil { handler } else { continuation }\<close>\<close>

definition tryE :: "('w, 'a) io \<Rightarrow> (gerr \<Rightarrow> ('w, 'b) io) \<Rightarrow> ('a \<Rightarrow> ('w, 'b) io) \<Rightarrow> ('w, 'b) io" where
  "tryE m h f = (\<lambda>w. case m w of
       (Ok x, w') \<Rightarrow> f x w'
     | (Err e, w') \<Rightarrow> h e w'
     | (Panic, w') \<Rightarrow> (Panic, w'))"

definition lift_go :: "'a go \<Rightarrow> ('w, 'a) io" where
  [go_defs]: "lift_go r = (\<lambda>w. (r, w))"

text \<open>\<open>if err != nil { return fmt.Errorf("...: %v", err) }\<close>\<close>

definition wrapE :: "string \<Rightarrow> ('w, 'a) io \<Rightarrow> ('w, 'a) io" where
  [go_defs]: "wrapE p m = tryE m (\<lambda>e. fail (Errorf p e)) ret"

lemma bindE_run [simp]:
  "m w = (Ok x, w') \<Longrightarrow> bindE m f w = f x w'"
  "m w = (Err e, w') \<Longrightarrow> bindE m f w = (Err e, w')"
  "m w = (Panic, w') \<Longrightarrow> bindE m f w = (Panic, w')"
  by (simp_all add: bindE_def)

lemma tryE_run [simp]:
  "m w = (Ok x, w') \<Longrightarrow> tryE m h f w = f x w'"
  "m w = (Err e, w') \<Longrightarrow> tryE m h f w = h e w'"
  "m w = (Panic, w') \<Longrightarrow> tryE m h f w = (Panic, w')"
  by (simp_all add: tryE_def)

lemma bindE_Ok [go_elims]:
  assumes "bindE m f w = (Ok y, w')"
  obtains x w1 where "m w = (Ok x, w1)" "f x w1 = (Ok y, w')"
  using assms by (auto simp: bindE_def split: prod.splits go.splits)

lemma bindE_ret [simp]: "bindE (ret x) f = f x"
  by (simp add: fun_eq_iff bindE_def ret_def)

lemma bindE_fail [simp]: "bindE (fail e) f = fail e"
  by (simp add: fun_eq_iff bindE_def fail_def)

lemma bindE_assoc: "bindE (bindE m f) g = bindE m (\<lambda>x. bindE (f x) g)"
  by (auto simp: fun_eq_iff bindE_def split: prod.splits go.splits)

lemma lift_go_simps [simp]:
  "lift_go (Ok x) = ret x" "lift_go (Err e) = fail e" "lift_go Panic = panic"
  by (simp_all add: lift_go_def ret_def fail_def panic_def)

lemma tryE_Ok [go_elims]:
  assumes "tryE m h f w = (Ok y, w')"
  obtains (err) e w1 where "m w = (Err e, w1)" "h e w1 = (Ok y, w')"
    | (ok) x w1 where "m w = (Ok x, w1)" "f x w1 = (Ok y, w')"
  using assms by (auto simp: tryE_def split: prod.splits go.splits)

lemma Ok_iffs [simp]:
  "ret x w = (Ok y, w') \<longleftrightarrow> y = x \<and> w' = w"
  "panic w = (Ok y, w') \<longleftrightarrow> False"
  "fail e w = (Ok y, w') \<longleftrightarrow> False"
  by (auto simp: ret_def panic_def fail_def)

text \<open>Operations that end with a value or an error in every world.\<close>

definition returns :: "('w, 'a) io \<Rightarrow> bool" where
  "returns m \<longleftrightarrow> (\<forall>w. fst (m w) \<noteq> Panic)"

lemma returnsD: "returns m \<Longrightarrow> m w \<noteq> (Panic, w')"
  unfolding returns_def by (metis fst_conv)

lemma returns_intros [intro, simp]:
  "returns (ret x)" "returns (fail e)"
  by (simp_all add: returns_def ret_def fail_def)

lemma returns_tryE [intro]:
  assumes "returns m" "\<And>e. returns (h e)" "\<And>x. returns (f x)"
  shows "returns (tryE m h f)"
  using assms returnsD [OF assms(1)]
  by (auto simp: returns_def tryE_def split: prod.splits go.splits)

lemma returns_bindE [intro]:
  assumes "returns m" "\<And>x. returns (f x)"
  shows "returns (bindE m f)"
  using assms returnsD [OF assms(1)]
  by (auto simp: returns_def bindE_def split: prod.splits go.splits)

section \<open>Lists\<close>

lemma find_map_of:
  "find (\<lambda>x. key x = k) xs = map_of (map (\<lambda>x. (key x, x)) xs) k"
  by (induction xs) auto

lemma find_SomeD: "find P xs = Some x \<Longrightarrow> x \<in> set xs \<and> P x"
  by (induction xs) (auto split: if_splits)

lemma sum_list_filter_le:
  fixes f :: "'a \<Rightarrow> int"
  assumes "\<And>x. x \<in> set xs \<Longrightarrow> 0 \<le> f x"
  shows "(\<Sum>x\<leftarrow>filter P xs. f x) \<le> (\<Sum>x\<leftarrow>xs. f x)"
  using assms by (induction xs) (auto simp: add_increasing)

end
