(* ===== verification/DealTypes.thy ===== *)
theory DealTypes
  imports Prelude
begin

text \<open>
  The data of the retrieval market: the deal statuses and events of
  \<open>dealstatus.go\<close>, \<open>clientevents.go\<close> and \<open>providerevents.go\<close>, and the structs of
  \<open>types.go\<close>. Addresses, CIDs, peer ids, channel ids and tipset tokens belong to
  libraries; the code only compares and passes them on, so they are strings here (their
  Go representation is a struct around a string), with the empty string for \<open>Undef\<close>.
\<close>

section \<open>Library values\<close>

type_synonym Address = string
type_synonym Cid = string
type_synonym PeerID = string
type_synonym ChannelID = string
type_synonym StoreID = u64
type_synonym DealID = u64
type_synonym TipSetToken = string

definition AddressUndef :: Address where
  "AddressUndef = []"

definition CidUndef :: Cid where
  "CidUndef = []"

section \<open>Deal statuses\<close>

text \<open>
  \<open>DealStatus\<close> is a \<open>uint64\<close> in Go; a response read from the network may hold a value
  for which no constant is declared, kept in \<open>DealStatusOther\<close>.
\<close>

datatype DealStatus =
    DealStatusNew
  | DealStatusWaitForAcceptance
  | DealStatusPaymentChannelCreating
  | DealStatusPaymentChannelAddingFunds
  | DealStatusAccepted
  | DealStatusFailing
  | DealStatusRejected
  | DealStatusFundsNeeded
  | DealStatusSendFunds
  | DealStatusSendFundsLastPayment
  | DealStatusOngoing
  | DealStatusFundsNeededLastPayment
  | DealStatusCompleted
  | DealStatusDealNotFound
  | DealStatusErrored
  | DealStatusBlocksComplete
  | DealStatusFinalizing
  | DealStatusCompleting
  | DealStatusCheckComplete
  | DealStatusCheckFunds
  | DealStatusInsufficientFunds
  | DealStatusPaymentChannelAllocatingLane
  | DealStatusCancelling
  | DealStatusCancelled
  | DealStatusOther u64

text \<open>The numbering by \<open>iota\<close>, and back.\<close>

fun DealStatusCode :: "DealStatus \<Rightarrow> u64" where
  "DealStatusCode DealStatusNew = 0"
| "DealStatusCode DealStatusWaitForAcceptance = 1"
| "DealStatusCode DealStatusPaymentChannelCreating = 2"
| "DealStatusCode DealStatusPaymentChannelAddingFunds = 3"
| "DealStatusCode DealStatusAccepted = 4"
| "DealStatusCode DealStatusFailing = 5"
| "DealStatusCode DealStatusRejected = 6"
| "DealStatusCode DealStatusFundsNeeded = 7"
| "DealStatusCode DealStatusSendFunds = 8"
| "DealStatusCode DealStatusSendFundsLastPayment = 9"
| "DealStatusCode DealStatusOngoing = 10"
| "DealStatusCode DealStatusFundsNeededLastPayment = 11"
| "DealStatusCode DealStatusCompleted = 12"
| "DealStatusCode DealStatusDealNotFound = 13"
| "DealStatusCode DealStatusErrored = 14"
| "DealStatusCode DealStatusBlocksComplete = 15"
| "DealStatusCode DealStatusFinalizing = 16"
| "DealStatusCode DealStatusCompleting = 17"
| "DealStatusCode DealStatusCheckComplete = 18"
| "DealStatusCode DealStatusCheckFunds = 19"
| "DealStatusCode DealStatusInsufficientFunds = 20"
| "DealStatusCode DealStatusPaymentChannelAllocatingLane = 21"
| "DealStatusCode DealStatusCancelling = 22"
| "DealStatusCode DealStatusCancelled = 23"
| "DealStatusCode (DealStatusOther n) = n"

definition declaredStatuses :: "DealStatus list" where
  "declaredStatuses = [DealStatusNew,
     DealStatusWaitForAcceptance,
     DealStatusPaymentChannelCreating,
     DealStatusPaymentChannelAddingFunds,
     DealStatusAccepted,
     DealStatusFailing,
     DealStatusRejected,
     DealStatusFundsNeeded,
     DealStatusSendFunds,
     DealStatusSendFundsLastPayment,
     DealStatusOngoing,
     DealStatusFundsNeededLastPayment,
     DealStatusCompleted,
     DealStatusDealNotFound,
     DealStatusErrored,
     DealStatusBlocksComplete,
     DealStatusFinalizing,
     DealStatusCompleting,
     DealStatusCheckComplete,
     DealStatusCheckFunds,
     DealStatusInsufficientFunds,
     DealStatusPaymentChannelAllocatingLane,
     DealStatusCancelling,
     DealStatusCancelled]"

definition DealStatusOfCode :: "u64 \<Rightarrow> DealStatus" where
  "DealStatusOfCode n = (if n < 24 then declaredStatuses ! unat n else DealStatusOther n)"

definition wf_status :: "DealStatus \<Rightarrow> bool" where
  "wf_status s = (case s of DealStatusOther n \<Rightarrow> 24 \<le> n | _ \<Rightarrow> True)"

text \<open>The map of printed names. A key that is not in a Go map reads as the empty string.\<close>

fun DealStatuses :: "DealStatus \<Rightarrow> string" where
  "DealStatuses DealStatusNew = ''DealStatusNew''"
| "DealStatuses DealStatusWaitForAcceptance = ''DealStatusWaitForAcceptance''"
| "DealStatuses DealStatusPaymentChannelCreating = ''DealStatusPaymentChannelCreating''"
| "DealStatuses DealStatusPaymentChannelAddingFunds = ''DealStatusPaymentChannelAddingFunds''"
| "DealStatuses DealStatusAccepted = ''DealStatusAccepted''"
| "DealStatuses DealStatusFailing = ''DealStatusFailing''"
| "DealStatuses DealStatusRejected = ''DealStatusRejected''"
| "DealStatuses DealStatusFundsNeeded = ''DealStatusFundsNeeded''"
| "DealStatuses DealStatusSendFunds = ''DealStatusSendFunds''"
| "DealStatuses DealStatusSendFundsLastPayment = ''DealStatusSendFundsLastPayment''"
| "DealStatuses DealStatusOngoing = ''DealStatusOngoing''"
| "DealStatuses DealStatusFundsNeededLastPayment = ''DealStatusFundsNeededLastPayment''"
| "DealStatuses DealStatusCompleted = ''DealStatusCompleted''"
| "DealStatuses DealStatusDealNotFound = ''DealStatusDealNotFound''"
| "DealStatuses DealStatusErrored = ''DealStatusErrored''"
| "DealStatuses DealStatusFinalizing = ''DealStatusFinalizing''"
| "DealStatuses DealStatusCompleting = ''DealStatusCompleting''"
| "DealStatuses DealStatusCheckComplete = ''DealStatusCheckComplete''"
| "DealStatuses DealStatusCheckFunds = ''DealStatusCheckFunds''"
| "DealStatuses DealStatusInsufficientFunds = ''DealStatusInsufficientFunds''"
| "DealStatuses DealStatusPaymentChannelAllocatingLane = ''DealStatusPaymentChannelAllocatingLane''"
| "DealStatuses DealStatusCancelling = ''DealStatusCancelling''"
| "DealStatuses DealStatusCancelled = ''DealStatusCancelled''"
| "DealStatuses _ = ''''"

section \<open>Events\<close>

datatype ClientEvent =
    ClientEventOpen
  | ClientEventWriteDealProposalErrored
  | ClientEventDealProposed
  | ClientEventDealRejected
  | ClientEventDealNotFound
  | ClientEventDealAccepted
  | ClientEventProviderCancelled
  | ClientEventUnknownResponseReceived
  | ClientEventPaymentChannelErrored
  | ClientEventAllocateLaneErrored
  | ClientEventPaymentChannelCreateInitiated
  | ClientEventPaymentChannelReady
  | ClientEventPaymentChannelAddingFunds
  | ClientEventPaymentChannelAddFundsErrored
  | ClientEventLastPaymentRequested
  | ClientEventAllBlocksReceived
  | ClientEventPaymentRequested
  | ClientEventUnsealPaymentRequested
  | ClientEventBlocksReceived
  | ClientEventSendFunds
  | ClientEventFundsExpended
  | ClientEventBadPaymentRequested
  | ClientEventCreateVoucherFailed
  | ClientEventWriteDealPaymentErrored
  | ClientEventPaymentSent
  | ClientEventComplete
  | ClientEventDataTransferError
  | ClientEventCancelComplete
  | ClientEventEarlyTermination
  | ClientEventCompleteVerified
  | ClientEventLaneAllocated
  | ClientEventVoucherShortfall
  | ClientEventRecheckFunds
  | ClientEventCancel

fun ClientEventCode :: "ClientEvent \<Rightarrow> u64" where
  "ClientEventCode ClientEventOpen = 0"
| "ClientEventCode ClientEventWriteDealProposalErrored = 1"
| "ClientEventCode ClientEventDealProposed = 2"
| "ClientEventCode ClientEventDealRejected = 3"
| "ClientEventCode ClientEventDealNotFound = 4"
| "ClientEventCode ClientEventDealAccepted = 5"
| "ClientEventCode ClientEventProviderCancelled = 6"
| "ClientEventCode ClientEventUnknownResponseReceived = 7"
| "ClientEventCode ClientEventPaymentChannelErrored = 8"
| "ClientEventCode ClientEventAllocateLaneErrored = 9"
| "ClientEventCode ClientEventPaymentChannelCreateInitiated = 10"
| "ClientEventCode ClientEventPaymentChannelReady = 11"
| "ClientEventCode ClientEventPaymentChannelAddingFunds = 12"
| "ClientEventCode ClientEventPaymentChannelAddFundsErrored = 13"
| "ClientEventCode ClientEventLastPaymentRequested = 14"
| "ClientEventCode ClientEventAllBlocksReceived = 15"
| "ClientEventCode ClientEventPaymentRequested = 16"
| "ClientEventCode ClientEventUnsealPaymentRequested = 17"
| "ClientEventCode ClientEventBlocksReceived = 18"
| "ClientEventCode ClientEventSendFunds = 19"
| "ClientEventCode ClientEventFundsExpended = 20"
| "ClientEventCode ClientEventBadPaymentRequested = 21"
| "ClientEventCode ClientEventCreateVoucherFailed = 22"
| "ClientEventCode ClientEventWriteDealPaymentErrored = 23"
| "ClientEventCode ClientEventPaymentSent = 24"
| "ClientEventCode ClientEventComplete = 25"
| "ClientEventCode ClientEventDataTransferError = 26"
| "ClientEventCode ClientEventCancelComplete = 27"
| "ClientEventCode ClientEventEarlyTermination = 28"
| "ClientEventCode ClientEventCompleteVerified = 29"
| "ClientEventCode ClientEventLaneAllocated = 30"
| "ClientEventCode ClientEventVoucherShortfall = 31"
| "ClientEventCode ClientEventRecheckFunds = 32"
| "ClientEventCode ClientEventCancel = 33"

fun ClientEvents :: "ClientEvent \<Rightarrow> string" where
  "ClientEvents ClientEventOpen = ''ClientEventOpen''"
| "ClientEvents ClientEventPaymentChannelErrored = ''ClientEventPaymentChannelErrored''"
| "ClientEvents ClientEventDealProposed = ''ClientEventDealProposed''"
| "ClientEvents ClientEventAllocateLaneErrored = ''ClientEventAllocateLaneErrored''"
| "ClientEvents ClientEventPaymentChannelCreateInitiated = ''ClientEventPaymentChannelCreateInitiated''"
| "ClientEvents ClientEventPaymentChannelReady = ''ClientEventPaymentChannelReady''"
| "ClientEvents ClientEventPaymentChannelAddingFunds = ''ClientEventPaymentChannelAddingFunds''"
| "ClientEvents ClientEventPaymentChannelAddFundsErrored = ''ClientEventPaymentChannelAddFundsErrored''"
| "ClientEvents ClientEventWriteDealProposalErrored = ''ClientEventWriteDealProposalErrored''"
| "ClientEvents ClientEventDealRejected = ''ClientEventDealRejected''"
| "ClientEvents ClientEventDealNotFound = ''ClientEventDealNotFound''"
| "ClientEvents ClientEventDealAccepted = ''ClientEventDealAccepted''"
| "ClientEvents ClientEventProviderCancelled = ''ClientEventProviderCancelled''"
| "ClientEvents ClientEventUnknownResponseReceived = ''ClientEventUnknownResponseReceived''"
| "ClientEvents ClientEventLastPaymentRequested = ''ClientEventLastPaymentRequested''"
| "ClientEvents ClientEventAllBlocksReceived = ''ClientEventAllBlocksReceived''"
| "ClientEvents ClientEventPaymentRequested = ''ClientEventPaymentRequested''"
| "ClientEvents ClientEventUnsealPaymentRequested = ''ClientEventUnsealPaymentRequested''"
| "ClientEvents ClientEventBlocksReceived = ''ClientEventBlocksReceived''"
| "ClientEvents ClientEventSendFunds = ''ClientEventSendFunds''"
| "ClientEvents ClientEventFundsExpended = ''ClientEventFundsExpended''"
| "ClientEvents ClientEventBadPaymentRequested = ''ClientEventBadPaymentRequested''"
| "ClientEvents ClientEventCreateVoucherFailed = ''ClientEventCreateVoucherFailed''"
| "ClientEvents ClientEventWriteDealPaymentErrored = ''ClientEventWriteDealPaymentErrored''"
| "ClientEvents ClientEventPaymentSent = ''ClientEventPaymentSent''"
| "ClientEvents ClientEventDataTransferError = ''ClientEventDataTransferError''"
| "ClientEvents ClientEventComplete = ''ClientEventComplete''"
| "ClientEvents ClientEventCancelComplete = ''ClientEventCancelComplete''"
| "ClientEvents ClientEventEarlyTermination = ''ClientEventEarlyTermination''"
| "ClientEvents ClientEventCompleteVerified = ''ClientEventCompleteVerified''"
| "ClientEvents ClientEventLaneAllocated = ''ClientEventLaneAllocated''"
| "ClientEvents ClientEventVoucherShortfall = ''ClientEventVoucherShortfall''"
| "ClientEvents ClientEventRecheckFunds = ''ClientEventRecheckFunds''"
| "ClientEvents ClientEventCancel = ''ClientEventCancel''"

datatype ProviderEvent =
    ProviderEventOpen
  | ProviderEventDealNotFound
  | ProviderEventDealRejected
  | ProviderEventDealAccepted
  | ProviderEventBlockSent
  | ProviderEventBlocksCompleted
  | ProviderEventPaymentRequested
  | ProviderEventSaveVoucherFailed
  | ProviderEventPartialPaymentReceived
  | ProviderEventPaymentReceived
  | ProviderEventComplete
  | ProviderEventDataTransferError
  | ProviderEventCancelComplete
  | ProviderEventCleanupComplete
  | ProviderEventMultiStoreError
  | ProviderEventClientCancelled

fun ProviderEventCode :: "ProviderEvent \<Rightarrow> u64" where
  "ProviderEventCode ProviderEventOpen = 0"
| "ProviderEventCode ProviderEventDealNotFound = 1"
| "ProviderEventCode ProviderEventDealRejected = 2"
| "ProviderEventCode ProviderEventDealAccepted = 3"
| "ProviderEventCode ProviderEventBlockSent = 4"
| "ProviderEventCode ProviderEventBlocksCompleted = 5"
| "ProviderEventCode ProviderEventPaymentRequested = 6"
| "ProviderEventCode ProviderEventSaveVoucherFailed = 7"
| "ProviderEventCode ProviderEventPartialPaymentReceived = 8"
| "ProviderEventCode ProviderEventPaymentReceived = 9"
| "ProviderEventCode ProviderEventComplete = 10"
| "ProviderEventCode ProviderEventDataTransferError = 11"
| "ProviderEventCode ProviderEventCancelComplete = 12"
| "ProviderEventCode ProviderEventCleanupComplete = 13"
| "ProviderEventCode ProviderEventMultiStoreError = 14"
| "ProviderEventCode ProviderEventClientCancelled = 15"

fun ProviderEvents :: "ProviderEvent \<Rightarrow> string" where
  "ProviderEvents ProviderEventOpen = ''ProviderEventOpen''"
| "ProviderEvents ProviderEventDealNotFound = ''ProviderEventDealNotFound''"
| "ProviderEvents ProviderEventDealRejected = ''ProviderEventDealRejected''"
| "ProviderEvents ProviderEventDealAccepted = ''ProviderEventDealAccepted''"
| "ProviderEvents ProviderEventBlockSent = ''ProviderEventBlockSent''"
| "ProviderEvents ProviderEventBlocksCompleted = ''ProviderEventBlocksCompleted''"
| "ProviderEvents ProviderEventPaymentRequested = ''ProviderEventPaymentRequested''"
| "ProviderEvents ProviderEventSaveVoucherFailed = ''ProviderEventSaveVoucherFailed''"
| "ProviderEvents ProviderEventPartialPaymentReceived = ''ProviderEventPartialPaymentReceived''"
| "ProviderEvents ProviderEventPaymentReceived = ''ProviderEventPaymentReceived''"
| "ProviderEvents ProviderEventComplete = ''ProviderEventComplete''"
| "ProviderEvents ProviderEventDataTransferError = ''ProviderEventDataTransferError''"
| "ProviderEvents ProviderEventCancelComplete = ''ProviderEventCancelComplete''"
| "ProviderEvents ProviderEventCleanupComplete = ''ProviderEventCleanupComplete''"
| "ProviderEvents ProviderEventMultiStoreError = ''ProviderEventMultiStoreError''"
| "ProviderEvents ProviderEventClientCancelled = ''ProviderEventClientCancelled''"
section \<open>Structs\<close>

text \<open>\<open>types.go\<close>. An embedded struct is a field of its own; a pointer is an option.\<close>

record Params =
  PricePerByte :: TokenAmount
  PaymentInterval :: u64
  PaymentIntervalIncrease :: u64

definition NewParams :: "TokenAmount \<Rightarrow> u64 \<Rightarrow> u64 \<Rightarrow> Params go" where
  "NewParams pricePerByte paymentInterval paymentIntervalIncrease =
     Ok \<lparr>PricePerByte = pricePerByte, PaymentInterval = paymentInterval,
         PaymentIntervalIncrease = paymentIntervalIncrease\<rparr>"

record DealProposal =
  dp_PayloadCID :: Cid
  dp_ID :: DealID
  dp_Params :: Params

record DealResponse =
  dr_Status :: DealStatus
  dr_ID :: DealID
  dr_PaymentOwed :: TokenAmount
  dr_Message :: string

definition DealResponseUndefined :: DealResponse where
  "DealResponseUndefined =
     \<lparr>dr_Status = DealStatusNew, dr_ID = 0, dr_PaymentOwed = 0, dr_Message = []\<rparr>"

text \<open>
  \<open>paych.SignedVoucher\<close> of specs-actors, with the fields the program reads or sets;
  \<open>sv_Other\<close> stands for the rest (time locks, secret hash, extra call, settle height),
  which the program only carries along and compares.
\<close>

record SignedVoucher =
  sv_ChannelAddr :: Address
  sv_Lane :: u64
  sv_Nonce :: u64
  sv_Amount :: TokenAmount
  sv_Merges :: "(u64 \<times> u64) list"
  sv_Signature :: "string option"
  sv_Other :: string

record DealPayment =
  pay_ID :: DealID
  pay_PaymentChannel :: Address
  pay_PaymentVoucher :: "SignedVoucher option"

record PaymentInfo =
  PayCh :: Address
  Lane :: u64

record Ask =
  ask_PricePerByte :: TokenAmount
  ask_PaymentInterval :: u64
  ask_PaymentIntervalIncrease :: u64

record ClientDealState =
  cds_DealProposal :: DealProposal
  cds_StoreID :: "StoreID option"
  cds_ChannelID :: ChannelID
  cds_LastPaymentRequested :: bool
  cds_AllBlocksReceived :: bool
  cds_TotalFunds :: TokenAmount
  cds_ClientWallet :: Address
  cds_MinerWallet :: Address
  cds_PaymentInfo :: "PaymentInfo option"
  cds_Status :: DealStatus
  cds_Sender :: PeerID
  cds_TotalReceived :: u64
  cds_Message :: string
  cds_BytesPaidFor :: u64
  cds_CurrentInterval :: u64
  cds_PaymentRequested :: TokenAmount
  cds_FundsSpent :: TokenAmount
  cds_UnsealFundsPaid :: TokenAmount
  cds_WaitMsgCID :: "Cid option"
  cds_VoucherShortfall :: TokenAmount
  cds_LegacyProtocol :: bool

abbreviation cds_PricePerByte :: "ClientDealState \<Rightarrow> TokenAmount" where
  "cds_PricePerByte d \<equiv> PricePerByte (dp_Params (cds_DealProposal d))"

abbreviation cds_ID :: "ClientDealState \<Rightarrow> DealID" where
  "cds_ID d \<equiv> dp_ID (cds_DealProposal d)"

record ProviderDealState =
  pds_DealProposal :: DealProposal
  pds_StoreID :: StoreID
  pds_ChannelID :: ChannelID
  pds_Status :: DealStatus
  pds_Receiver :: PeerID
  pds_TotalSent :: u64
  pds_FundsReceived :: TokenAmount
  pds_Message :: string
  pds_CurrentInterval :: u64

abbreviation pds_Params :: "ProviderDealState \<Rightarrow> Params" where
  "pds_Params d \<equiv> dp_Params (pds_DealProposal d)"

record ProviderDealIdentifier =
  pid_Receiver :: PeerID
  pid_DealID :: DealID

definition Identifier :: "ProviderDealState \<Rightarrow> ProviderDealIdentifier" where
  "Identifier pds = \<lparr>pid_Receiver = pds_Receiver pds, pid_DealID = dp_ID (pds_DealProposal pds)\<rparr>"

datatype QueryResponseStatus =
    QueryResponseAvailable
  | QueryResponseUnavailable
  | QueryResponseError
  | QueryResponseOther u64

record QueryResponse =
  qr_Status :: QueryResponseStatus
  qr_Size :: u64
  qr_PaymentAddress :: Address
  qr_MinPricePerByte :: TokenAmount
  qr_MaxPaymentInterval :: u64
  qr_MaxPaymentIntervalIncrease :: u64
  qr_Message :: string

definition QueryResponseUndefined :: QueryResponse where
  "QueryResponseUndefined =
     \<lparr>qr_Status = QueryResponseAvailable, qr_Size = 0, qr_PaymentAddress = AddressUndef,
      qr_MinPricePerByte = 0, qr_MaxPaymentInterval = 0, qr_MaxPaymentIntervalIncrease = 0,
      qr_Message = []\<rparr>"

record QueryParams =
  MaxPricePerByte :: TokenAmount
  MinPaymentInterval :: u64
  MinPaymentIntervalIncrease :: u64

record Query =
  q_PayloadCID :: Cid
  q_QueryParams :: QueryParams

record ChannelAvailableFunds =
  ConfirmedAmt :: TokenAmount
  PendingAmt :: TokenAmount
  PendingWaitSentinel :: "Cid option"
  QueuedAmt :: TokenAmount
  VoucherReedeemedAmt :: TokenAmount

record RetrievalPeer =
  rp_Address :: Address
  rp_ID :: PeerID
  rp_PieceCID :: "Cid option"

section \<open>Numbering\<close>

lemma DealStatusOfCode_Code: "wf_status s \<Longrightarrow> DealStatusOfCode (DealStatusCode s) = s"
  by (cases s) (simp_all add: DealStatusOfCode_def declaredStatuses_def wf_status_def linorder_not_less)

lemma declaredStatuses_codes: "map DealStatusCode declaredStatuses = map of_nat [0..<24]"
  by code_simp

lemma length_declaredStatuses [simp]: "length declaredStatuses = 24"
  by (simp add: declaredStatuses_def)

lemma DealStatusCode_OfCode: "DealStatusCode (DealStatusOfCode n) = n"
proof (cases "n < 24")
  case True
  then have i: "unat n < 24" by (simp add: word_less_nat_alt)
  then have "DealStatusCode (declaredStatuses ! unat n) = map DealStatusCode declaredStatuses ! unat n"
    by simp
  also from i have "\<dots> = n"
    by (simp add: declaredStatuses_codes)
  finally show ?thesis using True by (simp add: DealStatusOfCode_def)
qed (simp add: DealStatusOfCode_def)

end
