(* ===== verification/Fsm.thy ===== *)
theory Fsm
  imports DealTypes
begin

text \<open>
  The state machine library (\<open>go-statemachine/fsm\<close>) is not under \<open>src/\<close>. The program
  hands it a table of events in a small builder language (\<open>Event(e).From(s).To(t).Action(f)\<close>);
  this theory gives the table a data type, states what the library documents about
  firing an event as the locale \<open>fsm_engine\<close>, and proves once, inside the locale, what
  every client of the library relies on. The engine itself stays a parameter; \<open>fsm_apply\<close>
  is one engine that satisfies the contract, used to show that the contract can be met.
\<close>

section \<open>Tables\<close>

datatype 's fsm_src = From 's | FromAny

datatype 's fsm_dest = To 's | ToNoChange | ToJustRecord

text \<open>
  An action takes the event's arguments and the deal. It is \<open>None\<close> when the arguments
  do not fit the parameters of the callback.
\<close>

datatype ('e, 's, 'a, 'st) fsm_event =
  Event (ev_name: 'e)
    (ev_transitions: "('s fsm_src \<times> 's fsm_dest) list")
    (ev_action: "'a list \<Rightarrow> 'st \<Rightarrow> 'st go option")

definition FromMany :: "'s list \<Rightarrow> 's fsm_dest \<Rightarrow> ('s fsm_src \<times> 's fsm_dest) list" where
  "FromMany ss d = map (\<lambda>s. (From s, d)) ss"

text \<open>An event without an \<open>Action\<close> takes no arguments and leaves the deal alone.\<close>

definition no_action :: "'a list \<Rightarrow> 'st \<Rightarrow> 'st go option" where
  "no_action args st = (if args = [] then Some (Ok st) else None)"

definition find_event ::
    "('e, 's, 'a, 'st) fsm_event list \<Rightarrow> 'e \<Rightarrow> ('e, 's, 'a, 'st) fsm_event option" where
  "find_event tab e = find (\<lambda>ev. ev_name ev = e) tab"

text \<open>A transition declared for the state itself goes before one declared for any state.\<close>

definition resolve :: "('s fsm_src \<times> 's fsm_dest) list \<Rightarrow> 's \<Rightarrow> 's fsm_dest option" where
  "resolve ts s = (case map_of ts (From s) of Some d \<Rightarrow> Some d | None \<Rightarrow> map_of ts FromAny)"

section \<open>Firing an event\<close>

text \<open>
  \<open>Entered\<close>: the deal was changed and the entry function of its state runs;
  \<open>Recorded\<close>: the deal was changed and no entry function runs; \<open>Rejected\<close>: the event
  had no effect; \<open>Panicked\<close>: the action panicked.
\<close>

datatype 'st fsm_result = Entered 'st | Recorded 'st | Rejected | Panicked

definition land :: "('s \<Rightarrow> 'st \<Rightarrow> 'st) \<Rightarrow> 's fsm_dest \<Rightarrow> 'st \<Rightarrow> 'st fsm_result" where
  "land set_status d st = (case d of
       To s \<Rightarrow> Entered (set_status s st)
     | ToNoChange \<Rightarrow> Entered st
     | ToJustRecord \<Rightarrow> Recorded st)"

definition fsm_apply ::
    "('st \<Rightarrow> 's) \<Rightarrow> ('s \<Rightarrow> 'st \<Rightarrow> 'st) \<Rightarrow> ('e, 's, 'a, 'st) fsm_event list \<Rightarrow> 's list \<Rightarrow>
     'e \<Rightarrow> 'a list \<Rightarrow> 'st \<Rightarrow> 'st fsm_result" where
  "fsm_apply status set_status tab fin e args st =
     (if status st \<in> set fin then Rejected
      else case find_event tab e of None \<Rightarrow> Rejected
      | Some ev \<Rightarrow>
          (case resolve (ev_transitions ev) (status st) of None \<Rightarrow> Rejected
           | Some d \<Rightarrow>
               (case ev_action ev args st of None \<Rightarrow> Rejected
                | Some (Ok st') \<Rightarrow> land set_status d st'
                | Some (Err _) \<Rightarrow> Rejected
                | Some Panic \<Rightarrow> Panicked)))"

text \<open>
  What the library documents: an event that reaches a deal in a final state, that is not
  in the table, that has no transition from the current state or whose arguments do not
  fit has no effect; otherwise the action runs on the deal while it is still in its
  source state, and then the status changes as declared.
\<close>

locale fsm_engine =
  fixes status :: "'st \<Rightarrow> 's"
    and set_status :: "'s \<Rightarrow> 'st \<Rightarrow> 'st"
    and fire :: "('e, 's, 'a, 'st) fsm_event list \<Rightarrow> 's list \<Rightarrow> 'e \<Rightarrow> 'a list \<Rightarrow> 'st \<Rightarrow> 'st fsm_result"
  assumes fire_final: "status st \<in> set fin \<Longrightarrow> fire tab fin e args st = Rejected"
    and fire_undeclared: "find_event tab e = None \<Longrightarrow> fire tab fin e args st = Rejected"
    and fire_no_transition: "find_event tab e = Some ev \<Longrightarrow>
      resolve (ev_transitions ev) (status st) = None \<Longrightarrow> fire tab fin e args st = Rejected"
    and fire_bad_arguments: "find_event tab e = Some ev \<Longrightarrow>
      ev_action ev args st = None \<Longrightarrow> fire tab fin e args st = Rejected"
    and fire_action_fails: "status st \<notin> set fin \<Longrightarrow> find_event tab e = Some ev \<Longrightarrow>
      resolve (ev_transitions ev) (status st) = Some d \<Longrightarrow>
      ev_action ev args st = Some (Err er) \<Longrightarrow> fire tab fin e args st = Rejected"
    and fire_action_panics: "status st \<notin> set fin \<Longrightarrow> find_event tab e = Some ev \<Longrightarrow>
      resolve (ev_transitions ev) (status st) = Some d \<Longrightarrow>
      ev_action ev args st = Some Panic \<Longrightarrow> fire tab fin e args st = Panicked"
    and fire_lands: "status st \<notin> set fin \<Longrightarrow> find_event tab e = Some ev \<Longrightarrow>
      resolve (ev_transitions ev) (status st) = Some d \<Longrightarrow>
      ev_action ev args st = Some (Ok st') \<Longrightarrow>
      fire tab fin e args st = land set_status d st'"
begin

text \<open>The laws determine the engine.\<close>

lemma fire_eq: "fire tab fin e args st = fsm_apply status set_status tab fin e args st"
proof (cases "find_event tab e")
  case None
  then show ?thesis by (simp add: fire_undeclared fsm_apply_def)
next
  case (Some ev)
  show ?thesis
  proof (cases "resolve (ev_transitions ev) (status st)")
    case None
    with Some show ?thesis by (simp add: fire_no_transition fsm_apply_def)
  next
    case d: (Some d)
    show ?thesis
      using Some d fire_final [of st fin] fire_bad_arguments [OF Some, of args st]
        fire_action_fails [OF _ Some d] fire_action_panics [OF _ Some d] fire_lands [OF _ Some d]
      by (auto simp: fsm_apply_def split: option.splits go.splits)
  qed
qed

lemma fire_cases:
  assumes "fire tab fin e args st = Entered st' \<or> fire tab fin e args st = Recorded st'"
  obtains ev d st1 where
    "find_event tab e = Some ev" "status st \<notin> set fin"
    "resolve (ev_transitions ev) (status st) = Some d"
    "ev_action ev args st = Some (Ok st1)"
    "fire tab fin e args st = land set_status d st1"
    "st' = (case d of To s \<Rightarrow> set_status s st1 | _ \<Rightarrow> st1)"
  using assms
  by (auto simp: fire_eq fsm_apply_def land_def
      split: if_splits option.splits go.splits fsm_dest.splits)

lemma final_stays: "status st \<in> set fin \<Longrightarrow> fire tab fin e args st = Rejected"
  by (rule fire_final)

end

lemma fsm_apply_engine: "fsm_engine status set_status (fsm_apply status set_status)"
  by unfold_locales (auto simp: fsm_apply_def split: option.splits go.splits)

section \<open>Runs and reachable deals\<close>

text \<open>Events are handled one after another; an event that is rejected changes nothing.\<close>

fun fsm_run :: "('e \<Rightarrow> 'a list \<Rightarrow> 'st \<Rightarrow> 'st fsm_result) \<Rightarrow> ('e \<times> 'a list) list \<Rightarrow> 'st \<Rightarrow> 'st option" where
  "fsm_run fr [] st = Some st"
| "fsm_run fr ((e, args) # evs) st =
     (case fr e args st of
        Entered st' \<Rightarrow> fsm_run fr evs st'
      | Recorded st' \<Rightarrow> fsm_run fr evs st'
      | Rejected \<Rightarrow> fsm_run fr evs st
      | Panicked \<Rightarrow> None)"

inductive fsm_step :: "('e \<Rightarrow> 'a list \<Rightarrow> 'st \<Rightarrow> 'st fsm_result) \<Rightarrow> 'st \<Rightarrow> 'st \<Rightarrow> bool"
  for fr where
  entered: "fr e args st = Entered st' \<Longrightarrow> fsm_step fr st st'"
| recorded: "fr e args st = Recorded st' \<Longrightarrow> fsm_step fr st st'"

inductive_cases fsm_stepE: "fsm_step fr st st'"

inductive fsm_reach :: "('e \<Rightarrow> 'a list \<Rightarrow> 'st \<Rightarrow> 'st fsm_result) \<Rightarrow> ('st \<Rightarrow> bool) \<Rightarrow> 'st \<Rightarrow> bool"
  for fr ini where
  initial: "ini st \<Longrightarrow> fsm_reach fr ini st"
| step: "fsm_reach fr ini st \<Longrightarrow> fsm_step fr st st' \<Longrightarrow> fsm_reach fr ini st'"

lemma fsm_reach_run:
  "fsm_reach fr ini st \<Longrightarrow> fsm_run fr evs st = Some st' \<Longrightarrow> fsm_reach fr ini st'"
proof (induction evs arbitrary: st)
  case Nil
  then show ?case by simp
next
  case (Cons ev evs)
  obtain e args where ev: "ev = (e, args)" by fastforce
  show ?case
  proof (cases "fr e args st")
    case (Entered st1)
    with Cons.prems(1) have "fsm_reach fr ini st1"
      by (blast intro: fsm_reach.step fsm_step.entered)
    with Entered Cons.IH Cons.prems(2) ev show ?thesis by simp
  next
    case (Recorded st1)
    with Cons.prems(1) have "fsm_reach fr ini st1"
      by (blast intro: fsm_reach.step fsm_step.recorded)
    with Recorded Cons.IH Cons.prems(2) ev show ?thesis by simp
  qed (use Cons ev in auto)
qed

lemma fsm_reach_invariant:
  assumes "fsm_reach fr ini st"
    and "\<And>st. ini st \<Longrightarrow> P st"
    and "\<And>st st'. P st \<Longrightarrow> fsm_step fr st st' \<Longrightarrow> P st'"
  shows "P st"
  using assms by (induction rule: fsm_reach.induct) blast+

lemma fsm_run_append:
  "fsm_run fr (xs @ ys) st = (case fsm_run fr xs st of None \<Rightarrow> None | Some st' \<Rightarrow> fsm_run fr ys st')"
  by (induction fr xs st rule: fsm_run.induct) (auto split: fsm_result.splits)

lemma resolve_simps [simp]:
  "resolve [] s = None"
  "resolve ((From t, d) # ts) s = (if s = t then Some d else resolve ts s)"
  "resolve [(FromAny, d)] s = Some d"
  by (auto simp: resolve_def split: option.splits)

lemma FromMany_simps [simp]:
  "FromMany [] d = []"
  "FromMany (s # ss) d = (From s, d) # FromMany ss d"
  by (simp_all add: FromMany_def)

lemma no_action_simps [simp]:
  "no_action [] st = Some (Ok st)"
  "no_action (x # xs) st = None"
  by (simp_all add: no_action_def)

lemma land_simps [simp]:
  "land set_status (To s) st = Entered (set_status s st)"
  "land set_status ToNoChange st = Entered st"
  "land set_status ToJustRecord st = Recorded st"
  by (simp_all add: land_def)

end
