(* ===== verification/Machine.thy ===== *)
theory Machine
  imports Fsm
begin

text \<open>
  A state machine with its entry functions: what the library documents of the order in which events
  are handled. The events of a deal wait in a queue; after an event that enters a state the entry
  function of the state runs, and the event it triggers comes behind those that wait.
\<close>

type_synonym ('e, 'a, 'st, 'w) live = "('e \<times> 'a list) list \<times> 'st \<times> 'w"

definition triggered :: "'x option \<Rightarrow> 'x list" where
  "triggered t = (case t of None \<Rightarrow> [] | Some x \<Rightarrow> [x])"

lemma triggered_simps [simp]: "triggered None = []" "triggered (Some x) = [x]"
  by (simp_all add: triggered_def)

inductive machine_step ::
    "('e \<Rightarrow> 'a list \<Rightarrow> 'st \<Rightarrow> 'st fsm_result) \<Rightarrow> ('st \<Rightarrow> ('w, ('e \<times> 'a list) option) io) \<Rightarrow>
     ('e, 'a, 'st, 'w) live \<Rightarrow> ('e, 'a, 'st, 'w) live \<Rightarrow> bool"
  for fr entry where
  rejected: "fr e args st = Rejected \<Longrightarrow> machine_step fr entry ((e, args) # q, st, w) (q, st, w)"
| recorded: "fr e args st = Recorded st' \<Longrightarrow> machine_step fr entry ((e, args) # q, st, w) (q, st', w)"
| entered: "fr e args st = Entered st' \<Longrightarrow> entry st' w = (Ok t, w') \<Longrightarrow>
     machine_step fr entry ((e, args) # q, st, w) (q @ triggered t, st', w')"

inductive_cases machine_stepE: "machine_step fr entry ((e, args) # q, st, w) y"
inductive_cases machine_idleE: "machine_step fr entry ([], st, w) y"

lemma machine_step_det: "machine_step fr entry x y \<Longrightarrow> machine_step fr entry x z \<Longrightarrow> y = z"
  by (induction rule: machine_step.induct) (auto elim!: machine_stepE)

text \<open>The machine has settled when no event waits.\<close>

definition settles ::
    "('e \<Rightarrow> 'a list \<Rightarrow> 'st \<Rightarrow> 'st fsm_result) \<Rightarrow> ('st \<Rightarrow> ('w, ('e \<times> 'a list) option) io) \<Rightarrow>
     ('e \<times> 'a list) list \<Rightarrow> 'st \<times> 'w \<Rightarrow> 'st \<times> 'w \<Rightarrow> bool" where
  "settles fr entry q x y \<longleftrightarrow> (machine_step fr entry)\<^sup>*\<^sup>* (q, x) ([], y)"

lemma settles_idle [simp]: "settles fr entry [] x y \<longleftrightarrow> y = x"
  by (cases x) (auto simp: settles_def elim: converse_rtranclpE machine_idleE)

lemma settles_entered:
  "fr e args st = Entered st' \<Longrightarrow> entry st' w = (Ok t, w') \<Longrightarrow>
     settles fr entry (q @ triggered t) (st', w') y \<Longrightarrow> settles fr entry ((e, args) # q) (st, w) y"
  unfolding settles_def by (blast intro: machine_step.entered converse_rtranclp_into_rtranclp)

lemma settles_rejected:
  "fr e args st = Rejected \<Longrightarrow> settles fr entry q (st, w) y \<Longrightarrow> settles fr entry ((e, args) # q) (st, w) y"
  unfolding settles_def by (blast intro: machine_step.rejected converse_rtranclp_into_rtranclp)

lemma settles_recorded:
  "fr e args st = Recorded st' \<Longrightarrow> settles fr entry q (st', w) y \<Longrightarrow> settles fr entry ((e, args) # q) (st, w) y"
  unfolding settles_def by (blast intro: machine_step.recorded converse_rtranclp_into_rtranclp)

text \<open>There is at most one deal and world in which the machine settles.\<close>

lemma settles_det: "settles fr entry q x y \<Longrightarrow> settles fr entry q x z \<Longrightarrow> y = z"
  unfolding settles_def
proof (induction q x rule: converse_rtranclp_induct2)
  case refl
  then show ?case by (metis settles_def settles_idle)
next
  case (step q x q' x')
  from step.prems obtain q1 x1 where 1: "machine_step fr entry (q, x) (q1, x1)"
      "(machine_step fr entry)\<^sup>*\<^sup>* (q1, x1) ([], z)"
    using step.hyps(1) by (cases rule: converse_rtranclpE) (auto elim: machine_step.cases)
  with machine_step_det [OF step.hyps(1)] step.IH show ?case by blast
qed

text \<open>Events that come one by one, each when the machine has settled.\<close>

inductive delivered ::
    "('e \<Rightarrow> 'a list \<Rightarrow> 'st \<Rightarrow> 'st fsm_result) \<Rightarrow> ('st \<Rightarrow> ('w, ('e \<times> 'a list) option) io) \<Rightarrow>
     ('e \<times> 'a list) list \<Rightarrow> 'st \<times> 'w \<Rightarrow> 'st \<times> 'w \<Rightarrow> bool"
  for fr entry where
  none: "delivered fr entry [] x x"
| more: "settles fr entry [ev] x y \<Longrightarrow> delivered fr entry evs y z \<Longrightarrow> delivered fr entry (ev # evs) x z"

inductive_simps delivered_simps [simp]:
  "delivered fr entry [] x y"
  "delivered fr entry (ev # evs) x z"

lemma delivered_append:
  "delivered fr entry evs x y \<Longrightarrow> delivered fr entry evs' y z \<Longrightarrow> delivered fr entry (evs @ evs') x z"
  by (induction rule: delivered.induct) (simp, metis append_Cons delivered.more)

lemma delivered_det: "delivered fr entry evs x y \<Longrightarrow> delivered fr entry evs x z \<Longrightarrow> y = z"
  by (induction arbitrary: z rule: delivered.induct) (simp, metis settles_det delivered_simps(2))

text \<open>The events that are accepted, and so reported to subscribers, while others are delivered.\<close>

inductive accepts ::
    "('e \<Rightarrow> 'a list \<Rightarrow> 'st \<Rightarrow> 'st fsm_result) \<Rightarrow> ('st \<Rightarrow> ('w, ('e \<times> 'a list) option) io) \<Rightarrow>
     ('e \<times> 'a list) list \<Rightarrow> 'st \<times> 'w \<Rightarrow> 'e \<Rightarrow> bool"
  for fr entry where
  now: "(machine_step fr entry)\<^sup>*\<^sup>* ([ev], x) ((e, args) # q, st, w) \<Longrightarrow> fr e args st \<noteq> Rejected \<Longrightarrow>
    accepts fr entry (ev # evs) x e"
| later: "settles fr entry [ev] x y \<Longrightarrow> accepts fr entry evs y e \<Longrightarrow> accepts fr entry (ev # evs) x e"

inductive_cases accepts_NilE: "accepts fr entry [] x e"

lemma accepts_append:
  assumes "accepts fr entry (evs @ evs') x e"
  shows "accepts fr entry evs x e \<or> (\<exists>y. delivered fr entry evs x y \<and> accepts fr entry evs' y e)"
  using assms
proof (induction evs arbitrary: x)
  case (Cons ev evs)
  from Cons.prems have "accepts fr entry (ev # (evs @ evs')) x e" by simp
  then show ?case
  proof cases
    case now
    then show ?thesis by (metis accepts.now)
  next
    case (later y)
    with Cons.IH show ?thesis by (metis accepts.later delivered.more)
  qed
qed (auto intro: delivered.none)

text \<open>What holds of the deal and the waiting events after every step holds whenever an event is
  looked at, and when the machine has settled.\<close>

lemma machine_invariant:
  assumes "(machine_step fr entry)\<^sup>*\<^sup>* x y" "\<And>x y. machine_step fr entry x y \<Longrightarrow> I x \<Longrightarrow> I y" "I x"
  shows "I y"
  using assms(1,3) by (induction rule: rtranclp_induct) (use assms(2) in blast)+

end
