(* ===== verification/ClientFsm.thy ===== *)
theory ClientFsm
  imports Fsm
begin

text \<open>
  The retrieval client's state machine: \<open>FsmClientEvents\<close> and \<open>ClientFinalityStates\<close>
  of \<open>statemachine.go\<close>, transcribed group by group in the order of the source, the deal
  that \<open>Client.Retrieve\<close> starts, and what holds of every deal the machine can reach.
\<close>

section \<open>Event arguments\<close>

datatype client_arg =
    ArgErr gerr
  | ArgChannelID ChannelID
  | ArgString string
  | ArgStatus DealStatus
  | ArgCid Cid
  | ArgAddress Address
  | ArgAmount TokenAmount
  | ArgUint64 u64

type_synonym client_event = "(ClientEvent, DealStatus, client_arg, ClientDealState) fsm_event"
type_synonym client_action = "client_arg list \<Rightarrow> ClientDealState \<Rightarrow> ClientDealState go option"

text \<open>The parameter lists of the callbacks.\<close>

fun on_unit :: "(ClientDealState \<Rightarrow> ClientDealState go) \<Rightarrow> client_action" where
  "on_unit f [] d = Some (f d)"
| "on_unit f _ d = None"

fun on_error :: "(gerr \<Rightarrow> ClientDealState \<Rightarrow> ClientDealState go) \<Rightarrow> client_action" where
  "on_error f [ArgErr e] d = Some (f e d)"
| "on_error f _ d = None"

fun on_channel :: "(ChannelID \<Rightarrow> ClientDealState \<Rightarrow> ClientDealState go) \<Rightarrow> client_action" where
  "on_channel f [ArgChannelID c] d = Some (f c d)"
| "on_channel f _ d = None"

fun on_string :: "(string \<Rightarrow> ClientDealState \<Rightarrow> ClientDealState go) \<Rightarrow> client_action" where
  "on_string f [ArgString m] d = Some (f m d)"
| "on_string f _ d = None"

fun on_status :: "(DealStatus \<Rightarrow> ClientDealState \<Rightarrow> ClientDealState go) \<Rightarrow> client_action" where
  "on_status f [ArgStatus s] d = Some (f s d)"
| "on_status f _ d = None"

fun on_cid :: "(Cid \<Rightarrow> ClientDealState \<Rightarrow> ClientDealState go) \<Rightarrow> client_action" where
  "on_cid f [ArgCid c] d = Some (f c d)"
| "on_cid f _ d = None"

fun on_address :: "(Address \<Rightarrow> ClientDealState \<Rightarrow> ClientDealState go) \<Rightarrow> client_action" where
  "on_address f [ArgAddress a] d = Some (f a d)"
| "on_address f _ d = None"

fun on_cid_address :: "(Cid \<Rightarrow> Address \<Rightarrow> ClientDealState \<Rightarrow> ClientDealState go) \<Rightarrow> client_action" where
  "on_cid_address f [ArgCid c, ArgAddress a] d = Some (f c a d)"
| "on_cid_address f _ d = None"

fun on_amount :: "(TokenAmount \<Rightarrow> ClientDealState \<Rightarrow> ClientDealState go) \<Rightarrow> client_action" where
  "on_amount f [ArgAmount n] d = Some (f n d)"
| "on_amount f _ d = None"

fun on_uint64 :: "(u64 \<Rightarrow> ClientDealState \<Rightarrow> ClientDealState go) \<Rightarrow> client_action" where
  "on_uint64 f [ArgUint64 n] d = Some (f n d)"
| "on_uint64 f _ d = None"

section \<open>The table\<close>

definition recordReceived :: "u64 \<Rightarrow> ClientDealState \<Rightarrow> ClientDealState go" where
  "recordReceived totalReceived deal = Ok (deal\<lparr>cds_TotalReceived := totalReceived\<rparr>)"

definition paymentChannelCreationStates :: "DealStatus list" where
  "paymentChannelCreationStates =
     [DealStatusWaitForAcceptance, DealStatusAccepted, DealStatusPaymentChannelCreating,
      DealStatusPaymentChannelAllocatingLane]"

text \<open>Opening and proposing.\<close>

definition client_proposal_events :: "client_event list" where
  "client_proposal_events =
     [Event ClientEventOpen [(From DealStatusNew, ToNoChange)] no_action,
      Event ClientEventWriteDealProposalErrored [(FromAny, To DealStatusErrored)]
        (on_error (\<lambda>err deal. Ok (deal\<lparr>cds_Message := ''proposing deal: '' @ Error err\<rparr>))),
      Event ClientEventDealProposed [(From DealStatusNew, To DealStatusWaitForAcceptance)]
        (on_channel (\<lambda>channelID deal. Ok (deal\<lparr>cds_ChannelID := channelID, cds_Message := ''''\<rparr>))),
      Event ClientEventDealNotFound [(From DealStatusWaitForAcceptance, To DealStatusDealNotFound)]
        (on_string (\<lambda>message deal. Ok (deal\<lparr>cds_Message := ''deal not found: '' @ message\<rparr>))),
      Event ClientEventDealAccepted [(From DealStatusWaitForAcceptance, To DealStatusAccepted)] no_action,
      Event ClientEventUnknownResponseReceived [(FromAny, To DealStatusFailing)]
        (on_status (\<lambda>status deal.
           Ok (deal\<lparr>cds_Message := ''Unexpected deal response status: '' @ DealStatuses status\<rparr>)))]"

text \<open>Payment channel setup.\<close>

definition set_PaymentInfo_if_nil :: "Address \<Rightarrow> ClientDealState \<Rightarrow> ClientDealState" where
  "set_PaymentInfo_if_nil payCh deal =
     (case cds_PaymentInfo deal of
        None \<Rightarrow> deal\<lparr>cds_PaymentInfo := Some \<lparr>PayCh = payCh, Lane = 0\<rparr>\<rparr>
      | Some _ \<Rightarrow> deal)"

definition client_channel_events :: "client_event list" where
  "client_channel_events =
     [Event ClientEventPaymentChannelErrored
        (FromMany [DealStatusAccepted, DealStatusPaymentChannelCreating,
           DealStatusPaymentChannelAddingFunds, DealStatusCheckFunds] (To DealStatusFailing))
        (on_error (\<lambda>err deal. Ok (deal\<lparr>cds_Message := ''error from payment channel: '' @ Error err\<rparr>))),
      Event ClientEventPaymentChannelCreateInitiated
        [(From DealStatusAccepted, To DealStatusPaymentChannelCreating)]
        (on_cid (\<lambda>msgCID deal. Ok (deal\<lparr>cds_WaitMsgCID := Some msgCID\<rparr>))),
      Event ClientEventPaymentChannelAddingFunds
        (FromMany [DealStatusAccepted] (To DealStatusPaymentChannelAllocatingLane) @
         FromMany [DealStatusCheckFunds, DealStatusInsufficientFunds]
           (To DealStatusPaymentChannelAddingFunds))
        (on_cid_address (\<lambda>msgCID payCh deal.
           Ok (set_PaymentInfo_if_nil payCh (deal\<lparr>cds_WaitMsgCID := Some msgCID\<rparr>)))),
      Event ClientEventPaymentChannelReady
        [(From DealStatusPaymentChannelCreating, To DealStatusPaymentChannelAllocatingLane),
         (From DealStatusPaymentChannelAddingFunds, To DealStatusOngoing),
         (From DealStatusCheckFunds, To DealStatusOngoing)]
        (on_address (\<lambda>payCh deal.
           Ok ((set_PaymentInfo_if_nil payCh deal)\<lparr>cds_WaitMsgCID := None, cds_Message := ''''\<rparr>))),
      Event ClientEventAllocateLaneErrored
        (FromMany [DealStatusPaymentChannelAllocatingLane] (To DealStatusFailing))
        (on_error (\<lambda>err deal. Ok (deal\<lparr>cds_Message := ''allocating payment lane: '' @ Error err\<rparr>))),
      Event ClientEventLaneAllocated
        [(From DealStatusPaymentChannelAllocatingLane, To DealStatusOngoing)]
        (on_uint64 (\<lambda>lane deal.
           (case cds_PaymentInfo deal of
              None \<Rightarrow> Panic
            | Some pinfo \<Rightarrow> Ok (deal\<lparr>cds_PaymentInfo := Some (pinfo\<lparr>Lane := lane\<rparr>)\<rparr>)))),
      Event ClientEventDataTransferError [(FromAny, To DealStatusErrored)]
        (on_error (\<lambda>err deal.
           Ok (deal\<lparr>cds_Message := ''error generated by data transfer: '' @ Error err\<rparr>)))]"

text \<open>Receiving requests for payment, and data.\<close>

definition client_request_events :: "client_event list" where
  "client_request_events =
     [Event ClientEventLastPaymentRequested
        (FromMany [DealStatusOngoing, DealStatusFundsNeededLastPayment, DealStatusFundsNeeded]
           (To DealStatusFundsNeededLastPayment) @
         FromMany paymentChannelCreationStates ToJustRecord)
        (on_amount (\<lambda>paymentOwed deal.
           Ok (deal\<lparr>cds_PaymentRequested := cds_PaymentRequested deal + paymentOwed,
                    cds_LastPaymentRequested := True\<rparr>))),
      Event ClientEventPaymentRequested
        (FromMany [DealStatusOngoing, DealStatusFundsNeeded] (To DealStatusFundsNeeded) @
         FromMany paymentChannelCreationStates ToJustRecord)
        (on_amount (\<lambda>paymentOwed deal.
           Ok (deal\<lparr>cds_PaymentRequested := cds_PaymentRequested deal + paymentOwed\<rparr>))),
      Event ClientEventAllBlocksReceived
        (FromMany [DealStatusOngoing, DealStatusBlocksComplete] (To DealStatusBlocksComplete) @
         FromMany paymentChannelCreationStates ToJustRecord @
         FromMany [DealStatusSendFunds, DealStatusFundsNeeded] ToJustRecord @
         [(From DealStatusFundsNeededLastPayment, To DealStatusSendFundsLastPayment)])
        (on_unit (\<lambda>deal. Ok (deal\<lparr>cds_AllBlocksReceived := True\<rparr>))),
      Event ClientEventBlocksReceived
        (FromMany [DealStatusOngoing, DealStatusFundsNeeded, DealStatusFundsNeededLastPayment]
           ToNoChange @
         FromMany paymentChannelCreationStates ToJustRecord)
        (on_uint64 recordReceived),
      Event ClientEventSendFunds
        [(From DealStatusFundsNeeded, To DealStatusSendFunds),
         (From DealStatusFundsNeededLastPayment, To DealStatusSendFundsLastPayment)]
        no_action]"

text \<open>Sending payments.\<close>

definition payment_sent :: "ClientDealState \<Rightarrow> ClientDealState go" where
  "payment_sent deal =
     (let deal = deal\<lparr>cds_FundsSpent := cds_FundsSpent deal + cds_PaymentRequested deal\<rparr> in
      bind_go (big_Div (cds_PaymentRequested deal) (cds_PricePerByte deal)) (\<lambda>q.
        let bytesPaidFor = big_uint64 q;
            deal = (if bytesPaidFor \<ge> cds_CurrentInterval deal
                    then deal\<lparr>cds_CurrentInterval := cds_CurrentInterval deal +
                           PaymentIntervalIncrease (dp_Params (cds_DealProposal deal))\<rparr>
                    else deal)
        in Ok (deal\<lparr>cds_BytesPaidFor := cds_BytesPaidFor deal + bytesPaidFor,
                    cds_PaymentRequested := 0\<rparr>)))"

definition client_payment_events :: "client_event list" where
  "client_payment_events =
     [Event ClientEventFundsExpended
        (FromMany [DealStatusCheckFunds] (To DealStatusInsufficientFunds))
        (on_amount (\<lambda>shortfall deal.
           Ok (deal\<lparr>cds_Message :=
                 ''not enough current or pending funds in payment channel, shortfall of '' @
                 show_int shortfall,
               cds_VoucherShortfall := shortfall\<rparr>))),
      Event ClientEventBadPaymentRequested
        (FromMany [DealStatusSendFunds, DealStatusSendFundsLastPayment] (To DealStatusFailing))
        (on_string (\<lambda>message deal. Ok (deal\<lparr>cds_Message := message\<rparr>))),
      Event ClientEventCreateVoucherFailed
        (FromMany [DealStatusSendFunds, DealStatusSendFundsLastPayment] (To DealStatusFailing))
        (on_error (\<lambda>err deal. Ok (deal\<lparr>cds_Message := ''creating payment voucher: '' @ Error err\<rparr>))),
      Event ClientEventVoucherShortfall
        (FromMany [DealStatusSendFunds, DealStatusSendFundsLastPayment] (To DealStatusCheckFunds))
        (on_amount (\<lambda>shortfall deal. Ok deal)),
      Event ClientEventWriteDealPaymentErrored [(FromAny, To DealStatusErrored)]
        (on_error (\<lambda>err deal. Ok (deal\<lparr>cds_Message := ''writing deal payment: '' @ Error err\<rparr>))),
      Event ClientEventPaymentSent
        [(From DealStatusSendFunds, To DealStatusOngoing),
         (From DealStatusSendFundsLastPayment, To DealStatusFinalizing)]
        (on_unit payment_sent)]"

text \<open>Completing and cancelling.\<close>

definition client_closing_events :: "client_event list" where
  "client_closing_events =
     [Event ClientEventComplete
        [(From DealStatusOngoing, To DealStatusCheckComplete),
         (From DealStatusFinalizing, To DealStatusCompleted)] no_action,
      Event ClientEventCompleteVerified [(From DealStatusCheckComplete, To DealStatusCompleted)] no_action,
      Event ClientEventEarlyTermination [(From DealStatusCheckComplete, To DealStatusErrored)]
        (on_unit (\<lambda>deal.
           Ok (deal\<lparr>cds_Message := ''Provider sent complete status without sending all data''\<rparr>))),
      Event ClientEventCancelComplete
        [(From DealStatusFailing, To DealStatusErrored),
         (From DealStatusCancelling, To DealStatusCancelled)] no_action,
      Event ClientEventProviderCancelled
        [(From DealStatusFailing, ToJustRecord), (From DealStatusCancelling, ToJustRecord),
         (FromAny, To DealStatusErrored)]
        (on_unit (\<lambda>deal.
           Ok (if cds_Status deal \<noteq> DealStatusFailing \<and> cds_Status deal \<noteq> DealStatusCancelling
               then deal\<lparr>cds_Message := ''Provider cancelled retrieval due to error''\<rparr>
               else deal))),
      Event ClientEventCancel [(FromAny, To DealStatusCancelling)]
        (on_unit (\<lambda>deal. Ok (deal\<lparr>cds_Message := ''Retrieval Cancelled''\<rparr>))),
      Event ClientEventRecheckFunds
        [(From DealStatusInsufficientFunds, To DealStatusCheckFunds)] no_action]"

definition FsmClientEvents :: "client_event list" where
  "FsmClientEvents = client_proposal_events @ client_channel_events @ client_request_events @
     client_payment_events @ client_closing_events"

definition ClientFinalityStates :: "DealStatus list" where
  "ClientFinalityStates =
     [DealStatusErrored, DealStatusCompleted, DealStatusCancelled, DealStatusRejected,
      DealStatusDealNotFound]"

text \<open>The deal that \<open>Client.Retrieve\<close> hands to the state machine.\<close>

definition newClientDeal ::
    "Cid \<Rightarrow> DealID \<Rightarrow> Params \<Rightarrow> TokenAmount \<Rightarrow> PeerID \<Rightarrow> Address \<Rightarrow> Address \<Rightarrow> StoreID option \<Rightarrow>
     ClientDealState" where
  "newClientDeal payloadCID dealID params totalFunds sender clientWallet minerWallet storeID =
     \<lparr>cds_DealProposal = \<lparr>dp_PayloadCID = payloadCID, dp_ID = dealID, dp_Params = params\<rparr>,
      cds_StoreID = storeID, cds_ChannelID = '''', cds_LastPaymentRequested = False,
      cds_AllBlocksReceived = False, cds_TotalFunds = totalFunds,
      cds_ClientWallet = clientWallet, cds_MinerWallet = minerWallet, cds_PaymentInfo = None,
      cds_Status = DealStatusNew, cds_Sender = sender, cds_TotalReceived = 0, cds_Message = '''',
      cds_BytesPaidFor = 0, cds_CurrentInterval = PaymentInterval params,
      cds_PaymentRequested = 0, cds_FundsSpent = 0, cds_UnsealFundsPaid = 0,
      cds_WaitMsgCID = None, cds_VoucherShortfall = 0, cds_LegacyProtocol = False\<rparr>"

section \<open>Reading the table\<close>

abbreviation set_client_status :: "DealStatus \<Rightarrow> ClientDealState \<Rightarrow> ClientDealState" where
  "set_client_status s d \<equiv> d\<lparr>cds_Status := s\<rparr>"

abbreviation client_engine where
  "client_engine \<equiv> fsm_engine cds_Status set_client_status"

text \<open>The contract can be met.\<close>

interpretation client_fsm: fsm_engine cds_Status set_client_status
    "fsm_apply cds_Status set_client_status"
  by (rule fsm_apply_engine)

definition client_trans :: "ClientEvent \<Rightarrow> (DealStatus fsm_src \<times> DealStatus fsm_dest) list" where
  "client_trans e = (case find_event FsmClientEvents e of None \<Rightarrow> [] | Some ev \<Rightarrow> ev_transitions ev)"

definition client_act :: "ClientEvent \<Rightarrow> client_action" where
  "client_act e = (case find_event FsmClientEvents e of None \<Rightarrow> (\<lambda>_ _. None) | Some ev \<Rightarrow> ev_action ev)"

lemmas client_tables = FsmClientEvents_def client_proposal_events_def client_channel_events_def
  client_request_events_def client_payment_events_def client_closing_events_def
  paymentChannelCreationStates_def find_event_def

lemmas client_table_simps [simp] =
  client_trans_def [of ClientEventOpen, unfolded client_tables, simplified]
  client_act_def [of ClientEventOpen, unfolded client_tables, simplified]
  client_trans_def [of ClientEventWriteDealProposalErrored, unfolded client_tables, simplified]
  client_act_def [of ClientEventWriteDealProposalErrored, unfolded client_tables, simplified]
  client_trans_def [of ClientEventDealProposed, unfolded client_tables, simplified]
  client_act_def [of ClientEventDealProposed, unfolded client_tables, simplified]
  client_trans_def [of ClientEventDealRejected, unfolded client_tables, simplified]
  client_act_def [of ClientEventDealRejected, unfolded client_tables, simplified]
  client_trans_def [of ClientEventDealNotFound, unfolded client_tables, simplified]
  client_act_def [of ClientEventDealNotFound, unfolded client_tables, simplified]
  client_trans_def [of ClientEventDealAccepted, unfolded client_tables, simplified]
  client_act_def [of ClientEventDealAccepted, unfolded client_tables, simplified]
  client_trans_def [of ClientEventProviderCancelled, unfolded client_tables, simplified]
  client_act_def [of ClientEventProviderCancelled, unfolded client_tables, simplified]
  client_trans_def [of ClientEventUnknownResponseReceived, unfolded client_tables, simplified]
  client_act_def [of ClientEventUnknownResponseReceived, unfolded client_tables, simplified]
  client_trans_def [of ClientEventPaymentChannelErrored, unfolded client_tables, simplified]
  client_act_def [of ClientEventPaymentChannelErrored, unfolded client_tables, simplified]
  client_trans_def [of ClientEventAllocateLaneErrored, unfolded client_tables, simplified]
  client_act_def [of ClientEventAllocateLaneErrored, unfolded client_tables, simplified]
  client_trans_def [of ClientEventPaymentChannelCreateInitiated, unfolded client_tables, simplified]
  client_act_def [of ClientEventPaymentChannelCreateInitiated, unfolded client_tables, simplified]
  client_trans_def [of ClientEventPaymentChannelReady, unfolded client_tables, simplified]
  client_act_def [of ClientEventPaymentChannelReady, unfolded client_tables, simplified]
  client_trans_def [of ClientEventPaymentChannelAddingFunds, unfolded client_tables, simplified]
  client_act_def [of ClientEventPaymentChannelAddingFunds, unfolded client_tables, simplified]
  client_trans_def [of ClientEventPaymentChannelAddFundsErrored, unfolded client_tables, simplified]
  client_act_def [of ClientEventPaymentChannelAddFundsErrored, unfolded client_tables, simplified]
  client_trans_def [of ClientEventLastPaymentRequested, unfolded client_tables, simplified]
  client_act_def [of ClientEventLastPaymentRequested, unfolded client_tables, simplified]
  client_trans_def [of ClientEventAllBlocksReceived, unfolded client_tables, simplified]
  client_act_def [of ClientEventAllBlocksReceived, unfolded client_tables, simplified]
  client_trans_def [of ClientEventPaymentRequested, unfolded client_tables, simplified]
  client_act_def [of ClientEventPaymentRequested, unfolded client_tables, simplified]
  client_trans_def [of ClientEventUnsealPaymentRequested, unfolded client_tables, simplified]
  client_act_def [of ClientEventUnsealPaymentRequested, unfolded client_tables, simplified]
  client_trans_def [of ClientEventBlocksReceived, unfolded client_tables, simplified]
  client_act_def [of ClientEventBlocksReceived, unfolded client_tables, simplified]
  client_trans_def [of ClientEventSendFunds, unfolded client_tables, simplified]
  client_act_def [of ClientEventSendFunds, unfolded client_tables, simplified]
  client_trans_def [of ClientEventFundsExpended, unfolded client_tables, simplified]
  client_act_def [of ClientEventFundsExpended, unfolded client_tables, simplified]
  client_trans_def [of ClientEventBadPaymentRequested, unfolded client_tables, simplified]
  client_act_def [of ClientEventBadPaymentRequested, unfolded client_tables, simplified]
  client_trans_def [of ClientEventCreateVoucherFailed, unfolded client_tables, simplified]
  client_act_def [of ClientEventCreateVoucherFailed, unfolded client_tables, simplified]
  client_trans_def [of ClientEventWriteDealPaymentErrored, unfolded client_tables, simplified]
  client_act_def [of ClientEventWriteDealPaymentErrored, unfolded client_tables, simplified]
  client_trans_def [of ClientEventPaymentSent, unfolded client_tables, simplified]
  client_act_def [of ClientEventPaymentSent, unfolded client_tables, simplified]
  client_trans_def [of ClientEventComplete, unfolded client_tables, simplified]
  client_act_def [of ClientEventComplete, unfolded client_tables, simplified]
  client_trans_def [of ClientEventDataTransferError, unfolded client_tables, simplified]
  client_act_def [of ClientEventDataTransferError, unfolded client_tables, simplified]
  client_trans_def [of ClientEventCancelComplete, unfolded client_tables, simplified]
  client_act_def [of ClientEventCancelComplete, unfolded client_tables, simplified]
  client_trans_def [of ClientEventEarlyTermination, unfolded client_tables, simplified]
  client_act_def [of ClientEventEarlyTermination, unfolded client_tables, simplified]
  client_trans_def [of ClientEventCompleteVerified, unfolded client_tables, simplified]
  client_act_def [of ClientEventCompleteVerified, unfolded client_tables, simplified]
  client_trans_def [of ClientEventLaneAllocated, unfolded client_tables, simplified]
  client_act_def [of ClientEventLaneAllocated, unfolded client_tables, simplified]
  client_trans_def [of ClientEventVoucherShortfall, unfolded client_tables, simplified]
  client_act_def [of ClientEventVoucherShortfall, unfolded client_tables, simplified]
  client_trans_def [of ClientEventRecheckFunds, unfolded client_tables, simplified]
  client_act_def [of ClientEventRecheckFunds, unfolded client_tables, simplified]
  client_trans_def [of ClientEventCancel, unfolded client_tables, simplified]
  client_act_def [of ClientEventCancel, unfolded client_tables, simplified]

lemma on_iff [simp]:
  "on_unit f args d = Some r \<longleftrightarrow> args = [] \<and> r = f d"
  "on_error fe args d = Some r \<longleftrightarrow> (\<exists>e. args = [ArgErr e] \<and> r = fe e d)"
  "on_channel fc args d = Some r \<longleftrightarrow> (\<exists>c. args = [ArgChannelID c] \<and> r = fc c d)"
  "on_string fs args d = Some r \<longleftrightarrow> (\<exists>m. args = [ArgString m] \<and> r = fs m d)"
  "on_status ft args d = Some r \<longleftrightarrow> (\<exists>s. args = [ArgStatus s] \<and> r = ft s d)"
  "on_cid fi args d = Some r \<longleftrightarrow> (\<exists>c. args = [ArgCid c] \<and> r = fi c d)"
  "on_address fa args d = Some r \<longleftrightarrow> (\<exists>a. args = [ArgAddress a] \<and> r = fa a d)"
  "on_cid_address fia args d = Some r \<longleftrightarrow> (\<exists>c a. args = [ArgCid c, ArgAddress a] \<and> r = fia c a d)"
  "on_amount fn args d = Some r \<longleftrightarrow> (\<exists>n. args = [ArgAmount n] \<and> r = fn n d)"
  "on_uint64 fu args d = Some r \<longleftrightarrow> (\<exists>n. args = [ArgUint64 n] \<and> r = fu n d)"
  by (auto elim!: on_unit.elims on_error.elims on_channel.elims on_string.elims on_status.elims
      on_cid.elims on_address.elims on_cid_address.elims on_amount.elims on_uint64.elims)

lemma no_action_iff [simp]: "no_action args d = Some r \<longleftrightarrow> args = [] \<and> r = Ok d"
  by (auto simp: no_action_def)

lemma if_resolve_iff [simp]:
  "(if s = t then Some dd else resolve ts s) = Some x \<longleftrightarrow>
     (s = t \<and> x = dd) \<or> (s \<noteq> t \<and> resolve ts s = Some x)"
  by auto

lemma set_PaymentInfo_if_nil_simps [simp]:
  "cds_PaymentInfo (set_PaymentInfo_if_nil a d) =
     Some (case cds_PaymentInfo d of None \<Rightarrow> \<lparr>PayCh = a, Lane = 0\<rparr> | Some p \<Rightarrow> p)"
  "cds_Status (set_PaymentInfo_if_nil a d) = cds_Status d"
  "cds_WaitMsgCID (set_PaymentInfo_if_nil a d) = cds_WaitMsgCID d"
  "cds_FundsSpent (set_PaymentInfo_if_nil a d) = cds_FundsSpent d"
  "cds_PaymentRequested (set_PaymentInfo_if_nil a d) = cds_PaymentRequested d"
  "cds_BytesPaidFor (set_PaymentInfo_if_nil a d) = cds_BytesPaidFor d"
  "cds_DealProposal (set_PaymentInfo_if_nil a d) = cds_DealProposal d"
  "cds_TotalReceived (set_PaymentInfo_if_nil a d) = cds_TotalReceived d"
  by (auto simp: set_PaymentInfo_if_nil_def split: option.splits)

lemmas client_action_defs = recordReceived_def payment_sent_def Let_def big_Div_def

text \<open>Any engine that meets the contract fires the table's events as follows.\<close>

lemma client_fire_eq:
  assumes "client_engine fire"
  shows "fire FsmClientEvents ClientFinalityStates e args d =
    (if cds_Status d \<in> set ClientFinalityStates then Rejected
     else case resolve (client_trans e) (cds_Status d) of None \<Rightarrow> Rejected
     | Some dest \<Rightarrow>
         (case client_act e args d of None \<Rightarrow> Rejected
          | Some (Ok d') \<Rightarrow> land set_client_status dest d'
          | Some (Err _) \<Rightarrow> Rejected
          | Some Panic \<Rightarrow> Panicked))"
  by (auto simp: fsm_engine.fire_eq [OF assms] fsm_apply_def client_trans_def client_act_def
      split: option.splits)

lemma client_step_cases:
  assumes "client_engine fire"
    and "fsm_step (fire FsmClientEvents ClientFinalityStates) d d'"
  obtains e args dest d1 where
    "cds_Status d \<notin> set ClientFinalityStates"
    "resolve (client_trans e) (cds_Status d) = Some dest"
    "client_act e args d = Some (Ok d1)"
    "d' = (case dest of To s \<Rightarrow> set_client_status s d1 | _ \<Rightarrow> d1)"
proof -
  from assms(2) obtain e args where
    "fire FsmClientEvents ClientFinalityStates e args d = Entered d' \<or>
     fire FsmClientEvents ClientFinalityStates e args d = Recorded d'"
    by (blast elim: fsm_stepE)
  then show thesis
    by (rule fsm_engine.fire_cases [OF assms(1)])
       (rule that [of e _ args], auto simp: client_trans_def client_act_def)
qed

section \<open>What actions keep\<close>

lemma client_act_status: "client_act e args d = Some (Ok d1) \<Longrightarrow> cds_Status d1 = cds_Status d"
  by (cases e) (auto simp: client_action_defs split: if_splits option.splits)

lemma client_act_proposal:
  "client_act e args d = Some (Ok d1) \<Longrightarrow> cds_DealProposal d1 = cds_DealProposal d"
  by (cases e) (auto simp: client_action_defs split: if_splits option.splits)

lemma client_act_PaymentInfo:
  "client_act e args d = Some (Ok d1) \<Longrightarrow> cds_PaymentInfo d \<noteq> None \<Longrightarrow> cds_PaymentInfo d1 \<noteq> None"
  by (cases e) (auto simp: client_action_defs split: if_splits option.splits)

lemma client_act_WaitMsgCID:
  "client_act e args d = Some (Ok d1) \<Longrightarrow> e \<noteq> ClientEventPaymentChannelReady \<Longrightarrow>
     cds_WaitMsgCID d \<noteq> None \<Longrightarrow> cds_WaitMsgCID d1 \<noteq> None"
  by (cases e) (auto simp: client_action_defs split: if_splits option.splits)

section \<open>No pointer that an entry function follows is nil\<close>

definition payment_info_states :: "DealStatus set" where
  "payment_info_states =
     {DealStatusPaymentChannelAllocatingLane, DealStatusOngoing, DealStatusFundsNeeded,
      DealStatusFundsNeededLastPayment, DealStatusSendFunds, DealStatusSendFundsLastPayment,
      DealStatusCheckFunds, DealStatusInsufficientFunds, DealStatusPaymentChannelAddingFunds,
      DealStatusBlocksComplete, DealStatusFinalizing, DealStatusCheckComplete}"

definition wait_msg_states :: "DealStatus set" where
  "wait_msg_states = {DealStatusPaymentChannelCreating, DealStatusPaymentChannelAddingFunds}"

definition client_inv :: "ClientDealState \<Rightarrow> bool" where
  "client_inv d \<longleftrightarrow>
     (cds_Status d \<in> payment_info_states \<longrightarrow> cds_PaymentInfo d \<noteq> None) \<and>
     (cds_Status d \<in> wait_msg_states \<longrightarrow> cds_WaitMsgCID d \<noteq> None)"

lemma enters_payment_info:
  assumes "resolve (client_trans e) s = Some (To s')"
    and "s' \<in> payment_info_states" "s \<notin> payment_info_states"
  shows "e = ClientEventPaymentChannelAddingFunds \<or> e = ClientEventPaymentChannelReady"
  using assms by (cases e) (auto simp: payment_info_states_def)

lemma sets_payment_info:
  "client_act e args d = Some (Ok d1) \<Longrightarrow>
   e = ClientEventPaymentChannelAddingFunds \<or> e = ClientEventPaymentChannelReady \<Longrightarrow>
   cds_PaymentInfo d1 \<noteq> None"
  by auto

lemma enters_wait_msg:
  assumes "resolve (client_trans e) s = Some (To s')" and "s' \<in> wait_msg_states"
  shows "e = ClientEventPaymentChannelCreateInitiated \<or> e = ClientEventPaymentChannelAddingFunds"
  using assms by (cases e) (auto simp: wait_msg_states_def)

lemma sets_wait_msg:
  "client_act e args d = Some (Ok d1) \<Longrightarrow>
   e = ClientEventPaymentChannelCreateInitiated \<or> e = ClientEventPaymentChannelAddingFunds \<Longrightarrow>
   cds_WaitMsgCID d1 \<noteq> None"
  by auto

lemma ready_leaves_wait_msg:
  "resolve (client_trans ClientEventPaymentChannelReady) s = Some dest \<Longrightarrow> \<exists>s'. dest = To s'"
  by auto

lemma client_inv_step:
  assumes "client_engine fire" "fsm_step (fire FsmClientEvents ClientFinalityStates) d d'"
    and inv: "client_inv d"
  shows "client_inv d'"
proof -
  from assms(1,2) obtain e args dest d1 where
    res: "resolve (client_trans e) (cds_Status d) = Some dest" and
    act: "client_act e args d = Some (Ok d1)" and
    d': "d' = (case dest of To s \<Rightarrow> set_client_status s d1 | _ \<Rightarrow> d1)"
    by (rule client_step_cases)
  show ?thesis
  proof (cases dest)
    case (To s)
    have "s \<in> payment_info_states \<longrightarrow> cds_PaymentInfo d1 \<noteq> None"
      using enters_payment_info [OF res [unfolded To]] sets_payment_info [OF act]
        client_act_PaymentInfo [OF act] inv by (auto simp: client_inv_def)
    moreover have "s \<in> wait_msg_states \<longrightarrow> cds_WaitMsgCID d1 \<noteq> None"
      using enters_wait_msg [OF res [unfolded To]] sets_wait_msg [OF act] by blast
    ultimately show ?thesis by (simp add: client_inv_def d' To)
  next
    case ToNoChange
    with res have "e \<noteq> ClientEventPaymentChannelReady" by (auto dest: ready_leaves_wait_msg)
    with ToNoChange show ?thesis
      using client_act_status [OF act] client_act_PaymentInfo [OF act]
        client_act_WaitMsgCID [OF act] inv by (auto simp: client_inv_def d')
  next
    case ToJustRecord
    with res have "e \<noteq> ClientEventPaymentChannelReady" by (auto dest: ready_leaves_wait_msg)
    with ToJustRecord show ?thesis
      using client_act_status [OF act] client_act_PaymentInfo [OF act]
        client_act_WaitMsgCID [OF act] inv by (auto simp: client_inv_def d')
  qed
qed

text \<open>The deals a client can hold: started by \<open>Retrieve\<close>, changed by events.\<close>

definition client_started :: "ClientDealState \<Rightarrow> bool" where
  "client_started d \<longleftrightarrow> (\<exists>c i p f s cw mw st. d = newClientDeal c i p f s cw mw st)"

abbreviation client_reach where
  "client_reach fire \<equiv> fsm_reach (fire FsmClientEvents ClientFinalityStates) client_started"

lemma client_inv_started: "client_started d \<Longrightarrow> client_inv d"
  by (auto simp: client_started_def newClientDeal_def client_inv_def payment_info_states_def
      wait_msg_states_def)

lemma client_reach_inv: "client_engine fire \<Longrightarrow> client_reach fire d \<Longrightarrow> client_inv d"
  by (erule fsm_reach_invariant) (auto intro: client_inv_started client_inv_step)

end
