(* ===== verification/ClientHandlers.thy ===== *)
theory ClientHandlers
  imports ClientFsm
begin

text \<open>
  The interfaces through which a deal reaches the outside (\<open>RetrievalNode\<close> of \<open>node.go\<close>,
  \<open>ClientDealEnvironment\<close> of \<open>statemachine.go\<close>) and the client's entry functions. An
  entry function runs when the machine enters a state; it makes calls of its environment
  and triggers at most one event.
\<close>

section \<open>Interfaces\<close>

record 'w RetrievalNode =
  rn_GetChainHead :: "('w, TipSetToken \<times> int) io"
  rn_GetOrCreatePaymentChannel ::
    "Address \<Rightarrow> Address \<Rightarrow> TokenAmount \<Rightarrow> TipSetToken \<Rightarrow> ('w, Address \<times> Cid) io"
  rn_CheckAvailableFunds :: "Address \<Rightarrow> ('w, ChannelAvailableFunds) io"
  rn_AllocateLane :: "Address \<Rightarrow> ('w, u64) io"
  rn_CreatePaymentVoucher ::
    "Address \<Rightarrow> TokenAmount \<Rightarrow> u64 \<Rightarrow> TipSetToken \<Rightarrow> ('w, SignedVoucher) io"
  rn_WaitForPaymentChannelReady :: "Cid \<Rightarrow> ('w, Address) io"
  rn_GetKnownAddresses :: "RetrievalPeer \<Rightarrow> TipSetToken \<Rightarrow> ('w, string list) io"
  rn_SavePaymentVoucher ::
    "Address \<Rightarrow> SignedVoucher option \<Rightarrow> u8 list \<Rightarrow> TokenAmount \<Rightarrow> TipSetToken \<Rightarrow>
     ('w, TokenAmount) io"

record 'w ClientDealEnvironment =
  cde_Node :: "'w RetrievalNode"
  cde_OpenDataTransfer :: "PeerID \<Rightarrow> DealProposal \<Rightarrow> ('w, ChannelID) io"
  cde_SendDataTransferVoucher :: "ChannelID \<Rightarrow> DealPayment \<Rightarrow> ('w, unit) io"
  cde_CloseDataTransfer :: "ChannelID \<Rightarrow> ('w, unit) io"

section \<open>Entry functions\<close>

type_synonym client_trigger = "(ClientEvent \<times> client_arg list) option"

definition trigger :: "ClientEvent \<Rightarrow> client_arg list \<Rightarrow> ('w, client_trigger) io" where
  [go_defs]: "trigger e args = ret (Some (e, args))"

definition ProposeDeal ::
    "'w ClientDealEnvironment \<Rightarrow> ClientDealState \<Rightarrow> ('w, client_trigger) io" where
  "ProposeDeal env deal =
     tryE (cde_OpenDataTransfer env (cds_Sender deal) (cds_DealProposal deal))
       (\<lambda>err. trigger ClientEventWriteDealProposalErrored [ArgErr err])
       (\<lambda>channelID. trigger ClientEventDealProposed [ArgChannelID channelID])"

definition SetupPaymentChannelStart ::
    "'w ClientDealEnvironment \<Rightarrow> ClientDealState \<Rightarrow> ('w, client_trigger) io" where
  "SetupPaymentChannelStart env deal =
     tryE (rn_GetChainHead (cde_Node env))
       (\<lambda>err. trigger ClientEventPaymentChannelErrored [ArgErr err])
       (\<lambda>(tok, _).
          tryE (rn_GetOrCreatePaymentChannel (cde_Node env) (cds_ClientWallet deal)
                  (cds_MinerWallet deal) (cds_TotalFunds deal) tok)
            (\<lambda>err. trigger ClientEventPaymentChannelErrored [ArgErr err])
            (\<lambda>(paych, msgCID).
               if paych = AddressUndef
               then trigger ClientEventPaymentChannelCreateInitiated [ArgCid msgCID]
               else trigger ClientEventPaymentChannelAddingFunds [ArgCid msgCID, ArgAddress paych]))"

definition WaitPaymentChannelReady ::
    "'w ClientDealEnvironment \<Rightarrow> ClientDealState \<Rightarrow> ('w, client_trigger) io" where
  "WaitPaymentChannelReady env deal =
     (case cds_WaitMsgCID deal of
        None \<Rightarrow> panic
      | Some mcid \<Rightarrow>
          tryE (rn_WaitForPaymentChannelReady (cde_Node env) mcid)
            (\<lambda>err. trigger ClientEventPaymentChannelErrored [ArgErr err])
            (\<lambda>paych. trigger ClientEventPaymentChannelReady [ArgAddress paych]))"

definition AllocateLane_entry ::
    "'w ClientDealEnvironment \<Rightarrow> ClientDealState \<Rightarrow> ('w, client_trigger) io" where
  "AllocateLane_entry env deal =
     (case cds_PaymentInfo deal of
        None \<Rightarrow> panic
      | Some pinfo \<Rightarrow>
          tryE (rn_AllocateLane (cde_Node env) (PayCh pinfo))
            (\<lambda>err. trigger ClientEventAllocateLaneErrored [ArgErr err])
            (\<lambda>lane. trigger ClientEventLaneAllocated [ArgUint64 lane]))"

definition Ongoing ::
    "'w ClientDealEnvironment \<Rightarrow> ClientDealState \<Rightarrow> ('w, client_trigger) io" where
  "Ongoing env deal =
     (if cds_PaymentRequested deal > 0
      then if cds_LastPaymentRequested deal
           then trigger ClientEventLastPaymentRequested [ArgAmount 0]
           else trigger ClientEventPaymentRequested [ArgAmount 0]
      else ret None)"

definition ProcessPaymentRequested ::
    "'w ClientDealEnvironment \<Rightarrow> ClientDealState \<Rightarrow> ('w, client_trigger) io" where
  "ProcessPaymentRequested env deal =
     (if cds_TotalReceived deal - cds_BytesPaidFor deal \<ge> cds_CurrentInterval deal \<or>
         cds_AllBlocksReceived deal
      then trigger ClientEventSendFunds []
      else ret None)"

definition retrievalPrice :: "ClientDealState \<Rightarrow> TokenAmount" where
  "retrievalPrice deal =
     int64 (cds_TotalReceived deal - cds_BytesPaidFor deal) * cds_PricePerByte deal"

definition SendFunds ::
    "'w ClientDealEnvironment \<Rightarrow> ClientDealState \<Rightarrow> ('w, client_trigger) io" where
  "SendFunds env deal =
     (if cds_PaymentRequested deal > retrievalPrice deal
      then trigger ClientEventBadPaymentRequested
             [ArgString ''too much money requested for bytes sent'']
      else
        tryE (rn_GetChainHead (cde_Node env))
          (\<lambda>err. trigger ClientEventCreateVoucherFailed [ArgErr err])
          (\<lambda>(tok, _).
             case cds_PaymentInfo deal of
               None \<Rightarrow> panic
             | Some pinfo \<Rightarrow>
                 tryE (rn_CreatePaymentVoucher (cde_Node env) (PayCh pinfo)
                         (cds_FundsSpent deal + cds_PaymentRequested deal) (Lane pinfo) tok)
                   (\<lambda>err. case err of
                       ShortfallError n \<Rightarrow> trigger ClientEventVoucherShortfall [ArgAmount n]
                     | _ \<Rightarrow> trigger ClientEventCreateVoucherFailed [ArgErr err])
                   (\<lambda>voucher.
                      tryE (cde_SendDataTransferVoucher env (cds_ChannelID deal)
                              \<lparr>pay_ID = cds_ID deal, pay_PaymentChannel = PayCh pinfo,
                               pay_PaymentVoucher = Some voucher\<rparr>)
                        (\<lambda>err. trigger ClientEventWriteDealPaymentErrored [ArgErr err])
                        (\<lambda>_. trigger ClientEventPaymentSent []))))"

definition CheckFunds ::
    "'w ClientDealEnvironment \<Rightarrow> ClientDealState \<Rightarrow> ('w, client_trigger) io" where
  "CheckFunds env deal =
     (case cds_PaymentInfo deal of
        None \<Rightarrow> panic
      | Some pinfo \<Rightarrow>
          (case cds_WaitMsgCID deal of
             Some mcid \<Rightarrow> trigger ClientEventPaymentChannelAddingFunds
                             [ArgCid mcid, ArgAddress (PayCh pinfo)]
           | None \<Rightarrow>
               tryE (rn_CheckAvailableFunds (cde_Node env) (PayCh pinfo))
                 (\<lambda>err. trigger ClientEventPaymentChannelErrored [ArgErr err])
                 (\<lambda>availableFunds.
                    let unredeemedFunds = ConfirmedAmt availableFunds - VoucherReedeemedAmt availableFunds;
                        shortfall = cds_PaymentRequested deal - unredeemedFunds;
                        totalInFlight = PendingAmt availableFunds + QueuedAmt availableFunds
                    in if shortfall \<le> 0
                       then trigger ClientEventPaymentChannelReady [ArgAddress (PayCh pinfo)]
                       else case PendingWaitSentinel availableFunds of
                         None \<Rightarrow> trigger ClientEventFundsExpended [ArgAmount (shortfall - totalInFlight)]
                       | Some sentinel \<Rightarrow>
                           if totalInFlight < shortfall
                           then trigger ClientEventFundsExpended [ArgAmount (shortfall - totalInFlight)]
                           else trigger ClientEventPaymentChannelAddingFunds
                                  [ArgCid sentinel, ArgAddress (PayCh pinfo)])))"

definition ReAddFunds ::
    "'w ClientDealEnvironment \<Rightarrow> ClientDealState \<Rightarrow> ('w, client_trigger) io" where
  "ReAddFunds env deal =
     tryE (rn_GetChainHead (cde_Node env))
       (\<lambda>err. trigger ClientEventPaymentChannelErrored [ArgErr err])
       (\<lambda>(tok, _).
          tryE (rn_GetOrCreatePaymentChannel (cde_Node env) (cds_ClientWallet deal)
                  (cds_MinerWallet deal) (cds_VoucherShortfall deal) tok)
            (\<lambda>err. trigger ClientEventPaymentChannelErrored [ArgErr err])
            (\<lambda>(paych, msgCID).
               trigger ClientEventPaymentChannelAddingFunds [ArgCid msgCID, ArgAddress paych]))"

definition ClientCancelDeal ::
    "'w ClientDealEnvironment \<Rightarrow> ClientDealState \<Rightarrow> ('w, client_trigger) io" where
  "ClientCancelDeal env deal =
     tryE (cde_CloseDataTransfer env (cds_ChannelID deal))
       (\<lambda>err. trigger ClientEventDataTransferError [ArgErr err])
       (\<lambda>_. trigger ClientEventCancelComplete [])"

definition CheckComplete ::
    "'w ClientDealEnvironment \<Rightarrow> ClientDealState \<Rightarrow> ('w, client_trigger) io" where
  "CheckComplete env deal =
     (if \<not> cds_AllBlocksReceived deal
      then trigger ClientEventEarlyTermination []
      else trigger ClientEventCompleteVerified [])"

text \<open>\<open>ClientStateEntryFuncs\<close>.\<close>

fun ClientStateEntryFuncs ::
    "DealStatus \<Rightarrow> ('w ClientDealEnvironment \<Rightarrow> ClientDealState \<Rightarrow> ('w, client_trigger) io) option" where
  "ClientStateEntryFuncs DealStatusNew = Some ProposeDeal"
| "ClientStateEntryFuncs DealStatusAccepted = Some SetupPaymentChannelStart"
| "ClientStateEntryFuncs DealStatusPaymentChannelCreating = Some WaitPaymentChannelReady"
| "ClientStateEntryFuncs DealStatusPaymentChannelAllocatingLane = Some AllocateLane_entry"
| "ClientStateEntryFuncs DealStatusOngoing = Some Ongoing"
| "ClientStateEntryFuncs DealStatusFundsNeeded = Some ProcessPaymentRequested"
| "ClientStateEntryFuncs DealStatusFundsNeededLastPayment = Some ProcessPaymentRequested"
| "ClientStateEntryFuncs DealStatusSendFunds = Some SendFunds"
| "ClientStateEntryFuncs DealStatusSendFundsLastPayment = Some SendFunds"
| "ClientStateEntryFuncs DealStatusCheckFunds = Some CheckFunds"
| "ClientStateEntryFuncs DealStatusPaymentChannelAddingFunds = Some WaitPaymentChannelReady"
| "ClientStateEntryFuncs DealStatusInsufficientFunds = Some ReAddFunds"
| "ClientStateEntryFuncs DealStatusFailing = Some ClientCancelDeal"
| "ClientStateEntryFuncs DealStatusCancelling = Some ClientCancelDeal"
| "ClientStateEntryFuncs DealStatusCheckComplete = Some CheckComplete"
| "ClientStateEntryFuncs _ = None"

lemmas client_entry_defs = ProposeDeal_def SetupPaymentChannelStart_def WaitPaymentChannelReady_def
  AllocateLane_entry_def Ongoing_def ProcessPaymentRequested_def SendFunds_def CheckFunds_def
  ReAddFunds_def ClientCancelDeal_def CheckComplete_def

section \<open>Environments whose calls return\<close>

lemma returns_trigger [intro, simp]: "returns (trigger ev args)"
  by (simp add: trigger_def)

text \<open>Every call of the environment ends with a value or an error.\<close>

definition client_env_returns :: "'w ClientDealEnvironment \<Rightarrow> bool" where
  "client_env_returns env \<longleftrightarrow>
     returns (rn_GetChainHead (cde_Node env)) \<and>
     (\<forall>c m a t. returns (rn_GetOrCreatePaymentChannel (cde_Node env) c m a t)) \<and>
     (\<forall>a. returns (rn_CheckAvailableFunds (cde_Node env) a)) \<and>
     (\<forall>a. returns (rn_AllocateLane (cde_Node env) a)) \<and>
     (\<forall>a n l t. returns (rn_CreatePaymentVoucher (cde_Node env) a n l t)) \<and>
     (\<forall>c. returns (rn_WaitForPaymentChannelReady (cde_Node env) c)) \<and>
     (\<forall>p d. returns (cde_OpenDataTransfer env p d)) \<and>
     (\<forall>c p. returns (cde_SendDataTransferVoucher env c p)) \<and>
     (\<forall>c. returns (cde_CloseDataTransfer env c))"

lemma client_env_returnsD [simp, intro]:
  assumes "client_env_returns env"
  shows "returns (rn_GetChainHead (cde_Node env))"
    "returns (rn_GetOrCreatePaymentChannel (cde_Node env) c m a t)"
    "returns (rn_CheckAvailableFunds (cde_Node env) ad)"
    "returns (rn_AllocateLane (cde_Node env) ad)"
    "returns (rn_CreatePaymentVoucher (cde_Node env) ad n l t)"
    "returns (rn_WaitForPaymentChannelReady (cde_Node env) mc)"
    "returns (cde_OpenDataTransfer env p dp)"
    "returns (cde_SendDataTransferVoucher env ch py)"
    "returns (cde_CloseDataTransfer env ch)"
  using assms by (simp_all add: client_env_returns_def)

lemma trigger_Ok_iff [simp]: "trigger e args w = (Ok y, w') \<longleftrightarrow> y = Some (e, args) \<and> w' = w"
  by (auto simp: trigger_def)

text \<open>The states of the invariant are the ones whose entry functions follow the pointers.\<close>

lemma client_entry_returns:
  assumes "client_env_returns env" "client_inv d"
    and "ClientStateEntryFuncs (cds_Status d) = Some h"
  shows "returns (h env d)"
proof -
  have pinfo: "\<exists>pinfo. cds_PaymentInfo d = Some pinfo" if "cds_Status d \<in> payment_info_states"
    using assms(2) that by (auto simp: client_inv_def)
  have wait: "\<exists>c. cds_WaitMsgCID d = Some c" if "cds_Status d \<in> wait_msg_states"
    using assms(2) that by (auto simp: client_inv_def)
  show ?thesis
    using assms(1,3) pinfo wait
    by (cases "cds_Status d")
       (auto simp: client_entry_defs payment_info_states_def wait_msg_states_def Let_def
         intro!: returns_tryE split: prod.split gerr.split option.split)
qed

text \<open>
  The table declares every event an entry function triggers for the state it runs in,
  with arguments that fit. The exception is the error report of \<open>ReAddFunds\<close>.
\<close>

definition client_accepts :: "ClientDealState \<Rightarrow> ClientEvent \<Rightarrow> client_arg list \<Rightarrow> bool" where
  "client_accepts d e args \<longleftrightarrow>
     resolve (client_trans e) (cds_Status d) \<noteq> None \<and>
     client_act e args d \<noteq> None \<and> (\<forall>er. client_act e args d \<noteq> Some (Err er))"

lemma client_entry_accepted:
  assumes "ClientStateEntryFuncs (cds_Status d) = Some h" "h env d w = (Ok (Some (e, args)), w')"
  shows "client_accepts d e args \<or>
    (cds_Status d = DealStatusInsufficientFunds \<and> e = ClientEventPaymentChannelErrored)"
  using assms
  by (cases "cds_Status d")
     (auto simp: client_entry_defs client_accepts_def client_action_defs
       elim!: tryE_Ok split: if_splits option.splits prod.splits gerr.splits)

end
