(* ===== verification/ClientProps.thy ===== *)
theory ClientProps
  imports ClientHandlers
begin

text \<open>
  What the client's state machine guarantees: no entry function follows a nil pointer,
  every trigger is accepted, the money accounts balance; and three ways in which a deal
  goes wrong that the table itself shows.
\<close>

section \<open>An example deal\<close>

definition ex_params :: Params where
  "ex_params = \<lparr>PricePerByte = 10, PaymentInterval = 100, PaymentIntervalIncrease = 50\<rparr>"

definition ex_deal :: ClientDealState where
  "ex_deal = newClientDeal ''cid'' 1 ex_params 5000 ''peer'' ''f1client'' ''f1miner'' None"

lemma ex_deal_started: "client_started ex_deal"
  unfolding client_started_def ex_deal_def by blast

definition ex_setup :: "(ClientEvent \<times> client_arg list) list" where
  "ex_setup =
     [(ClientEventOpen, []),
      (ClientEventDealProposed, [ArgChannelID ''ch'']),
      (ClientEventDealAccepted, []),
      (ClientEventPaymentChannelCreateInitiated, [ArgCid ''msg'']),
      (ClientEventBlocksReceived, [ArgUint64 100]),
      (ClientEventPaymentChannelReady, [ArgAddress ''f2paych'']),
      (ClientEventLaneAllocated, [ArgUint64 3])]"

definition ex_ongoing :: ClientDealState where
  "ex_ongoing = ex_deal\<lparr>cds_ChannelID := ''ch'', cds_TotalReceived := 100,
     cds_PaymentInfo := Some \<lparr>PayCh = ''f2paych'', Lane = 3\<rparr>, cds_Status := DealStatusOngoing\<rparr>"

abbreviation client_apply where
  "client_apply \<equiv> fsm_apply cds_Status set_client_status"

lemma set_ClientFinalityStates:
  "set ClientFinalityStates =
     {DealStatusErrored, DealStatusCompleted, DealStatusCancelled, DealStatusRejected,
      DealStatusDealNotFound}"
  by (simp add: ClientFinalityStates_def)

lemmas client_eval = client_fire_eq [OF fsm_apply_engine] set_ClientFinalityStates
  client_action_defs no_action_def

lemma ex_setup_run:
  "fsm_run (client_apply FsmClientEvents ClientFinalityStates) ex_setup ex_deal = Some ex_ongoing"
  by (simp add: ex_setup_def ex_ongoing_def ex_deal_def newClientDeal_def client_eval
      set_PaymentInfo_if_nil_def ex_params_def)

lemma ex_ongoing_reach: "client_reach client_apply ex_ongoing"
  by (rule fsm_reach_run [OF fsm_reach.initial [where ini = client_started, OF ex_deal_started]
        ex_setup_run])

section \<open>Entry functions\<close>

text \<open>C1: in every state a deal can reach, the entry function of the state ends without a
  nil dereference, provided the calls of its environment end: \<open>PaymentInfo\<close> and
  \<open>WaitMsgCID\<close> are set wherever an entry function follows them.\<close>

theorem client_entry_never_panics:
  assumes "client_engine fire"
    and "client_reach fire d"
    and "client_env_returns env"
    and "ClientStateEntryFuncs (cds_Status d) = Some h"
  shows "returns (h env d)"
  using client_entry_returns [OF assms(3) client_reach_inv [OF assms(1,2)] assms(4)] .

definition ex_env :: "unit ClientDealEnvironment" where
  "ex_env =
     \<lparr>cde_Node =
        \<lparr>rn_GetChainHead = ret (''tok'', 0),
         rn_GetOrCreatePaymentChannel = (\<lambda>_ _ _ _. ret (''f2paych'', ''msg'')),
         rn_CheckAvailableFunds = (\<lambda>_. fail (GErr ''no node'')),
         rn_AllocateLane = (\<lambda>_. ret 3),
         rn_CreatePaymentVoucher = (\<lambda>_ _ _ _. fail (ShortfallError 7)),
         rn_WaitForPaymentChannelReady = (\<lambda>_. ret ''f2paych''),
         rn_GetKnownAddresses = (\<lambda>_ _. ret []),
         rn_SavePaymentVoucher = (\<lambda>_ _ _ n _. ret n)\<rparr>,
      cde_OpenDataTransfer = (\<lambda>_ _. ret ''ch''),
      cde_SendDataTransferVoucher = (\<lambda>_ _. ret ()),
      cde_CloseDataTransfer = (\<lambda>_. ret ())\<rparr>"

lemma ex_env_returns: "client_env_returns ex_env"
  by (simp add: client_env_returns_def ex_env_def)

theorem client_entry_never_panics_witness: "returns (Ongoing ex_env ex_ongoing)"
  by (rule client_entry_never_panics [OF fsm_apply_engine ex_ongoing_reach ex_env_returns])
     (simp add: ex_ongoing_def)



text \<open>When \<open>ReAddFunds\<close> fails, the event that reports the failure is rejected, so
  the deal stays in \<open>InsufficientFunds\<close> without a message.\<close>

theorem readd_failure_is_lost:
  assumes "client_engine fire"
    and "cds_Status d = DealStatusInsufficientFunds"
    and "rn_GetChainHead (cde_Node env) w = (Err er, w')"
  shows "ClientStateEntryFuncs (cds_Status d) = Some ReAddFunds \<and>
    ReAddFunds env d w = (Ok (Some (ClientEventPaymentChannelErrored, [ArgErr er])), w') \<and>
    fire FsmClientEvents ClientFinalityStates ClientEventPaymentChannelErrored [ArgErr er] d = Rejected"
  using assms(2,3) by (simp add: client_fire_eq [OF assms(1)] ReAddFunds_def trigger_def ret_def)

definition ex_failing_env :: "unit ClientDealEnvironment" where
  "ex_failing_env = ex_env\<lparr>cde_Node := (cde_Node ex_env)\<lparr>rn_GetChainHead := fail (GErr ''offline'')\<rparr>\<rparr>"

theorem readd_failure_is_lost_witness:
  "client_apply FsmClientEvents ClientFinalityStates ClientEventPaymentChannelErrored
     [ArgErr (GErr ''offline'')] (ex_ongoing\<lparr>cds_Status := DealStatusInsufficientFunds\<rparr>) = Rejected"
  using readd_failure_is_lost [OF fsm_apply_engine,
      of "ex_ongoing\<lparr>cds_Status := DealStatusInsufficientFunds\<rparr>" ex_failing_env "()"]
  by (simp add: ex_failing_env_def fail_def)

section \<open>Money\<close>

text \<open>The amount of an accepted request for payment.\<close>

fun owed_of :: "ClientEvent \<Rightarrow> client_arg list \<Rightarrow> TokenAmount" where
  "owed_of ClientEventLastPaymentRequested [ArgAmount n] = n"
| "owed_of ClientEventPaymentRequested [ArgAmount n] = n"
| "owed_of _ _ = 0"

text \<open>The sum of the requests that a run accepts.\<close>

fun owed_total :: "(ClientEvent \<Rightarrow> client_arg list \<Rightarrow> ClientDealState \<Rightarrow> ClientDealState fsm_result) \<Rightarrow>
    (ClientEvent \<times> client_arg list) list \<Rightarrow> ClientDealState \<Rightarrow> TokenAmount" where
  "owed_total fr [] d = 0"
| "owed_total fr ((e, args) # evs) d =
     (case fr e args d of
        Entered d' \<Rightarrow> owed_of e args + owed_total fr evs d'
      | Recorded d' \<Rightarrow> owed_of e args + owed_total fr evs d'
      | Rejected \<Rightarrow> owed_total fr evs d
      | Panicked \<Rightarrow> 0)"

definition client_account :: "ClientDealState \<Rightarrow> TokenAmount" where
  "client_account d = cds_FundsSpent d + cds_PaymentRequested d"

lemma client_act_account:
  "client_act e args d = Some (Ok d1) \<Longrightarrow> client_account d1 = client_account d + owed_of e args"
  by (cases e) (auto simp: client_account_def client_action_defs split: if_splits option.splits)

lemma client_fire_move:
  assumes "client_engine fire"
    and "fire FsmClientEvents ClientFinalityStates e args d = Entered d' \<or>
         fire FsmClientEvents ClientFinalityStates e args d = Recorded d'"
  obtains d1 s where "client_act e args d = Some (Ok d1)" "d' = d1\<lparr>cds_Status := s\<rparr>"
    "s = (case the (resolve (client_trans e) (cds_Status d)) of To t \<Rightarrow> t | _ \<Rightarrow> cds_Status d1)"
    "resolve (client_trans e) (cds_Status d) \<noteq> None" "cds_Status d \<notin> set ClientFinalityStates"
  using assms(2)
  by (auto simp: client_fire_eq [OF assms(1)] land_def
      split: if_splits option.splits go.splits fsm_dest.splits)

lemma client_fire_account:
  assumes "client_engine fire"
    and "fire FsmClientEvents ClientFinalityStates e args d = Entered d' \<or>
         fire FsmClientEvents ClientFinalityStates e args d = Recorded d'"
  shows "client_account d' = client_account d + owed_of e args"
  using assms by (rule client_fire_move) (auto dest!: client_act_account simp: client_account_def)

text \<open>C6: what a deal has spent and what it still owes add up to the requests for payment it
  accepted, whatever the order of events: no request is lost, none is counted twice.\<close>

theorem client_accounts_balance:
  assumes "client_engine fire"
    and "fsm_run (fire FsmClientEvents ClientFinalityStates) evs d = Some d'"
  shows "cds_FundsSpent d' + cds_PaymentRequested d' =
    cds_FundsSpent d + cds_PaymentRequested d +
    owed_total (fire FsmClientEvents ClientFinalityStates) evs d"
  using assms(2)
proof (induction evs arbitrary: d)
  case Nil
  then show ?case by simp
next
  case (Cons ev evs)
  obtain e args where ev: "ev = (e, args)" by fastforce
  show ?case
    using Cons.prems Cons.IH client_fire_account [OF assms(1), of e args d]
    by (auto simp: ev client_account_def split: fsm_result.splits)
qed

theorem client_accounts_balance_witness:
  "cds_FundsSpent ex_ongoing + cds_PaymentRequested ex_ongoing =
   cds_FundsSpent ex_deal + cds_PaymentRequested ex_deal +
   owed_total (client_apply FsmClientEvents ClientFinalityStates) ex_setup ex_deal"
  by (rule client_accounts_balance [OF fsm_apply_engine ex_setup_run])

text \<open>The bytes a client counts as paid never cost more than it spent.\<close>

definition paid_bytes_ok :: "ClientDealState \<Rightarrow> bool" where
  "paid_bytes_ok d \<longleftrightarrow> 0 \<le> cds_PaymentRequested d \<and>
     cds_PricePerByte d * uint (cds_BytesPaidFor d) \<le> cds_FundsSpent d"

lemma uint_add_le: "uint (x + y) \<le> uint x + uint (y :: u64)"
  by (simp add: uint_word_ariths zmod_le_nonneg_dividend)

lemma uint_big_uint64_le: "0 \<le> q \<Longrightarrow> uint (big_uint64 q) \<le> q"
  by (simp add: big_uint64_def uint_word_of_int zmod_le_nonneg_dividend)

lemma payment_sent_paid_bytes:
  assumes "payment_sent d = Ok d1" "0 < cds_PricePerByte d" "paid_bytes_ok d"
  shows "paid_bytes_ok d1"
proof -
  let ?p = "cds_PricePerByte d"
  let ?q = "euclid_div (cds_PaymentRequested d) ?p"
  have pr: "0 \<le> cds_PaymentRequested d" using assms(3) by (simp add: paid_bytes_ok_def)
  then have q: "0 \<le> ?q" using assms(2) by (rule euclid_div_nonneg)
  have "?p * uint (cds_BytesPaidFor d + big_uint64 ?q) \<le>
        ?p * (uint (cds_BytesPaidFor d) + ?q)"
    using uint_add_le [of "cds_BytesPaidFor d" "big_uint64 ?q"] uint_big_uint64_le [OF q] assms(2)
    by (intro mult_left_mono) auto
  also have "\<dots> \<le> cds_FundsSpent d + cds_PaymentRequested d"
    using assms(3) euclid_div_le [OF pr assms(2)]
    by (simp add: paid_bytes_ok_def algebra_simps)
  finally show ?thesis
    using assms(1,2) by (auto simp: payment_sent_def Let_def paid_bytes_ok_def)
qed

lemma client_act_paid_bytes:
  assumes "client_act e args d = Some (Ok d1)" "0 \<le> owed_of e args"
    "0 < cds_PricePerByte d" "paid_bytes_ok d"
  shows "paid_bytes_ok d1"
proof (cases "e = ClientEventPaymentSent")
  case True
  with assms show ?thesis by (auto intro: payment_sent_paid_bytes)
next
  case False
  with assms show ?thesis
    by (cases e) (auto simp: paid_bytes_ok_def recordReceived_def split: option.splits if_splits)
qed


definition ex_payment :: "(ClientEvent \<times> client_arg list) list" where
  "ex_payment =
     [(ClientEventPaymentRequested, [ArgAmount 1000]), (ClientEventSendFunds, []),
      (ClientEventPaymentSent, [])]"

lemma ex_payment_run:
  "fsm_run (client_apply FsmClientEvents ClientFinalityStates) (ex_setup @ ex_payment) ex_deal =
     Some (ex_ongoing\<lparr>cds_FundsSpent := 1000, cds_BytesPaidFor := 100, cds_CurrentInterval := 150\<rparr>)"
  by (simp add: fsm_run_append ex_setup_run)
     (simp add: ex_payment_def ex_ongoing_def ex_deal_def newClientDeal_def client_eval
      ex_params_def euclid_div_def big_uint64_def)


text \<open>One more payment. Once a voucher is sent the client has spent what was requested,
  owes nothing, counts the whole bytes the amount pays for, and raises the payment interval
  when the payment covers the current one. With a price of zero the update panics.\<close>

theorem payment_sent_effect:
  assumes "client_engine fire" "cds_Status d = DealStatusSendFunds"
  shows "fire FsmClientEvents ClientFinalityStates ClientEventPaymentSent [] d =
    (if cds_PricePerByte d = 0 then Panicked
     else let n = big_uint64 (euclid_div (cds_PaymentRequested d) (cds_PricePerByte d)) in
       Entered (d\<lparr>cds_FundsSpent := cds_FundsSpent d + cds_PaymentRequested d,
         cds_CurrentInterval := (if n \<ge> cds_CurrentInterval d
            then cds_CurrentInterval d + PaymentIntervalIncrease (dp_Params (cds_DealProposal d))
            else cds_CurrentInterval d),
         cds_BytesPaidFor := cds_BytesPaidFor d + n,
         cds_PaymentRequested := 0,
         cds_Status := DealStatusOngoing\<rparr>))"
  using assms(2)
  by (simp add: client_fire_eq [OF assms(1)] set_ClientFinalityStates payment_sent_def Let_def)

theorem payment_sent_effect_witness:
  "client_apply FsmClientEvents ClientFinalityStates ClientEventPaymentSent []
     (ex_ongoing\<lparr>cds_Status := DealStatusSendFunds, cds_PaymentRequested := 1005\<rparr>) =
   Entered (ex_ongoing\<lparr>cds_FundsSpent := 1005, cds_BytesPaidFor := 100, cds_CurrentInterval := 150\<rparr>)"
  using payment_sent_effect [OF fsm_apply_engine,
      of "ex_ongoing\<lparr>cds_Status := DealStatusSendFunds, cds_PaymentRequested := 1005\<rparr>"]
  by (simp add: ex_ongoing_def ex_deal_def newClientDeal_def ex_params_def euclid_div_def
      big_uint64_def)

section \<open>Rounding drains the channel\<close>

definition small_request :: "ClientDealState \<Rightarrow> (ClientEvent \<times> client_arg list) list" where
  "small_request d =
     [(ClientEventPaymentRequested, [ArgAmount (cds_PricePerByte d - 1)]),
      (ClientEventSendFunds, []), (ClientEventPaymentSent, [])]"

text \<open>A deal in which an interval's worth of bytes is unpaid and nothing is requested.\<close>

definition interval_due :: "ClientDealState \<Rightarrow> bool" where
  "interval_due d \<longleftrightarrow> cds_Status d = DealStatusOngoing \<and> cds_PaymentRequested d = 0 \<and>
     2 \<le> cds_PricePerByte d \<and> 0 < cds_CurrentInterval d \<and>
     cds_CurrentInterval d \<le> cds_TotalReceived d - cds_BytesPaidFor d \<and>
     uint (cds_TotalReceived d - cds_BytesPaidFor d) < 2 ^ 63"

lemma small_request_run:
  assumes "client_engine fire" "interval_due d"
  shows "fsm_run (fire FsmClientEvents ClientFinalityStates) (small_request d) d =
    Some (d\<lparr>cds_FundsSpent := cds_FundsSpent d + (cds_PricePerByte d - 1)\<rparr>)"
proof -
  let ?p = "cds_PricePerByte d"
  let ?d1 = "d\<lparr>cds_PaymentRequested := ?p - 1, cds_Status := DealStatusFundsNeeded\<rparr>"
  let ?d2 = "d\<lparr>cds_PaymentRequested := ?p - 1, cds_Status := DealStatusSendFunds\<rparr>"
  note due = assms(2) [unfolded interval_due_def]
  note eval = client_fire_eq [OF assms(1)] set_ClientFinalityStates
  have "euclid_div (?p - 1) ?p = 0" using due by (simp add: euclid_div_def)
  moreover from due have "?p \<noteq> 0" and "cds_CurrentInterval d \<noteq> 0" by auto
  ultimately have sent: "payment_sent ?d2 =
      Ok (?d2\<lparr>cds_FundsSpent := cds_FundsSpent d + (?p - 1), cds_PaymentRequested := 0\<rparr>)"
    by (simp add: payment_sent_def Let_def)
  have "fire FsmClientEvents ClientFinalityStates ClientEventPaymentRequested
      [ArgAmount (?p - 1)] d = Entered ?d1"
    using due by (simp add: eval)
  moreover have "fire FsmClientEvents ClientFinalityStates ClientEventSendFunds [] ?d1 = Entered ?d2"
    by (simp add: eval)
  moreover have "fire FsmClientEvents ClientFinalityStates ClientEventPaymentSent [] ?d2 =
      Entered (?d2\<lparr>cds_FundsSpent := cds_FundsSpent d + (?p - 1), cds_PaymentRequested := 0,
        cds_Status := DealStatusOngoing\<rparr>)"
    by (simp add: eval sent)
  moreover have "?d2\<lparr>cds_FundsSpent := cds_FundsSpent d + (?p - 1), cds_PaymentRequested := 0,
        cds_Status := DealStatusOngoing\<rparr> = d\<lparr>cds_FundsSpent := cds_FundsSpent d + (?p - 1)\<rparr>"
    using due by (cases d) simp
  ultimately show ?thesis by (simp add: small_request_def)
qed

lemma small_request_triggers:
  assumes "interval_due d"
  shows "ProcessPaymentRequested env
      (d\<lparr>cds_PaymentRequested := cds_PricePerByte d - 1, cds_Status := DealStatusFundsNeeded\<rparr>) w =
      (Ok (Some (ClientEventSendFunds, [])), w)"
    and "\<not> cds_PricePerByte d - 1 > retrievalPrice d"
proof -
  let ?n = "cds_TotalReceived d - cds_BytesPaidFor d"
  show "ProcessPaymentRequested env
      (d\<lparr>cds_PaymentRequested := cds_PricePerByte d - 1, cds_Status := DealStatusFundsNeeded\<rparr>) w =
      (Ok (Some (ClientEventSendFunds, [])), w)"
    using assms by (simp add: ProcessPaymentRequested_def interval_due_def trigger_def ret_def)
  have "0 < ?n" using assms by (auto simp: interval_due_def)
  then have "1 \<le> uint ?n" by (simp add: word_less_def)
  then have "cds_PricePerByte d \<le> uint ?n * cds_PricePerByte d"
    using assms by (simp add: interval_due_def)
  moreover have "int64 ?n = uint ?n" using assms by (intro int64_small) (simp add: interval_due_def)
  ultimately show "\<not> cds_PricePerByte d - 1 > retrievalPrice d"
    by (simp add: retrievalPrice_def)
qed

text \<open>A provider that asks again and again for one unit less than the price of a byte is
  paid every time, without sending anything more: the check of \<open>SendFunds\<close> passes, the
  paid-for counter does not move, and the deal is back where it was, poorer by the amount.\<close>

theorem rounding_drains_channel:
  assumes "client_engine fire" "interval_due d"
  shows "fsm_run (fire FsmClientEvents ClientFinalityStates)
      (concat (replicate n (small_request d))) d =
    Some (d\<lparr>cds_FundsSpent := cds_FundsSpent d + int n * (cds_PricePerByte d - 1)\<rparr>)
    \<and> \<not> cds_PricePerByte d - 1 > retrievalPrice d
    \<and> ProcessPaymentRequested env
      (d\<lparr>cds_PaymentRequested := cds_PricePerByte d - 1, cds_Status := DealStatusFundsNeeded\<rparr>) w =
      (Ok (Some (ClientEventSendFunds, [])), w)"
proof -
  have "fsm_run (fire FsmClientEvents ClientFinalityStates)
      (concat (replicate n (small_request d))) d =
    Some (d\<lparr>cds_FundsSpent := cds_FundsSpent d + int n * (cds_PricePerByte d - 1)\<rparr>)"
    using assms(2)
  proof (induction n arbitrary: d)
    case 0
    then show ?case by simp
  next
    case (Suc n)
    let ?d = "d\<lparr>cds_FundsSpent := cds_FundsSpent d + (cds_PricePerByte d - 1)\<rparr>"
    have "interval_due ?d" using Suc.prems by (simp add: interval_due_def)
    note IH = Suc.IH [OF this]
    have "small_request ?d = small_request d" by (simp add: small_request_def)
    with IH show ?case
      by (simp add: fsm_run_append small_request_run [OF assms(1) Suc.prems] algebra_simps)
  qed
  then show ?thesis
    by (intro conjI small_request_triggers [OF assms(2)])
qed

theorem rounding_drains_channel_witness:
  "fsm_run (client_apply FsmClientEvents ClientFinalityStates)
     (concat (replicate 1000 (small_request ex_ongoing))) ex_ongoing =
   Some (ex_ongoing\<lparr>cds_FundsSpent := 9000\<rparr>)"
proof -
  have "interval_due ex_ongoing"
    by (simp add: interval_due_def ex_ongoing_def ex_deal_def newClientDeal_def ex_params_def)
  from rounding_drains_channel [OF fsm_apply_engine this, of 1000 ex_env "()"] show ?thesis
    by (simp add: ex_ongoing_def ex_deal_def newClientDeal_def ex_params_def del: replicate_Suc)
qed

section \<open>Where a deal cannot go\<close>

text \<open>A deal in a final state is never changed again.\<close>

theorem client_final_states_are_final:
  assumes "client_engine fire" "cds_Status d \<in> set ClientFinalityStates"
  shows "fsm_run (fire FsmClientEvents ClientFinalityStates) evs d = Some d"
  using assms(2) by (induction evs) (auto simp: client_fire_eq [OF assms(1)])

theorem client_final_states_are_final_witness:
  "fsm_run (client_apply FsmClientEvents ClientFinalityStates) [(ClientEventCancel, [])]
     (ex_ongoing\<lparr>cds_Status := DealStatusCompleted\<rparr>) = Some (ex_ongoing\<lparr>cds_Status := DealStatusCompleted\<rparr>)"
  by (rule client_final_states_are_final [OF fsm_apply_engine]) (simp add: ClientFinalityStates_def)

text \<open>A set of states that no event leaves, but for the states it contains.\<close>

definition client_closed :: "DealStatus set \<Rightarrow> bool" where
  "client_closed S \<longleftrightarrow>
     (\<forall>s \<in> S. s \<notin> set ClientFinalityStates \<longrightarrow>
        (\<forall>e t. resolve (client_trans e) s = Some (To t) \<longrightarrow> t \<in> S))"

lemma client_closed_fire:
  assumes "client_engine fire" "client_closed S" "cds_Status d \<in> S"
    and "fire FsmClientEvents ClientFinalityStates e args d = Entered d' \<or>
         fire FsmClientEvents ClientFinalityStates e args d = Recorded d'"
  shows "cds_Status d' \<in> S"
proof -
  from assms(1,4) obtain d1 s where act: "client_act e args d = Some (Ok d1)"
    and d': "d' = d1\<lparr>cds_Status := s\<rparr>"
    and s: "s = (case the (resolve (client_trans e) (cds_Status d)) of To t \<Rightarrow> t | _ \<Rightarrow> cds_Status d1)"
    and res: "resolve (client_trans e) (cds_Status d) \<noteq> None"
    and nf: "cds_Status d \<notin> set ClientFinalityStates"
    by (rule client_fire_move)
  from res obtain dest where dest: "resolve (client_trans e) (cds_Status d) = Some dest" by blast
  show ?thesis
    using assms(2,3) nf dest client_act_status [OF act]
    by (cases dest) (auto simp: d' s client_closed_def)
qed

lemma client_closed_run:
  assumes "client_engine fire" "client_closed S"
  shows "cds_Status d \<in> S \<Longrightarrow> fsm_run (fire FsmClientEvents ClientFinalityStates) evs d = Some d' \<Longrightarrow>
    cds_Status d' \<in> S"
proof (induction evs arbitrary: d)
  case Nil
  then show ?case by simp
next
  case (Cons ev evs)
  obtain e args where ev: "ev = (e, args)" by fastforce
  show ?case
    using Cons.prems Cons.IH client_closed_fire [OF assms, of d e args]
    by (auto simp: ev split: fsm_result.splits)
qed

definition blocks_complete_states :: "DealStatus set" where
  "blocks_complete_states =
     {DealStatusBlocksComplete, DealStatusFailing, DealStatusErrored, DealStatusCancelling,
      DealStatusCancelled}"

lemma blocks_complete_closed: "client_closed blocks_complete_states"
proof -
  have "t \<in> blocks_complete_states"
    if "s \<in> blocks_complete_states" "s \<notin> set ClientFinalityStates"
      "resolve (client_trans e) s = Some (To t)" for s e t
    using that by (cases e) (auto simp: blocks_complete_states_def ClientFinalityStates_def)
  then show ?thesis by (auto simp: client_closed_def)
qed

text \<open>\<open>BlocksComplete\<close> is a dead end. A deal that receives its last block before the
  provider asks for the last payment (or reports completion) can only fail or be cancelled:
  requests for payment and \<open>Complete\<close> are rejected, so it never completes.\<close>

theorem blocks_complete_is_dead_end:
  assumes "client_engine fire" "cds_Status d = DealStatusBlocksComplete"
    and "fsm_run (fire FsmClientEvents ClientFinalityStates) evs d = Some d'"
  shows "cds_Status d' \<in> {DealStatusBlocksComplete, DealStatusFailing, DealStatusErrored,
      DealStatusCancelling, DealStatusCancelled}
    \<and> fire FsmClientEvents ClientFinalityStates ClientEventLastPaymentRequested [ArgAmount n] d = Rejected
    \<and> fire FsmClientEvents ClientFinalityStates ClientEventComplete [] d = Rejected"
  using client_closed_run [OF assms(1) blocks_complete_closed _ assms(3)] assms(2)
  by (simp add: blocks_complete_states_def client_fire_eq [OF assms(1)])

theorem blocks_complete_is_dead_end_witness:
  "fsm_run (client_apply FsmClientEvents ClientFinalityStates)
     [(ClientEventAllBlocksReceived, []), (ClientEventComplete, [])] ex_ongoing =
     Some (ex_ongoing\<lparr>cds_AllBlocksReceived := True, cds_Status := DealStatusBlocksComplete\<rparr>) \<and>
   client_apply FsmClientEvents ClientFinalityStates ClientEventComplete []
     (ex_ongoing\<lparr>cds_AllBlocksReceived := True, cds_Status := DealStatusBlocksComplete\<rparr>) = Rejected"
proof
  show "fsm_run (client_apply FsmClientEvents ClientFinalityStates)
     [(ClientEventAllBlocksReceived, []), (ClientEventComplete, [])] ex_ongoing =
     Some (ex_ongoing\<lparr>cds_AllBlocksReceived := True, cds_Status := DealStatusBlocksComplete\<rparr>)"
    by (simp add: client_eval ex_ongoing_def)
  show "client_apply FsmClientEvents ClientFinalityStates ClientEventComplete []
     (ex_ongoing\<lparr>cds_AllBlocksReceived := True, cds_Status := DealStatusBlocksComplete\<rparr>) = Rejected"
    using blocks_complete_is_dead_end [OF fsm_apply_engine, where evs = "[]",
        of "ex_ongoing\<lparr>cds_AllBlocksReceived := True, cds_Status := DealStatusBlocksComplete\<rparr>"]
    by simp
qed

definition not_rejected_states :: "DealStatus set" where
  "not_rejected_states = - {DealStatusRejected}"

lemma not_rejected_closed: "client_closed not_rejected_states"
proof -
  have "t \<in> not_rejected_states" if "resolve (client_trans e) s = Some (To t)" for s e t
    using that by (cases e) (auto simp: not_rejected_states_def)
  then show ?thesis by (auto simp: client_closed_def)
qed

text \<open>A rejection is never noticed. \<open>ClientEventDealRejected\<close> has no entry in the table:
  it has no effect in any state, and no deal ever reaches the status \<open>Rejected\<close>.\<close>

theorem rejection_has_no_effect:
  assumes "client_engine fire"
  shows "fire FsmClientEvents ClientFinalityStates ClientEventDealRejected args d = Rejected
    \<and> (client_started d \<longrightarrow>
       fsm_run (fire FsmClientEvents ClientFinalityStates) evs d = Some d' \<longrightarrow>
       cds_Status d' \<noteq> DealStatusRejected)"
proof -
  have "cds_Status d \<in> not_rejected_states" if "client_started d"
    using that by (auto simp: client_started_def newClientDeal_def not_rejected_states_def)
  then show ?thesis
    using client_closed_run [OF assms not_rejected_closed]
    by (auto simp: client_fire_eq [OF assms] not_rejected_states_def split: option.splits)
qed

theorem rejection_has_no_effect_witness:
  "client_apply FsmClientEvents ClientFinalityStates ClientEventDealRejected
     [ArgString ''too low''] (ex_deal\<lparr>cds_Status := DealStatusWaitForAcceptance\<rparr>) = Rejected \<and>
   cds_Status ex_ongoing \<noteq> DealStatusRejected"
  using rejection_has_no_effect [OF fsm_apply_engine, of "[ArgString ''too low'']"
      "ex_deal\<lparr>cds_Status := DealStatusWaitForAcceptance\<rparr>"]
    rejection_has_no_effect [OF fsm_apply_engine, of "[]" ex_deal ex_setup ex_ongoing]
    ex_deal_started ex_setup_run by blast

section \<open>Completing without all the data\<close>

text \<open>The check that all blocks arrived covers one of the two ways to complete only. A
  provider that asks for the last payment after the first interval, and then reports
  completion, leaves the deal \<open>Completed\<close> with blocks missing; each payment step is one the
  client's own entry functions trigger.\<close>

theorem completes_without_all_blocks:
  assumes "client_engine fire"
  shows "\<exists>d1 d2 d3. client_reach fire ex_ongoing
    \<and> fire FsmClientEvents ClientFinalityStates ClientEventLastPaymentRequested [ArgAmount 1000]
        ex_ongoing = Entered d1
    \<and> ProcessPaymentRequested env d1 w = (Ok (Some (ClientEventSendFunds, [])), w)
    \<and> fire FsmClientEvents ClientFinalityStates ClientEventSendFunds [] d1 = Entered d2
    \<and> \<not> cds_PaymentRequested d2 > retrievalPrice d2
    \<and> fire FsmClientEvents ClientFinalityStates ClientEventPaymentSent [] d2 = Entered d3
    \<and> (case fire FsmClientEvents ClientFinalityStates ClientEventComplete [] d3 of
         Entered d \<Rightarrow> cds_Status d = DealStatusCompleted \<and> \<not> cds_AllBlocksReceived d
       | _ \<Rightarrow> False)"
proof -
  note eval = client_fire_eq [OF assms] set_ClientFinalityStates client_action_defs
    ex_ongoing_def ex_deal_def newClientDeal_def ex_params_def
  have reach: "client_reach fire ex_ongoing"
    by (rule fsm_reach_run [OF fsm_reach.initial [where ini = client_started, OF ex_deal_started],
          of _ ex_setup])
       (simp add: ex_setup_def eval no_action_def set_PaymentInfo_if_nil_def)
  let ?d1 = "ex_ongoing\<lparr>cds_PaymentRequested := 1000, cds_LastPaymentRequested := True,
     cds_Status := DealStatusFundsNeededLastPayment\<rparr>"
  let ?d2 = "?d1\<lparr>cds_Status := DealStatusSendFundsLastPayment\<rparr>"
  let ?d3 = "?d2\<lparr>cds_FundsSpent := 1000, cds_CurrentInterval := 150, cds_BytesPaidFor := 100,
     cds_PaymentRequested := 0, cds_Status := DealStatusFinalizing\<rparr>"
  have "fire FsmClientEvents ClientFinalityStates ClientEventLastPaymentRequested [ArgAmount 1000]
        ex_ongoing = Entered ?d1"
    and "ProcessPaymentRequested env ?d1 w = (Ok (Some (ClientEventSendFunds, [])), w)"
    and "fire FsmClientEvents ClientFinalityStates ClientEventSendFunds [] ?d1 = Entered ?d2"
    and "\<not> cds_PaymentRequested ?d2 > retrievalPrice ?d2"
    and "fire FsmClientEvents ClientFinalityStates ClientEventPaymentSent [] ?d2 = Entered ?d3"
    and "fire FsmClientEvents ClientFinalityStates ClientEventComplete [] ?d3 =
         Entered (?d3\<lparr>cds_Status := DealStatusCompleted\<rparr>)"
    by (simp_all add: eval ProcessPaymentRequested_def trigger_def ret_def retrievalPrice_def
        int64_def euclid_div_def big_uint64_def)
  moreover have "\<not> cds_AllBlocksReceived ?d3" by (simp add: eval)
  ultimately show ?thesis
    using reach by (intro exI [of _ ?d1] exI [of _ ?d2] exI [of _ ?d3]) simp
qed

theorem completes_without_all_blocks_witness:
  "client_reach client_apply ex_ongoing"
  using completes_without_all_blocks [OF fsm_apply_engine, of ex_env "()"] by blast

end
