(* ===== verification/ClientRuns.thy ===== *)
theory ClientRuns
  imports Machine ClientProps
begin

text \<open>
  The client's machine with its entry functions, run against a provider that keeps to the
  protocol and a node whose calls succeed: the whole of a deal, from its proposal to its completion.
\<close>

section \<open>The client's machine\<close>

definition client_entry :: "'w ClientDealEnvironment \<Rightarrow> ClientDealState \<Rightarrow> ('w, client_trigger) io" where
  "client_entry env d = (case ClientStateEntryFuncs (cds_Status d) of None \<Rightarrow> ret None | Some h \<Rightarrow> h env d)"

abbreviation client_events where
  "client_events fire \<equiv> fire FsmClientEvents ClientFinalityStates"

section \<open>Calls that succeed\<close>

definition succeeds :: "('w, 'a) io \<Rightarrow> ('a \<Rightarrow> bool) \<Rightarrow> bool" where
  "succeeds m P \<longleftrightarrow> (\<forall>w. \<exists>x w'. m w = (Ok x, w') \<and> P x)"

lemma succeedsE:
  assumes "succeeds m P"
  obtains x w' where "m w = (Ok x, w')" "P x"
  using assms unfolding succeeds_def by blast

text \<open>The channel \<open>ch\<close> is made or found, lanes are allocated, and vouchers of it are created up to
  \<open>funds\<close>.\<close>

definition cooperative :: "'w ClientDealEnvironment \<Rightarrow> Address \<Rightarrow> TokenAmount \<Rightarrow> bool" where
  "cooperative env ch funds \<longleftrightarrow> ch \<noteq> AddressUndef \<and>
     (\<forall>p dp. succeeds (cde_OpenDataTransfer env p dp) (\<lambda>_. True)) \<and>
     succeeds (rn_GetChainHead (cde_Node env)) (\<lambda>_. True) \<and>
     (\<forall>c m a t. succeeds (rn_GetOrCreatePaymentChannel (cde_Node env) c m a t)
        (\<lambda>(paych, _). paych = AddressUndef \<or> paych = ch)) \<and>
     (\<forall>c. succeeds (rn_WaitForPaymentChannelReady (cde_Node env) c) (\<lambda>paych. paych = ch)) \<and>
     succeeds (rn_AllocateLane (cde_Node env) ch) (\<lambda>_. True) \<and>
     (\<forall>n l t. n \<le> funds \<longrightarrow> succeeds (rn_CreatePaymentVoucher (cde_Node env) ch n l t) (\<lambda>_. True)) \<and>
     (\<forall>c pay. succeeds (cde_SendDataTransferVoucher env c pay) (\<lambda>_. True))"

lemma cooperativeD:
  assumes "cooperative env ch funds"
  shows "ch \<noteq> AddressUndef"
    and "succeeds (cde_OpenDataTransfer env p dp) (\<lambda>_. True)"
    and "succeeds (rn_GetChainHead (cde_Node env)) (\<lambda>_. True)"
    and "succeeds (rn_GetOrCreatePaymentChannel (cde_Node env) c m a t) (\<lambda>(paych, _). paych = AddressUndef \<or> paych = ch)"
    and "succeeds (rn_WaitForPaymentChannelReady (cde_Node env) mc) (\<lambda>paych. paych = ch)"
    and "succeeds (rn_AllocateLane (cde_Node env) ch) (\<lambda>_. True)"
    and "n \<le> funds \<Longrightarrow> succeeds (rn_CreatePaymentVoucher (cde_Node env) ch n l t) (\<lambda>_. True)"
    and "succeeds (cde_SendDataTransferVoucher env chid pay) (\<lambda>_. True)"
  using assms unfolding cooperative_def by blast+

section \<open>Setting up\<close>

lemma client_events_eq: "client_engine fire \<Longrightarrow> client_events fire e args d =
    (if cds_Status d \<in> {DealStatusErrored, DealStatusCompleted, DealStatusCancelled, DealStatusRejected, DealStatusDealNotFound}
     then Rejected else case resolve (client_trans e) (cds_Status d) of None \<Rightarrow> Rejected
     | Some dest \<Rightarrow> (case client_act e args d of None \<Rightarrow> Rejected
          | Some (Ok d') \<Rightarrow> land set_client_status dest d' | Some (Err _) \<Rightarrow> Rejected | Some Panic \<Rightarrow> Panicked))"
  by (simp add: client_fire_eq set_ClientFinalityStates)

lemma client_settles:
  assumes "client_engine fire" "client_events fire e args d = Entered d'" "client_entry env d' w = (Ok t, w')"
    and "settles (client_events fire) (client_entry env) (q @ triggered t) (d', w') y"
  shows "settles (client_events fire) (client_entry env) ((e, args) # q) (d, w) y"
  using assms(2-4) by (rule settles_entered)

lemma opened_is_proposed:
  assumes "client_engine fire" "cooperative env ch funds" "cds_Status d = DealStatusNew"
  obtains chid w' where "settles (client_events fire) (client_entry env) [(ClientEventOpen, [])] (d, w)
    (d\<lparr>cds_ChannelID := chid, cds_Message := '''', cds_Status := DealStatusWaitForAcceptance\<rparr>, w')"
proof -
  obtain chid w1 where o: "cde_OpenDataTransfer env (cds_Sender d) (cds_DealProposal d) w = (Ok chid, w1)"
    using cooperativeD(2) [OF assms(2)] by (rule succeedsE)
  have "settles (client_events fire) (client_entry env) [(ClientEventOpen, [])] (d, w)
      (d\<lparr>cds_ChannelID := chid, cds_Message := '''', cds_Status := DealStatusWaitForAcceptance\<rparr>, w1)"
    by (rule settles_entered [where st' = d and t = "Some (ClientEventDealProposed, [ArgChannelID chid])" and w' = w1],
        simp add: client_events_eq [OF assms(1)] assms(3) land_def,
        simp add: client_entry_def assms(3) ProposeDeal_def o trigger_def ret_def, simp,
        rule settles_entered [where t = None and w' = w1],
        (simp add: client_events_eq [OF assms(1)] assms(3) land_def client_entry_def ret_def)+)
  then show ?thesis by (rule that)
qed

text \<open>A deal that is under way and has paid for \<open>paid\<close> bytes at the agreed price, and owes nothing.\<close>

definition paid_up :: "Address \<Rightarrow> Params \<Rightarrow> u64 \<Rightarrow> u64 \<Rightarrow> ClientDealState \<Rightarrow> bool" where
  "paid_up ch params paid interval d \<longleftrightarrow> cds_Status d = DealStatusOngoing \<and>
     (\<exists>lane. cds_PaymentInfo d = Some \<lparr>PayCh = ch, Lane = lane\<rparr>) \<and> dp_Params (cds_DealProposal d) = params \<and>
     cds_BytesPaidFor d = paid \<and> cds_FundsSpent d = PricePerByte params * uint paid \<and> cds_CurrentInterval d = interval \<and>
     cds_PaymentRequested d = 0 \<and> \<not> cds_AllBlocksReceived d \<and> \<not> cds_LastPaymentRequested d"

lemmas run_simps = land_def client_entry_def ret_def trigger_def

lemma lane_is_allocated:
  assumes "client_engine fire" "cooperative env ch funds"
    and "cds_Status d = DealStatusPaymentChannelAllocatingLane" "cds_PaymentInfo d = Some \<lparr>PayCh = ch, Lane = l\<rparr>"
    and "cds_PaymentRequested d = 0" "AllocateLane_entry env d w = (Ok t, w1)"
  obtains lane where "settles (client_events fire) (client_entry env) (triggered t) (d, w1)
    (d\<lparr>cds_PaymentInfo := Some \<lparr>PayCh = ch, Lane = lane\<rparr>, cds_Status := DealStatusOngoing\<rparr>, w1)"
proof -
  obtain lane where l: "t = Some (ClientEventLaneAllocated, [ArgUint64 lane])"
    using assms(4,6) cooperativeD(6) [OF assms(2)]
    by (auto simp: AllocateLane_entry_def trigger_def succeeds_def elim!: tryE_Ok) (metis go.distinct(1) prod.inject)+
  have "settles (client_events fire) (client_entry env) (triggered t) (d, w1)
      (d\<lparr>cds_PaymentInfo := Some \<lparr>PayCh = ch, Lane = lane\<rparr>, cds_Status := DealStatusOngoing\<rparr>, w1)"
    unfolding l triggered_simps
    by (rule settles_entered [where t = None and w' = w1])
      (simp_all add: client_events_eq [OF assms(1)] assms(3-5) run_simps Ongoing_def)
  then show ?thesis by (rule that)
qed

definition proposed :: "Params \<Rightarrow> ClientDealState \<Rightarrow> bool" where
  "proposed params d \<longleftrightarrow> cds_Status d = DealStatusWaitForAcceptance \<and> cds_PaymentInfo d = None \<and>
     dp_Params (cds_DealProposal d) = params \<and> cds_BytesPaidFor d = 0 \<and> cds_FundsSpent d = 0 \<and>
     cds_CurrentInterval d = PaymentInterval params \<and> cds_PaymentRequested d = 0 \<and> \<not> cds_AllBlocksReceived d \<and>
     \<not> cds_LastPaymentRequested d"

text \<open>From the acceptance on, the machine comes by itself to a channel with a lane of the deal's own,
  whether the channel is new or exists.\<close>

lemma lane_follows:
  assumes "client_engine fire" "cooperative env ch funds"
    and "cds_Status d = DealStatusPaymentChannelAllocatingLane" "cds_PaymentInfo d = Some \<lparr>PayCh = ch, Lane = 0\<rparr>"
    and "client_events fire e args d0 = Entered d" "proposed params (d\<lparr>cds_Status := DealStatusWaitForAcceptance, cds_PaymentInfo := None\<rparr>)"
  shows "\<exists>d' w'. settles (client_events fire) (client_entry env) [(e, args)] (d0, w) (d', w') \<and>
    paid_up ch params 0 (PaymentInterval params) d'"
proof -
  have req: "cds_PaymentRequested d = 0" using assms(6) by (simp add: proposed_def)
  obtain lane w1 where "rn_AllocateLane (cde_Node env) ch w = (Ok lane, w1)"
    using cooperativeD(6) [OF assms(2)] by (rule succeedsE)
  then have a: "AllocateLane_entry env d w = (Ok (Some (ClientEventLaneAllocated, [ArgUint64 lane])), w1)"
    by (simp add: AllocateLane_entry_def assms(4) run_simps)
  obtain lane' where s: "settles (client_events fire) (client_entry env) (triggered (Some (ClientEventLaneAllocated, [ArgUint64 lane]))) (d, w1)
      (d\<lparr>cds_PaymentInfo := Some \<lparr>PayCh = ch, Lane = lane'\<rparr>, cds_Status := DealStatusOngoing\<rparr>, w1)"
    by (rule lane_is_allocated [OF assms(1-4) req a])
  have "settles (client_events fire) (client_entry env) [(e, args)] (d0, w)
      (d\<lparr>cds_PaymentInfo := Some \<lparr>PayCh = ch, Lane = lane'\<rparr>, cds_Status := DealStatusOngoing\<rparr>, w1)"
    by (rule settles_entered [where st' = d]) (simp_all add: assms(5), simp add: client_entry_def assms(3) a, use s in simp)
  moreover have "paid_up ch params 0 (PaymentInterval params)
      (d\<lparr>cds_PaymentInfo := Some \<lparr>PayCh = ch, Lane = lane'\<rparr>, cds_Status := DealStatusOngoing\<rparr>)"
    using assms(6) by (simp add: proposed_def paid_up_def)
  ultimately show ?thesis by blast
qed

lemma accepted_is_under_way:
  assumes "client_engine fire" "cooperative env ch funds" "proposed params d"
  obtains d' w' where "settles (client_events fire) (client_entry env) [(ClientEventDealAccepted, [])] (d, w) (d', w')"
    "paid_up ch params 0 (PaymentInterval params) d'"
proof -
  have st: "cds_Status d = DealStatusWaitForAcceptance" "cds_PaymentInfo d = None" using assms(3) by (simp_all add: proposed_def)
  let ?d1 = "d\<lparr>cds_Status := DealStatusAccepted\<rparr>"
  obtain x w1 where h: "rn_GetChainHead (cde_Node env) w = (Ok x, w1)" using cooperativeD(3) [OF assms(2)] by (rule succeedsE)
  obtain y w2 where g: "rn_GetOrCreatePaymentChannel (cde_Node env) (cds_ClientWallet d) (cds_MinerWallet d) (cds_TotalFunds d)
      (fst x) w1 = (Ok y, w2)" "case y of (paych, _) \<Rightarrow> paych = AddressUndef \<or> paych = ch"
    using cooperativeD(4) [OF assms(2)] by (rule succeedsE)
  obtain paych m where y: "y = (paych, m)" by fastforce
  have e1: "client_events fire ClientEventDealAccepted [] d = Entered ?d1"
    by (simp add: client_events_eq [OF assms(1)] st run_simps)
  consider (new) "paych = AddressUndef" | (found) "paych = ch" "paych \<noteq> AddressUndef" using g(2) y cooperativeD(1) [OF assms(2)] by auto
  then show ?thesis
  proof cases
    case new
    let ?d2 = "?d1\<lparr>cds_WaitMsgCID := Some m, cds_Status := DealStatusPaymentChannelCreating\<rparr>"
    obtain z w3 where r: "rn_WaitForPaymentChannelReady (cde_Node env) m w2 = (Ok z, w3)" "z = ch"
      using cooperativeD(5) [OF assms(2)] by (rule succeedsE)
    let ?d3 = "(set_PaymentInfo_if_nil ch ?d2)\<lparr>cds_WaitMsgCID := None, cds_Message := '''', cds_Status := DealStatusPaymentChannelAllocatingLane\<rparr>"
    have d3: "cds_Status ?d3 = DealStatusPaymentChannelAllocatingLane" "cds_PaymentInfo ?d3 = Some \<lparr>PayCh = ch, Lane = 0\<rparr>"
      "client_events fire ClientEventPaymentChannelReady [ArgAddress ch] ?d2 = Entered ?d3"
      "proposed params (?d3\<lparr>cds_Status := DealStatusWaitForAcceptance, cds_PaymentInfo := None\<rparr>)"
      using assms(3) by (simp_all add: client_events_eq [OF assms(1)] run_simps st set_PaymentInfo_if_nil_def proposed_def)
    obtain d' w' where d': "settles (client_events fire) (client_entry env) [(ClientEventPaymentChannelReady, [ArgAddress ch])]
        (?d2, w3) (d', w')" "paid_up ch params 0 (PaymentInterval params) d'"
      using lane_follows [OF assms(1,2) d3] by blast
    have "settles (client_events fire) (client_entry env) [(ClientEventDealAccepted, [])] (d, w) (d', w')"
      by (rule client_settles [OF assms(1) e1, where t = "Some (ClientEventPaymentChannelCreateInitiated, [ArgCid m])" and w' = w2],
          use h g y new in \<open>simp add: run_simps SetupPaymentChannelStart_def split_def\<close>, simp,
          rule settles_entered [where t = "Some (ClientEventPaymentChannelReady, [ArgAddress ch])" and st' = ?d2 and w' = w3],
          simp add: client_events_eq [OF assms(1)] run_simps, use r in \<open>simp add: run_simps WaitPaymentChannelReady_def\<close>)
         (use d' in simp)
    then show ?thesis using d'(2) by (rule that)
  next
    case found
    let ?d3 = "(set_PaymentInfo_if_nil ch (?d1\<lparr>cds_WaitMsgCID := Some m\<rparr>))\<lparr>cds_Status := DealStatusPaymentChannelAllocatingLane\<rparr>"
    have d3: "cds_Status ?d3 = DealStatusPaymentChannelAllocatingLane" "cds_PaymentInfo ?d3 = Some \<lparr>PayCh = ch, Lane = 0\<rparr>"
      "client_events fire ClientEventPaymentChannelAddingFunds [ArgCid m, ArgAddress ch] ?d1 = Entered ?d3"
      "proposed params (?d3\<lparr>cds_Status := DealStatusWaitForAcceptance, cds_PaymentInfo := None\<rparr>)"
      using assms(3) by (simp_all add: client_events_eq [OF assms(1)] run_simps st set_PaymentInfo_if_nil_def proposed_def)
    obtain d' w' where d': "settles (client_events fire) (client_entry env)
        [(ClientEventPaymentChannelAddingFunds, [ArgCid m, ArgAddress ch])] (?d1, w2) (d', w')"
        "paid_up ch params 0 (PaymentInterval params) d'"
      using lane_follows [OF assms(1,2) d3] by blast
    have "settles (client_events fire) (client_entry env) [(ClientEventDealAccepted, [])] (d, w) (d', w')"
      by (rule client_settles [OF assms(1) e1, where t = "Some (ClientEventPaymentChannelAddingFunds, [ArgCid m, ArgAddress ch])" and w' = w2],
          use h g y found in \<open>simp add: run_simps SetupPaymentChannelStart_def split_def\<close>) (use d' in simp)
    then show ?thesis using d'(2) by (rule that)
  qed
qed

section \<open>Paying\<close>

lemma SendFunds_succeeds:
  assumes "cooperative env ch funds" "cds_PaymentInfo d = Some \<lparr>PayCh = ch, Lane = l\<rparr>"
    and "cds_PaymentRequested d \<le> retrievalPrice d" "cds_FundsSpent d + cds_PaymentRequested d \<le> funds"
  shows "\<exists>w'. SendFunds env d w = (Ok (Some (ClientEventPaymentSent, [])), w')"
proof -
  obtain x w1 where h: "rn_GetChainHead (cde_Node env) w = (Ok x, w1)" using cooperativeD(3) [OF assms(1)] by (rule succeedsE)
  obtain v w2 where v: "rn_CreatePaymentVoucher (cde_Node env) ch (cds_FundsSpent d + cds_PaymentRequested d) l (fst x) w1 = (Ok v, w2)"
    using cooperativeD(7) [OF assms(1,4)] by (rule succeedsE)
  obtain u w3 where "cde_SendDataTransferVoucher env (cds_ChannelID d)
      \<lparr>pay_ID = cds_ID d, pay_PaymentChannel = ch, pay_PaymentVoucher = Some v\<rparr> w2 = (Ok u, w3)"
    using cooperativeD(8) [OF assms(1)] by (rule succeedsE)
  with assms(2,3) h v show ?thesis by (simp add: SendFunds_def trigger_def ret_def split_def)
qed

lemma payment_sent_due:
  assumes "0 < cds_PricePerByte d" "cds_PaymentRequested d = cds_PricePerByte d * uint n"
  shows "payment_sent d = Ok (d\<lparr>cds_FundsSpent := cds_FundsSpent d + cds_PricePerByte d * uint n,
    cds_CurrentInterval := (if n \<ge> cds_CurrentInterval d
      then cds_CurrentInterval d + PaymentIntervalIncrease (dp_Params (cds_DealProposal d)) else cds_CurrentInterval d),
    cds_BytesPaidFor := cds_BytesPaidFor d + n, cds_PaymentRequested := 0\<rparr>)"
proof -
  have "euclid_div (cds_PricePerByte d * uint n) (cds_PricePerByte d) = uint n"
    using assms(1) euclid_div_mult [of "cds_PricePerByte d" "uint n"] by (simp add: mult.commute)
  with assms show ?thesis by (simp add: payment_sent_def Let_def)
qed

lemma uint_diff: "(a :: u64) \<le> b \<Longrightarrow> uint (b - a) = uint b - uint a"
  by (simp add: uint_sub_if_size word_le_def)

lemma price_of_received:
  assumes "(a :: u64) \<le> b" "uint b < 2 ^ 63"
  shows "int64 (b - a) = uint b - uint a"
  using assms int64_small [of "b - a"] uint_ge_0 [of a] by (simp add: uint_diff)

text \<open>A round: the bytes that arrive fill the interval, their price is asked for and paid.\<close>

lemma payment_round:
  assumes "client_engine fire" "cooperative env ch funds" "paid_up ch params paid interval d"
    and "0 < PricePerByte params" "paid \<le> t" "interval \<le> t - paid" "uint t < 2 ^ 63" "PricePerByte params * uint t \<le> funds"
  shows "\<exists>d' w'. delivered (client_events fire) (client_entry env)
      [(ClientEventBlocksReceived, [ArgUint64 t]), (ClientEventPaymentRequested, [ArgAmount (PricePerByte params * uint (t - paid))])]
      (d, w) (d', w') \<and> paid_up ch params t (interval + PaymentIntervalIncrease params) d'"
proof -
  let ?p = "PricePerByte params" and ?n = "t - paid"
  obtain l where d: "cds_Status d = DealStatusOngoing" "cds_PaymentInfo d = Some \<lparr>PayCh = ch, Lane = l\<rparr>"
      "dp_Params (cds_DealProposal d) = params" "cds_BytesPaidFor d = paid" "cds_FundsSpent d = ?p * uint paid"
      "cds_CurrentInterval d = interval" "cds_PaymentRequested d = 0" "\<not> cds_AllBlocksReceived d" "\<not> cds_LastPaymentRequested d"
    using assms(3) by (auto simp: paid_up_def)
  let ?d1 = "d\<lparr>cds_TotalReceived := t\<rparr>"
  have 1: "settles (client_events fire) (client_entry env) [(ClientEventBlocksReceived, [ArgUint64 t])] (d, w) (?d1, w)"
    by (rule client_settles [OF assms(1), where t = None and d' = ?d1 and w' = w])
      (simp_all add: client_events_eq [OF assms(1)] d run_simps Ongoing_def recordReceived_def)
  let ?d2 = "?d1\<lparr>cds_PaymentRequested := ?p * uint ?n, cds_Status := DealStatusFundsNeeded\<rparr>"
  let ?d3 = "?d2\<lparr>cds_Status := DealStatusSendFunds\<rparr>"
  have price: "int64 ?n * ?p = ?p * uint ?n" using price_of_received [OF assms(5,7)] uint_diff [OF assms(5)] by (simp add: mult.commute)
  have spent: "?p * uint paid + ?p * uint ?n = ?p * uint t" by (simp add: uint_diff [OF assms(5)] right_diff_distrib)
  obtain w1 where sf: "SendFunds env ?d3 w = (Ok (Some (ClientEventPaymentSent, [])), w1)"
    using SendFunds_succeeds [OF assms(2), of ?d3 l w] d price spent assms(8) by (auto simp: retrievalPrice_def)
  let ?d4 = "?d3\<lparr>cds_FundsSpent := ?p * uint t, cds_CurrentInterval := interval + PaymentIntervalIncrease params,
    cds_BytesPaidFor := t, cds_PaymentRequested := 0, cds_Status := DealStatusOngoing\<rparr>"
  have sent: "payment_sent ?d3 = Ok (?d4\<lparr>cds_Status := DealStatusSendFunds\<rparr>)"
    using payment_sent_due [of ?d3 ?n] d assms(4,6) spent by simp
  have 2: "settles (client_events fire) (client_entry env) [(ClientEventPaymentRequested, [ArgAmount (?p * uint ?n)])] (?d1, w) (?d4, w1)"
    by (rule client_settles [OF assms(1), where t = "Some (ClientEventSendFunds, [])" and d' = ?d2 and w' = w],
        simp add: client_events_eq [OF assms(1)] d run_simps,
        use d assms(6) in \<open>simp add: run_simps ProcessPaymentRequested_def\<close>, simp,
        rule client_settles [OF assms(1), where t = "Some (ClientEventPaymentSent, [])" and d' = ?d3 and w' = w1],
        simp add: client_events_eq [OF assms(1)] run_simps, use sf in \<open>simp add: run_simps\<close>, simp,
        rule client_settles [OF assms(1), where t = None and d' = ?d4 and w' = w1],
        use sent in \<open>simp add: client_events_eq [OF assms(1)] run_simps\<close>,
        simp add: run_simps Ongoing_def, simp)
  have "paid_up ch params t (interval + PaymentIntervalIncrease params) ?d4" using d by (simp add: paid_up_def)
  moreover note delivered.more [OF 1 delivered.more [OF 2 delivered.none]]
  ultimately show ?thesis by blast
qed

section \<open>Finishing\<close>

definition finished :: "Params \<Rightarrow> u64 \<Rightarrow> ClientDealState \<Rightarrow> bool" where
  "finished params whole d \<longleftrightarrow> cds_Status d = DealStatusCompleted \<and> cds_AllBlocksReceived d \<and>
     cds_BytesPaidFor d = whole \<and> cds_FundsSpent d = PricePerByte params * uint whole \<and> cds_PaymentRequested d = 0"

text \<open>The end that the table provides for: the last payment is asked for before the client sees that
  all blocks have come.\<close>

definition honest_end :: "TokenAmount \<Rightarrow> u64 \<Rightarrow> u64 \<Rightarrow> (ClientEvent \<times> client_arg list) list" where
  "honest_end price paid whole =
     [(ClientEventBlocksReceived, [ArgUint64 whole]),
      (ClientEventLastPaymentRequested, [ArgAmount (price * uint (whole - paid))]),
      (ClientEventAllBlocksReceived, []), (ClientEventComplete, [])]"

text \<open>The last event of a deal finds the client waiting for it in Finalizing.\<close>

definition finishes where
  "finishes fire env params whole evs x \<longleftrightarrow> (\<exists>pre d4 w4 y. evs = pre @ [(ClientEventComplete, [])] \<and>
     delivered (client_events fire) (client_entry env) pre x (d4, w4) \<and> cds_Status d4 = DealStatusFinalizing \<and>
     settles (client_events fire) (client_entry env) [(ClientEventComplete, [])] (d4, w4) y \<and>
     finished params whole (fst y))"

lemma finishes_append:
  assumes "delivered (client_events fire) (client_entry env) evs0 x y" "finishes fire env params whole evs y"
  shows "finishes fire env params whole (evs0 @ evs) x"
  using assms delivered_append unfolding finishes_def by (metis append.assoc)

lemma finishes_delivered:
  assumes "finishes fire env params whole evs x"
  obtains d' w' where "delivered (client_events fire) (client_entry env) evs x (d', w')" "finished params whole d'"
  using assms delivered_append delivered.more [OF _ delivered.none] unfolding finishes_def
  by (metis prod.collapse)

lemma last_payment:
  assumes "client_engine fire" "cooperative env ch funds" "paid_up ch params paid interval d"
    and "0 < PricePerByte params" "paid \<le> t" "t - paid < interval" "uint t < 2 ^ 63" "PricePerByte params * uint t \<le> funds"
  shows "finishes fire env params t (honest_end (PricePerByte params) paid t) (d, w)"
proof -
  let ?p = "PricePerByte params" and ?n = "t - paid"
  obtain l where d: "cds_Status d = DealStatusOngoing" "cds_PaymentInfo d = Some \<lparr>PayCh = ch, Lane = l\<rparr>"
      "dp_Params (cds_DealProposal d) = params" "cds_BytesPaidFor d = paid" "cds_FundsSpent d = ?p * uint paid"
      "cds_CurrentInterval d = interval" "cds_PaymentRequested d = 0" "\<not> cds_AllBlocksReceived d" "\<not> cds_LastPaymentRequested d"
    using assms(3) by (auto simp: paid_up_def)
  let ?d1 = "d\<lparr>cds_TotalReceived := t\<rparr>"
  have 1: "settles (client_events fire) (client_entry env) [(ClientEventBlocksReceived, [ArgUint64 t])] (d, w) (?d1, w)"
    by (rule client_settles [OF assms(1), where t = None and d' = ?d1 and w' = w])
      (simp_all add: client_events_eq [OF assms(1)] d run_simps Ongoing_def recordReceived_def)
  let ?d2 = "?d1\<lparr>cds_PaymentRequested := ?p * uint ?n, cds_LastPaymentRequested := True,
    cds_Status := DealStatusFundsNeededLastPayment\<rparr>"
  have 2: "settles (client_events fire) (client_entry env) [(ClientEventLastPaymentRequested, [ArgAmount (?p * uint ?n)])] (?d1, w) (?d2, w)"
    by (rule client_settles [OF assms(1), where t = None and d' = ?d2 and w' = w],
        simp add: client_events_eq [OF assms(1)] d run_simps,
        use d assms(6) in \<open>simp add: run_simps ProcessPaymentRequested_def\<close>, simp)
  let ?d3 = "?d2\<lparr>cds_AllBlocksReceived := True, cds_Status := DealStatusSendFundsLastPayment\<rparr>"
  have price: "int64 ?n * ?p = ?p * uint ?n" using price_of_received [OF assms(5,7)] uint_diff [OF assms(5)] by (simp add: mult.commute)
  have spent: "?p * uint paid + ?p * uint ?n = ?p * uint t" by (simp add: uint_diff [OF assms(5)] right_diff_distrib)
  obtain w1 where sf: "SendFunds env ?d3 w = (Ok (Some (ClientEventPaymentSent, [])), w1)"
    using SendFunds_succeeds [OF assms(2), of ?d3 l w] d price spent assms(8) by (auto simp: retrievalPrice_def)
  let ?d4 = "?d3\<lparr>cds_FundsSpent := ?p * uint t, cds_BytesPaidFor := t, cds_PaymentRequested := 0,
    cds_Status := DealStatusFinalizing\<rparr>"
  have sent: "payment_sent ?d3 = Ok (?d4\<lparr>cds_Status := DealStatusSendFundsLastPayment\<rparr>)"
    using payment_sent_due [of ?d3 ?n] d assms(4,6) spent by simp
  have 3: "settles (client_events fire) (client_entry env) [(ClientEventAllBlocksReceived, [])] (?d2, w) (?d4, w1)"
    by (rule client_settles [OF assms(1), where t = "Some (ClientEventPaymentSent, [])" and d' = ?d3 and w' = w1],
        simp add: client_events_eq [OF assms(1)] run_simps, use sf in \<open>simp add: run_simps\<close>, simp,
        rule client_settles [OF assms(1), where t = None and d' = ?d4 and w' = w1],
        use sent in \<open>simp add: client_events_eq [OF assms(1)] run_simps\<close>, simp add: run_simps, simp)
  let ?d5 = "?d4\<lparr>cds_Status := DealStatusCompleted\<rparr>"
  have 4: "settles (client_events fire) (client_entry env) [(ClientEventComplete, [])] (?d4, w1) (?d5, w1)"
    by (rule client_settles [OF assms(1), where t = None and d' = ?d5 and w' = w1])
      (simp_all add: client_events_eq [OF assms(1)] run_simps)
  have "finished params t ?d5" by (simp add: finished_def)
  moreover note delivered.more [OF 1 delivered.more [OF 2 delivered.more [OF 3 delivered.none]]]
  moreover have "cds_Status ?d4 = DealStatusFinalizing" by simp
  moreover have "honest_end ?p paid t = [(ClientEventBlocksReceived, [ArgUint64 t]),
      (ClientEventLastPaymentRequested, [ArgAmount (?p * uint ?n)]), (ClientEventAllBlocksReceived, [])] @ [(ClientEventComplete, [])]"
    by (simp add: honest_end_def)
  ultimately show ?thesis unfolding finishes_def using 4 by (metis fst_conv)
qed

section \<open>An honest deal completes\<close>

text \<open>The events of a deal in which the bytes received have come to each of \<open>ts\<close> when a payment is
  asked for, and to \<open>whole\<close> at the end: every request is for the price of the bytes not yet paid.\<close>

fun honest_rounds :: "TokenAmount \<Rightarrow> u64 \<Rightarrow> u64 list \<Rightarrow> u64 \<Rightarrow> (ClientEvent \<times> client_arg list) list" where
  "honest_rounds price paid [] whole = honest_end price paid whole"
| "honest_rounds price paid (t # ts) whole =
     [(ClientEventBlocksReceived, [ArgUint64 t]), (ClientEventPaymentRequested, [ArgAmount (price * uint (t - paid))])] @
     honest_rounds price t ts whole"

definition honest_deal :: "TokenAmount \<Rightarrow> u64 list \<Rightarrow> u64 \<Rightarrow> (ClientEvent \<times> client_arg list) list" where
  "honest_deal price ts whole = [(ClientEventOpen, []), (ClientEventDealAccepted, [])] @ honest_rounds price 0 ts whole"

text \<open>Each payment is asked for when the bytes not paid fill the interval of the time, and the rest
  does not fill it.\<close>

fun intervals_due :: "u64 \<Rightarrow> u64 \<Rightarrow> u64 \<Rightarrow> u64 list \<Rightarrow> u64 \<Rightarrow> bool" where
  "intervals_due paid interval increase [] whole \<longleftrightarrow> paid \<le> whole \<and> whole - paid < interval"
| "intervals_due paid interval increase (t # ts) whole \<longleftrightarrow>
     paid \<le> t \<and> interval \<le> t - paid \<and> intervals_due t (interval + increase) increase ts whole"

lemma intervals_due_le: "intervals_due paid interval increase ts whole \<Longrightarrow> paid \<le> whole"
  by (induction ts arbitrary: paid interval) (auto intro: order_trans)

lemma rounds_finish:
  assumes "client_engine fire" "cooperative env ch funds" "paid_up ch params paid interval d" "0 < PricePerByte params"
    and "intervals_due paid interval (PaymentIntervalIncrease params) ts whole" "uint whole < 2 ^ 63"
    and "PricePerByte params * uint whole \<le> funds"
  shows "finishes fire env params whole (honest_rounds (PricePerByte params) paid ts whole) (d, w)"
  using assms(3,5)
proof (induction ts arbitrary: paid interval d w)
  case Nil
  then show ?case using last_payment [OF assms(1,2) Nil(1) assms(4)] assms(6,7) by simp
next
  case (Cons t ts)
  have t: "paid \<le> t" "interval \<le> t - paid" "intervals_due t (interval + PaymentIntervalIncrease params) (PaymentIntervalIncrease params) ts whole"
    using Cons.prems(2) by simp_all
  have "uint t \<le> uint whole" using intervals_due_le [OF t(3)] by (simp add: word_le_def)
  then have b: "uint t < 2 ^ 63" "PricePerByte params * uint t \<le> funds"
    using assms(4,6,7) by (auto intro: order_trans [OF mult_left_mono])
  obtain d1 w1 where 1: "delivered (client_events fire) (client_entry env)
      [(ClientEventBlocksReceived, [ArgUint64 t]), (ClientEventPaymentRequested, [ArgAmount (PricePerByte params * uint (t - paid))])]
      (d, w) (d1, w1)" "paid_up ch params t (interval + PaymentIntervalIncrease params) d1"
    using payment_round [OF assms(1,2) Cons.prems(1) assms(4) t(1,2) b] by blast
  show ?case using finishes_append [OF 1(1) Cons.IH [OF 1(2) t(3)]] by simp
qed

lemma honest_deal_finishes:
  assumes "client_engine fire" "cooperative env ch funds" "client_started d"
    and "params = dp_Params (cds_DealProposal d)" "0 < PricePerByte params"
    and "intervals_due 0 (PaymentInterval params) (PaymentIntervalIncrease params) ts whole" "uint whole < 2 ^ 63"
    and "PricePerByte params * uint whole \<le> funds"
  shows "finishes fire env params whole (honest_deal (PricePerByte params) ts whole) (d, w)"
proof -
  have new: "cds_Status d = DealStatusNew" using assms(3) by (auto simp: client_started_def newClientDeal_def)
  obtain chid w1 where 1: "settles (client_events fire) (client_entry env) [(ClientEventOpen, [])] (d, w)
      (d\<lparr>cds_ChannelID := chid, cds_Message := '''', cds_Status := DealStatusWaitForAcceptance\<rparr>, w1)"
    by (rule opened_is_proposed [OF assms(1,2) new])
  have "proposed params (d\<lparr>cds_ChannelID := chid, cds_Message := '''', cds_Status := DealStatusWaitForAcceptance\<rparr>)"
    using assms(3,4) by (auto simp: proposed_def client_started_def newClientDeal_def)
  from accepted_is_under_way [OF assms(1,2) this] obtain d2 w2 where 2:
      "settles (client_events fire) (client_entry env) [(ClientEventDealAccepted, [])]
        (d\<lparr>cds_ChannelID := chid, cds_Message := '''', cds_Status := DealStatusWaitForAcceptance\<rparr>, w1) (d2, w2)"
      "paid_up ch params 0 (PaymentInterval params) d2" by metis
  from finishes_append [OF delivered.more [OF 1 delivered.more [OF 2(1) delivered.none]]
      rounds_finish [OF assms(1,2) 2(2) assms(5-8)]]
  show ?thesis by (simp add: honest_deal_def)
qed


definition ex_coop :: "unit ClientDealEnvironment" where
  "ex_coop = ex_env\<lparr>cde_Node := (cde_Node ex_env)\<lparr>rn_CreatePaymentVoucher := (\<lambda>ch amt lane tok.
     if amt \<le> 5000 then ret \<lparr>sv_ChannelAddr = ch, sv_Lane = lane, sv_Nonce = 1, sv_Amount = amt, sv_Merges = [],
       sv_Signature = None, sv_Other = ''''\<rparr> else fail (ShortfallError (amt - 5000)))\<rparr>\<rparr>"

lemma ex_coop_cooperative: "cooperative ex_coop ''f2paych'' 5000"
  by (simp add: cooperative_def succeeds_def ex_coop_def ex_env_def ret_def AddressUndef_def)


end
