(* ===== verification/Datastore.thy ===== *)
theory Datastore
  imports DealTypes
begin

text \<open>
  The key-value store under the program (\<open>go-datastore\<close>, a library) as a record of the
  operations the program calls, the contract it relies on as a locale, and an in-memory
  store that meets the contract.
\<close>

section \<open>Operations\<close>

text \<open>\<open>datastore.KeyWithNamespaces\<close> joins the parts of a key with slashes.\<close>

datatype ds_key = KeyWithNamespaces "string list"

type_synonym bytes = "u8 list"

record 'w Datastore =
  ds_Get :: "ds_key \<Rightarrow> ('w, bytes) io"
  ds_Put :: "ds_key \<Rightarrow> bytes \<Rightarrow> ('w, unit) io"
  ds_Delete :: "ds_key \<Rightarrow> ('w, unit) io"
  ds_Has :: "ds_key \<Rightarrow> ('w, bool) io"
  ds_Query :: "string \<Rightarrow> ('w, bytes go list) io" \<comment> \<open>the values under a prefix, or errors\<close>

fun has_prefix :: "string \<Rightarrow> ds_key \<Rightarrow> bool" where
  "has_prefix p (KeyWithNamespaces (x # _)) \<longleftrightarrow> x = p"
| "has_prefix p (KeyWithNamespaces []) \<longleftrightarrow> False"

section \<open>The contract\<close>

text \<open>
  \<open>contents\<close> is what the store holds and \<open>rest\<close> everything else in the world, which the
  store's operations leave alone. A query returns each entry under the prefix once, in an
  order of its own.
\<close>

locale datastore =
  fixes ds :: "'w Datastore"
    and contents :: "'w \<Rightarrow> ds_key \<Rightarrow> bytes option"
    and rest :: "'w \<Rightarrow> 'r"
  assumes Get: "ds_Get ds k w = (case contents w k of None \<Rightarrow> Err ErrNotFound | Some b \<Rightarrow> Ok b, w)"
    and Put: "\<exists>w'. ds_Put ds k b w = (Ok (), w') \<and> contents w' = (contents w)(k \<mapsto> b) \<and> rest w' = rest w"
    and Delete: "\<exists>w'. ds_Delete ds k w = (Ok (), w') \<and> contents w' = (contents w)(k := None) \<and>
      rest w' = rest w"
    and Has: "ds_Has ds k w = (Ok (contents w k \<noteq> None), w)"
    and Query: "\<exists>ks. distinct ks \<and> set ks = {k. has_prefix p k \<and> contents w k \<noteq> None} \<and>
      ds_Query ds p w = (Ok (map (\<lambda>k. Ok (the (contents w k))) ks), w)"
begin

lemma Get_simps:
  "contents w k = None \<Longrightarrow> ds_Get ds k w = (Err ErrNotFound, w)"
  "contents w k = Some b \<Longrightarrow> ds_Get ds k w = (Ok b, w)"
  by (simp_all add: Get)

lemma PutE:
  obtains w' where "ds_Put ds k b w = (Ok (), w')" "contents w' = (contents w)(k \<mapsto> b)" "rest w' = rest w"
  using Put by blast

lemma DeleteE:
  obtains w' where "ds_Delete ds k w = (Ok (), w')" "contents w' = (contents w)(k := None)"
    "rest w' = rest w"
  using Delete by blast

lemma get_after_put: "ds_Put ds k b w = (Ok (), w') \<Longrightarrow> ds_Get ds k w' = (Ok b, w')"
  using Put [of k b w] by (auto simp: Get)

end

section \<open>An in-memory store\<close>

text \<open>A world that is an association list of entries next to something else.\<close>

type_synonym 'r mem = "(ds_key \<times> bytes) list \<times> 'r"

definition mem_ds :: "'r mem Datastore" where
  "mem_ds =
     \<lparr>ds_Get = (\<lambda>k (es, r). (case map_of es k of None \<Rightarrow> Err ErrNotFound | Some b \<Rightarrow> Ok b, (es, r))),
      ds_Put = (\<lambda>k b (es, r). (Ok (), ((k, b) # es, r))),
      ds_Delete = (\<lambda>k (es, r). (Ok (), (filter (\<lambda>(k', _). k' \<noteq> k) es, r))),
      ds_Has = (\<lambda>k (es, r). (Ok (map_of es k \<noteq> None), (es, r))),
      ds_Query = (\<lambda>p (es, r).
        (Ok (map (\<lambda>k. Ok (the (map_of es k))) (filter (has_prefix p) (remdups (map fst es)))), (es, r)))\<rparr>"

lemma map_of_filter_key: "map_of (filter (\<lambda>(k', _). k' \<noteq> k) es) = (map_of es)(k := None)"
  by (induction es) (auto simp: fun_eq_iff)

interpretation mem: datastore mem_ds "\<lambda>(es, _). map_of es" snd
proof
  show "\<exists>ks. distinct ks \<and>
      set ks = {k. has_prefix p k \<and> (case w of (es, _) \<Rightarrow> map_of es) k \<noteq> None} \<and>
      ds_Query mem_ds p w = (Ok (map (\<lambda>k. Ok (the ((case w of (es, _) \<Rightarrow> map_of es) k))) ks), w)"
    for p and w :: "'r mem"
    by (cases w; intro exI [of _ "filter (has_prefix p) (remdups (map fst (fst w)))"])
       (auto simp: mem_ds_def map_of_eq_None_iff)
qed (auto simp: mem_ds_def map_of_filter_key split: prod.splits option.splits)

end
