(* ===== verification/Cbor.thy ===== *)
theory Cbor
  imports Datastore
begin

text \<open>
  The vocabulary of the generated encoders and decoders (\<open>types_cbor_gen.go\<close>,
  \<open>paychmgr_cbor_gen.go\<close>, \<open>discovery_types_cbor_gen.go\<close>): what they call of the library
  \<open>cbor-gen\<close> and of the encodings of addresses, big integers, CIDs, channel identifiers and
  vouchers, as a record of parameters; the statements that the generator emits for each kind
  of field, as combinators; and the contract on the library that round trips rest on.
\<close>

section \<open>The library\<close>

type_synonym 'a reader = "bytes \<Rightarrow> ('a \<times> bytes) go"
type_synonym 'a writer = "'a \<Rightarrow> bytes go"

record cbg =
  cg_MaxLength :: nat
  cg_ByteArrayMaxLen :: nat
  cg_header :: "u8 \<Rightarrow> u64 \<Rightarrow> bytes" \<comment> \<open>\<open>WriteMajorTypeHeaderBuf\<close>\<close>
  cg_readHeader :: "(u8 \<times> u64) reader" \<comment> \<open>\<open>CborReadHeaderBuf\<close>\<close>
  cg_ReadString :: "string reader"
  cg_bool :: "bool \<Rightarrow> bytes" \<comment> \<open>\<open>WriteBool\<close>\<close>
  cg_WriteCid :: "Cid writer"
  cg_ReadCid :: "Cid reader"
  cg_WriteAddress :: "Address writer"
  cg_WriteNilAddress :: "bytes go" \<comment> \<open>\<open>(*Address)(nil).MarshalCBOR\<close>\<close>
  cg_ReadAddress :: "Address reader"
  cg_WriteBig :: "int writer"
  cg_ReadBig :: "int reader"
  cg_WriteChannelID :: "ChannelID writer"
  cg_ReadChannelID :: "ChannelID reader"
  cg_WriteVoucher :: "SignedVoucher writer"
  cg_ReadVoucher :: "SignedVoucher reader"

abbreviation MajUnsignedInt :: u8 where "MajUnsignedInt \<equiv> 0"
abbreviation MajByteString :: u8 where "MajByteString \<equiv> 2"
abbreviation MajTextString :: u8 where "MajTextString \<equiv> 3"
abbreviation MajArray :: u8 where "MajArray \<equiv> 4"
abbreviation MajMap :: u8 where "MajMap \<equiv> 5"
abbreviation MajOther :: u8 where "MajOther \<equiv> 7"

abbreviation CborNull :: u8 where "CborNull \<equiv> 0xf6"

text \<open>A Go string is its bytes.\<close>

definition bytes_of :: "string \<Rightarrow> bytes" where
  "bytes_of s = map (\<lambda>c. word_of_nat (of_char c)) s"

section \<open>Writing\<close>

fun seq_w :: "bytes go list \<Rightarrow> bytes go" where
  "seq_w [] = Ok []"
| "seq_w (m # ms) = bind_go m (\<lambda>b. bind_go (seq_w ms) (\<lambda>c. Ok (b @ c)))"

definition w_name :: "cbg \<Rightarrow> string \<Rightarrow> bytes go" where
  "w_name cb name =
     (if length name > cg_MaxLength cb
      then Err (GErr (''Value in field \"'' @ name @ ''\" was too long''))
      else Ok (cg_header cb MajTextString (of_nat (length name)) @ bytes_of name))"

definition w_string :: "cbg \<Rightarrow> string \<Rightarrow> string writer" where
  "w_string cb field s =
     (if length s > cg_MaxLength cb
      then Err (GErr (''Value in field t.'' @ field @ '' was too long''))
      else Ok (cg_header cb MajTextString (of_nat (length s)) @ bytes_of s))"

definition w_uint :: "cbg \<Rightarrow> u64 writer" where
  "w_uint cb v = Ok (cg_header cb MajUnsignedInt v)"

definition w_bool :: "cbg \<Rightarrow> bool writer" where
  "w_bool cb b = Ok (cg_bool cb b)"

definition w_cid :: "cbg \<Rightarrow> string \<Rightarrow> Cid writer" where
  "w_cid cb field c =
     (case cg_WriteCid cb c of
        Ok b \<Rightarrow> Ok b
      | Err e \<Rightarrow> Err (Errorf (''failed to write cid field t.'' @ field) e)
      | Panic \<Rightarrow> Panic)"

definition w_bytes :: "cbg \<Rightarrow> string \<Rightarrow> bytes writer" where
  "w_bytes cb field bs =
     (if length bs > cg_ByteArrayMaxLen cb
      then Err (GErr (''Byte array in field t.'' @ field @ '' was too long''))
      else Ok (cg_header cb MajByteString (of_nat (length bs)) @ bs))"

definition w_array :: "cbg \<Rightarrow> string \<Rightarrow> 'a writer \<Rightarrow> 'a list writer" where
  "w_array cb field w xs =
     (if length xs > cg_MaxLength cb
      then Err (GErr (''Slice value in field t.'' @ field @ '' was too long''))
      else seq_w (Ok (cg_header cb MajArray (of_nat (length xs))) # map w xs))"

text \<open>A nil pointer is written as null; for the structs, by the method's own test of \<open>t\<close>.\<close>

fun w_ptr :: "'a writer \<Rightarrow> 'a option writer" where
  "w_ptr w None = Ok [CborNull]"
| "w_ptr w (Some x) = w x"

section \<open>Reading\<close>

definition r_bind :: "'a reader \<Rightarrow> ('a \<Rightarrow> 'b reader) \<Rightarrow> 'b reader" where
  "r_bind m f = (\<lambda>bs. bind_go (m bs) (\<lambda>(x, bs'). f x bs'))"

definition r_ret :: "'a \<Rightarrow> 'a reader" where
  "r_ret x = (\<lambda>bs. Ok (x, bs))"

definition r_fail :: "string \<Rightarrow> 'a reader" where
  "r_fail m = (\<lambda>bs. Err (GErr m))"

definition r_wrap :: "string \<Rightarrow> 'a reader \<Rightarrow> 'a reader" where
  "r_wrap msg m = (\<lambda>bs. case m bs of Ok y \<Rightarrow> Ok y | Err e \<Rightarrow> Err (Errorf msg e) | Panic \<Rightarrow> Panic)"

definition r_uint :: "cbg \<Rightarrow> u64 reader" where
  "r_uint cb = r_bind (cg_readHeader cb) (\<lambda>(maj, extra).
     if maj \<noteq> MajUnsignedInt then r_fail ''wrong type for uint64 field'' else r_ret extra)"

definition r_bool :: "cbg \<Rightarrow> bool reader" where
  "r_bool cb = r_bind (cg_readHeader cb) (\<lambda>(maj, extra).
     if maj \<noteq> MajOther then r_fail ''booleans must be major type 7''
     else if extra = 20 then r_ret False
     else if extra = 21 then r_ret True
     else r_fail (''booleans are either major type 7, value 20 or 21 (got '' @
            show_nat (unat extra) @ '')''))"

text \<open>A byte is peeked at; null leaves the field as it is.\<close>

fun r_ptr :: "'a reader \<Rightarrow> 'a option \<Rightarrow> 'a option reader" where
  "r_ptr rd old [] = Err (GErr ''EOF'')"
| "r_ptr rd old (b # bs) =
     (if b = CborNull then Ok (old, bs) else r_bind rd (\<lambda>x. r_ret (Some x)) (b # bs))"

fun r_full :: "nat \<Rightarrow> bytes reader" where
  "r_full n bs = (if length bs < n then Err (GErr ''unexpected EOF'') else Ok (take n bs, drop n bs))"

text \<open>A length of zero makes no new slice: the old one is filled, or kept.\<close>

definition r_bytes :: "cbg \<Rightarrow> string \<Rightarrow> bytes \<Rightarrow> bytes reader" where
  "r_bytes cb field old = r_bind (cg_readHeader cb) (\<lambda>(maj, extra).
     if unat extra > cg_ByteArrayMaxLen cb
     then r_fail (''t.'' @ field @ '': byte array too large ('' @ show_nat (unat extra) @ '')'')
     else if maj \<noteq> MajByteString then r_fail ''expected byte array''
     else r_full (if extra > 0 then unat extra else length old))"

fun r_times :: "nat \<Rightarrow> 'a reader \<Rightarrow> 'a list reader" where
  "r_times 0 rd = r_ret []"
| "r_times (Suc n) rd = r_bind rd (\<lambda>x. r_bind (r_times n rd) (\<lambda>xs. r_ret (x # xs)))"

definition r_array :: "cbg \<Rightarrow> string \<Rightarrow> 'a reader \<Rightarrow> 'a list \<Rightarrow> 'a list reader" where
  "r_array cb field rd old = r_bind (cg_readHeader cb) (\<lambda>(maj, extra).
     if unat extra > cg_MaxLength cb
     then r_fail (''t.'' @ field @ '': array too large ('' @ show_nat (unat extra) @ '')'')
     else if maj \<noteq> MajArray then r_fail ''expected cbor array''
     else if extra > 0 then r_times (unat extra) rd else r_ret old)"

text \<open>The loop over the fields of a struct. A handler knows its fields by name.\<close>

type_synonym 't handler = "string \<Rightarrow> 't \<Rightarrow> 't reader option"

fun read_fields :: "cbg \<Rightarrow> 't handler \<Rightarrow> nat \<Rightarrow> nat \<Rightarrow> 't \<Rightarrow> 't reader" where
  "read_fields cb h 0 i t = r_ret t"
| "read_fields cb h (Suc n) i t =
     r_bind (cg_ReadString cb) (\<lambda>name.
       case h name t of
         None \<Rightarrow> r_fail (''unknown struct field '' @ show_nat i @ '': '' @ [CHR 0x27] @ name @ [CHR 0x27])
       | Some rd \<Rightarrow> r_bind rd (\<lambda>t'. read_fields cb h n (Suc i) t'))"

definition unmarshal_struct :: "cbg \<Rightarrow> string \<Rightarrow> 't handler \<Rightarrow> 't \<Rightarrow> 't reader" where
  "unmarshal_struct cb tname h zero =
     r_bind (cg_readHeader cb) (\<lambda>(maj, extra).
       if maj \<noteq> MajMap then r_fail ''cbor input should be of type map''
       else if unat extra > cg_MaxLength cb
       then r_fail (tname @ '': map struct too large ('' @ show_nat (unat extra) @ '')'')
       else read_fields cb h (unat extra) 0 zero)"

text \<open>Handlers split over several definitions are tried in order.\<close>

definition or_else :: "'t handler \<Rightarrow> 't handler \<Rightarrow> 't handler" where
  "or_else h k = (\<lambda>name t. case h name t of None \<Rightarrow> k name t | Some rd \<Rightarrow> Some rd)"

text \<open>Setting a field to what a reader yields.\<close>

definition sets :: "'a reader \<Rightarrow> ('a \<Rightarrow> 't) \<Rightarrow> 't reader option" where
  "sets rd upd = Some (r_bind rd (\<lambda>x. r_ret (upd x)))"

section \<open>Round trips\<close>

lemma unat_of_nat_small: "n < 2 ^ 64 \<Longrightarrow> unat (of_nat n :: u64) = n"
  by (simp add: unat_of_nat take_bit_nat_eq_self)

text \<open>\<open>codec_ok w r x\<close>: \<open>x\<close> is written as bytes that do not start with null, and read back from
  them whatever follows.\<close>

definition codec_ok :: "'a writer \<Rightarrow> 'a reader \<Rightarrow> 'a \<Rightarrow> bool" where
  "codec_ok w r x \<longleftrightarrow> (\<exists>b. w x = Ok b \<and> b \<noteq> [] \<and> hd b \<noteq> CborNull \<and> (\<forall>bs. r (b @ bs) = Ok (x, bs)))"

lemma codec_okI:
  "w x = Ok b \<Longrightarrow> b \<noteq> [] \<Longrightarrow> hd b \<noteq> CborNull \<Longrightarrow> (\<And>bs. r (b @ bs) = Ok (x, bs)) \<Longrightarrow> codec_ok w r x"
  unfolding codec_ok_def by blast

lemma codec_okE:
  assumes "codec_ok w r x"
  obtains b where "w x = Ok b" "b \<noteq> []" "hd b \<noteq> CborNull" "\<And>bs. r (b @ bs) = Ok (x, bs)"
  using assms unfolding codec_ok_def by blast

text \<open>\<open>field_ok\<close> is the same for a field: what is read back is set in any record.\<close>

definition field_ok :: "bytes go \<Rightarrow> 'a reader \<Rightarrow> 'a \<Rightarrow> bool" where
  "field_ok m r x \<longleftrightarrow> (\<exists>b. m = Ok b \<and> (\<forall>bs. r (b @ bs) = Ok (x, bs)))"

lemma codec_field: "codec_ok w r x \<Longrightarrow> field_ok (w x) r x"
  unfolding codec_ok_def field_ok_def by blast

lemma field_okE:
  assumes "field_ok m r x"
  obtains b where "m = Ok b" "\<forall>bs. r (b @ bs) = Ok (x, bs)"
  using assms unfolding field_ok_def by blast

lemma field_wrap: "field_ok m r x \<Longrightarrow> field_ok m (r_wrap msg r) x"
  by (auto simp: field_ok_def r_wrap_def)

lemma field_ptr:
  "(\<And>y. x = Some y \<Longrightarrow> codec_ok w r y) \<Longrightarrow> field_ok (w_ptr w x) (r_ptr r None) x"
proof (cases x)
  case None
  then show ?thesis by (simp add: field_ok_def)
next
  case (Some y)
  assume "\<And>y. x = Some y \<Longrightarrow> codec_ok w r y"
  then obtain b where b: "w y = Ok b" "b \<noteq> []" "hd b \<noteq> CborNull" "\<And>bs. r (b @ bs) = Ok (y, bs)"
    using Some by (auto elim: codec_okE)
  then obtain c cs where "b = c # cs" by (cases b) auto
  with b Some show ?thesis by (auto simp: field_ok_def r_bind_def r_ret_def)
qed

lemma r_bind_run [simp]:
  "m bs = Ok (x, bs') \<Longrightarrow> r_bind m f bs = f x bs'"
  "m bs = Err e \<Longrightarrow> r_bind m f bs = Err e"
  by (simp_all add: r_bind_def)

lemma r_ret_run [simp]: "r_ret x bs = Ok (x, bs)"
  by (simp add: r_ret_def)

lemma read_fields_numeral [simp]:
  "read_fields cb h (numeral k) i t =
     r_bind (cg_ReadString cb) (\<lambda>name.
       case h name t of
         None \<Rightarrow> r_fail (''unknown struct field '' @ show_nat i @ '': '' @ [CHR 0x27] @ name @ [CHR 0x27])
       | Some rd \<Rightarrow> r_bind rd (\<lambda>t'. read_fields cb h (pred_numeral k) (Suc i) t'))"
  by (simp only: numeral_eq_Suc read_fields.simps)

section \<open>The contract on the library\<close>

text \<open>
  What \<open>cbor-gen\<close> documents: the limits, that a short header is one byte, that headers,
  booleans and strings are read back as written.
\<close>

locale cbg_lib =
  fixes cb :: cbg
  assumes MaxLength: "cg_MaxLength cb = 8192"
    and ByteArrayMaxLen: "cg_ByteArrayMaxLen cb = 2097152"
    and small_header: "m < 8 \<Longrightarrow> n < 24 \<Longrightarrow> cg_header cb m n = [m * 32 + ucast n]"
    and readHeader: "m < 8 \<Longrightarrow> cg_readHeader cb (cg_header cb m n @ bs) = Ok ((m, n), bs)"
    and header_cons: "\<exists>c cs. cg_header cb m n = c # cs \<and> (m < 7 \<longrightarrow> c < 0xe0)"
    and bool_header: "cg_readHeader cb (cg_bool cb b @ bs) = Ok ((MajOther, if b then 21 else 20), bs)"
    and ReadString: "length s \<le> 8192 \<Longrightarrow>
      cg_ReadString cb (cg_header cb MajTextString (of_nat (length s)) @ bytes_of s @ bs) = Ok (s, bs)"
begin

lemma field_uint: "field_ok (w_uint cb v) (r_uint cb) v"
  by (auto simp: field_ok_def w_uint_def r_uint_def readHeader)

lemma codec_uint: "codec_ok (w_uint cb) (r_uint cb) v"
proof -
  obtain c cs where c: "cg_header cb MajUnsignedInt v = c # cs" "c < 0xe0"
    using header_cons [of MajUnsignedInt v] by auto
  then have "c \<noteq> CborNull" by auto
  with c show ?thesis
    using readHeader [of MajUnsignedInt v]
    by (intro codec_okI [of _ _ "c # cs"]) (auto simp: w_uint_def r_uint_def)
qed

lemma field_bool: "field_ok (w_bool cb b) (r_bool cb) b"
  by (auto simp: field_ok_def w_bool_def r_bool_def bool_header)

lemma field_string: "length s \<le> 8192 \<Longrightarrow> field_ok (w_string cb f s) (cg_ReadString cb) s"
  by (auto simp: field_ok_def w_string_def MaxLength ReadString)

lemma field_cid:
  "codec_ok (cg_WriteCid cb) (cg_ReadCid cb) c \<Longrightarrow> field_ok (w_cid cb f c) (cg_ReadCid cb) c"
  by (auto simp: field_ok_def w_cid_def codec_ok_def)

lemma codec_cid:
  "codec_ok (cg_WriteCid cb) (cg_ReadCid cb) c \<Longrightarrow> codec_ok (w_cid cb f) (r_wrap g (cg_ReadCid cb)) c"
  by (auto simp: codec_ok_def w_cid_def r_wrap_def)

lemma w_name: "length n \<le> 8192 \<Longrightarrow>
    w_name cb n = Ok (cg_header cb MajTextString (of_nat (length n)) @ bytes_of n)"
  by (simp add: w_name_def MaxLength)

lemma field_bytes:
  assumes "length bs \<le> 2097152"
  shows "field_ok (w_bytes cb f bs) (r_bytes cb f []) bs"
proof -
  have "unat (of_nat (length bs) :: u64) = length bs"
    using assms by (intro unat_of_nat_small) simp
  moreover have "(0 :: u64) < of_nat (length bs) \<longleftrightarrow> bs \<noteq> []"
    using calculation by (auto simp: word_gt_0)
  ultimately show ?thesis
    using assms by (auto simp: field_ok_def w_bytes_def r_bytes_def ByteArrayMaxLen readHeader)
qed

lemma seq_w_codec:
  "(\<And>x. x \<in> set xs \<Longrightarrow> codec_ok w r x) \<Longrightarrow>
     \<exists>b. seq_w (map w xs) = Ok b \<and> (\<forall>bs. r_times (length xs) r (b @ bs) = Ok (xs, bs))"
proof (induction xs)
  case Nil
  then show ?case by simp
next
  case (Cons x xs)
  then obtain b c where "w x = Ok b" "\<And>bs. r (b @ bs) = Ok (x, bs)"
    "seq_w (map w xs) = Ok c" "\<And>bs. r_times (length xs) r (c @ bs) = Ok (xs, bs)"
    by (fastforce elim: codec_okE)
  then show ?case by auto
qed

lemma field_array:
  assumes "length xs \<le> 8192" "\<And>x. x \<in> set xs \<Longrightarrow> codec_ok w r x"
  shows "field_ok (w_array cb f w xs) (r_array cb f r []) xs"
proof -
  obtain b where b: "seq_w (map w xs) = Ok b" "\<And>bs. r_times (length xs) r (b @ bs) = Ok (xs, bs)"
    using seq_w_codec assms(2) by blast
  have n: "unat (of_nat (length xs) :: u64) = length xs"
    using assms(1) by (intro unat_of_nat_small) simp
  then have "(0 :: u64) < of_nat (length xs) \<longleftrightarrow> xs \<noteq> []" by (auto simp: word_gt_0)
  with n b assms(1) show ?thesis
    by (auto simp: field_ok_def w_array_def r_array_def MaxLength readHeader)
qed

text \<open>The bytes of a struct of \<open>n\<close> fields.\<close>

lemma struct_header: "n < 24 \<Longrightarrow> cg_readHeader cb ((0xa0 + ucast n) # bs) = Ok ((MajMap, n), bs)"
  using readHeader [of MajMap n bs] small_header [of MajMap n] by simp

end

end
