(* ===== verification/CborTypes.thy ===== *)
theory CborTypes
  imports Cbor
begin

text \<open>
  The generated encoders and decoders of the market's types, \<open>types_cbor_gen.go\<close> and
  \<open>discovery_types_cbor_gen.go\<close>, one group of definitions per type in the order in which they
  use each other, each with its round trip: what fits the limits is read back as written,
  whatever follows it. The two deal states are long, and their fields are split into groups.
\<close>

section \<open>Enumerations on the wire\<close>

fun QueryResponseStatusCode :: "QueryResponseStatus \<Rightarrow> u64" where
  "QueryResponseStatusCode QueryResponseAvailable = 0"
| "QueryResponseStatusCode QueryResponseUnavailable = 1"
| "QueryResponseStatusCode QueryResponseError = 2"
| "QueryResponseStatusCode (QueryResponseOther n) = n"

definition QueryResponseStatusOfCode :: "u64 \<Rightarrow> QueryResponseStatus" where
  "QueryResponseStatusOfCode n =
     (if n = 0 then QueryResponseAvailable else if n = 1 then QueryResponseUnavailable
      else if n = 2 then QueryResponseError else QueryResponseOther n)"

definition wf_qstatus :: "QueryResponseStatus \<Rightarrow> bool" where
  "wf_qstatus s \<longleftrightarrow> (case s of QueryResponseOther n \<Rightarrow> n > 2 | _ \<Rightarrow> True)"

definition r_status :: "cbg \<Rightarrow> DealStatus reader" where
  "r_status cb = r_bind (r_uint cb) (\<lambda>v. r_ret (DealStatusOfCode v))"

definition r_qstatus :: "cbg \<Rightarrow> QueryResponseStatus reader" where
  "r_qstatus cb = r_bind (r_uint cb) (\<lambda>v. r_ret (QueryResponseStatusOfCode v))"

text \<open>The address of a nil pointer is written by the library's method.\<close>

fun w_addr_ptr :: "cbg \<Rightarrow> Address option writer" where
  "w_addr_ptr cb None = cg_WriteNilAddress cb"
| "w_addr_ptr cb (Some a) = cg_WriteAddress cb a"

definition enc_name :: "cbg \<Rightarrow> string \<Rightarrow> bytes" where
  "enc_name cb n = cg_header cb MajTextString (of_nat (length n)) @ bytes_of n"

lemma QueryResponseStatusOfCode_Code:
  "wf_qstatus s \<Longrightarrow> QueryResponseStatusOfCode (QueryResponseStatusCode s) = s"
  by (cases s) (auto simp: wf_qstatus_def QueryResponseStatusOfCode_def)

context cbg_lib
begin

lemma w_name_enc: "length n \<le> 8192 \<Longrightarrow> w_name cb n = Ok (enc_name cb n)"
  by (simp add: w_name enc_name_def)

lemma read_name: "length n \<le> 8192 \<Longrightarrow> cg_ReadString cb (enc_name cb n @ bs) = Ok (n, bs)"
  by (simp add: enc_name_def ReadString)

lemma field_status: "wf_status s \<Longrightarrow> field_ok (w_uint cb (DealStatusCode s)) (r_status cb) s"
  using field_uint [of "DealStatusCode s"]
  by (auto simp: field_ok_def r_status_def DealStatusOfCode_Code)

lemma field_qstatus: "wf_qstatus s \<Longrightarrow> field_ok (w_uint cb (QueryResponseStatusCode s)) (r_qstatus cb) s"
  using field_uint [of "QueryResponseStatusCode s"]
  by (auto simp: field_ok_def r_qstatus_def QueryResponseStatusOfCode_Code)

lemma codec_wrap: "codec_ok w r x \<Longrightarrow> codec_ok w (r_wrap g r) x"
  by (auto simp: codec_ok_def r_wrap_def)

lemma field_cid_ptr:
  "pred_option (codec_ok (cg_WriteCid cb) (cg_ReadCid cb)) x \<Longrightarrow>
     field_ok (w_ptr (w_cid cb f) x) (r_ptr (r_wrap g (cg_ReadCid cb)) None) x"
  by (rule field_ptr) (auto intro: codec_cid)

lemma field_voucher_ptr:
  "pred_option (codec_ok (cg_WriteVoucher cb) (cg_ReadVoucher cb)) x \<Longrightarrow>
     field_ok (w_ptr (cg_WriteVoucher cb) x) (r_ptr (r_wrap g (cg_ReadVoucher cb)) None) x"
  by (rule field_ptr) (auto intro: codec_wrap)

lemma field_addr_ptr:
  "x \<noteq> None \<Longrightarrow> codec_ok (cg_WriteAddress cb) (cg_ReadAddress cb) (the x) \<Longrightarrow>
     field_ok (w_addr_ptr cb x) (r_ptr (r_wrap g (cg_ReadAddress cb)) None) x"
  using field_ptr [of x "cg_WriteAddress cb" "r_wrap g (cg_ReadAddress cb)"]
  by (cases x) (auto intro: codec_wrap)

lemma field_struct_ptr:
  "(\<And>y. x = Some y \<Longrightarrow> codec_ok w r y) \<Longrightarrow> field_ok (w_ptr w x) (r_ptr (r_wrap g r) None) x"
  by (rule field_ptr) (auto intro: codec_wrap)

lemma struct_header_simps:
  "n < 24 \<Longrightarrow> cg_readHeader cb ((0xa0 + ucast n) # bs) = Ok ((MajMap, n), bs)"
  "cg_readHeader cb (161 # bs) = Ok ((MajMap, 1), bs)"
  "cg_readHeader cb (162 # bs) = Ok ((MajMap, 2), bs)"
  "cg_readHeader cb (163 # bs) = Ok ((MajMap, 3), bs)"
  "cg_readHeader cb (164 # bs) = Ok ((MajMap, 4), bs)"
  "cg_readHeader cb (167 # bs) = Ok ((MajMap, 7), bs)"
  "cg_readHeader cb (169 # bs) = Ok ((MajMap, 9), bs)"
  "cg_readHeader cb (172 # bs) = Ok ((MajMap, 12), bs)"
  "cg_readHeader cb (181 # bs) = Ok ((MajMap, 21), bs)"
  using struct_header [of n bs]
    struct_header [of 1 bs]
    struct_header [of 2 bs]
    struct_header [of 3 bs]
    struct_header [of 4 bs]
    struct_header [of 7 bs]
    struct_header [of 9 bs]
    struct_header [of 12 bs]
    struct_header [of 21 bs] by simp_all

end

section \<open>The types\<close>

subsection \<open>\<open>Params\<close>\<close>

definition zero_Params :: Params where
  "zero_Params = \<lparr>PricePerByte = 0, PaymentInterval = 0, PaymentIntervalIncrease = 0\<rparr>"

definition Marshal_Params :: "cbg \<Rightarrow> Params writer" where
  "Marshal_Params cb t =
     seq_w
       [Ok [163],
        w_name cb ''PricePerByte'', cg_WriteBig cb (PricePerByte t),
        w_name cb ''PaymentInterval'', w_uint cb (PaymentInterval t),
        w_name cb ''PaymentIntervalIncrease'', w_uint cb (PaymentIntervalIncrease t)]"

definition Params_field :: "cbg \<Rightarrow> Params handler" where
  "Params_field cb name t =
     (if name = ''PricePerByte''
      then sets (r_wrap ''unmarshaling t.PricePerByte'' (cg_ReadBig cb)) (\<lambda>x. t\<lparr>PricePerByte := x\<rparr>)
      else if name = ''PaymentInterval''
      then sets (r_uint cb) (\<lambda>x. t\<lparr>PaymentInterval := x\<rparr>)
      else if name = ''PaymentIntervalIncrease''
      then sets (r_uint cb) (\<lambda>x. t\<lparr>PaymentIntervalIncrease := x\<rparr>)
      else None)"

definition Unmarshal_Params :: "cbg \<Rightarrow> Params reader" where
  "Unmarshal_Params cb = unmarshal_struct cb ''Params'' (Params_field cb) zero_Params"

definition fits_Params :: "cbg \<Rightarrow> Params \<Rightarrow> bool" where
  "fits_Params cb t \<longleftrightarrow>
     codec_ok (cg_WriteBig cb) (cg_ReadBig cb) (PricePerByte t)"

context cbg_lib
begin

lemma codec_Params:
  assumes "fits_Params cb t"
  shows "codec_ok (Marshal_Params cb) (Unmarshal_Params cb) t"
proof -
  obtain x1 x2 x3 where t: "t = \<lparr>PricePerByte = x1, PaymentInterval = x2, PaymentIntervalIncrease = x3\<rparr>"
    by (cases t)
  note f = assms [unfolded t fits_Params_def, simplified]
  have "field_ok (cg_WriteBig cb x1) (r_wrap ''unmarshaling t.PricePerByte'' (cg_ReadBig cb)) x1"
    using f by (auto simp: list_all_iff intro!: field_wrap [OF codec_field])
  then obtain b1 where b1: "cg_WriteBig cb x1 = Ok b1"
      "\<forall>bs. (r_wrap ''unmarshaling t.PricePerByte'' (cg_ReadBig cb)) (b1 @ bs) = Ok (x1, bs)" by (rule field_okE)
  have "field_ok (w_uint cb x2) (r_uint cb) x2"
    using f by (auto simp: list_all_iff intro!: field_uint)
  then obtain b2 where b2: "w_uint cb x2 = Ok b2"
      "\<forall>bs. (r_uint cb) (b2 @ bs) = Ok (x2, bs)" by (rule field_okE)
  have "field_ok (w_uint cb x3) (r_uint cb) x3"
    using f by (auto simp: list_all_iff intro!: field_uint)
  then obtain b3 where b3: "w_uint cb x3 = Ok b3"
      "\<forall>bs. (r_uint cb) (b3 @ bs) = Ok (x3, bs)" by (rule field_okE)
  show ?thesis
    by (rule codec_okI [of _ _ "163 # enc_name cb ''PricePerByte'' @ b1 @ enc_name cb ''PaymentInterval'' @ b2 @ enc_name cb ''PaymentIntervalIncrease'' @ b3"])
       (simp_all add: t Marshal_Params_def Unmarshal_Params_def zero_Params_def unmarshal_struct_def sets_def Params_field_def struct_header_simps MaxLength w_name_enc read_name b1 b2 b3)
qed

end

subsection \<open>\<open>DealProposal\<close>\<close>

definition zero_DealProposal :: DealProposal where
  "zero_DealProposal = \<lparr>dp_PayloadCID = CidUndef, dp_ID = 0, dp_Params = zero_Params\<rparr>"

definition Marshal_DealProposal :: "cbg \<Rightarrow> DealProposal writer" where
  "Marshal_DealProposal cb t =
     seq_w
       [Ok [163],
        w_name cb ''PayloadCID'', w_cid cb ''PayloadCID'' (dp_PayloadCID t),
        w_name cb ''ID'', w_uint cb (dp_ID t),
        w_name cb ''Params'', Marshal_Params cb (dp_Params t)]"

definition DealProposal_field :: "cbg \<Rightarrow> DealProposal handler" where
  "DealProposal_field cb name t =
     (if name = ''PayloadCID''
      then sets (r_wrap ''failed to read cid field t.PayloadCID'' (cg_ReadCid cb)) (\<lambda>x. t\<lparr>dp_PayloadCID := x\<rparr>)
      else if name = ''ID''
      then sets (r_uint cb) (\<lambda>x. t\<lparr>dp_ID := x\<rparr>)
      else if name = ''Params''
      then sets (r_wrap ''unmarshaling t.Params'' (Unmarshal_Params cb)) (\<lambda>x. t\<lparr>dp_Params := x\<rparr>)
      else None)"

definition Unmarshal_DealProposal :: "cbg \<Rightarrow> DealProposal reader" where
  "Unmarshal_DealProposal cb = unmarshal_struct cb ''DealProposal'' (DealProposal_field cb) zero_DealProposal"

definition fits_DealProposal :: "cbg \<Rightarrow> DealProposal \<Rightarrow> bool" where
  "fits_DealProposal cb t \<longleftrightarrow>
     codec_ok (cg_WriteCid cb) (cg_ReadCid cb) (dp_PayloadCID t) \<and>
     fits_Params cb (dp_Params t)"

context cbg_lib
begin

lemma codec_DealProposal:
  assumes "fits_DealProposal cb t"
  shows "codec_ok (Marshal_DealProposal cb) (Unmarshal_DealProposal cb) t"
proof -
  obtain x1 x2 x3 where t: "t = \<lparr>dp_PayloadCID = x1, dp_ID = x2, dp_Params = x3\<rparr>"
    by (cases t)
  note f = assms [unfolded t fits_DealProposal_def, simplified]
  have "field_ok (w_cid cb ''PayloadCID'' x1) (r_wrap ''failed to read cid field t.PayloadCID'' (cg_ReadCid cb)) x1"
    using f by (auto simp: list_all_iff intro!: field_wrap [OF field_cid])
  then obtain b1 where b1: "w_cid cb ''PayloadCID'' x1 = Ok b1"
      "\<forall>bs. (r_wrap ''failed to read cid field t.PayloadCID'' (cg_ReadCid cb)) (b1 @ bs) = Ok (x1, bs)" by (rule field_okE)
  have "field_ok (w_uint cb x2) (r_uint cb) x2"
    using f by (auto simp: list_all_iff intro!: field_uint)
  then obtain b2 where b2: "w_uint cb x2 = Ok b2"
      "\<forall>bs. (r_uint cb) (b2 @ bs) = Ok (x2, bs)" by (rule field_okE)
  have "field_ok (Marshal_Params cb x3) (r_wrap ''unmarshaling t.Params'' (Unmarshal_Params cb)) x3"
    using f by (auto simp: list_all_iff intro!: field_wrap [OF codec_field] codec_Params)
  then obtain b3 where b3: "Marshal_Params cb x3 = Ok b3"
      "\<forall>bs. (r_wrap ''unmarshaling t.Params'' (Unmarshal_Params cb)) (b3 @ bs) = Ok (x3, bs)" by (rule field_okE)
  show ?thesis
    by (rule codec_okI [of _ _ "163 # enc_name cb ''PayloadCID'' @ b1 @ enc_name cb ''ID'' @ b2 @ enc_name cb ''Params'' @ b3"])
       (simp_all add: t Marshal_DealProposal_def Unmarshal_DealProposal_def zero_DealProposal_def unmarshal_struct_def sets_def DealProposal_field_def struct_header_simps MaxLength w_name_enc read_name b1 b2 b3)
qed

end

subsection \<open>\<open>QueryParams\<close>\<close>

definition zero_QueryParams :: QueryParams where
  "zero_QueryParams = \<lparr>MaxPricePerByte = 0, MinPaymentInterval = 0, MinPaymentIntervalIncrease = 0\<rparr>"

definition Marshal_QueryParams :: "cbg \<Rightarrow> QueryParams writer" where
  "Marshal_QueryParams cb t =
     seq_w
       [Ok [163],
        w_name cb ''MaxPricePerByte'', cg_WriteBig cb (MaxPricePerByte t),
        w_name cb ''MinPaymentInterval'', w_uint cb (MinPaymentInterval t),
        w_name cb ''MinPaymentIntervalIncrease'', w_uint cb (MinPaymentIntervalIncrease t)]"

definition QueryParams_field :: "cbg \<Rightarrow> QueryParams handler" where
  "QueryParams_field cb name t =
     (if name = ''MaxPricePerByte''
      then sets (r_wrap ''unmarshaling t.MaxPricePerByte'' (cg_ReadBig cb)) (\<lambda>x. t\<lparr>MaxPricePerByte := x\<rparr>)
      else if name = ''MinPaymentInterval''
      then sets (r_uint cb) (\<lambda>x. t\<lparr>MinPaymentInterval := x\<rparr>)
      else if name = ''MinPaymentIntervalIncrease''
      then sets (r_uint cb) (\<lambda>x. t\<lparr>MinPaymentIntervalIncrease := x\<rparr>)
      else None)"

definition Unmarshal_QueryParams :: "cbg \<Rightarrow> QueryParams reader" where
  "Unmarshal_QueryParams cb = unmarshal_struct cb ''QueryParams'' (QueryParams_field cb) zero_QueryParams"

definition fits_QueryParams :: "cbg \<Rightarrow> QueryParams \<Rightarrow> bool" where
  "fits_QueryParams cb t \<longleftrightarrow>
     codec_ok (cg_WriteBig cb) (cg_ReadBig cb) (MaxPricePerByte t)"

context cbg_lib
begin

lemma codec_QueryParams:
  assumes "fits_QueryParams cb t"
  shows "codec_ok (Marshal_QueryParams cb) (Unmarshal_QueryParams cb) t"
proof -
  obtain x1 x2 x3 where t: "t = \<lparr>MaxPricePerByte = x1, MinPaymentInterval = x2, MinPaymentIntervalIncrease = x3\<rparr>"
    by (cases t)
  note f = assms [unfolded t fits_QueryParams_def, simplified]
  have "field_ok (cg_WriteBig cb x1) (r_wrap ''unmarshaling t.MaxPricePerByte'' (cg_ReadBig cb)) x1"
    using f by (auto simp: list_all_iff intro!: field_wrap [OF codec_field])
  then obtain b1 where b1: "cg_WriteBig cb x1 = Ok b1"
      "\<forall>bs. (r_wrap ''unmarshaling t.MaxPricePerByte'' (cg_ReadBig cb)) (b1 @ bs) = Ok (x1, bs)" by (rule field_okE)
  have "field_ok (w_uint cb x2) (r_uint cb) x2"
    using f by (auto simp: list_all_iff intro!: field_uint)
  then obtain b2 where b2: "w_uint cb x2 = Ok b2"
      "\<forall>bs. (r_uint cb) (b2 @ bs) = Ok (x2, bs)" by (rule field_okE)
  have "field_ok (w_uint cb x3) (r_uint cb) x3"
    using f by (auto simp: list_all_iff intro!: field_uint)
  then obtain b3 where b3: "w_uint cb x3 = Ok b3"
      "\<forall>bs. (r_uint cb) (b3 @ bs) = Ok (x3, bs)" by (rule field_okE)
  show ?thesis
    by (rule codec_okI [of _ _ "163 # enc_name cb ''MaxPricePerByte'' @ b1 @ enc_name cb ''MinPaymentInterval'' @ b2 @ enc_name cb ''MinPaymentIntervalIncrease'' @ b3"])
       (simp_all add: t Marshal_QueryParams_def Unmarshal_QueryParams_def zero_QueryParams_def unmarshal_struct_def sets_def QueryParams_field_def struct_header_simps MaxLength w_name_enc read_name b1 b2 b3)
qed

end

subsection \<open>\<open>Query\<close>\<close>

definition zero_Query :: Query where
  "zero_Query = \<lparr>q_PayloadCID = CidUndef, q_QueryParams = zero_QueryParams\<rparr>"

definition Marshal_Query :: "cbg \<Rightarrow> Query writer" where
  "Marshal_Query cb t =
     seq_w
       [Ok [162],
        w_name cb ''PayloadCID'', w_cid cb ''PayloadCID'' (q_PayloadCID t),
        w_name cb ''QueryParams'', Marshal_QueryParams cb (q_QueryParams t)]"

definition Query_field :: "cbg \<Rightarrow> Query handler" where
  "Query_field cb name t =
     (if name = ''PayloadCID''
      then sets (r_wrap ''failed to read cid field t.PayloadCID'' (cg_ReadCid cb)) (\<lambda>x. t\<lparr>q_PayloadCID := x\<rparr>)
      else if name = ''QueryParams''
      then sets (r_wrap ''unmarshaling t.QueryParams'' (Unmarshal_QueryParams cb)) (\<lambda>x. t\<lparr>q_QueryParams := x\<rparr>)
      else None)"

definition Unmarshal_Query :: "cbg \<Rightarrow> Query reader" where
  "Unmarshal_Query cb = unmarshal_struct cb ''Query'' (Query_field cb) zero_Query"

definition fits_Query :: "cbg \<Rightarrow> Query \<Rightarrow> bool" where
  "fits_Query cb t \<longleftrightarrow>
     codec_ok (cg_WriteCid cb) (cg_ReadCid cb) (q_PayloadCID t) \<and>
     fits_QueryParams cb (q_QueryParams t)"

context cbg_lib
begin

lemma codec_Query:
  assumes "fits_Query cb t"
  shows "codec_ok (Marshal_Query cb) (Unmarshal_Query cb) t"
proof -
  obtain x1 x2 where t: "t = \<lparr>q_PayloadCID = x1, q_QueryParams = x2\<rparr>"
    by (cases t)
  note f = assms [unfolded t fits_Query_def, simplified]
  have "field_ok (w_cid cb ''PayloadCID'' x1) (r_wrap ''failed to read cid field t.PayloadCID'' (cg_ReadCid cb)) x1"
    using f by (auto simp: list_all_iff intro!: field_wrap [OF field_cid])
  then obtain b1 where b1: "w_cid cb ''PayloadCID'' x1 = Ok b1"
      "\<forall>bs. (r_wrap ''failed to read cid field t.PayloadCID'' (cg_ReadCid cb)) (b1 @ bs) = Ok (x1, bs)" by (rule field_okE)
  have "field_ok (Marshal_QueryParams cb x2) (r_wrap ''unmarshaling t.QueryParams'' (Unmarshal_QueryParams cb)) x2"
    using f by (auto simp: list_all_iff intro!: field_wrap [OF codec_field] codec_QueryParams)
  then obtain b2 where b2: "Marshal_QueryParams cb x2 = Ok b2"
      "\<forall>bs. (r_wrap ''unmarshaling t.QueryParams'' (Unmarshal_QueryParams cb)) (b2 @ bs) = Ok (x2, bs)" by (rule field_okE)
  show ?thesis
    by (rule codec_okI [of _ _ "162 # enc_name cb ''PayloadCID'' @ b1 @ enc_name cb ''QueryParams'' @ b2"])
       (simp_all add: t Marshal_Query_def Unmarshal_Query_def zero_Query_def unmarshal_struct_def sets_def Query_field_def struct_header_simps MaxLength w_name_enc read_name b1 b2)
qed

end

subsection \<open>\<open>QueryResponse\<close>\<close>

definition zero_QueryResponse :: QueryResponse where
  "zero_QueryResponse = \<lparr>qr_Status = QueryResponseAvailable, qr_Size = 0, qr_PaymentAddress = AddressUndef, qr_MinPricePerByte = 0, qr_MaxPaymentInterval = 0, qr_MaxPaymentIntervalIncrease = 0, qr_Message = ''''\<rparr>"

definition Marshal_QueryResponse :: "cbg \<Rightarrow> QueryResponse writer" where
  "Marshal_QueryResponse cb t =
     seq_w
       [Ok [167],
        w_name cb ''Status'', w_uint cb (QueryResponseStatusCode (qr_Status t)),
        w_name cb ''Size'', w_uint cb (qr_Size t),
        w_name cb ''PaymentAddress'', cg_WriteAddress cb (qr_PaymentAddress t),
        w_name cb ''MinPricePerByte'', cg_WriteBig cb (qr_MinPricePerByte t),
        w_name cb ''MaxPaymentInterval'', w_uint cb (qr_MaxPaymentInterval t),
        w_name cb ''MaxPaymentIntervalIncrease'', w_uint cb (qr_MaxPaymentIntervalIncrease t),
        w_name cb ''Message'', w_string cb ''Message'' (qr_Message t)]"

definition QueryResponse_field :: "cbg \<Rightarrow> QueryResponse handler" where
  "QueryResponse_field cb name t =
     (if name = ''Status''
      then sets (r_qstatus cb) (\<lambda>x. t\<lparr>qr_Status := x\<rparr>)
      else if name = ''Size''
      then sets (r_uint cb) (\<lambda>x. t\<lparr>qr_Size := x\<rparr>)
      else if name = ''PaymentAddress''
      then sets (r_wrap ''unmarshaling t.PaymentAddress'' (cg_ReadAddress cb)) (\<lambda>x. t\<lparr>qr_PaymentAddress := x\<rparr>)
      else if name = ''MinPricePerByte''
      then sets (r_wrap ''unmarshaling t.MinPricePerByte'' (cg_ReadBig cb)) (\<lambda>x. t\<lparr>qr_MinPricePerByte := x\<rparr>)
      else if name = ''MaxPaymentInterval''
      then sets (r_uint cb) (\<lambda>x. t\<lparr>qr_MaxPaymentInterval := x\<rparr>)
      else if name = ''MaxPaymentIntervalIncrease''
      then sets (r_uint cb) (\<lambda>x. t\<lparr>qr_MaxPaymentIntervalIncrease := x\<rparr>)
      else if name = ''Message''
      then sets (cg_ReadString cb) (\<lambda>x. t\<lparr>qr_Message := x\<rparr>)
      else None)"

definition Unmarshal_QueryResponse :: "cbg \<Rightarrow> QueryResponse reader" where
  "Unmarshal_QueryResponse cb = unmarshal_struct cb ''QueryResponse'' (QueryResponse_field cb) zero_QueryResponse"

definition fits_QueryResponse :: "cbg \<Rightarrow> QueryResponse \<Rightarrow> bool" where
  "fits_QueryResponse cb t \<longleftrightarrow>
     wf_qstatus (qr_Status t) \<and>
     codec_ok (cg_WriteAddress cb) (cg_ReadAddress cb) (qr_PaymentAddress t) \<and>
     codec_ok (cg_WriteBig cb) (cg_ReadBig cb) (qr_MinPricePerByte t) \<and>
     length (qr_Message t) \<le> 8192"

context cbg_lib
begin

lemma codec_QueryResponse:
  assumes "fits_QueryResponse cb t"
  shows "codec_ok (Marshal_QueryResponse cb) (Unmarshal_QueryResponse cb) t"
proof -
  obtain x1 x2 x3 x4 x5 x6 x7 where t: "t = \<lparr>qr_Status = x1, qr_Size = x2, qr_PaymentAddress = x3, qr_MinPricePerByte = x4, qr_MaxPaymentInterval = x5, qr_MaxPaymentIntervalIncrease = x6, qr_Message = x7\<rparr>"
    by (cases t)
  note f = assms [unfolded t fits_QueryResponse_def, simplified]
  have "field_ok (w_uint cb (QueryResponseStatusCode x1)) (r_qstatus cb) x1"
    using f by (auto simp: list_all_iff intro!: field_qstatus)
  then obtain b1 where b1: "w_uint cb (QueryResponseStatusCode x1) = Ok b1"
      "\<forall>bs. (r_qstatus cb) (b1 @ bs) = Ok (x1, bs)" by (rule field_okE)
  have "field_ok (w_uint cb x2) (r_uint cb) x2"
    using f by (auto simp: list_all_iff intro!: field_uint)
  then obtain b2 where b2: "w_uint cb x2 = Ok b2"
      "\<forall>bs. (r_uint cb) (b2 @ bs) = Ok (x2, bs)" by (rule field_okE)
  have "field_ok (cg_WriteAddress cb x3) (r_wrap ''unmarshaling t.PaymentAddress'' (cg_ReadAddress cb)) x3"
    using f by (auto simp: list_all_iff intro!: field_wrap [OF codec_field])
  then obtain b3 where b3: "cg_WriteAddress cb x3 = Ok b3"
      "\<forall>bs. (r_wrap ''unmarshaling t.PaymentAddress'' (cg_ReadAddress cb)) (b3 @ bs) = Ok (x3, bs)" by (rule field_okE)
  have "field_ok (cg_WriteBig cb x4) (r_wrap ''unmarshaling t.MinPricePerByte'' (cg_ReadBig cb)) x4"
    using f by (auto simp: list_all_iff intro!: field_wrap [OF codec_field])
  then obtain b4 where b4: "cg_WriteBig cb x4 = Ok b4"
      "\<forall>bs. (r_wrap ''unmarshaling t.MinPricePerByte'' (cg_ReadBig cb)) (b4 @ bs) = Ok (x4, bs)" by (rule field_okE)
  have "field_ok (w_uint cb x5) (r_uint cb) x5"
    using f by (auto simp: list_all_iff intro!: field_uint)
  then obtain b5 where b5: "w_uint cb x5 = Ok b5"
      "\<forall>bs. (r_uint cb) (b5 @ bs) = Ok (x5, bs)" by (rule field_okE)
  have "field_ok (w_uint cb x6) (r_uint cb) x6"
    using f by (auto simp: list_all_iff intro!: field_uint)
  then obtain b6 where b6: "w_uint cb x6 = Ok b6"
      "\<forall>bs. (r_uint cb) (b6 @ bs) = Ok (x6, bs)" by (rule field_okE)
  have "field_ok (w_string cb ''Message'' x7) (cg_ReadString cb) x7"
    using f by (auto simp: list_all_iff intro!: field_string)
  then obtain b7 where b7: "w_string cb ''Message'' x7 = Ok b7"
      "\<forall>bs. (cg_ReadString cb) (b7 @ bs) = Ok (x7, bs)" by (rule field_okE)
  show ?thesis
    by (rule codec_okI [of _ _ "167 # enc_name cb ''Status'' @ b1 @ enc_name cb ''Size'' @ b2 @ enc_name cb ''PaymentAddress'' @ b3 @ enc_name cb ''MinPricePerByte'' @ b4 @ enc_name cb ''MaxPaymentInterval'' @ b5 @ enc_name cb ''MaxPaymentIntervalIncrease'' @ b6 @ enc_name cb ''Message'' @ b7"])
       (simp_all add: t Marshal_QueryResponse_def Unmarshal_QueryResponse_def zero_QueryResponse_def unmarshal_struct_def sets_def QueryResponse_field_def struct_header_simps MaxLength w_name_enc read_name b1 b2 b3 b4 b5 b6 b7)
qed

end

subsection \<open>\<open>DealResponse\<close>\<close>

definition zero_DealResponse :: DealResponse where
  "zero_DealResponse = \<lparr>dr_Status = DealStatusNew, dr_ID = 0, dr_PaymentOwed = 0, dr_Message = ''''\<rparr>"

definition Marshal_DealResponse :: "cbg \<Rightarrow> DealResponse writer" where
  "Marshal_DealResponse cb t =
     seq_w
       [Ok [164],
        w_name cb ''Status'', w_uint cb (DealStatusCode (dr_Status t)),
        w_name cb ''ID'', w_uint cb (dr_ID t),
        w_name cb ''PaymentOwed'', cg_WriteBig cb (dr_PaymentOwed t),
        w_name cb ''Message'', w_string cb ''Message'' (dr_Message t)]"

definition DealResponse_field :: "cbg \<Rightarrow> DealResponse handler" where
  "DealResponse_field cb name t =
     (if name = ''Status''
      then sets (r_status cb) (\<lambda>x. t\<lparr>dr_Status := x\<rparr>)
      else if name = ''ID''
      then sets (r_uint cb) (\<lambda>x. t\<lparr>dr_ID := x\<rparr>)
      else if name = ''PaymentOwed''
      then sets (r_wrap ''unmarshaling t.PaymentOwed'' (cg_ReadBig cb)) (\<lambda>x. t\<lparr>dr_PaymentOwed := x\<rparr>)
      else if name = ''Message''
      then sets (cg_ReadString cb) (\<lambda>x. t\<lparr>dr_Message := x\<rparr>)
      else None)"

definition Unmarshal_DealResponse :: "cbg \<Rightarrow> DealResponse reader" where
  "Unmarshal_DealResponse cb = unmarshal_struct cb ''DealResponse'' (DealResponse_field cb) zero_DealResponse"

definition fits_DealResponse :: "cbg \<Rightarrow> DealResponse \<Rightarrow> bool" where
  "fits_DealResponse cb t \<longleftrightarrow>
     wf_status (dr_Status t) \<and>
     codec_ok (cg_WriteBig cb) (cg_ReadBig cb) (dr_PaymentOwed t) \<and>
     length (dr_Message t) \<le> 8192"

context cbg_lib
begin

lemma codec_DealResponse:
  assumes "fits_DealResponse cb t"
  shows "codec_ok (Marshal_DealResponse cb) (Unmarshal_DealResponse cb) t"
proof -
  obtain x1 x2 x3 x4 where t: "t = \<lparr>dr_Status = x1, dr_ID = x2, dr_PaymentOwed = x3, dr_Message = x4\<rparr>"
    by (cases t)
  note f = assms [unfolded t fits_DealResponse_def, simplified]
  have "field_ok (w_uint cb (DealStatusCode x1)) (r_status cb) x1"
    using f by (auto simp: list_all_iff intro!: field_status)
  then obtain b1 where b1: "w_uint cb (DealStatusCode x1) = Ok b1"
      "\<forall>bs. (r_status cb) (b1 @ bs) = Ok (x1, bs)" by (rule field_okE)
  have "field_ok (w_uint cb x2) (r_uint cb) x2"
    using f by (auto simp: list_all_iff intro!: field_uint)
  then obtain b2 where b2: "w_uint cb x2 = Ok b2"
      "\<forall>bs. (r_uint cb) (b2 @ bs) = Ok (x2, bs)" by (rule field_okE)
  have "field_ok (cg_WriteBig cb x3) (r_wrap ''unmarshaling t.PaymentOwed'' (cg_ReadBig cb)) x3"
    using f by (auto simp: list_all_iff intro!: field_wrap [OF codec_field])
  then obtain b3 where b3: "cg_WriteBig cb x3 = Ok b3"
      "\<forall>bs. (r_wrap ''unmarshaling t.PaymentOwed'' (cg_ReadBig cb)) (b3 @ bs) = Ok (x3, bs)" by (rule field_okE)
  have "field_ok (w_string cb ''Message'' x4) (cg_ReadString cb) x4"
    using f by (auto simp: list_all_iff intro!: field_string)
  then obtain b4 where b4: "w_string cb ''Message'' x4 = Ok b4"
      "\<forall>bs. (cg_ReadString cb) (b4 @ bs) = Ok (x4, bs)" by (rule field_okE)
  show ?thesis
    by (rule codec_okI [of _ _ "164 # enc_name cb ''Status'' @ b1 @ enc_name cb ''ID'' @ b2 @ enc_name cb ''PaymentOwed'' @ b3 @ enc_name cb ''Message'' @ b4"])
       (simp_all add: t Marshal_DealResponse_def Unmarshal_DealResponse_def zero_DealResponse_def unmarshal_struct_def sets_def DealResponse_field_def struct_header_simps MaxLength w_name_enc read_name b1 b2 b3 b4)
qed

end

subsection \<open>\<open>DealPayment\<close>\<close>

definition zero_DealPayment :: DealPayment where
  "zero_DealPayment = \<lparr>pay_ID = 0, pay_PaymentChannel = AddressUndef, pay_PaymentVoucher = None\<rparr>"

definition Marshal_DealPayment :: "cbg \<Rightarrow> DealPayment writer" where
  "Marshal_DealPayment cb t =
     seq_w
       [Ok [163],
        w_name cb ''ID'', w_uint cb (pay_ID t),
        w_name cb ''PaymentChannel'', cg_WriteAddress cb (pay_PaymentChannel t),
        w_name cb ''PaymentVoucher'', w_ptr (cg_WriteVoucher cb) (pay_PaymentVoucher t)]"

definition DealPayment_field :: "cbg \<Rightarrow> DealPayment handler" where
  "DealPayment_field cb name t =
     (if name = ''ID''
      then sets (r_uint cb) (\<lambda>x. t\<lparr>pay_ID := x\<rparr>)
      else if name = ''PaymentChannel''
      then sets (r_wrap ''unmarshaling t.PaymentChannel'' (cg_ReadAddress cb)) (\<lambda>x. t\<lparr>pay_PaymentChannel := x\<rparr>)
      else if name = ''PaymentVoucher''
      then sets (r_ptr (r_wrap ''unmarshaling t.PaymentVoucher pointer'' (cg_ReadVoucher cb)) (pay_PaymentVoucher t)) (\<lambda>x. t\<lparr>pay_PaymentVoucher := x\<rparr>)
      else None)"

definition Unmarshal_DealPayment :: "cbg \<Rightarrow> DealPayment reader" where
  "Unmarshal_DealPayment cb = unmarshal_struct cb ''DealPayment'' (DealPayment_field cb) zero_DealPayment"

definition fits_DealPayment :: "cbg \<Rightarrow> DealPayment \<Rightarrow> bool" where
  "fits_DealPayment cb t \<longleftrightarrow>
     codec_ok (cg_WriteAddress cb) (cg_ReadAddress cb) (pay_PaymentChannel t) \<and>
     pred_option (codec_ok (cg_WriteVoucher cb) (cg_ReadVoucher cb)) (pay_PaymentVoucher t)"

context cbg_lib
begin

lemma codec_DealPayment:
  assumes "fits_DealPayment cb t"
  shows "codec_ok (Marshal_DealPayment cb) (Unmarshal_DealPayment cb) t"
proof -
  obtain x1 x2 x3 where t: "t = \<lparr>pay_ID = x1, pay_PaymentChannel = x2, pay_PaymentVoucher = x3\<rparr>"
    by (cases t)
  note f = assms [unfolded t fits_DealPayment_def, simplified]
  have "field_ok (w_uint cb x1) (r_uint cb) x1"
    using f by (auto simp: list_all_iff intro!: field_uint)
  then obtain b1 where b1: "w_uint cb x1 = Ok b1"
      "\<forall>bs. (r_uint cb) (b1 @ bs) = Ok (x1, bs)" by (rule field_okE)
  have "field_ok (cg_WriteAddress cb x2) (r_wrap ''unmarshaling t.PaymentChannel'' (cg_ReadAddress cb)) x2"
    using f by (auto simp: list_all_iff intro!: field_wrap [OF codec_field])
  then obtain b2 where b2: "cg_WriteAddress cb x2 = Ok b2"
      "\<forall>bs. (r_wrap ''unmarshaling t.PaymentChannel'' (cg_ReadAddress cb)) (b2 @ bs) = Ok (x2, bs)" by (rule field_okE)
  have "field_ok (w_ptr (cg_WriteVoucher cb) x3) (r_ptr (r_wrap ''unmarshaling t.PaymentVoucher pointer'' (cg_ReadVoucher cb)) None) x3"
    using f by (auto simp: list_all_iff intro!: field_voucher_ptr)
  then obtain b3 where b3: "w_ptr (cg_WriteVoucher cb) x3 = Ok b3"
      "\<forall>bs. (r_ptr (r_wrap ''unmarshaling t.PaymentVoucher pointer'' (cg_ReadVoucher cb)) None) (b3 @ bs) = Ok (x3, bs)" by (rule field_okE)
  show ?thesis
    by (rule codec_okI [of _ _ "163 # enc_name cb ''ID'' @ b1 @ enc_name cb ''PaymentChannel'' @ b2 @ enc_name cb ''PaymentVoucher'' @ b3"])
       (simp_all add: t Marshal_DealPayment_def Unmarshal_DealPayment_def zero_DealPayment_def unmarshal_struct_def sets_def DealPayment_field_def struct_header_simps MaxLength w_name_enc read_name b1 b2 b3)
qed

end

subsection \<open>\<open>PaymentInfo\<close>\<close>

definition zero_PaymentInfo :: PaymentInfo where
  "zero_PaymentInfo = \<lparr>PayCh = AddressUndef, Lane = 0\<rparr>"

definition Marshal_PaymentInfo :: "cbg \<Rightarrow> PaymentInfo writer" where
  "Marshal_PaymentInfo cb t =
     seq_w
       [Ok [162],
        w_name cb ''PayCh'', cg_WriteAddress cb (PayCh t),
        w_name cb ''Lane'', w_uint cb (Lane t)]"

definition PaymentInfo_field :: "cbg \<Rightarrow> PaymentInfo handler" where
  "PaymentInfo_field cb name t =
     (if name = ''PayCh''
      then sets (r_wrap ''unmarshaling t.PayCh'' (cg_ReadAddress cb)) (\<lambda>x. t\<lparr>PayCh := x\<rparr>)
      else if name = ''Lane''
      then sets (r_uint cb) (\<lambda>x. t\<lparr>Lane := x\<rparr>)
      else None)"

definition Unmarshal_PaymentInfo :: "cbg \<Rightarrow> PaymentInfo reader" where
  "Unmarshal_PaymentInfo cb = unmarshal_struct cb ''PaymentInfo'' (PaymentInfo_field cb) zero_PaymentInfo"

definition fits_PaymentInfo :: "cbg \<Rightarrow> PaymentInfo \<Rightarrow> bool" where
  "fits_PaymentInfo cb t \<longleftrightarrow>
     codec_ok (cg_WriteAddress cb) (cg_ReadAddress cb) (PayCh t)"

context cbg_lib
begin

lemma codec_PaymentInfo:
  assumes "fits_PaymentInfo cb t"
  shows "codec_ok (Marshal_PaymentInfo cb) (Unmarshal_PaymentInfo cb) t"
proof -
  obtain x1 x2 where t: "t = \<lparr>PayCh = x1, Lane = x2\<rparr>"
    by (cases t)
  note f = assms [unfolded t fits_PaymentInfo_def, simplified]
  have "field_ok (cg_WriteAddress cb x1) (r_wrap ''unmarshaling t.PayCh'' (cg_ReadAddress cb)) x1"
    using f by (auto simp: list_all_iff intro!: field_wrap [OF codec_field])
  then obtain b1 where b1: "cg_WriteAddress cb x1 = Ok b1"
      "\<forall>bs. (r_wrap ''unmarshaling t.PayCh'' (cg_ReadAddress cb)) (b1 @ bs) = Ok (x1, bs)" by (rule field_okE)
  have "field_ok (w_uint cb x2) (r_uint cb) x2"
    using f by (auto simp: list_all_iff intro!: field_uint)
  then obtain b2 where b2: "w_uint cb x2 = Ok b2"
      "\<forall>bs. (r_uint cb) (b2 @ bs) = Ok (x2, bs)" by (rule field_okE)
  show ?thesis
    by (rule codec_okI [of _ _ "162 # enc_name cb ''PayCh'' @ b1 @ enc_name cb ''Lane'' @ b2"])
       (simp_all add: t Marshal_PaymentInfo_def Unmarshal_PaymentInfo_def zero_PaymentInfo_def unmarshal_struct_def sets_def PaymentInfo_field_def struct_header_simps MaxLength w_name_enc read_name b1 b2)
qed

end

subsection \<open>\<open>Ask\<close>\<close>

definition zero_Ask :: Ask where
  "zero_Ask = \<lparr>ask_PricePerByte = 0, ask_PaymentInterval = 0, ask_PaymentIntervalIncrease = 0\<rparr>"

definition Marshal_Ask :: "cbg \<Rightarrow> Ask writer" where
  "Marshal_Ask cb t =
     seq_w
       [Ok [163],
        w_name cb ''PricePerByte'', cg_WriteBig cb (ask_PricePerByte t),
        w_name cb ''PaymentInterval'', w_uint cb (ask_PaymentInterval t),
        w_name cb ''PaymentIntervalIncrease'', w_uint cb (ask_PaymentIntervalIncrease t)]"

definition Ask_field :: "cbg \<Rightarrow> Ask handler" where
  "Ask_field cb name t =
     (if name = ''PricePerByte''
      then sets (r_wrap ''unmarshaling t.PricePerByte'' (cg_ReadBig cb)) (\<lambda>x. t\<lparr>ask_PricePerByte := x\<rparr>)
      else if name = ''PaymentInterval''
      then sets (r_uint cb) (\<lambda>x. t\<lparr>ask_PaymentInterval := x\<rparr>)
      else if name = ''PaymentIntervalIncrease''
      then sets (r_uint cb) (\<lambda>x. t\<lparr>ask_PaymentIntervalIncrease := x\<rparr>)
      else None)"

definition Unmarshal_Ask :: "cbg \<Rightarrow> Ask reader" where
  "Unmarshal_Ask cb = unmarshal_struct cb ''Ask'' (Ask_field cb) zero_Ask"

definition fits_Ask :: "cbg \<Rightarrow> Ask \<Rightarrow> bool" where
  "fits_Ask cb t \<longleftrightarrow>
     codec_ok (cg_WriteBig cb) (cg_ReadBig cb) (ask_PricePerByte t)"

context cbg_lib
begin

lemma codec_Ask:
  assumes "fits_Ask cb t"
  shows "codec_ok (Marshal_Ask cb) (Unmarshal_Ask cb) t"
proof -
  obtain x1 x2 x3 where t: "t = \<lparr>ask_PricePerByte = x1, ask_PaymentInterval = x2, ask_PaymentIntervalIncrease = x3\<rparr>"
    by (cases t)
  note f = assms [unfolded t fits_Ask_def, simplified]
  have "field_ok (cg_WriteBig cb x1) (r_wrap ''unmarshaling t.PricePerByte'' (cg_ReadBig cb)) x1"
    using f by (auto simp: list_all_iff intro!: field_wrap [OF codec_field])
  then obtain b1 where b1: "cg_WriteBig cb x1 = Ok b1"
      "\<forall>bs. (r_wrap ''unmarshaling t.PricePerByte'' (cg_ReadBig cb)) (b1 @ bs) = Ok (x1, bs)" by (rule field_okE)
  have "field_ok (w_uint cb x2) (r_uint cb) x2"
    using f by (auto simp: list_all_iff intro!: field_uint)
  then obtain b2 where b2: "w_uint cb x2 = Ok b2"
      "\<forall>bs. (r_uint cb) (b2 @ bs) = Ok (x2, bs)" by (rule field_okE)
  have "field_ok (w_uint cb x3) (r_uint cb) x3"
    using f by (auto simp: list_all_iff intro!: field_uint)
  then obtain b3 where b3: "w_uint cb x3 = Ok b3"
      "\<forall>bs. (r_uint cb) (b3 @ bs) = Ok (x3, bs)" by (rule field_okE)
  show ?thesis
    by (rule codec_okI [of _ _ "163 # enc_name cb ''PricePerByte'' @ b1 @ enc_name cb ''PaymentInterval'' @ b2 @ enc_name cb ''PaymentIntervalIncrease'' @ b3"])
       (simp_all add: t Marshal_Ask_def Unmarshal_Ask_def zero_Ask_def unmarshal_struct_def sets_def Ask_field_def struct_header_simps MaxLength w_name_enc read_name b1 b2 b3)
qed

end

subsection \<open>\<open>RetrievalPeer\<close>\<close>

definition zero_RetrievalPeer :: RetrievalPeer where
  "zero_RetrievalPeer = \<lparr>rp_Address = AddressUndef, rp_ID = '''', rp_PieceCID = None\<rparr>"

definition Marshal_RetrievalPeer :: "cbg \<Rightarrow> RetrievalPeer writer" where
  "Marshal_RetrievalPeer cb t =
     seq_w
       [Ok [163],
        w_name cb ''Address'', cg_WriteAddress cb (rp_Address t),
        w_name cb ''ID'', w_string cb ''ID'' (rp_ID t),
        w_name cb ''PieceCID'', w_ptr (w_cid cb ''PieceCID'') (rp_PieceCID t)]"

definition RetrievalPeer_field :: "cbg \<Rightarrow> RetrievalPeer handler" where
  "RetrievalPeer_field cb name t =
     (if name = ''Address''
      then sets (r_wrap ''unmarshaling t.Address'' (cg_ReadAddress cb)) (\<lambda>x. t\<lparr>rp_Address := x\<rparr>)
      else if name = ''ID''
      then sets (cg_ReadString cb) (\<lambda>x. t\<lparr>rp_ID := x\<rparr>)
      else if name = ''PieceCID''
      then sets (r_ptr (r_wrap ''failed to read cid field t.PieceCID'' (cg_ReadCid cb)) (rp_PieceCID t)) (\<lambda>x. t\<lparr>rp_PieceCID := x\<rparr>)
      else None)"

definition Unmarshal_RetrievalPeer :: "cbg \<Rightarrow> RetrievalPeer reader" where
  "Unmarshal_RetrievalPeer cb = unmarshal_struct cb ''RetrievalPeer'' (RetrievalPeer_field cb) zero_RetrievalPeer"

definition fits_RetrievalPeer :: "cbg \<Rightarrow> RetrievalPeer \<Rightarrow> bool" where
  "fits_RetrievalPeer cb t \<longleftrightarrow>
     codec_ok (cg_WriteAddress cb) (cg_ReadAddress cb) (rp_Address t) \<and>
     length (rp_ID t) \<le> 8192 \<and>
     pred_option (codec_ok (cg_WriteCid cb) (cg_ReadCid cb)) (rp_PieceCID t)"

context cbg_lib
begin

lemma codec_RetrievalPeer:
  assumes "fits_RetrievalPeer cb t"
  shows "codec_ok (Marshal_RetrievalPeer cb) (Unmarshal_RetrievalPeer cb) t"
proof -
  obtain x1 x2 x3 where t: "t = \<lparr>rp_Address = x1, rp_ID = x2, rp_PieceCID = x3\<rparr>"
    by (cases t)
  note f = assms [unfolded t fits_RetrievalPeer_def, simplified]
  have "field_ok (cg_WriteAddress cb x1) (r_wrap ''unmarshaling t.Address'' (cg_ReadAddress cb)) x1"
    using f by (auto simp: list_all_iff intro!: field_wrap [OF codec_field])
  then obtain b1 where b1: "cg_WriteAddress cb x1 = Ok b1"
      "\<forall>bs. (r_wrap ''unmarshaling t.Address'' (cg_ReadAddress cb)) (b1 @ bs) = Ok (x1, bs)" by (rule field_okE)
  have "field_ok (w_string cb ''ID'' x2) (cg_ReadString cb) x2"
    using f by (auto simp: list_all_iff intro!: field_string)
  then obtain b2 where b2: "w_string cb ''ID'' x2 = Ok b2"
      "\<forall>bs. (cg_ReadString cb) (b2 @ bs) = Ok (x2, bs)" by (rule field_okE)
  have "field_ok (w_ptr (w_cid cb ''PieceCID'') x3) (r_ptr (r_wrap ''failed to read cid field t.PieceCID'' (cg_ReadCid cb)) None) x3"
    using f by (auto simp: list_all_iff intro!: field_cid_ptr)
  then obtain b3 where b3: "w_ptr (w_cid cb ''PieceCID'') x3 = Ok b3"
      "\<forall>bs. (r_ptr (r_wrap ''failed to read cid field t.PieceCID'' (cg_ReadCid cb)) None) (b3 @ bs) = Ok (x3, bs)" by (rule field_okE)
  show ?thesis
    by (rule codec_okI [of _ _ "163 # enc_name cb ''Address'' @ b1 @ enc_name cb ''ID'' @ b2 @ enc_name cb ''PieceCID'' @ b3"])
       (simp_all add: t Marshal_RetrievalPeer_def Unmarshal_RetrievalPeer_def zero_RetrievalPeer_def unmarshal_struct_def sets_def RetrievalPeer_field_def struct_header_simps MaxLength w_name_enc read_name b1 b2 b3)
qed

end

subsection \<open>\<open>ProviderDealState\<close>\<close>

definition zero_ProviderDealState :: ProviderDealState where
  "zero_ProviderDealState = \<lparr>pds_DealProposal = zero_DealProposal, pds_StoreID = 0, pds_ChannelID = '''', pds_Status = DealStatusNew, pds_Receiver = '''', pds_TotalSent = 0, pds_FundsReceived = 0, pds_Message = '''', pds_CurrentInterval = 0\<rparr>"

definition Marshal_ProviderDealState_1 :: "cbg \<Rightarrow> ProviderDealState \<Rightarrow> bytes go list" where
  "Marshal_ProviderDealState_1 cb t =
     [w_name cb ''DealProposal'', Marshal_DealProposal cb (pds_DealProposal t),
      w_name cb ''StoreID'', w_uint cb (pds_StoreID t),
      w_name cb ''ChannelID'', cg_WriteChannelID cb (pds_ChannelID t),
      w_name cb ''Status'', w_uint cb (DealStatusCode (pds_Status t)),
      w_name cb ''Receiver'', w_string cb ''Receiver'' (pds_Receiver t)]"

definition Marshal_ProviderDealState_2 :: "cbg \<Rightarrow> ProviderDealState \<Rightarrow> bytes go list" where
  "Marshal_ProviderDealState_2 cb t =
     [w_name cb ''TotalSent'', w_uint cb (pds_TotalSent t),
      w_name cb ''FundsReceived'', cg_WriteBig cb (pds_FundsReceived t),
      w_name cb ''Message'', w_string cb ''Message'' (pds_Message t),
      w_name cb ''CurrentInterval'', w_uint cb (pds_CurrentInterval t)]"

definition Marshal_ProviderDealState :: "cbg \<Rightarrow> ProviderDealState writer" where
  "Marshal_ProviderDealState cb t = seq_w (Ok [169] # Marshal_ProviderDealState_1 cb t @ Marshal_ProviderDealState_2 cb t)"

definition ProviderDealState_field_1 :: "cbg \<Rightarrow> ProviderDealState handler" where
  "ProviderDealState_field_1 cb name t =
     (if name = ''DealProposal''
      then sets (r_wrap ''unmarshaling t.DealProposal'' (Unmarshal_DealProposal cb)) (\<lambda>x. t\<lparr>pds_DealProposal := x\<rparr>)
      else if name = ''StoreID''
      then sets (r_uint cb) (\<lambda>x. t\<lparr>pds_StoreID := x\<rparr>)
      else if name = ''ChannelID''
      then sets (r_wrap ''unmarshaling t.ChannelID'' (cg_ReadChannelID cb)) (\<lambda>x. t\<lparr>pds_ChannelID := x\<rparr>)
      else if name = ''Status''
      then sets (r_status cb) (\<lambda>x. t\<lparr>pds_Status := x\<rparr>)
      else if name = ''Receiver''
      then sets (cg_ReadString cb) (\<lambda>x. t\<lparr>pds_Receiver := x\<rparr>)
      else None)"

definition ProviderDealState_field_2 :: "cbg \<Rightarrow> ProviderDealState handler" where
  "ProviderDealState_field_2 cb name t =
     (if name = ''TotalSent''
      then sets (r_uint cb) (\<lambda>x. t\<lparr>pds_TotalSent := x\<rparr>)
      else if name = ''FundsReceived''
      then sets (r_wrap ''unmarshaling t.FundsReceived'' (cg_ReadBig cb)) (\<lambda>x. t\<lparr>pds_FundsReceived := x\<rparr>)
      else if name = ''Message''
      then sets (cg_ReadString cb) (\<lambda>x. t\<lparr>pds_Message := x\<rparr>)
      else if name = ''CurrentInterval''
      then sets (r_uint cb) (\<lambda>x. t\<lparr>pds_CurrentInterval := x\<rparr>)
      else None)"

definition Unmarshal_ProviderDealState :: "cbg \<Rightarrow> ProviderDealState reader" where
  "Unmarshal_ProviderDealState cb = unmarshal_struct cb ''ProviderDealState'' (or_else (ProviderDealState_field_1 cb) (ProviderDealState_field_2 cb)) zero_ProviderDealState"

definition fits_ProviderDealState :: "cbg \<Rightarrow> ProviderDealState \<Rightarrow> bool" where
  "fits_ProviderDealState cb t \<longleftrightarrow>
     fits_DealProposal cb (pds_DealProposal t) \<and>
     codec_ok (cg_WriteChannelID cb) (cg_ReadChannelID cb) (pds_ChannelID t) \<and>
     wf_status (pds_Status t) \<and>
     length (pds_Receiver t) \<le> 8192 \<and>
     codec_ok (cg_WriteBig cb) (cg_ReadBig cb) (pds_FundsReceived t) \<and>
     length (pds_Message t) \<le> 8192"

context cbg_lib
begin

lemma codec_ProviderDealState:
  assumes "fits_ProviderDealState cb t"
  shows "codec_ok (Marshal_ProviderDealState cb) (Unmarshal_ProviderDealState cb) t"
proof -
  obtain x1 x2 x3 x4 x5 x6 x7 x8 x9 where t: "t = \<lparr>pds_DealProposal = x1, pds_StoreID = x2, pds_ChannelID = x3, pds_Status = x4, pds_Receiver = x5, pds_TotalSent = x6, pds_FundsReceived = x7, pds_Message = x8, pds_CurrentInterval = x9\<rparr>"
    by (cases t)
  note f = assms [unfolded t fits_ProviderDealState_def, simplified]
  have "field_ok (Marshal_DealProposal cb x1) (r_wrap ''unmarshaling t.DealProposal'' (Unmarshal_DealProposal cb)) x1"
    using f by (auto simp: list_all_iff intro!: field_wrap [OF codec_field] codec_DealProposal)
  then obtain b1 where b1: "Marshal_DealProposal cb x1 = Ok b1"
      "\<forall>bs. (r_wrap ''unmarshaling t.DealProposal'' (Unmarshal_DealProposal cb)) (b1 @ bs) = Ok (x1, bs)" by (rule field_okE)
  have "field_ok (w_uint cb x2) (r_uint cb) x2"
    using f by (auto simp: list_all_iff intro!: field_uint)
  then obtain b2 where b2: "w_uint cb x2 = Ok b2"
      "\<forall>bs. (r_uint cb) (b2 @ bs) = Ok (x2, bs)" by (rule field_okE)
  have "field_ok (cg_WriteChannelID cb x3) (r_wrap ''unmarshaling t.ChannelID'' (cg_ReadChannelID cb)) x3"
    using f by (auto simp: list_all_iff intro!: field_wrap [OF codec_field])
  then obtain b3 where b3: "cg_WriteChannelID cb x3 = Ok b3"
      "\<forall>bs. (r_wrap ''unmarshaling t.ChannelID'' (cg_ReadChannelID cb)) (b3 @ bs) = Ok (x3, bs)" by (rule field_okE)
  have "field_ok (w_uint cb (DealStatusCode x4)) (r_status cb) x4"
    using f by (auto simp: list_all_iff intro!: field_status)
  then obtain b4 where b4: "w_uint cb (DealStatusCode x4) = Ok b4"
      "\<forall>bs. (r_status cb) (b4 @ bs) = Ok (x4, bs)" by (rule field_okE)
  have "field_ok (w_string cb ''Receiver'' x5) (cg_ReadString cb) x5"
    using f by (auto simp: list_all_iff intro!: field_string)
  then obtain b5 where b5: "w_string cb ''Receiver'' x5 = Ok b5"
      "\<forall>bs. (cg_ReadString cb) (b5 @ bs) = Ok (x5, bs)" by (rule field_okE)
  have "field_ok (w_uint cb x6) (r_uint cb) x6"
    using f by (auto simp: list_all_iff intro!: field_uint)
  then obtain b6 where b6: "w_uint cb x6 = Ok b6"
      "\<forall>bs. (r_uint cb) (b6 @ bs) = Ok (x6, bs)" by (rule field_okE)
  have "field_ok (cg_WriteBig cb x7) (r_wrap ''unmarshaling t.FundsReceived'' (cg_ReadBig cb)) x7"
    using f by (auto simp: list_all_iff intro!: field_wrap [OF codec_field])
  then obtain b7 where b7: "cg_WriteBig cb x7 = Ok b7"
      "\<forall>bs. (r_wrap ''unmarshaling t.FundsReceived'' (cg_ReadBig cb)) (b7 @ bs) = Ok (x7, bs)" by (rule field_okE)
  have "field_ok (w_string cb ''Message'' x8) (cg_ReadString cb) x8"
    using f by (auto simp: list_all_iff intro!: field_string)
  then obtain b8 where b8: "w_string cb ''Message'' x8 = Ok b8"
      "\<forall>bs. (cg_ReadString cb) (b8 @ bs) = Ok (x8, bs)" by (rule field_okE)
  have "field_ok (w_uint cb x9) (r_uint cb) x9"
    using f by (auto simp: list_all_iff intro!: field_uint)
  then obtain b9 where b9: "w_uint cb x9 = Ok b9"
      "\<forall>bs. (r_uint cb) (b9 @ bs) = Ok (x9, bs)" by (rule field_okE)
  show ?thesis
    by (rule codec_okI [of _ _ "169 # enc_name cb ''DealProposal'' @ b1 @ enc_name cb ''StoreID'' @ b2 @ enc_name cb ''ChannelID'' @ b3 @ enc_name cb ''Status'' @ b4 @ enc_name cb ''Receiver'' @ b5 @ enc_name cb ''TotalSent'' @ b6 @ enc_name cb ''FundsReceived'' @ b7 @ enc_name cb ''Message'' @ b8 @ enc_name cb ''CurrentInterval'' @ b9"])
       (simp_all add: t Marshal_ProviderDealState_def Unmarshal_ProviderDealState_def zero_ProviderDealState_def unmarshal_struct_def sets_def or_else_def Marshal_ProviderDealState_1_def ProviderDealState_field_1_def Marshal_ProviderDealState_2_def ProviderDealState_field_2_def struct_header_simps MaxLength w_name_enc read_name b1 b2 b3 b4 b5 b6 b7 b8 b9)
qed

end

subsection \<open>\<open>ClientDealState\<close>\<close>

definition zero_ClientDealState :: ClientDealState where
  "zero_ClientDealState = \<lparr>cds_DealProposal = zero_DealProposal, cds_StoreID = None, cds_ChannelID = '''', cds_LastPaymentRequested = False, cds_AllBlocksReceived = False, cds_TotalFunds = 0, cds_ClientWallet = AddressUndef, cds_MinerWallet = AddressUndef, cds_PaymentInfo = None, cds_Status = DealStatusNew, cds_Sender = '''', cds_TotalReceived = 0, cds_Message = '''', cds_BytesPaidFor = 0, cds_CurrentInterval = 0, cds_PaymentRequested = 0, cds_FundsSpent = 0, cds_UnsealFundsPaid = 0, cds_WaitMsgCID = None, cds_VoucherShortfall = 0, cds_LegacyProtocol = False\<rparr>"

definition Marshal_ClientDealState_1 :: "cbg \<Rightarrow> ClientDealState \<Rightarrow> bytes go list" where
  "Marshal_ClientDealState_1 cb t =
     [w_name cb ''DealProposal'', Marshal_DealProposal cb (cds_DealProposal t),
      w_name cb ''StoreID'', w_ptr (w_uint cb) (cds_StoreID t),
      w_name cb ''ChannelID'', cg_WriteChannelID cb (cds_ChannelID t),
      w_name cb ''LastPaymentRequested'', w_bool cb (cds_LastPaymentRequested t),
      w_name cb ''AllBlocksReceived'', w_bool cb (cds_AllBlocksReceived t),
      w_name cb ''TotalFunds'', cg_WriteBig cb (cds_TotalFunds t),
      w_name cb ''ClientWallet'', cg_WriteAddress cb (cds_ClientWallet t),
      w_name cb ''MinerWallet'', cg_WriteAddress cb (cds_MinerWallet t)]"

definition Marshal_ClientDealState_2 :: "cbg \<Rightarrow> ClientDealState \<Rightarrow> bytes go list" where
  "Marshal_ClientDealState_2 cb t =
     [w_name cb ''PaymentInfo'', w_ptr (Marshal_PaymentInfo cb) (cds_PaymentInfo t),
      w_name cb ''Status'', w_uint cb (DealStatusCode (cds_Status t)),
      w_name cb ''Sender'', w_string cb ''Sender'' (cds_Sender t),
      w_name cb ''TotalReceived'', w_uint cb (cds_TotalReceived t),
      w_name cb ''Message'', w_string cb ''Message'' (cds_Message t),
      w_name cb ''BytesPaidFor'', w_uint cb (cds_BytesPaidFor t),
      w_name cb ''CurrentInterval'', w_uint cb (cds_CurrentInterval t)]"

definition Marshal_ClientDealState_3 :: "cbg \<Rightarrow> ClientDealState \<Rightarrow> bytes go list" where
  "Marshal_ClientDealState_3 cb t =
     [w_name cb ''PaymentRequested'', cg_WriteBig cb (cds_PaymentRequested t),
      w_name cb ''FundsSpent'', cg_WriteBig cb (cds_FundsSpent t),
      w_name cb ''UnsealFundsPaid'', cg_WriteBig cb (cds_UnsealFundsPaid t),
      w_name cb ''WaitMsgCID'', w_ptr (w_cid cb ''WaitMsgCID'') (cds_WaitMsgCID t),
      w_name cb ''VoucherShortfall'', cg_WriteBig cb (cds_VoucherShortfall t),
      w_name cb ''LegacyProtocol'', w_bool cb (cds_LegacyProtocol t)]"

definition Marshal_ClientDealState :: "cbg \<Rightarrow> ClientDealState writer" where
  "Marshal_ClientDealState cb t = seq_w (Ok [181] # Marshal_ClientDealState_1 cb t @ Marshal_ClientDealState_2 cb t @ Marshal_ClientDealState_3 cb t)"

definition ClientDealState_field_1 :: "cbg \<Rightarrow> ClientDealState handler" where
  "ClientDealState_field_1 cb name t =
     (if name = ''DealProposal''
      then sets (r_wrap ''unmarshaling t.DealProposal'' (Unmarshal_DealProposal cb)) (\<lambda>x. t\<lparr>cds_DealProposal := x\<rparr>)
      else if name = ''StoreID''
      then sets (r_ptr (r_uint cb) (cds_StoreID t)) (\<lambda>x. t\<lparr>cds_StoreID := x\<rparr>)
      else if name = ''ChannelID''
      then sets (r_wrap ''unmarshaling t.ChannelID'' (cg_ReadChannelID cb)) (\<lambda>x. t\<lparr>cds_ChannelID := x\<rparr>)
      else if name = ''LastPaymentRequested''
      then sets (r_bool cb) (\<lambda>x. t\<lparr>cds_LastPaymentRequested := x\<rparr>)
      else if name = ''AllBlocksReceived''
      then sets (r_bool cb) (\<lambda>x. t\<lparr>cds_AllBlocksReceived := x\<rparr>)
      else if name = ''TotalFunds''
      then sets (r_wrap ''unmarshaling t.TotalFunds'' (cg_ReadBig cb)) (\<lambda>x. t\<lparr>cds_TotalFunds := x\<rparr>)
      else if name = ''ClientWallet''
      then sets (r_wrap ''unmarshaling t.ClientWallet'' (cg_ReadAddress cb)) (\<lambda>x. t\<lparr>cds_ClientWallet := x\<rparr>)
      else if name = ''MinerWallet''
      then sets (r_wrap ''unmarshaling t.MinerWallet'' (cg_ReadAddress cb)) (\<lambda>x. t\<lparr>cds_MinerWallet := x\<rparr>)
      else None)"

definition ClientDealState_field_2 :: "cbg \<Rightarrow> ClientDealState handler" where
  "ClientDealState_field_2 cb name t =
     (if name = ''PaymentInfo''
      then sets (r_ptr (r_wrap ''unmarshaling t.PaymentInfo pointer'' (Unmarshal_PaymentInfo cb)) (cds_PaymentInfo t)) (\<lambda>x. t\<lparr>cds_PaymentInfo := x\<rparr>)
      else if name = ''Status''
      then sets (r_status cb) (\<lambda>x. t\<lparr>cds_Status := x\<rparr>)
      else if name = ''Sender''
      then sets (cg_ReadString cb) (\<lambda>x. t\<lparr>cds_Sender := x\<rparr>)
      else if name = ''TotalReceived''
      then sets (r_uint cb) (\<lambda>x. t\<lparr>cds_TotalReceived := x\<rparr>)
      else if name = ''Message''
      then sets (cg_ReadString cb) (\<lambda>x. t\<lparr>cds_Message := x\<rparr>)
      else if name = ''BytesPaidFor''
      then sets (r_uint cb) (\<lambda>x. t\<lparr>cds_BytesPaidFor := x\<rparr>)
      else if name = ''CurrentInterval''
      then sets (r_uint cb) (\<lambda>x. t\<lparr>cds_CurrentInterval := x\<rparr>)
      else None)"

definition ClientDealState_field_3 :: "cbg \<Rightarrow> ClientDealState handler" where
  "ClientDealState_field_3 cb name t =
     (if name = ''PaymentRequested''
      then sets (r_wrap ''unmarshaling t.PaymentRequested'' (cg_ReadBig cb)) (\<lambda>x. t\<lparr>cds_PaymentRequested := x\<rparr>)
      else if name = ''FundsSpent''
      then sets (r_wrap ''unmarshaling t.FundsSpent'' (cg_ReadBig cb)) (\<lambda>x. t\<lparr>cds_FundsSpent := x\<rparr>)
      else if name = ''UnsealFundsPaid''
      then sets (r_wrap ''unmarshaling t.UnsealFundsPaid'' (cg_ReadBig cb)) (\<lambda>x. t\<lparr>cds_UnsealFundsPaid := x\<rparr>)
      else if name = ''WaitMsgCID''
      then sets (r_ptr (r_wrap ''failed to read cid field t.WaitMsgCID'' (cg_ReadCid cb)) (cds_WaitMsgCID t)) (\<lambda>x. t\<lparr>cds_WaitMsgCID := x\<rparr>)
      else if name = ''VoucherShortfall''
      then sets (r_wrap ''unmarshaling t.VoucherShortfall'' (cg_ReadBig cb)) (\<lambda>x. t\<lparr>cds_VoucherShortfall := x\<rparr>)
      else if name = ''LegacyProtocol''
      then sets (r_bool cb) (\<lambda>x. t\<lparr>cds_LegacyProtocol := x\<rparr>)
      else None)"

definition Unmarshal_ClientDealState :: "cbg \<Rightarrow> ClientDealState reader" where
  "Unmarshal_ClientDealState cb = unmarshal_struct cb ''ClientDealState'' (or_else (ClientDealState_field_1 cb) (or_else (ClientDealState_field_2 cb) (ClientDealState_field_3 cb))) zero_ClientDealState"

definition fits_ClientDealState :: "cbg \<Rightarrow> ClientDealState \<Rightarrow> bool" where
  "fits_ClientDealState cb t \<longleftrightarrow>
     fits_DealProposal cb (cds_DealProposal t) \<and>
     codec_ok (cg_WriteChannelID cb) (cg_ReadChannelID cb) (cds_ChannelID t) \<and>
     codec_ok (cg_WriteBig cb) (cg_ReadBig cb) (cds_TotalFunds t) \<and>
     codec_ok (cg_WriteAddress cb) (cg_ReadAddress cb) (cds_ClientWallet t) \<and>
     codec_ok (cg_WriteAddress cb) (cg_ReadAddress cb) (cds_MinerWallet t) \<and>
     pred_option (fits_PaymentInfo cb) (cds_PaymentInfo t) \<and>
     wf_status (cds_Status t) \<and>
     length (cds_Sender t) \<le> 8192 \<and>
     length (cds_Message t) \<le> 8192 \<and>
     codec_ok (cg_WriteBig cb) (cg_ReadBig cb) (cds_PaymentRequested t) \<and>
     codec_ok (cg_WriteBig cb) (cg_ReadBig cb) (cds_FundsSpent t) \<and>
     codec_ok (cg_WriteBig cb) (cg_ReadBig cb) (cds_UnsealFundsPaid t) \<and>
     pred_option (codec_ok (cg_WriteCid cb) (cg_ReadCid cb)) (cds_WaitMsgCID t) \<and>
     codec_ok (cg_WriteBig cb) (cg_ReadBig cb) (cds_VoucherShortfall t)"

context cbg_lib
begin

lemma codec_ClientDealState:
  assumes "fits_ClientDealState cb t"
  shows "codec_ok (Marshal_ClientDealState cb) (Unmarshal_ClientDealState cb) t"
proof -
  obtain x1 x2 x3 x4 x5 x6 x7 x8 x9 x10 x11 x12 x13 x14 x15 x16 x17 x18 x19 x20 x21 where t: "t = \<lparr>cds_DealProposal = x1, cds_StoreID = x2, cds_ChannelID = x3, cds_LastPaymentRequested = x4, cds_AllBlocksReceived = x5, cds_TotalFunds = x6, cds_ClientWallet = x7, cds_MinerWallet = x8, cds_PaymentInfo = x9, cds_Status = x10, cds_Sender = x11, cds_TotalReceived = x12, cds_Message = x13, cds_BytesPaidFor = x14, cds_CurrentInterval = x15, cds_PaymentRequested = x16, cds_FundsSpent = x17, cds_UnsealFundsPaid = x18, cds_WaitMsgCID = x19, cds_VoucherShortfall = x20, cds_LegacyProtocol = x21\<rparr>"
    by (cases t)
  note f = assms [unfolded t fits_ClientDealState_def, simplified]
  have "field_ok (Marshal_DealProposal cb x1) (r_wrap ''unmarshaling t.DealProposal'' (Unmarshal_DealProposal cb)) x1"
    using f by (auto simp: list_all_iff intro!: field_wrap [OF codec_field] codec_DealProposal)
  then obtain b1 where b1: "Marshal_DealProposal cb x1 = Ok b1"
      "\<forall>bs. (r_wrap ''unmarshaling t.DealProposal'' (Unmarshal_DealProposal cb)) (b1 @ bs) = Ok (x1, bs)" by (rule field_okE)
  have "field_ok (w_ptr (w_uint cb) x2) (r_ptr (r_uint cb) None) x2"
    using f by (auto simp: list_all_iff intro!: field_ptr [OF codec_uint])
  then obtain b2 where b2: "w_ptr (w_uint cb) x2 = Ok b2"
      "\<forall>bs. (r_ptr (r_uint cb) None) (b2 @ bs) = Ok (x2, bs)" by (rule field_okE)
  have "field_ok (cg_WriteChannelID cb x3) (r_wrap ''unmarshaling t.ChannelID'' (cg_ReadChannelID cb)) x3"
    using f by (auto simp: list_all_iff intro!: field_wrap [OF codec_field])
  then obtain b3 where b3: "cg_WriteChannelID cb x3 = Ok b3"
      "\<forall>bs. (r_wrap ''unmarshaling t.ChannelID'' (cg_ReadChannelID cb)) (b3 @ bs) = Ok (x3, bs)" by (rule field_okE)
  have "field_ok (w_bool cb x4) (r_bool cb) x4"
    using f by (auto simp: list_all_iff intro!: field_bool)
  then obtain b4 where b4: "w_bool cb x4 = Ok b4"
      "\<forall>bs. (r_bool cb) (b4 @ bs) = Ok (x4, bs)" by (rule field_okE)
  have "field_ok (w_bool cb x5) (r_bool cb) x5"
    using f by (auto simp: list_all_iff intro!: field_bool)
  then obtain b5 where b5: "w_bool cb x5 = Ok b5"
      "\<forall>bs. (r_bool cb) (b5 @ bs) = Ok (x5, bs)" by (rule field_okE)
  have "field_ok (cg_WriteBig cb x6) (r_wrap ''unmarshaling t.TotalFunds'' (cg_ReadBig cb)) x6"
    using f by (auto simp: list_all_iff intro!: field_wrap [OF codec_field])
  then obtain b6 where b6: "cg_WriteBig cb x6 = Ok b6"
      "\<forall>bs. (r_wrap ''unmarshaling t.TotalFunds'' (cg_ReadBig cb)) (b6 @ bs) = Ok (x6, bs)" by (rule field_okE)
  have "field_ok (cg_WriteAddress cb x7) (r_wrap ''unmarshaling t.ClientWallet'' (cg_ReadAddress cb)) x7"
    using f by (auto simp: list_all_iff intro!: field_wrap [OF codec_field])
  then obtain b7 where b7: "cg_WriteAddress cb x7 = Ok b7"
      "\<forall>bs. (r_wrap ''unmarshaling t.ClientWallet'' (cg_ReadAddress cb)) (b7 @ bs) = Ok (x7, bs)" by (rule field_okE)
  have "field_ok (cg_WriteAddress cb x8) (r_wrap ''unmarshaling t.MinerWallet'' (cg_ReadAddress cb)) x8"
    using f by (auto simp: list_all_iff intro!: field_wrap [OF codec_field])
  then obtain b8 where b8: "cg_WriteAddress cb x8 = Ok b8"
      "\<forall>bs. (r_wrap ''unmarshaling t.MinerWallet'' (cg_ReadAddress cb)) (b8 @ bs) = Ok (x8, bs)" by (rule field_okE)
  have "field_ok (w_ptr (Marshal_PaymentInfo cb) x9) (r_ptr (r_wrap ''unmarshaling t.PaymentInfo pointer'' (Unmarshal_PaymentInfo cb)) None) x9"
    using f by (auto simp: list_all_iff intro!: field_struct_ptr codec_PaymentInfo)
  then obtain b9 where b9: "w_ptr (Marshal_PaymentInfo cb) x9 = Ok b9"
      "\<forall>bs. (r_ptr (r_wrap ''unmarshaling t.PaymentInfo pointer'' (Unmarshal_PaymentInfo cb)) None) (b9 @ bs) = Ok (x9, bs)" by (rule field_okE)
  have "field_ok (w_uint cb (DealStatusCode x10)) (r_status cb) x10"
    using f by (auto simp: list_all_iff intro!: field_status)
  then obtain b10 where b10: "w_uint cb (DealStatusCode x10) = Ok b10"
      "\<forall>bs. (r_status cb) (b10 @ bs) = Ok (x10, bs)" by (rule field_okE)
  have "field_ok (w_string cb ''Sender'' x11) (cg_ReadString cb) x11"
    using f by (auto simp: list_all_iff intro!: field_string)
  then obtain b11 where b11: "w_string cb ''Sender'' x11 = Ok b11"
      "\<forall>bs. (cg_ReadString cb) (b11 @ bs) = Ok (x11, bs)" by (rule field_okE)
  have "field_ok (w_uint cb x12) (r_uint cb) x12"
    using f by (auto simp: list_all_iff intro!: field_uint)
  then obtain b12 where b12: "w_uint cb x12 = Ok b12"
      "\<forall>bs. (r_uint cb) (b12 @ bs) = Ok (x12, bs)" by (rule field_okE)
  have "field_ok (w_string cb ''Message'' x13) (cg_ReadString cb) x13"
    using f by (auto simp: list_all_iff intro!: field_string)
  then obtain b13 where b13: "w_string cb ''Message'' x13 = Ok b13"
      "\<forall>bs. (cg_ReadString cb) (b13 @ bs) = Ok (x13, bs)" by (rule field_okE)
  have "field_ok (w_uint cb x14) (r_uint cb) x14"
    using f by (auto simp: list_all_iff intro!: field_uint)
  then obtain b14 where b14: "w_uint cb x14 = Ok b14"
      "\<forall>bs. (r_uint cb) (b14 @ bs) = Ok (x14, bs)" by (rule field_okE)
  have "field_ok (w_uint cb x15) (r_uint cb) x15"
    using f by (auto simp: list_all_iff intro!: field_uint)
  then obtain b15 where b15: "w_uint cb x15 = Ok b15"
      "\<forall>bs. (r_uint cb) (b15 @ bs) = Ok (x15, bs)" by (rule field_okE)
  have "field_ok (cg_WriteBig cb x16) (r_wrap ''unmarshaling t.PaymentRequested'' (cg_ReadBig cb)) x16"
    using f by (auto simp: list_all_iff intro!: field_wrap [OF codec_field])
  then obtain b16 where b16: "cg_WriteBig cb x16 = Ok b16"
      "\<forall>bs. (r_wrap ''unmarshaling t.PaymentRequested'' (cg_ReadBig cb)) (b16 @ bs) = Ok (x16, bs)" by (rule field_okE)
  have "field_ok (cg_WriteBig cb x17) (r_wrap ''unmarshaling t.FundsSpent'' (cg_ReadBig cb)) x17"
    using f by (auto simp: list_all_iff intro!: field_wrap [OF codec_field])
  then obtain b17 where b17: "cg_WriteBig cb x17 = Ok b17"
      "\<forall>bs. (r_wrap ''unmarshaling t.FundsSpent'' (cg_ReadBig cb)) (b17 @ bs) = Ok (x17, bs)" by (rule field_okE)
  have "field_ok (cg_WriteBig cb x18) (r_wrap ''unmarshaling t.UnsealFundsPaid'' (cg_ReadBig cb)) x18"
    using f by (auto simp: list_all_iff intro!: field_wrap [OF codec_field])
  then obtain b18 where b18: "cg_WriteBig cb x18 = Ok b18"
      "\<forall>bs. (r_wrap ''unmarshaling t.UnsealFundsPaid'' (cg_ReadBig cb)) (b18 @ bs) = Ok (x18, bs)" by (rule field_okE)
  have "field_ok (w_ptr (w_cid cb ''WaitMsgCID'') x19) (r_ptr (r_wrap ''failed to read cid field t.WaitMsgCID'' (cg_ReadCid cb)) None) x19"
    using f by (auto simp: list_all_iff intro!: field_cid_ptr)
  then obtain b19 where b19: "w_ptr (w_cid cb ''WaitMsgCID'') x19 = Ok b19"
      "\<forall>bs. (r_ptr (r_wrap ''failed to read cid field t.WaitMsgCID'' (cg_ReadCid cb)) None) (b19 @ bs) = Ok (x19, bs)" by (rule field_okE)
  have "field_ok (cg_WriteBig cb x20) (r_wrap ''unmarshaling t.VoucherShortfall'' (cg_ReadBig cb)) x20"
    using f by (auto simp: list_all_iff intro!: field_wrap [OF codec_field])
  then obtain b20 where b20: "cg_WriteBig cb x20 = Ok b20"
      "\<forall>bs. (r_wrap ''unmarshaling t.VoucherShortfall'' (cg_ReadBig cb)) (b20 @ bs) = Ok (x20, bs)" by (rule field_okE)
  have "field_ok (w_bool cb x21) (r_bool cb) x21"
    using f by (auto simp: list_all_iff intro!: field_bool)
  then obtain b21 where b21: "w_bool cb x21 = Ok b21"
      "\<forall>bs. (r_bool cb) (b21 @ bs) = Ok (x21, bs)" by (rule field_okE)
  show ?thesis
    by (rule codec_okI [of _ _ "181 # enc_name cb ''DealProposal'' @ b1 @ enc_name cb ''StoreID'' @ b2 @ enc_name cb ''ChannelID'' @ b3 @ enc_name cb ''LastPaymentRequested'' @ b4 @ enc_name cb ''AllBlocksReceived'' @ b5 @ enc_name cb ''TotalFunds'' @ b6 @ enc_name cb ''ClientWallet'' @ b7 @ enc_name cb ''MinerWallet'' @ b8 @ enc_name cb ''PaymentInfo'' @ b9 @ enc_name cb ''Status'' @ b10 @ enc_name cb ''Sender'' @ b11 @ enc_name cb ''TotalReceived'' @ b12 @ enc_name cb ''Message'' @ b13 @ enc_name cb ''BytesPaidFor'' @ b14 @ enc_name cb ''CurrentInterval'' @ b15 @ enc_name cb ''PaymentRequested'' @ b16 @ enc_name cb ''FundsSpent'' @ b17 @ enc_name cb ''UnsealFundsPaid'' @ b18 @ enc_name cb ''WaitMsgCID'' @ b19 @ enc_name cb ''VoucherShortfall'' @ b20 @ enc_name cb ''LegacyProtocol'' @ b21"])
       (simp_all add: t Marshal_ClientDealState_def Unmarshal_ClientDealState_def zero_ClientDealState_def unmarshal_struct_def sets_def or_else_def Marshal_ClientDealState_1_def ClientDealState_field_1_def Marshal_ClientDealState_2_def ClientDealState_field_2_def Marshal_ClientDealState_3_def ClientDealState_field_3_def struct_header_simps MaxLength w_name_enc read_name b1 b2 b3 b4 b5 b6 b7 b8 b9 b10 b11 b12 b13 b14 b15 b16 b17 b18 b19 b20 b21)
qed

end

subsection \<open>\<open>RetrievalPeers\<close>\<close>

record RetrievalPeers =
  Peers :: "RetrievalPeer list"

definition zero_RetrievalPeers :: RetrievalPeers where
  "zero_RetrievalPeers = \<lparr>Peers = []\<rparr>"

definition Marshal_RetrievalPeers :: "cbg \<Rightarrow> RetrievalPeers writer" where
  "Marshal_RetrievalPeers cb t =
     seq_w
       [Ok [161],
        w_name cb ''Peers'', w_array cb ''Peers'' (Marshal_RetrievalPeer cb) (Peers t)]"

definition RetrievalPeers_field :: "cbg \<Rightarrow> RetrievalPeers handler" where
  "RetrievalPeers_field cb name t =
     (if name = ''Peers''
      then sets (r_array cb ''Peers'' (Unmarshal_RetrievalPeer cb) (Peers t)) (\<lambda>x. t\<lparr>Peers := x\<rparr>)
      else None)"

definition Unmarshal_RetrievalPeers :: "cbg \<Rightarrow> RetrievalPeers reader" where
  "Unmarshal_RetrievalPeers cb = unmarshal_struct cb ''RetrievalPeers'' (RetrievalPeers_field cb) zero_RetrievalPeers"

definition fits_RetrievalPeers :: "cbg \<Rightarrow> RetrievalPeers \<Rightarrow> bool" where
  "fits_RetrievalPeers cb t \<longleftrightarrow>
     length (Peers t) \<le> 8192 \<and> list_all (fits_RetrievalPeer cb) (Peers t)"

context cbg_lib
begin

lemma codec_RetrievalPeers:
  assumes "fits_RetrievalPeers cb t"
  shows "codec_ok (Marshal_RetrievalPeers cb) (Unmarshal_RetrievalPeers cb) t"
proof -
  obtain x1 where t: "t = \<lparr>Peers = x1\<rparr>"
    by (cases t)
  note f = assms [unfolded t fits_RetrievalPeers_def, simplified]
  have "field_ok (w_array cb ''Peers'' (Marshal_RetrievalPeer cb) x1) (r_array cb ''Peers'' (Unmarshal_RetrievalPeer cb) []) x1"
    using f by (auto simp: list_all_iff intro!: field_array codec_RetrievalPeer)
  then obtain b1 where b1: "w_array cb ''Peers'' (Marshal_RetrievalPeer cb) x1 = Ok b1"
      "\<forall>bs. (r_array cb ''Peers'' (Unmarshal_RetrievalPeer cb) []) (b1 @ bs) = Ok (x1, bs)" by (rule field_okE)
  show ?thesis
    by (rule codec_okI [of _ _ "161 # enc_name cb ''Peers'' @ b1"])
       (simp_all add: t Marshal_RetrievalPeers_def Unmarshal_RetrievalPeers_def zero_RetrievalPeers_def unmarshal_struct_def sets_def RetrievalPeers_field_def struct_header_simps MaxLength w_name_enc read_name b1)
qed

end

end
