(* ===== verification/ChannelData.thy ===== *)
theory ChannelData
  imports Datastore
begin

text \<open>
  The records of the payment channel store in \<open>paychmgr.go\<close>: channels, their vouchers and
  the messages sent for them.
\<close>

section \<open>Records\<close>

definition DirInbound :: u64 where
  "DirInbound = 1"

definition DirOutbound :: u64 where
  "DirOutbound = 2"

record VoucherInfo =
  vi_Voucher :: "SignedVoucher option"
  vi_Proof :: bytes
  vi_Submitted :: bool

record ChannelInfo =
  ci_ChannelID :: string
  ci_Channel :: "Address option"
  ci_Control :: Address
  ci_Target :: Address
  ci_Direction :: u64
  ci_Vouchers :: "VoucherInfo list"
  ci_NextLane :: u64
  ci_Amount :: TokenAmount
  ci_PendingAmount :: TokenAmount
  ci_CreateMsg :: "Cid option"
  ci_AddFundsMsg :: "Cid option"
  ci_Settling :: bool

definition ci_from :: "ChannelInfo \<Rightarrow> Address" where
  "ci_from ci = (if ci_Direction ci = DirOutbound then ci_Control ci else ci_Target ci)"

definition ci_to :: "ChannelInfo \<Rightarrow> Address" where
  "ci_to ci = (if ci_Direction ci = DirOutbound then ci_Target ci else ci_Control ci)"

record MsgInfo =
  mi_ChannelID :: string
  mi_MsgCid :: Cid
  mi_Received :: bool
  mi_Err :: string

end
