(* ===== verification/CborPaych.thy ===== *)
theory CborPaych
  imports CborTypes ChannelData
begin

text \<open>
  The generated encoders and decoders of the payment channel store's records,
  \<open>paychmgr_cbor_gen.go\<close>, with their round trips.
\<close>

section \<open>\<open>VoucherInfo\<close>\<close>

definition zero_VoucherInfo :: VoucherInfo where
  "zero_VoucherInfo = \<lparr>vi_Voucher = None, vi_Proof = [], vi_Submitted = False\<rparr>"

definition Marshal_VoucherInfo :: "cbg \<Rightarrow> VoucherInfo writer" where
  "Marshal_VoucherInfo cb t =
     seq_w
       [Ok [163],
        w_name cb ''Voucher'', w_ptr (cg_WriteVoucher cb) (vi_Voucher t),
        w_name cb ''Proof'', w_bytes cb ''Proof'' (vi_Proof t),
        w_name cb ''Submitted'', w_bool cb (vi_Submitted t)]"

definition VoucherInfo_field :: "cbg \<Rightarrow> VoucherInfo handler" where
  "VoucherInfo_field cb name t =
     (if name = ''Voucher''
      then sets (r_ptr (r_wrap ''unmarshaling t.Voucher pointer'' (cg_ReadVoucher cb)) (vi_Voucher t)) (\<lambda>x. t\<lparr>vi_Voucher := x\<rparr>)
      else if name = ''Proof''
      then sets (r_bytes cb ''Proof'' (vi_Proof t)) (\<lambda>x. t\<lparr>vi_Proof := x\<rparr>)
      else if name = ''Submitted''
      then sets (r_bool cb) (\<lambda>x. t\<lparr>vi_Submitted := x\<rparr>)
      else None)"

definition Unmarshal_VoucherInfo :: "cbg \<Rightarrow> VoucherInfo reader" where
  "Unmarshal_VoucherInfo cb = unmarshal_struct cb ''VoucherInfo'' (VoucherInfo_field cb) zero_VoucherInfo"

definition fits_VoucherInfo :: "cbg \<Rightarrow> VoucherInfo \<Rightarrow> bool" where
  "fits_VoucherInfo cb t \<longleftrightarrow>
     pred_option (codec_ok (cg_WriteVoucher cb) (cg_ReadVoucher cb)) (vi_Voucher t) \<and>
     length (vi_Proof t) \<le> 2097152"

context cbg_lib
begin

lemma codec_VoucherInfo:
  assumes "fits_VoucherInfo cb t"
  shows "codec_ok (Marshal_VoucherInfo cb) (Unmarshal_VoucherInfo cb) t"
proof -
  obtain x1 x2 x3 where t: "t = \<lparr>vi_Voucher = x1, vi_Proof = x2, vi_Submitted = x3\<rparr>"
    by (cases t)
  note f = assms [unfolded t fits_VoucherInfo_def, simplified]
  have "field_ok (w_ptr (cg_WriteVoucher cb) x1) (r_ptr (r_wrap ''unmarshaling t.Voucher pointer'' (cg_ReadVoucher cb)) None) x1"
    using f by (auto simp: list_all_iff intro!: field_voucher_ptr)
  then obtain b1 where b1: "w_ptr (cg_WriteVoucher cb) x1 = Ok b1"
      "\<forall>bs. (r_ptr (r_wrap ''unmarshaling t.Voucher pointer'' (cg_ReadVoucher cb)) None) (b1 @ bs) = Ok (x1, bs)" by (rule field_okE)
  have "field_ok (w_bytes cb ''Proof'' x2) (r_bytes cb ''Proof'' []) x2"
    using f by (auto simp: list_all_iff intro!: field_bytes)
  then obtain b2 where b2: "w_bytes cb ''Proof'' x2 = Ok b2"
      "\<forall>bs. (r_bytes cb ''Proof'' []) (b2 @ bs) = Ok (x2, bs)" by (rule field_okE)
  have "field_ok (w_bool cb x3) (r_bool cb) x3"
    using f by (auto simp: list_all_iff intro!: field_bool)
  then obtain b3 where b3: "w_bool cb x3 = Ok b3"
      "\<forall>bs. (r_bool cb) (b3 @ bs) = Ok (x3, bs)" by (rule field_okE)
  show ?thesis
    by (rule codec_okI [of _ _ "163 # enc_name cb ''Voucher'' @ b1 @ enc_name cb ''Proof'' @ b2 @ enc_name cb ''Submitted'' @ b3"])
       (simp_all add: t Marshal_VoucherInfo_def Unmarshal_VoucherInfo_def zero_VoucherInfo_def unmarshal_struct_def sets_def VoucherInfo_field_def struct_header_simps MaxLength w_name_enc read_name b1 b2 b3)
qed

end

section \<open>\<open>ChannelInfo\<close>\<close>

definition zero_ChannelInfo :: ChannelInfo where
  "zero_ChannelInfo = \<lparr>ci_ChannelID = '''', ci_Channel = None, ci_Control = AddressUndef, ci_Target = AddressUndef, ci_Direction = 0, ci_Vouchers = [], ci_NextLane = 0, ci_Amount = 0, ci_PendingAmount = 0, ci_CreateMsg = None, ci_AddFundsMsg = None, ci_Settling = False\<rparr>"

definition Marshal_ChannelInfo_1 :: "cbg \<Rightarrow> ChannelInfo \<Rightarrow> bytes go list" where
  "Marshal_ChannelInfo_1 cb t =
     [w_name cb ''ChannelID'', w_string cb ''ChannelID'' (ci_ChannelID t),
      w_name cb ''Channel'', w_addr_ptr cb (ci_Channel t),
      w_name cb ''Control'', cg_WriteAddress cb (ci_Control t),
      w_name cb ''Target'', cg_WriteAddress cb (ci_Target t),
      w_name cb ''Direction'', w_uint cb (ci_Direction t),
      w_name cb ''Vouchers'', w_array cb ''Vouchers'' (Marshal_VoucherInfo cb) (ci_Vouchers t)]"

definition Marshal_ChannelInfo_2 :: "cbg \<Rightarrow> ChannelInfo \<Rightarrow> bytes go list" where
  "Marshal_ChannelInfo_2 cb t =
     [w_name cb ''NextLane'', w_uint cb (ci_NextLane t),
      w_name cb ''Amount'', cg_WriteBig cb (ci_Amount t),
      w_name cb ''PendingAmount'', cg_WriteBig cb (ci_PendingAmount t),
      w_name cb ''CreateMsg'', w_ptr (w_cid cb ''CreateMsg'') (ci_CreateMsg t),
      w_name cb ''AddFundsMsg'', w_ptr (w_cid cb ''AddFundsMsg'') (ci_AddFundsMsg t),
      w_name cb ''Settling'', w_bool cb (ci_Settling t)]"

definition Marshal_ChannelInfo :: "cbg \<Rightarrow> ChannelInfo writer" where
  "Marshal_ChannelInfo cb t = seq_w (Ok [172] # Marshal_ChannelInfo_1 cb t @ Marshal_ChannelInfo_2 cb t)"

definition ChannelInfo_field_1 :: "cbg \<Rightarrow> ChannelInfo handler" where
  "ChannelInfo_field_1 cb name t =
     (if name = ''ChannelID''
      then sets (cg_ReadString cb) (\<lambda>x. t\<lparr>ci_ChannelID := x\<rparr>)
      else if name = ''Channel''
      then sets (r_ptr (r_wrap ''unmarshaling t.Channel pointer'' (cg_ReadAddress cb)) (ci_Channel t)) (\<lambda>x. t\<lparr>ci_Channel := x\<rparr>)
      else if name = ''Control''
      then sets (r_wrap ''unmarshaling t.Control'' (cg_ReadAddress cb)) (\<lambda>x. t\<lparr>ci_Control := x\<rparr>)
      else if name = ''Target''
      then sets (r_wrap ''unmarshaling t.Target'' (cg_ReadAddress cb)) (\<lambda>x. t\<lparr>ci_Target := x\<rparr>)
      else if name = ''Direction''
      then sets (r_uint cb) (\<lambda>x. t\<lparr>ci_Direction := x\<rparr>)
      else if name = ''Vouchers''
      then sets (r_array cb ''Vouchers'' (Unmarshal_VoucherInfo cb) (ci_Vouchers t)) (\<lambda>x. t\<lparr>ci_Vouchers := x\<rparr>)
      else None)"

definition ChannelInfo_field_2 :: "cbg \<Rightarrow> ChannelInfo handler" where
  "ChannelInfo_field_2 cb name t =
     (if name = ''NextLane''
      then sets (r_uint cb) (\<lambda>x. t\<lparr>ci_NextLane := x\<rparr>)
      else if name = ''Amount''
      then sets (r_wrap ''unmarshaling t.Amount'' (cg_ReadBig cb)) (\<lambda>x. t\<lparr>ci_Amount := x\<rparr>)
      else if name = ''PendingAmount''
      then sets (r_wrap ''unmarshaling t.PendingAmount'' (cg_ReadBig cb)) (\<lambda>x. t\<lparr>ci_PendingAmount := x\<rparr>)
      else if name = ''CreateMsg''
      then sets (r_ptr (r_wrap ''failed to read cid field t.CreateMsg'' (cg_ReadCid cb)) (ci_CreateMsg t)) (\<lambda>x. t\<lparr>ci_CreateMsg := x\<rparr>)
      else if name = ''AddFundsMsg''
      then sets (r_ptr (r_wrap ''failed to read cid field t.AddFundsMsg'' (cg_ReadCid cb)) (ci_AddFundsMsg t)) (\<lambda>x. t\<lparr>ci_AddFundsMsg := x\<rparr>)
      else if name = ''Settling''
      then sets (r_bool cb) (\<lambda>x. t\<lparr>ci_Settling := x\<rparr>)
      else None)"

definition Unmarshal_ChannelInfo :: "cbg \<Rightarrow> ChannelInfo reader" where
  "Unmarshal_ChannelInfo cb = unmarshal_struct cb ''ChannelInfo'' (or_else (ChannelInfo_field_1 cb) (ChannelInfo_field_2 cb)) zero_ChannelInfo"

definition fits_ChannelInfo :: "cbg \<Rightarrow> ChannelInfo \<Rightarrow> bool" where
  "fits_ChannelInfo cb t \<longleftrightarrow>
     length (ci_ChannelID t) \<le> 8192 \<and>
     (ci_Channel t) \<noteq> None \<and> codec_ok (cg_WriteAddress cb) (cg_ReadAddress cb) (the (ci_Channel t)) \<and>
     codec_ok (cg_WriteAddress cb) (cg_ReadAddress cb) (ci_Control t) \<and>
     codec_ok (cg_WriteAddress cb) (cg_ReadAddress cb) (ci_Target t) \<and>
     length (ci_Vouchers t) \<le> 8192 \<and> list_all (fits_VoucherInfo cb) (ci_Vouchers t) \<and>
     codec_ok (cg_WriteBig cb) (cg_ReadBig cb) (ci_Amount t) \<and>
     codec_ok (cg_WriteBig cb) (cg_ReadBig cb) (ci_PendingAmount t) \<and>
     pred_option (codec_ok (cg_WriteCid cb) (cg_ReadCid cb)) (ci_CreateMsg t) \<and>
     pred_option (codec_ok (cg_WriteCid cb) (cg_ReadCid cb)) (ci_AddFundsMsg t)"

context cbg_lib
begin

lemma codec_ChannelInfo:
  assumes "fits_ChannelInfo cb t"
  shows "codec_ok (Marshal_ChannelInfo cb) (Unmarshal_ChannelInfo cb) t"
proof -
  obtain x1 x2 x3 x4 x5 x6 x7 x8 x9 x10 x11 x12 where t: "t = \<lparr>ci_ChannelID = x1, ci_Channel = x2, ci_Control = x3, ci_Target = x4, ci_Direction = x5, ci_Vouchers = x6, ci_NextLane = x7, ci_Amount = x8, ci_PendingAmount = x9, ci_CreateMsg = x10, ci_AddFundsMsg = x11, ci_Settling = x12\<rparr>"
    by (cases t)
  note f = assms [unfolded t fits_ChannelInfo_def, simplified]
  have "field_ok (w_string cb ''ChannelID'' x1) (cg_ReadString cb) x1"
    using f by (auto simp: list_all_iff intro!: field_string)
  then obtain b1 where b1: "w_string cb ''ChannelID'' x1 = Ok b1"
      "\<forall>bs. (cg_ReadString cb) (b1 @ bs) = Ok (x1, bs)" by (rule field_okE)
  have "field_ok (w_addr_ptr cb x2) (r_ptr (r_wrap ''unmarshaling t.Channel pointer'' (cg_ReadAddress cb)) None) x2"
    using f by (auto simp: list_all_iff intro!: field_addr_ptr)
  then obtain b2 where b2: "w_addr_ptr cb x2 = Ok b2"
      "\<forall>bs. (r_ptr (r_wrap ''unmarshaling t.Channel pointer'' (cg_ReadAddress cb)) None) (b2 @ bs) = Ok (x2, bs)" by (rule field_okE)
  have "field_ok (cg_WriteAddress cb x3) (r_wrap ''unmarshaling t.Control'' (cg_ReadAddress cb)) x3"
    using f by (auto simp: list_all_iff intro!: field_wrap [OF codec_field])
  then obtain b3 where b3: "cg_WriteAddress cb x3 = Ok b3"
      "\<forall>bs. (r_wrap ''unmarshaling t.Control'' (cg_ReadAddress cb)) (b3 @ bs) = Ok (x3, bs)" by (rule field_okE)
  have "field_ok (cg_WriteAddress cb x4) (r_wrap ''unmarshaling t.Target'' (cg_ReadAddress cb)) x4"
    using f by (auto simp: list_all_iff intro!: field_wrap [OF codec_field])
  then obtain b4 where b4: "cg_WriteAddress cb x4 = Ok b4"
      "\<forall>bs. (r_wrap ''unmarshaling t.Target'' (cg_ReadAddress cb)) (b4 @ bs) = Ok (x4, bs)" by (rule field_okE)
  have "field_ok (w_uint cb x5) (r_uint cb) x5"
    using f by (auto simp: list_all_iff intro!: field_uint)
  then obtain b5 where b5: "w_uint cb x5 = Ok b5"
      "\<forall>bs. (r_uint cb) (b5 @ bs) = Ok (x5, bs)" by (rule field_okE)
  have "field_ok (w_array cb ''Vouchers'' (Marshal_VoucherInfo cb) x6) (r_array cb ''Vouchers'' (Unmarshal_VoucherInfo cb) []) x6"
    using f by (auto simp: list_all_iff intro!: field_array codec_VoucherInfo)
  then obtain b6 where b6: "w_array cb ''Vouchers'' (Marshal_VoucherInfo cb) x6 = Ok b6"
      "\<forall>bs. (r_array cb ''Vouchers'' (Unmarshal_VoucherInfo cb) []) (b6 @ bs) = Ok (x6, bs)" by (rule field_okE)
  have "field_ok (w_uint cb x7) (r_uint cb) x7"
    using f by (auto simp: list_all_iff intro!: field_uint)
  then obtain b7 where b7: "w_uint cb x7 = Ok b7"
      "\<forall>bs. (r_uint cb) (b7 @ bs) = Ok (x7, bs)" by (rule field_okE)
  have "field_ok (cg_WriteBig cb x8) (r_wrap ''unmarshaling t.Amount'' (cg_ReadBig cb)) x8"
    using f by (auto simp: list_all_iff intro!: field_wrap [OF codec_field])
  then obtain b8 where b8: "cg_WriteBig cb x8 = Ok b8"
      "\<forall>bs. (r_wrap ''unmarshaling t.Amount'' (cg_ReadBig cb)) (b8 @ bs) = Ok (x8, bs)" by (rule field_okE)
  have "field_ok (cg_WriteBig cb x9) (r_wrap ''unmarshaling t.PendingAmount'' (cg_ReadBig cb)) x9"
    using f by (auto simp: list_all_iff intro!: field_wrap [OF codec_field])
  then obtain b9 where b9: "cg_WriteBig cb x9 = Ok b9"
      "\<forall>bs. (r_wrap ''unmarshaling t.PendingAmount'' (cg_ReadBig cb)) (b9 @ bs) = Ok (x9, bs)" by (rule field_okE)
  have "field_ok (w_ptr (w_cid cb ''CreateMsg'') x10) (r_ptr (r_wrap ''failed to read cid field t.CreateMsg'' (cg_ReadCid cb)) None) x10"
    using f by (auto simp: list_all_iff intro!: field_cid_ptr)
  then obtain b10 where b10: "w_ptr (w_cid cb ''CreateMsg'') x10 = Ok b10"
      "\<forall>bs. (r_ptr (r_wrap ''failed to read cid field t.CreateMsg'' (cg_ReadCid cb)) None) (b10 @ bs) = Ok (x10, bs)" by (rule field_okE)
  have "field_ok (w_ptr (w_cid cb ''AddFundsMsg'') x11) (r_ptr (r_wrap ''failed to read cid field t.AddFundsMsg'' (cg_ReadCid cb)) None) x11"
    using f by (auto simp: list_all_iff intro!: field_cid_ptr)
  then obtain b11 where b11: "w_ptr (w_cid cb ''AddFundsMsg'') x11 = Ok b11"
      "\<forall>bs. (r_ptr (r_wrap ''failed to read cid field t.AddFundsMsg'' (cg_ReadCid cb)) None) (b11 @ bs) = Ok (x11, bs)" by (rule field_okE)
  have "field_ok (w_bool cb x12) (r_bool cb) x12"
    using f by (auto simp: list_all_iff intro!: field_bool)
  then obtain b12 where b12: "w_bool cb x12 = Ok b12"
      "\<forall>bs. (r_bool cb) (b12 @ bs) = Ok (x12, bs)" by (rule field_okE)
  show ?thesis
    by (rule codec_okI [of _ _ "172 # enc_name cb ''ChannelID'' @ b1 @ enc_name cb ''Channel'' @ b2 @ enc_name cb ''Control'' @ b3 @ enc_name cb ''Target'' @ b4 @ enc_name cb ''Direction'' @ b5 @ enc_name cb ''Vouchers'' @ b6 @ enc_name cb ''NextLane'' @ b7 @ enc_name cb ''Amount'' @ b8 @ enc_name cb ''PendingAmount'' @ b9 @ enc_name cb ''CreateMsg'' @ b10 @ enc_name cb ''AddFundsMsg'' @ b11 @ enc_name cb ''Settling'' @ b12"])
       (simp_all add: t Marshal_ChannelInfo_def Unmarshal_ChannelInfo_def zero_ChannelInfo_def unmarshal_struct_def sets_def or_else_def Marshal_ChannelInfo_1_def ChannelInfo_field_1_def Marshal_ChannelInfo_2_def ChannelInfo_field_2_def struct_header_simps MaxLength w_name_enc read_name b1 b2 b3 b4 b5 b6 b7 b8 b9 b10 b11 b12)
qed

end

section \<open>\<open>MsgInfo\<close>\<close>

definition zero_MsgInfo :: MsgInfo where
  "zero_MsgInfo = \<lparr>mi_ChannelID = '''', mi_MsgCid = CidUndef, mi_Received = False, mi_Err = ''''\<rparr>"

definition Marshal_MsgInfo :: "cbg \<Rightarrow> MsgInfo writer" where
  "Marshal_MsgInfo cb t =
     seq_w
       [Ok [164],
        w_name cb ''ChannelID'', w_string cb ''ChannelID'' (mi_ChannelID t),
        w_name cb ''MsgCid'', w_cid cb ''MsgCid'' (mi_MsgCid t),
        w_name cb ''Received'', w_bool cb (mi_Received t),
        w_name cb ''Err'', w_string cb ''Err'' (mi_Err t)]"

definition MsgInfo_field :: "cbg \<Rightarrow> MsgInfo handler" where
  "MsgInfo_field cb name t =
     (if name = ''ChannelID''
      then sets (cg_ReadString cb) (\<lambda>x. t\<lparr>mi_ChannelID := x\<rparr>)
      else if name = ''MsgCid''
      then sets (r_wrap ''failed to read cid field t.MsgCid'' (cg_ReadCid cb)) (\<lambda>x. t\<lparr>mi_MsgCid := x\<rparr>)
      else if name = ''Received''
      then sets (r_bool cb) (\<lambda>x. t\<lparr>mi_Received := x\<rparr>)
      else if name = ''Err''
      then sets (cg_ReadString cb) (\<lambda>x. t\<lparr>mi_Err := x\<rparr>)
      else None)"

definition Unmarshal_MsgInfo :: "cbg \<Rightarrow> MsgInfo reader" where
  "Unmarshal_MsgInfo cb = unmarshal_struct cb ''MsgInfo'' (MsgInfo_field cb) zero_MsgInfo"

definition fits_MsgInfo :: "cbg \<Rightarrow> MsgInfo \<Rightarrow> bool" where
  "fits_MsgInfo cb t \<longleftrightarrow>
     length (mi_ChannelID t) \<le> 8192 \<and>
     codec_ok (cg_WriteCid cb) (cg_ReadCid cb) (mi_MsgCid t) \<and>
     length (mi_Err t) \<le> 8192"

context cbg_lib
begin

lemma codec_MsgInfo:
  assumes "fits_MsgInfo cb t"
  shows "codec_ok (Marshal_MsgInfo cb) (Unmarshal_MsgInfo cb) t"
proof -
  obtain x1 x2 x3 x4 where t: "t = \<lparr>mi_ChannelID = x1, mi_MsgCid = x2, mi_Received = x3, mi_Err = x4\<rparr>"
    by (cases t)
  note f = assms [unfolded t fits_MsgInfo_def, simplified]
  have "field_ok (w_string cb ''ChannelID'' x1) (cg_ReadString cb) x1"
    using f by (auto simp: list_all_iff intro!: field_string)
  then obtain b1 where b1: "w_string cb ''ChannelID'' x1 = Ok b1"
      "\<forall>bs. (cg_ReadString cb) (b1 @ bs) = Ok (x1, bs)" by (rule field_okE)
  have "field_ok (w_cid cb ''MsgCid'' x2) (r_wrap ''failed to read cid field t.MsgCid'' (cg_ReadCid cb)) x2"
    using f by (auto simp: list_all_iff intro!: field_wrap [OF field_cid])
  then obtain b2 where b2: "w_cid cb ''MsgCid'' x2 = Ok b2"
      "\<forall>bs. (r_wrap ''failed to read cid field t.MsgCid'' (cg_ReadCid cb)) (b2 @ bs) = Ok (x2, bs)" by (rule field_okE)
  have "field_ok (w_bool cb x3) (r_bool cb) x3"
    using f by (auto simp: list_all_iff intro!: field_bool)
  then obtain b3 where b3: "w_bool cb x3 = Ok b3"
      "\<forall>bs. (r_bool cb) (b3 @ bs) = Ok (x3, bs)" by (rule field_okE)
  have "field_ok (w_string cb ''Err'' x4) (cg_ReadString cb) x4"
    using f by (auto simp: list_all_iff intro!: field_string)
  then obtain b4 where b4: "w_string cb ''Err'' x4 = Ok b4"
      "\<forall>bs. (cg_ReadString cb) (b4 @ bs) = Ok (x4, bs)" by (rule field_okE)
  show ?thesis
    by (rule codec_okI [of _ _ "164 # enc_name cb ''ChannelID'' @ b1 @ enc_name cb ''MsgCid'' @ b2 @ enc_name cb ''Received'' @ b3 @ enc_name cb ''Err'' @ b4"])
       (simp_all add: t Marshal_MsgInfo_def Unmarshal_MsgInfo_def zero_MsgInfo_def unmarshal_struct_def sets_def MsgInfo_field_def struct_header_simps MaxLength w_name_enc read_name b1 b2 b3 b4)
qed

end

end
