(* ===== verification/ChannelStore.thy ===== *)
theory ChannelStore
  imports CborPaych
begin

text \<open>
  The store of payment channels in \<open>paychmgr.go\<close>: the keys of channels and messages and the
  operations of \<open>channelStore\<close>, on the generated encodings. The datastore, the source of new
  identifiers and the library under the encodings are parameters.
\<close>

section \<open>The store\<close>

record 'w channelStore =
  cs_ds :: "'w Datastore"
  cs_newUUID :: "('w, string) io"
  cs_cbg :: cbg
  cs_emptyAddr :: Address

text \<open>\<open>x.UnmarshalCBOR(bytes.NewReader(b))\<close>: what follows the value is not looked at.\<close>

definition load :: "'a reader \<Rightarrow> bytes \<Rightarrow> 'a go" where
  "load rd b = bind_go (rd b) (\<lambda>(x, _). Ok x)"

definition dskeyForChannel :: "string \<Rightarrow> ds_key" where
  "dskeyForChannel channelID = KeyWithNamespaces [''ChannelInfo'', channelID]"

definition dskeyForMsg :: "Cid \<Rightarrow> ds_key" where
  "dskeyForMsg mcid = KeyWithNamespaces [''MsgCid'', mcid]"

text \<open>An address of nil is written as a fixed address, and the caller's record keeps it.\<close>

definition marshallChannelInfo :: "'w channelStore \<Rightarrow> ChannelInfo \<Rightarrow> (ChannelInfo \<times> bytes) go" where
  "marshallChannelInfo s ci =
     (let ci' = (if ci_Channel ci = None then ci\<lparr>ci_Channel := Some (cs_emptyAddr s)\<rparr> else ci)
      in bind_go (Marshal_ChannelInfo (cs_cbg s) ci') (\<lambda>b. Ok (ci', b)))"

definition unmarshallChannelInfo :: "'w channelStore \<Rightarrow> bytes \<Rightarrow> ChannelInfo go" where
  "unmarshallChannelInfo s val =
     bind_go (load (Unmarshal_ChannelInfo (cs_cbg s)) val) (\<lambda>stored.
       Ok (if ci_Channel stored = Some (cs_emptyAddr s) then stored\<lparr>ci_Channel := None\<rparr> else stored))"

text \<open>The value is the record that the caller's pointer leads to afterwards.\<close>

definition putChannelInfo :: "'w channelStore \<Rightarrow> ChannelInfo \<Rightarrow> ('w, ChannelInfo) io" where
  "putChannelInfo s ci =
     bindE (if ci_ChannelID ci = '''' then bindE (cs_newUUID s) (\<lambda>i. ret (ci\<lparr>ci_ChannelID := i\<rparr>))
            else ret ci) (\<lambda>ci.
     bindE (lift_go (marshallChannelInfo s ci)) (\<lambda>(ci', b).
     bindE (ds_Put (cs_ds s) (dskeyForChannel (ci_ChannelID ci)) b) (\<lambda>_. ret ci')))"

definition SaveNewMessage :: "'w channelStore \<Rightarrow> string \<Rightarrow> Cid \<Rightarrow> ('w, unit) io" where
  "SaveNewMessage s channelID mcid =
     bindE (lift_go (Marshal_MsgInfo (cs_cbg s) \<lparr>mi_ChannelID = channelID, mi_MsgCid = mcid, mi_Received = False,
                       mi_Err = ''''\<rparr>))
       (\<lambda>b. ds_Put (cs_ds s) (dskeyForMsg mcid) b)"

definition new_outbound :: "Address \<Rightarrow> Address \<Rightarrow> Cid \<Rightarrow> TokenAmount \<Rightarrow> ChannelInfo" where
  "new_outbound from to mcid amt =
     \<lparr>ci_ChannelID = '''', ci_Channel = None, ci_Control = from, ci_Target = to,
      ci_Direction = DirOutbound, ci_Vouchers = [], ci_NextLane = 0, ci_Amount = 0,
      ci_PendingAmount = amt, ci_CreateMsg = Some mcid, ci_AddFundsMsg = None,
      ci_Settling = False\<rparr>"

definition CreateChannel ::
    "'w channelStore \<Rightarrow> Address \<Rightarrow> Address \<Rightarrow> Cid \<Rightarrow> TokenAmount \<Rightarrow> ('w, ChannelInfo) io" where
  "CreateChannel s from to mcid amt =
     bindE (putChannelInfo s (new_outbound from to mcid amt))
       (\<lambda>ci. bindE (SaveNewMessage s (ci_ChannelID ci) mcid) (\<lambda>_. ret ci))"

definition RemoveChannel :: "'w channelStore \<Rightarrow> string \<Rightarrow> ('w, unit) io" where
  "RemoveChannel s channelID = ds_Delete (cs_ds s) (dskeyForChannel channelID)"

definition GetMessage :: "'w channelStore \<Rightarrow> Cid \<Rightarrow> ('w, MsgInfo) io" where
  "GetMessage s mcid =
     bindE (ds_Get (cs_ds s) (dskeyForMsg mcid)) (\<lambda>val. lift_go (load (Unmarshal_MsgInfo (cs_cbg s)) val))"

definition SaveMessageResult :: "'w channelStore \<Rightarrow> Cid \<Rightarrow> gerr option \<Rightarrow> ('w, unit) io" where
  "SaveMessageResult s mcid msgErr =
     bindE (GetMessage s mcid) (\<lambda>minfo.
       let minfo' = minfo\<lparr>mi_Received := True,
             mi_Err := (case msgErr of None \<Rightarrow> mi_Err minfo | Some e \<Rightarrow> Error e)\<rparr>
       in bindE (lift_go (Marshal_MsgInfo (cs_cbg s) minfo')) (\<lambda>b. ds_Put (cs_ds s) (dskeyForMsg mcid) b))"

definition ByChannelID :: "'w channelStore \<Rightarrow> string \<Rightarrow> ('w, ChannelInfo) io" where
  "ByChannelID s channelID =
     tryE (ds_Get (cs_ds s) (dskeyForChannel channelID))
       (\<lambda>err. if err = ErrNotFound then fail ErrChannelNotTracked else fail err)
       (\<lambda>res. lift_go (unmarshallChannelInfo s res))"

text \<open>The loop of \<open>findChans\<close> over the results of a query. An error among the results ends it
  with no match and no error: the code returns the \<open>err\<close> of the query, which is nil.\<close>

fun scan_chans ::
    "'w channelStore \<Rightarrow> (ChannelInfo \<Rightarrow> bool) \<Rightarrow> nat \<Rightarrow> bytes go list \<Rightarrow> ChannelInfo list \<Rightarrow>
     ChannelInfo list go" where
  "scan_chans s f maxn [] matches = Ok matches"
| "scan_chans s f maxn (Err _ # rs) matches = Ok []"
| "scan_chans s f maxn (Panic # rs) matches = Panic"
| "scan_chans s f maxn (Ok b # rs) matches =
     bind_go (unmarshallChannelInfo s b) (\<lambda>ci.
       if \<not> f ci then scan_chans s f maxn rs matches
       else if length (matches @ [ci]) = maxn then Ok (matches @ [ci])
       else scan_chans s f maxn rs (matches @ [ci]))"

definition findChans ::
    "'w channelStore \<Rightarrow> (ChannelInfo \<Rightarrow> bool) \<Rightarrow> nat \<Rightarrow> ('w, ChannelInfo list) io" where
  "findChans s f maxn =
     bindE (ds_Query (cs_ds s) ''ChannelInfo'') (\<lambda>res. lift_go (scan_chans s f maxn res []))"

definition findChan :: "'w channelStore \<Rightarrow> (ChannelInfo \<Rightarrow> bool) \<Rightarrow> ('w, ChannelInfo) io" where
  "findChan s f =
     bindE (findChans s f 1) (\<lambda>cis. case cis of [] \<Rightarrow> fail ErrChannelNotTracked | ci # _ \<Rightarrow> ret ci)"

definition ByMessageCid :: "'w channelStore \<Rightarrow> Cid \<Rightarrow> ('w, ChannelInfo) io" where
  "ByMessageCid s mcid =
     bindE (GetMessage s mcid) (\<lambda>minfo. findChan s (\<lambda>ci. ci_ChannelID ci = mi_ChannelID minfo))"

definition OutboundActiveByFromTo :: "'w channelStore \<Rightarrow> Address \<Rightarrow> Address \<Rightarrow> ('w, ChannelInfo) io" where
  "OutboundActiveByFromTo s from to =
     findChan s (\<lambda>ci.
       if ci_Direction ci \<noteq> DirOutbound then False
       else if ci_Settling ci then False
       else ci_Control ci = from \<and> ci_Target ci = to)"

definition ByAddress :: "'w channelStore \<Rightarrow> Address \<Rightarrow> ('w, ChannelInfo) io" where
  "ByAddress s addr = findChan s (\<lambda>ci. ci_Channel ci \<noteq> None \<and> the (ci_Channel ci) = addr)"

definition VouchersForPaych :: "'w channelStore \<Rightarrow> Address \<Rightarrow> ('w, VoucherInfo list) io" where
  "VouchersForPaych s ch = bindE (ByAddress s ch) (\<lambda>ci. ret (ci_Vouchers ci))"

definition AllocateLane :: "'w channelStore \<Rightarrow> Address \<Rightarrow> ('w, u64) io" where
  "AllocateLane s ch =
     bindE (ByAddress s ch) (\<lambda>ci.
     bindE (putChannelInfo s (ci\<lparr>ci_NextLane := ci_NextLane ci + 1\<rparr>)) (\<lambda>_. ret (ci_NextLane ci)))"

definition TrackChannel_store :: "'w channelStore \<Rightarrow> ChannelInfo \<Rightarrow> ('w, ChannelInfo) io" where
  "TrackChannel_store s ci =
     (case ci_Channel ci of
        None \<Rightarrow> panic
      | Some ch \<Rightarrow>
          tryE (ByAddress s ch)
            (\<lambda>err. if err = ErrChannelNotTracked
               then bindE (putChannelInfo s ci) (\<lambda>_. ByAddress s ch)
               else fail err)
            (\<lambda>_. fail (GErr (''already tracking channel: '' @ ch))))"

definition ListChannels :: "'w channelStore \<Rightarrow> ('w, Address list) io" where
  "ListChannels s =
     bindE (findChans s (\<lambda>ci. ci_Channel ci \<noteq> None) 0) (\<lambda>cis. ret (map (\<lambda>ci. the (ci_Channel ci)) cis))"

end
