(* ===== verification/Vouchers.thy ===== *)
theory Vouchers
  imports ChannelStore "HOL-Library.AList"
begin

text \<open>
  The channel accessor of \<open>paychmgr.go\<close> where it deals with vouchers: the state of the lanes
  of a channel, the checks on a voucher, and creating, adding, submitting and collecting.
  The node's API, the wallet, the actors library and the signatures are parameters.
\<close>

section \<open>The node, the wallet and the actors library\<close>

record Actor =
  act_Balance :: TokenAmount

text \<open>A state of the payment channel actor: its parties and the root of its lanes.\<close>

record PaychState =
  ps_From :: Address
  ps_To :: Address
  ps_LaneStates :: Cid

record laneState =
  ls_redeemed :: TokenAmount
  ls_nonce :: u64

record Message =
  msg_To :: Address
  msg_From :: Address
  msg_Value :: TokenAmount
  msg_Method :: u64
  msg_Nonce :: u64
  msg_Params :: string

record SignedMessage =
  sm_Message :: Message
  sm_Signature :: string

record Receipt =
  rcp_ExitCode :: int
  rcp_Return :: bytes

record 'w FullNode =
  fn_StateGetActor :: "Address \<Rightarrow> ('w, Actor) io"
  fn_StateReadState :: "Address \<Rightarrow> ('w, string) io"
  fn_ParseState :: "string \<Rightarrow> PaychState go" \<comment> \<open>to JSON and back, into the struct\<close>
  fn_ChainReadObj :: "Cid \<Rightarrow> ('w, bytes) io"
  fn_NewBlock :: "bytes \<Rightarrow> Cid \<Rightarrow> unit go"
  fn_PutBlock :: "bytes \<Rightarrow> Cid \<Rightarrow> ('w, unit) io"
  fn_AsArray :: "Cid \<Rightarrow> ('w, u64) io" \<comment> \<open>loads an array; its length\<close>
  fn_ForEach :: "Cid \<Rightarrow> ('w, (u64 \<times> laneState) list) io"
  fn_StateAccountKey :: "Address \<Rightarrow> ('w, Address) io"
  fn_StateNetworkVersion :: "('w, u64) io"
  fn_mb_Create :: "u64 \<Rightarrow> Address \<Rightarrow> Address \<Rightarrow> TokenAmount \<Rightarrow> Message go"
  fn_mb_Update :: "u64 \<Rightarrow> Address \<Rightarrow> Address \<Rightarrow> SignedVoucher option \<Rightarrow> bytes \<Rightarrow> Message go"
  fn_mb_Settle :: "u64 \<Rightarrow> Address \<Rightarrow> Address \<Rightarrow> Message go"
  fn_mb_Collect :: "u64 \<Rightarrow> Address \<Rightarrow> Address \<Rightarrow> Message go"
  fn_GasEstimate :: "Message \<Rightarrow> ('w, Message) io"
  fn_MpoolGetNonce :: "Address \<Rightarrow> ('w, u64) io"
  fn_ToStorageBlock :: "Message \<Rightarrow> bytes go" \<comment> \<open>the bytes of the block's CID\<close>
  fn_MpoolPush :: "SignedMessage \<Rightarrow> ('w, unit) io"
  fn_SmsgCid :: "SignedMessage \<Rightarrow> Cid"
  fn_StateWaitMsg :: "Cid \<Rightarrow> ('w, Receipt) io"
  fn_DecodeExecReturn :: "bytes \<Rightarrow> Address go" \<comment> \<open>the robust address in an \<open>ExecReturn\<close>\<close>
  fn_WalletHas :: "Address \<Rightarrow> ('w, bool) io"
  fn_WalletSign :: "Address \<Rightarrow> bytes \<Rightarrow> ('w, string) io"
  fn_SigningBytes :: "SignedVoucher \<Rightarrow> bytes go"
  fn_Verify :: "string option \<Rightarrow> Address \<Rightarrow> bytes \<Rightarrow> unit go"

text \<open>The fixed part of a channel accessor.\<close>

record 'w accessor =
  ca_from :: Address
  ca_to :: Address
  ca_api :: "'w FullNode"
  ca_store :: "'w channelStore"

section \<open>Lanes\<close>

text \<open>The error of \<open>StateReadState\<close> is overwritten, and its result then followed.\<close>

definition loadPaychActorState :: "'w FullNode \<Rightarrow> Address \<Rightarrow> ('w, Actor \<times> PaychState) io" where
  "loadPaychActorState api ch =
     bindE (wrapE ''Unable to get actor'' (fn_StateGetActor api ch)) (\<lambda>actor.
     tryE (fn_StateReadState api ch) (\<lambda>_. panic) (\<lambda>actorState.
     bindE (wrapE ''Error parsing actor state'' (lift_go (fn_ParseState api actorState))) (\<lambda>state.
     bindE (wrapE ''Unable to read lane states from chain'' (fn_ChainReadObj api (ps_LaneStates state)))
       (\<lambda>raw.
     bindE (wrapE ''Unable to make a block with obj'' (lift_go (fn_NewBlock api raw (ps_LaneStates state))))
       (\<lambda>_.
     bindE (wrapE ''Unable to set block in store'' (fn_PutBlock api raw (ps_LaneStates state)))
       (\<lambda>_. ret (actor, state)))))))"

type_synonym lanes = "(u64 \<times> laneState) list"

text \<open>The vouchers in the store applied over the lanes of the chain.\<close>

fun apply_vouchers :: "VoucherInfo list \<Rightarrow> lanes \<Rightarrow> lanes go" where
  "apply_vouchers [] lanes = Ok lanes"
| "apply_vouchers (v # vs) lanes =
     (case vi_Voucher v of
        None \<Rightarrow> Panic
      | Some sv \<Rightarrow>
          if sv_Merges sv \<noteq> [] then Err (GErr ''paych merges not handled yet'')
          else
            (let lanes' = AList.update (sv_Lane sv)
                   \<lparr>ls_redeemed = sv_Amount sv, ls_nonce = sv_Nonce sv\<rparr> lanes
             in case map_of lanes (sv_Lane sv) of
                  None \<Rightarrow> apply_vouchers vs lanes'
                | Some ls \<Rightarrow> if sv_Nonce sv < ls_nonce ls then apply_vouchers vs lanes
                    else apply_vouchers vs lanes'))"

definition laneStates :: "'w accessor \<Rightarrow> PaychState \<Rightarrow> Address \<Rightarrow> ('w, lanes) io" where
  "laneStates ca state ch =
     bindE (fn_AsArray (ca_api ca) (ps_LaneStates state)) (\<lambda>laneCount.
     bindE (fn_ForEach (ca_api ca) (ps_LaneStates state)) (\<lambda>chain.
     bindE (tryE (VouchersForPaych (ca_store ca) ch)
              (\<lambda>err. if err \<noteq> ErrChannelNotTracked then fail err else ret []) ret) (\<lambda>vouchers.
       lift_go (apply_vouchers vouchers (fold (\<lambda>(i, l). AList.update i l) chain [])))))"

fun nextNonce_loop :: "VoucherInfo list \<Rightarrow> u64 \<Rightarrow> u64 \<Rightarrow> u64 go" where
  "nextNonce_loop [] lane maxnonce = Ok maxnonce"
| "nextNonce_loop (v # vs) lane maxnonce =
     (case vi_Voucher v of
        None \<Rightarrow> Panic
      | Some sv \<Rightarrow>
          nextNonce_loop vs lane
            (if sv_Lane sv = lane then if sv_Nonce sv > maxnonce then sv_Nonce sv else maxnonce
             else maxnonce))"

definition nextNonceForLane :: "ChannelInfo \<Rightarrow> u64 \<Rightarrow> u64 go" where
  "nextNonceForLane ci lane = bind_go (nextNonce_loop (ci_Vouchers ci) lane 0) (\<lambda>m. Ok (m + 1))"

definition totalRedeemedWithVoucher :: "lanes \<Rightarrow> SignedVoucher \<Rightarrow> TokenAmount go" where
  "totalRedeemedWithVoucher lanes sv =
     (if sv_Merges sv \<noteq> [] then Err (GErr ''dont currently support paych lane merges'')
      else
        (let total = (\<Sum>(i, ls)\<leftarrow>lanes. ls_redeemed ls)
         in case map_of lanes (sv_Lane sv) of
              Some lane \<Rightarrow>
                Ok (if sv_Nonce sv > ls_nonce lane then total + (sv_Amount sv - ls_redeemed lane) else total)
            | None \<Rightarrow> Ok (total + sv_Amount sv)))"

section \<open>Checking and adding a voucher\<close>

text \<open>The tests of a voucher against the lanes and the balance of the channel.\<close>

definition check_lanes :: "Actor \<Rightarrow> lanes \<Rightarrow> SignedVoucher \<Rightarrow> lanes go" where
  "check_lanes act lanes sv =
     (let total = bind_go (totalRedeemedWithVoucher lanes sv) (\<lambda>totalRedeemed.
            if act_Balance act < totalRedeemed
            then Err (ErrInsufficientFunds (totalRedeemed - act_Balance act))
            else if sv_Merges sv \<noteq> [] then Err (GErr ''dont currently support paych lane merges'')
            else Ok lanes)
      in case map_of lanes (sv_Lane sv) of
           None \<Rightarrow> total
         | Some ls \<Rightarrow>
             if sv_Nonce sv \<le> ls_nonce ls then Err (GErr ''nonce too low'')
             else if sv_Amount sv \<le> ls_redeemed ls
             then Err (GErr ''voucher amount is lower than amount for voucher with lower nonce'')
             else total)"

definition checkVoucherValidUnlocked ::
    "'w accessor \<Rightarrow> Address \<Rightarrow> SignedVoucher option \<Rightarrow> ('w, lanes) io" where
  "checkVoucherValidUnlocked ca ch svp =
     (case svp of
        None \<Rightarrow> panic
      | Some sv \<Rightarrow>
          if sv_ChannelAddr sv \<noteq> ch
          then fail (GErr (''voucher ChannelAddr doesn't match channel address, got '' @
            sv_ChannelAddr sv @ '', expected '' @ ch))
          else
            bindE (loadPaychActorState (ca_api ca) ch) (\<lambda>(act, pchState).
            bindE (fn_StateAccountKey (ca_api ca) (ps_From pchState)) (\<lambda>from.
            bindE (lift_go (fn_SigningBytes (ca_api ca) sv)) (\<lambda>vb.
            bindE (lift_go (fn_Verify (ca_api ca) (sv_Signature sv) from vb)) (\<lambda>_.
            bindE (laneStates ca pchState ch) (\<lambda>lanes. lift_go (check_lanes act lanes sv)))))))"

text \<open>\<open>cborrpc.Equals\<close> compares the encodings.\<close>

definition voucher_equals :: "cbg \<Rightarrow> SignedVoucher option \<Rightarrow> SignedVoucher option \<Rightarrow> bool go" where
  "voucher_equals cb a b =
     bind_go (w_ptr (cg_WriteVoucher cb) a) (\<lambda>x. bind_go (w_ptr (cg_WriteVoucher cb) b) (\<lambda>y. Ok (x = y)))"

text \<open>The position of the record of a voucher.\<close>

fun infoForVoucher :: "cbg \<Rightarrow> VoucherInfo list \<Rightarrow> SignedVoucher option \<Rightarrow> nat option go" where
  "infoForVoucher cb [] sv = Ok None"
| "infoForVoucher cb (v # vs) sv =
     bind_go (voucher_equals cb sv (vi_Voucher v)) (\<lambda>eq.
       if eq then Ok (Some 0) else bind_go (infoForVoucher cb vs sv) (\<lambda>i. Ok (map_option Suc i)))"

text \<open>The channel with one more voucher; its next lane is past the voucher's lane.\<close>

definition with_voucher :: "ChannelInfo \<Rightarrow> SignedVoucher \<Rightarrow> ChannelInfo" where
  "with_voucher ci sv = ci\<lparr>ci_Vouchers := ci_Vouchers ci @
       [\<lparr>vi_Voucher = Some sv, vi_Proof = [], vi_Submitted = False\<rparr>],
     ci_NextLane := (if ci_NextLane ci \<le> sv_Lane sv then sv_Lane sv + 1 else ci_NextLane ci)\<rparr>"

definition addVoucherUnlocked ::
    "'w accessor \<Rightarrow> Address \<Rightarrow> SignedVoucher option \<Rightarrow> TokenAmount \<Rightarrow> ('w, TokenAmount) io" where
  "addVoucherUnlocked ca ch svp minDelta =
     bindE (ByAddress (ca_store ca) ch) (\<lambda>ci.
     bindE (lift_go (infoForVoucher (cs_cbg (ca_store ca)) (ci_Vouchers ci) svp)) (\<lambda>found.
       if found \<noteq> None then ret 0
       else bindE (checkVoucherValidUnlocked ca ch svp) (\<lambda>lanes.
         let sv = the svp;
             redeemed = (case map_of lanes (sv_Lane sv) of None \<Rightarrow> 0 | Some ls \<Rightarrow> ls_redeemed ls);
             delta = sv_Amount sv - redeemed
         in if minDelta > delta
            then fail (GErr (''addVoucher: supplied token amount too low; minD='' @ show_int minDelta @
              '', D='' @ show_int delta @ ''; laneAmt='' @ show_int redeemed @ ''; v.Amt='' @
              show_int (sv_Amount sv)))
            else
              bindE (putChannelInfo (ca_store ca) (with_voucher ci sv)) (\<lambda>_. ret delta))))"

section \<open>Creating a voucher\<close>

record VoucherCreateResult =
  vcr_Voucher :: "SignedVoucher option"
  vcr_Shortfall :: TokenAmount

definition createVoucher ::
    "'w accessor \<Rightarrow> Address \<Rightarrow> SignedVoucher \<Rightarrow> ('w, VoucherCreateResult) io" where
  "createVoucher ca ch voucher =
     bindE (wrapE ''failed to get channel info by address'' (ByAddress (ca_store ca) ch)) (\<lambda>ci.
     bindE (lift_go (nextNonceForLane ci (sv_Lane voucher))) (\<lambda>nonce.
     let sv = voucher\<lparr>sv_ChannelAddr := ch, sv_Nonce := nonce\<rparr> in
     bindE (wrapE ''failed to get voucher signing bytes'' (lift_go (fn_SigningBytes (ca_api ca) sv))) (\<lambda>vb.
     bindE (wrapE ''failed to sign voucher'' (fn_WalletSign (ca_api ca) (ci_Control ci) vb)) (\<lambda>sig.
     let sv' = sv\<lparr>sv_Signature := Some sig\<rparr> in
     tryE (addVoucherUnlocked ca ch (Some sv') 0)
       (\<lambda>err. case err of
            ErrInsufficientFunds shortfall \<Rightarrow> ret \<lparr>vcr_Voucher = None, vcr_Shortfall = shortfall\<rparr>
          | _ \<Rightarrow> fail (Errorf ''failed to persist voucher'' err))
       (\<lambda>_. ret \<lparr>vcr_Voucher = Some sv', vcr_Shortfall = 0\<rparr>)))))"

section \<open>Messages to the chain\<close>

definition mpoolPush :: "'w FullNode \<Rightarrow> Message \<Rightarrow> ('w, SignedMessage) io" where
  "mpoolPush api msg =
     bindE (fn_GasEstimate api msg) (\<lambda>msg1.
     bindE (fn_MpoolGetNonce api (msg_From msg1)) (\<lambda>nonce.
     let msg2 = msg1\<lparr>msg_Nonce := nonce\<rparr> in
     bindE (lift_go (fn_ToStorageBlock api msg2)) (\<lambda>mbl.
     bindE (fn_WalletSign api (msg_From msg2) mbl) (\<lambda>sig.
     let smsg = \<lparr>sm_Message = msg2, sm_Signature = sig\<rparr> in
     bindE (wrapE ''MpoolPush failed with error'' (fn_MpoolPush api smsg)) (\<lambda>_. ret smsg)))))"

text \<open>The vouchers after one of them, at position \<open>i\<close>, was submitted.\<close>

fun supersede :: "SignedVoucher \<Rightarrow> VoucherInfo list \<Rightarrow> VoucherInfo list go" where
  "supersede sv [] = Ok []"
| "supersede sv (v # vs) =
     (case vi_Voucher v of
        None \<Rightarrow> Panic
      | Some old \<Rightarrow>
          bind_go (supersede sv vs) (\<lambda>vs'.
            Ok ((if sv_Lane old = sv_Lane sv \<and> sv_Nonce old < sv_Nonce sv
                 then v\<lparr>vi_Submitted := True\<rparr> else v) # vs')))"

definition markVoucherSubmitted :: "cbg \<Rightarrow> ChannelInfo \<Rightarrow> SignedVoucher option \<Rightarrow> ChannelInfo go" where
  "markVoucherSubmitted cb ci svp =
     bind_go (infoForVoucher cb (ci_Vouchers ci) svp) (\<lambda>found.
       case found of
         None \<Rightarrow> Err (GErr ''cannot submit voucher that has not been added to channel'')
       | Some i \<Rightarrow>
           (case svp of
              None \<Rightarrow> Panic
            | Some sv \<Rightarrow>
                bind_go (supersede sv ((ci_Vouchers ci)[i := (ci_Vouchers ci ! i)\<lparr>vi_Submitted := True\<rparr>]))
                  (\<lambda>vs. Ok (ci\<lparr>ci_Vouchers := vs\<rparr>))))"

definition MarkVoucherSubmitted ::
    "'w channelStore \<Rightarrow> ChannelInfo \<Rightarrow> SignedVoucher option \<Rightarrow> ('w, unit) io" where
  "MarkVoucherSubmitted s ci svp =
     bindE (lift_go (markVoucherSubmitted (cs_cbg s) ci svp)) (\<lambda>ci'.
     bindE (putChannelInfo s ci') (\<lambda>_. ret ()))"

definition wasVoucherSubmitted :: "cbg \<Rightarrow> ChannelInfo \<Rightarrow> SignedVoucher option \<Rightarrow> bool go" where
  "wasVoucherSubmitted cb ci svp =
     bind_go (infoForVoucher cb (ci_Vouchers ci) svp) (\<lambda>found.
       case found of
         None \<Rightarrow> Err (GErr ''cannot submit voucher that has not been added to channel'')
       | Some i \<Rightarrow> Ok (vi_Submitted (ci_Vouchers ci ! i)))"

definition submitVoucher ::
    "'w accessor \<Rightarrow> Address \<Rightarrow> SignedVoucher option \<Rightarrow> bytes \<Rightarrow> ('w, Cid) io" where
  "submitVoucher ca ch svp secret =
     (let s = ca_store ca; cb = cs_cbg s; api = ca_api ca in
      bindE (ByAddress s ch) (\<lambda>ci.
      bindE (lift_go (infoForVoucher cb (ci_Vouchers ci) svp)) (\<lambda>found.
      bindE (if found = None then ret False else lift_go (wasVoucherSubmitted cb ci svp)) (\<lambda>submitted.
        if submitted then fail (GErr ''cannot submit voucher that has already been submitted'')
        else
          bindE (fn_StateNetworkVersion api) (\<lambda>nv.
          bindE (lift_go (fn_mb_Update api nv (ci_Control ci) ch svp secret)) (\<lambda>msg.
          bindE (mpoolPush api msg) (\<lambda>smsg.
          let ci' = (if found = None
                then ci\<lparr>ci_Vouchers := ci_Vouchers ci @
                      [\<lparr>vi_Voucher = svp, vi_Proof = [], vi_Submitted = False\<rparr>]\<rparr>
                else ci)
          in bindE (MarkVoucherSubmitted s ci' svp) (\<lambda>_. ret (fn_SmsgCid api smsg)))))))))"

text \<open>The error of marking the channel as settling is returned with the CID; the callers read
  the CID only without an error.\<close>

definition settle :: "'w accessor \<Rightarrow> Address \<Rightarrow> ('w, Cid) io" where
  "settle ca ch =
     bindE (ByAddress (ca_store ca) ch) (\<lambda>ci.
     bindE (fn_StateNetworkVersion (ca_api ca)) (\<lambda>nv.
     bindE (lift_go (fn_mb_Settle (ca_api ca) nv (ci_Control ci) ch)) (\<lambda>msg.
     bindE (mpoolPush (ca_api ca) msg) (\<lambda>smsg.
     bindE (putChannelInfo (ca_store ca) (ci\<lparr>ci_Settling := True\<rparr>)) (\<lambda>_.
       ret (fn_SmsgCid (ca_api ca) smsg))))))"

definition collect :: "'w accessor \<Rightarrow> Address \<Rightarrow> ('w, Cid) io" where
  "collect ca ch =
     bindE (ByAddress (ca_store ca) ch) (\<lambda>ci.
     bindE (fn_StateNetworkVersion (ca_api ca)) (\<lambda>nv.
     bindE (lift_go (fn_mb_Collect (ca_api ca) nv (ci_Control ci) ch)) (\<lambda>msg.
     bindE (mpoolPush (ca_api ca) msg) (\<lambda>smsg. ret (fn_SmsgCid (ca_api ca) smsg)))))"

section \<open>The best voucher of each lane\<close>

fun best_by_lane :: "VoucherInfo list \<Rightarrow> (u64 \<times> SignedVoucher) list \<Rightarrow> (u64 \<times> SignedVoucher) list go" where
  "best_by_lane [] best = Ok best"
| "best_by_lane (v # vs) best =
     (case vi_Voucher v of
        None \<Rightarrow> Panic
      | Some sv \<Rightarrow>
          best_by_lane vs
            (case map_of best (sv_Lane sv) of
               None \<Rightarrow> AList.update (sv_Lane sv) sv best
             | Some b \<Rightarrow> if sv_Amount sv > sv_Amount b then AList.update (sv_Lane sv) sv best else best))"

end
