(* ===== verification/Funds.thy ===== *)
theory Funds
  imports Vouchers
begin

text \<open>
  The queue of requests for funds of a channel accessor in \<open>paychmgr.go\<close>, and the messages it
  sends: creating a channel, adding funds, waiting for the messages, answering the requests.
  Every operation holds the accessor's lock, so it is one step; what the code starts with
  \<open>go\<close> is a task that runs later. A request can be cancelled while the queue is processed:
  the requests cancelled before the sum is taken and before the answers are given are arguments.
\<close>

section \<open>State\<close>

record paychFundsRes =
  pfr_channel :: Address
  pfr_mcid :: Cid
  pfr_err :: "gerr option"

text \<open>A request: the promise it waits on, its amount, and whether its context is alive.\<close>

record fundsReq =
  fr_promise :: nat
  fr_amt :: TokenAmount
  fr_active :: bool

datatype task =
    ProcessQueue
  | WaitForPaychCreateMsg string Cid
  | WaitForAddFundsMsg string Cid
  | MsgWaitComplete Cid "gerr option"
  | AnswerMsg nat Cid "gerr option"

record onMsgRes =
  omr_channel :: Address
  omr_err :: "gerr option"

record funds =
  fq_queue :: "fundsReq list"
  fq_tasks :: "task list"
  fq_answers :: "(nat \<times> paychFundsRes) list"
  fq_listeners :: "(nat \<times> Cid) list"
  fq_msgAnswers :: "(nat \<times> onMsgRes) list"

definition no_funds :: funds where
  "no_funds = \<lparr>fq_queue = [], fq_tasks = [], fq_answers = [], fq_listeners = [], fq_msgAnswers = []\<rparr>"

type_synonym ('w, 'a) fu_io = "(funds \<times> 'w, 'a) io"

text \<open>A call of the node or the store; a change of the accessor.\<close>

definition on_node :: "('w, 'a) io \<Rightarrow> ('f \<times> 'w, 'a) io" where
  [go_defs]: "on_node m = (\<lambda>(f, w). case m w of (r, w') \<Rightarrow> (r, (f, w')))"

definition get_funds :: "('f \<times> 'w, 'f) io" where
  [go_defs]: "get_funds = (\<lambda>(f, w). (Ok f, (f, w)))"

definition upd_funds :: "('f \<Rightarrow> 'f) \<Rightarrow> ('f \<times> 'w, unit) io" where
  [go_defs]: "upd_funds g = (\<lambda>(f, w). (Ok (), (g f, w)))"

definition spawn :: "task \<Rightarrow> ('w, unit) fu_io" where
  [go_defs]: "spawn t = upd_funds (\<lambda>f. f\<lparr>fq_tasks := fq_tasks f @ [t]\<rparr>)"

section \<open>The queue\<close>

text \<open>\<open>filterQueue\<close>: the active requests move to the front, the slots behind them are meant to be
  freed, and the slice is cut. The second loop writes slot \<open>i\<close> each time.\<close>

definition move_active :: "nat \<Rightarrow> fundsReq list \<times> nat \<Rightarrow> fundsReq list \<times> nat" where
  "move_active k = (\<lambda>(q, i). if fr_active (q ! k) then (q[i := q ! k], i + 1) else (q, i))"

definition filterQueue :: "fundsReq list \<Rightarrow> fundsReq list" where
  "filterQueue q =
     (if length q = 0 then q
      else
        (let (q', i) = fold move_active [0..<length q] (q, 0);
             q'' = fold (\<lambda>rem q. q[i := None]) [i..<length q'] (map Some q')
         in map the (take i q'')))"

definition cancelReqs :: "nat set \<Rightarrow> fundsReq list \<Rightarrow> fundsReq list" where
  "cancelReqs c q = map (\<lambda>r. if fr_promise r \<in> c then r\<lparr>fr_active := False\<rparr> else r) q"

fun merged_sum :: "fundsReq list \<Rightarrow> TokenAmount \<Rightarrow> TokenAmount" where
  "merged_sum [] acc = acc"
| "merged_sum (r # rs) acc = merged_sum rs (if fr_active r then acc + fr_amt r else acc)"

fun merged_onComplete :: "fundsReq list \<Rightarrow> paychFundsRes \<Rightarrow> (nat \<times> paychFundsRes) list" where
  "merged_onComplete [] res = []"
| "merged_onComplete (r # rs) res =
     (if fr_active r then (fr_promise r, res) # merged_onComplete rs res else merged_onComplete rs res)"

section \<open>Messages\<close>

text \<open>Errors of the store are printed only.\<close>

definition logE :: "('w, 'a) io \<Rightarrow> ('w, unit) io" where
  [go_defs]: "logE m = tryE m (\<lambda>_. ret ()) (\<lambda>_. ret ())"

definition mutateChannelInfo :: "'w channelStore \<Rightarrow> string \<Rightarrow> (ChannelInfo \<Rightarrow> ChannelInfo) \<Rightarrow> ('w, unit) io" where
  "mutateChannelInfo s channelID mutate =
     tryE (ByChannelID s channelID) (\<lambda>_. ret ()) (\<lambda>channelInfo. logE (putChannelInfo s (mutate channelInfo)))"

text \<open>A failure to build the message is looked at after the message has been copied.\<close>

definition createPaych :: "'w accessor \<Rightarrow> TokenAmount \<Rightarrow> ('w, Cid) fu_io" where
  "createPaych ca amt =
     bindE (on_node (fn_StateNetworkVersion (ca_api ca))) (\<lambda>nv.
     tryE (lift_go (fn_mb_Create (ca_api ca) nv (ca_from ca) (ca_to ca) amt)) (\<lambda>_. panic) (\<lambda>msg.
     bindE (on_node (mpoolPush (ca_api ca) msg)) (\<lambda>smsg.
     let mcid = fn_SmsgCid (ca_api ca) smsg in
     bindE (on_node (wrapE ''Unable to create channel in store''
              (CreateChannel (ca_store ca) (ca_from ca) (ca_to ca) mcid amt))) (\<lambda>ci.
     bindE (spawn (WaitForPaychCreateMsg (ci_ChannelID ci) mcid)) (\<lambda>_. ret mcid)))))"

definition addFunds :: "'w accessor \<Rightarrow> ChannelInfo \<Rightarrow> TokenAmount \<Rightarrow> ('w, Cid) fu_io" where
  "addFunds ca channelInfo amt =
     (case ci_Channel channelInfo of
        None \<Rightarrow> panic
      | Some ch \<Rightarrow>
          bindE (on_node (mpoolPush (ca_api ca) \<lparr>msg_To = ch, msg_From = ci_Control channelInfo, msg_Value = amt,
                   msg_Method = 0, msg_Nonce = 0, msg_Params = ''''\<rparr>)) (\<lambda>smsg.
          let mcid = fn_SmsgCid (ca_api ca) smsg in
          bindE (on_node (mutateChannelInfo (ca_store ca) (ci_ChannelID channelInfo)
                   (\<lambda>ci. ci\<lparr>ci_PendingAmount := amt, ci_AddFundsMsg := Some mcid\<rparr>))) (\<lambda>_.
          bindE (on_node (logE (SaveNewMessage (ca_store ca) (ci_ChannelID channelInfo) mcid))) (\<lambda>_.
          bindE (spawn (WaitForAddFundsMsg (ci_ChannelID channelInfo) mcid)) (\<lambda>_. ret mcid)))))"

text \<open>No result: the task waits for the chain.\<close>

definition processTask :: "'w accessor \<Rightarrow> TokenAmount \<Rightarrow> ('w, paychFundsRes option) fu_io" where
  "processTask ca amt =
     (let failed = (\<lambda>err. ret (Some \<lparr>pfr_channel = AddressUndef, pfr_mcid = CidUndef, pfr_err = Some err\<rparr>)) in
      tryE (on_node (OutboundActiveByFromTo (ca_store ca) (ca_from ca) (ca_to ca)))
        (\<lambda>err. if err \<noteq> ErrChannelNotTracked then failed err
           else tryE (createPaych ca amt) failed
             (\<lambda>mcid. ret (Some \<lparr>pfr_channel = AddressUndef, pfr_mcid = mcid, pfr_err = None\<rparr>)))
        (\<lambda>channelInfo.
           if ci_CreateMsg channelInfo \<noteq> None then ret None
           else if ci_AddFundsMsg channelInfo \<noteq> None then ret None
           else tryE (addFunds ca channelInfo amt) failed
             (\<lambda>mcid. ret (Some \<lparr>pfr_channel = the (ci_Channel channelInfo), pfr_mcid = mcid, pfr_err = None\<rparr>))))"

section \<open>Processing the queue\<close>

record availFunds =
  af_Channel :: "Address option"
  af_From :: Address
  af_To :: Address
  af_ConfirmedAmt :: TokenAmount
  af_PendingAmt :: TokenAmount
  af_PendingWaitSentinel :: "Cid option"
  af_QueuedAmt :: TokenAmount
  af_VoucherReedeemedAmt :: TokenAmount

text \<open>What all lanes of a channel have redeemed, the stored vouchers included.\<close>

definition totalRedeemed :: "'w accessor \<Rightarrow> Address option \<Rightarrow> ('w, TokenAmount) io" where
  "totalRedeemed ca channel =
     (case channel of
        None \<Rightarrow> ret 0
      | Some ch \<Rightarrow>
          bindE (loadPaychActorState (ca_api ca) ch) (\<lambda>(_, st).
          bindE (laneStates ca st ch) (\<lambda>lanes. ret (\<Sum>(i, ls)\<leftarrow>lanes. ls_redeemed ls))))"

definition currentAvailableFunds ::
    "'w accessor \<Rightarrow> string \<Rightarrow> TokenAmount \<Rightarrow> ('w, availFunds option) io" where
  "currentAvailableFunds ca channelID queuedAmt =
     (if channelID = '''' then ret None
      else
        bindE (ByChannelID (ca_store ca) channelID) (\<lambda>channelInfo.
        let waitSentinel = (case ci_CreateMsg channelInfo of None \<Rightarrow> ci_AddFundsMsg channelInfo | m \<Rightarrow> m) in
        bindE (totalRedeemed ca (ci_Channel channelInfo)) (\<lambda>redeemed.
          ret (Some
            \<lparr>af_Channel = ci_Channel channelInfo, af_From = ci_from channelInfo, af_To = ci_to channelInfo,
             af_ConfirmedAmt = ci_Amount channelInfo, af_PendingAmt = ci_PendingAmount channelInfo,
             af_PendingWaitSentinel = waitSentinel, af_QueuedAmt = queuedAmt,
             af_VoucherReedeemedAmt = redeemed\<rparr>))))"

definition set_queue :: "fundsReq list \<Rightarrow> ('w, unit) fu_io" where
  [go_defs]: "set_queue q = upd_funds (\<lambda>f. f\<lparr>fq_queue := q\<rparr>)"

definition answer :: "(nat \<times> paychFundsRes) list \<Rightarrow> ('w, unit) fu_io" where
  [go_defs]: "answer as = upd_funds (\<lambda>f. f\<lparr>fq_answers := fq_answers f @ as\<rparr>)"

text \<open>\<open>c1\<close>: the requests cancelled before the sum is taken, \<open>c2\<close>: those cancelled before the
  answers are given.\<close>

definition processQueue ::
    "'w accessor \<Rightarrow> nat set \<Rightarrow> nat set \<Rightarrow> string \<Rightarrow> ('w, availFunds option) fu_io" where
  "processQueue ca c1 c2 channelID =
     bindE get_funds (\<lambda>f.
     let q = filterQueue (fq_queue f) in
     bindE (set_queue q) (\<lambda>_.
       if length q = 0 then on_node (currentAvailableFunds ca channelID 0)
       else
         (let reqs = cancelReqs c1 q; amt = merged_sum reqs 0 in
          bindE (set_queue reqs) (\<lambda>_.
            if amt = 0 then on_node (currentAvailableFunds ca channelID amt)
            else
              bindE (processTask ca amt) (\<lambda>res.
              let reqs' = cancelReqs c2 reqs in
                case res of
                  None \<Rightarrow> bindE (set_queue reqs') (\<lambda>_. on_node (currentAvailableFunds ca channelID amt))
                | Some r \<Rightarrow>
                    bindE (set_queue []) (\<lambda>_.
                    bindE (answer (merged_onComplete reqs' r)) (\<lambda>_.
                      on_node (currentAvailableFunds ca channelID 0))))))))"

definition availableFunds ::
    "'w accessor \<Rightarrow> nat set \<Rightarrow> nat set \<Rightarrow> string \<Rightarrow> ('w, availFunds option) fu_io" where
  "availableFunds ca c1 c2 channelID = processQueue ca c1 c2 channelID"

definition enqueue :: "fundsReq \<Rightarrow> ('w, unit) fu_io" where
  "enqueue r = bindE (upd_funds (\<lambda>f. f\<lparr>fq_queue := fq_queue f @ [r]\<rparr>)) (\<lambda>_. spawn ProcessQueue)"

definition newFundsReq :: "nat \<Rightarrow> TokenAmount \<Rightarrow> fundsReq" where
  "newFundsReq p amt = \<lparr>fr_promise = p, fr_amt = amt, fr_active = True\<rparr>"

text \<open>\<open>getPaych\<close> puts a request in the queue and waits; it ends with the answer, or with the
  context, which cancels the request.\<close>

definition getPaych :: "nat \<Rightarrow> TokenAmount \<Rightarrow> ('w, unit) fu_io" where
  "getPaych p amt = enqueue (newFundsReq p amt)"

definition getPaych_result :: "nat \<Rightarrow> funds \<Rightarrow> (Address \<times> Cid \<times> gerr option) option" where
  "getPaych_result p f =
     map_option (\<lambda>res. (pfr_channel res, pfr_mcid res, pfr_err res)) (map_of (fq_answers f) p)"

definition getPaych_cancel :: "nat \<Rightarrow> ('w, unit) fu_io" where
  "getPaych_cancel p = upd_funds (\<lambda>f. f\<lparr>fq_queue := cancelReqs {p} (fq_queue f)\<rparr>)"

section \<open>Waiting for the chain\<close>

text \<open>The value is the error of the wait.\<close>

definition waitPaychCreateMsg :: "'w accessor \<Rightarrow> string \<Rightarrow> Cid \<Rightarrow> ('w, gerr option) io" where
  "waitPaychCreateMsg ca channelID mcid =
     tryE (fn_StateWaitMsg (ca_api ca) mcid) (\<lambda>err. ret (Some err)) (\<lambda>receipt.
       if rcp_ExitCode receipt \<noteq> 0
       then bindE (logE (RemoveChannel (ca_store ca) channelID)) (\<lambda>_.
         ret (Some (GErr (''payment channel creation failed (exit code '' @ show_int (rcp_ExitCode receipt) @ '')''))))
       else
         tryE (lift_go (fn_DecodeExecReturn (ca_api ca) (rcp_Return receipt))) (\<lambda>err. ret (Some err))
           (\<lambda>robust. bindE (mutateChannelInfo (ca_store ca) channelID (\<lambda>ci. ci\<lparr>ci_Channel := Some robust,
               ci_Amount := ci_PendingAmount ci, ci_PendingAmount := 0, ci_CreateMsg := None\<rparr>))
             (\<lambda>_. ret None)))"

definition waitAddFundsMsg :: "'w accessor \<Rightarrow> string \<Rightarrow> Cid \<Rightarrow> ('w, gerr option) io" where
  "waitAddFundsMsg ca channelID mcid =
     tryE (fn_StateWaitMsg (ca_api ca) mcid) (\<lambda>err. ret (Some err)) (\<lambda>receipt.
       if rcp_ExitCode receipt \<noteq> 0
       then bindE (mutateChannelInfo (ca_store ca) channelID
           (\<lambda>ci. ci\<lparr>ci_PendingAmount := 0, ci_AddFundsMsg := None\<rparr>)) (\<lambda>_.
         ret (Some (GErr (''voucher channel creation failed: adding funds (exit code '' @
           show_int (rcp_ExitCode receipt) @ '')''))))
       else bindE (mutateChannelInfo (ca_store ca) channelID (\<lambda>ci. ci\<lparr>ci_Amount := ci_Amount ci + ci_PendingAmount ci,
           ci_PendingAmount := 0, ci_AddFundsMsg := None\<rparr>)) (\<lambda>_. ret None))"

text \<open>The listeners of the message are told, each by a task of its own, and unsubscribe.\<close>

definition fireMsgComplete :: "Cid \<Rightarrow> gerr option \<Rightarrow> ('w, unit) fu_io" where
  "fireMsgComplete mcid err = upd_funds (\<lambda>f. f\<lparr>
     fq_tasks := fq_tasks f @ map (\<lambda>(p, c). AnswerMsg p mcid err) (filter (\<lambda>(p, c). c = mcid) (fq_listeners f)),
     fq_listeners := filter (\<lambda>(p, c). c \<noteq> mcid) (fq_listeners f)\<rparr>)"

definition msgWaitComplete :: "'w accessor \<Rightarrow> Cid \<Rightarrow> gerr option \<Rightarrow> ('w, unit) fu_io" where
  "msgWaitComplete ca mcid err =
     bindE (on_node (logE (SaveMessageResult (ca_store ca) mcid err))) (\<lambda>_.
     bindE (fireMsgComplete mcid err) (\<lambda>_.
     bindE get_funds (\<lambda>f. if length (fq_queue f) > 0 then spawn ProcessQueue else ret ())))"

text \<open>\<open>getPaychWaitReady\<close>: the address when the message has been received, otherwise a listener
  under the promise \<open>p\<close>. The text of an error is taken as it is (it holds no format verb).\<close>

definition getPaychWaitReady :: "'w accessor \<Rightarrow> nat \<Rightarrow> Cid \<Rightarrow> ('w, Address option) fu_io" where
  "getPaychWaitReady ca p mcid =
     bindE (on_node (GetMessage (ca_store ca) mcid)) (\<lambda>msgInfo.
       if length (mi_Err msgInfo) > 0 then fail (GErr (mi_Err msgInfo))
       else if mi_Received msgInfo
       then bindE (on_node (ByMessageCid (ca_store ca) mcid)) (\<lambda>ci.
         case ci_Channel ci of None \<Rightarrow> panic | Some ch \<Rightarrow> ret (Some ch))
       else bindE (upd_funds (\<lambda>f. f\<lparr>fq_listeners := fq_listeners f @ [(p, mcid)]\<rparr>)) (\<lambda>_. ret None))"

definition answerMsg :: "'w accessor \<Rightarrow> nat \<Rightarrow> Cid \<Rightarrow> gerr option \<Rightarrow> ('w, unit) fu_io" where
  "answerMsg ca p mcid err =
     (let give = (\<lambda>r. upd_funds (\<lambda>f. f\<lparr>fq_msgAnswers := fq_msgAnswers f @ [(p, r)]\<rparr>)) in
      case err of
        Some e \<Rightarrow> give \<lparr>omr_channel = AddressUndef, omr_err = Some e\<rparr>
      | None \<Rightarrow>
          tryE (on_node (ByMessageCid (ca_store ca) mcid))
            (\<lambda>e. give \<lparr>omr_channel = AddressUndef, omr_err = Some e\<rparr>)
            (\<lambda>ci. case ci_Channel ci of None \<Rightarrow> panic
               | Some ch \<Rightarrow> give \<lparr>omr_channel = ch, omr_err = None\<rparr>))"

text \<open>What a task does when it runs.\<close>

fun run_task :: "'w accessor \<Rightarrow> nat set \<Rightarrow> nat set \<Rightarrow> task \<Rightarrow> ('w, unit) fu_io" where
  "run_task ca c1 c2 ProcessQueue = logE (processQueue ca c1 c2 '''')"
| "run_task ca c1 c2 (WaitForPaychCreateMsg channelID mcid) =
     bindE (on_node (waitPaychCreateMsg ca channelID mcid)) (\<lambda>err. spawn (MsgWaitComplete mcid err))"
| "run_task ca c1 c2 (WaitForAddFundsMsg channelID mcid) =
     bindE (on_node (waitAddFundsMsg ca channelID mcid)) (\<lambda>err. spawn (MsgWaitComplete mcid err))"
| "run_task ca c1 c2 (MsgWaitComplete mcid err) = msgWaitComplete ca mcid err"
| "run_task ca c1 c2 (AnswerMsg p mcid err) = answerMsg ca p mcid err"

section \<open>Runs of an accessor\<close>

text \<open>What can happen to an accessor: a request, its cancellation, a call that asks for the funds,
  a call that waits for a message, and a task that runs.\<close>

datatype action =
    Request nat TokenAmount
  | Cancel nat
  | AvailableFunds string "nat set" "nat set"
  | WaitReady nat Cid
  | RunTask nat "nat set" "nat set"

fun run_action :: "'w accessor \<Rightarrow> action \<Rightarrow> ('w, unit) fu_io" where
  "run_action ca (Request p amt) = getPaych p amt"
| "run_action ca (Cancel p) = getPaych_cancel p"
| "run_action ca (AvailableFunds channelID c1 c2) = logE (availableFunds ca c1 c2 channelID)"
| "run_action ca (WaitReady p mcid) = logE (getPaychWaitReady ca p mcid)"
| "run_action ca (RunTask i c1 c2) =
     bindE get_funds (\<lambda>f.
       if i < length (fq_tasks f)
       then bindE (upd_funds (\<lambda>f. f\<lparr>fq_tasks := take i (fq_tasks f) @ drop (Suc i) (fq_tasks f)\<rparr>))
              (\<lambda>_. run_task ca c1 c2 (fq_tasks f ! i))
       else ret ())"

end
