(* ===== verification/Manager.thy ===== *)
theory Manager
  imports Funds
begin

text \<open>
  The \<open>paychManager\<close> of \<open>paychmgr.go\<close>: the accessors by their parties, and the operations that
  find the accessor of a channel and call it. What runs while an operation waits is an argument
  \<open>sched\<close>: tasks of the accessor, other calls, the chain.
\<close>

section \<open>The manager\<close>

record 'w paychManager =
  pm_api :: "'w FullNode"
  pm_store :: "'w channelStore"

text \<open>The accessors by key, and a number for the next promise that is made.\<close>

record managerState =
  ms_channels :: "string \<Rightarrow> (Address \<times> Address \<times> funds) option"
  ms_promise :: nat

type_synonym ('w, 'a) pm_io = "(managerState \<times> 'w, 'a) io"

definition NewPaychManager :: managerState where
  "NewPaychManager = \<lparr>ms_channels = (\<lambda>_. None), ms_promise = 0\<rparr>"

definition newAccessor :: "'w paychManager \<Rightarrow> Address \<Rightarrow> Address \<Rightarrow> 'w accessor" where
  "newAccessor pm from to = \<lparr>ca_from = from, ca_to = to, ca_api = pm_api pm, ca_store = pm_store pm\<rparr>"

definition accessorCacheKey :: "Address \<Rightarrow> Address \<Rightarrow> string" where
  "accessorCacheKey from to = from @ ''->'' @ to"

definition addAccessorToCache :: "'w paychManager \<Rightarrow> Address \<Rightarrow> Address \<Rightarrow> ('w, unit) pm_io" where
  "addAccessorToCache pm from to =
     upd_funds (\<lambda>m. m\<lparr>ms_channels := (ms_channels m)(accessorCacheKey from to \<mapsto> (from, to, no_funds))\<rparr>)"

text \<open>The value is the key of the accessor.\<close>

definition accessorByFromTo :: "'w paychManager \<Rightarrow> Address \<Rightarrow> Address \<Rightarrow> ('w, string) pm_io" where
  "accessorByFromTo pm from to =
     (let key = accessorCacheKey from to in
      bindE get_funds (\<lambda>m.
        if ms_channels m key \<noteq> None then ret key
        else bindE (addAccessorToCache pm from to) (\<lambda>_. ret key)))"

definition accessorByAddress :: "'w paychManager \<Rightarrow> Address \<Rightarrow> ('w, string) pm_io" where
  "accessorByAddress pm ch =
     bindE (on_node (ByAddress (pm_store pm) ch)) (\<lambda>ci. accessorByFromTo pm (ci_Control ci) (ci_Target ci))"

text \<open>An operation of the accessor with a key.\<close>

definition with_accessor :: "'w paychManager \<Rightarrow> string \<Rightarrow> ('w accessor \<Rightarrow> ('w, 'a) fu_io) \<Rightarrow> ('w, 'a) pm_io" where
  "with_accessor pm key m = (\<lambda>(s, w).
     case ms_channels s key of
       None \<Rightarrow> (Panic, (s, w))
     | Some (from, to, f) \<Rightarrow>
         (case m (newAccessor pm from to) (f, w) of
            (r, (f', w')) \<Rightarrow> (r, (s\<lparr>ms_channels := (ms_channels s)(key \<mapsto> (from, to, f'))\<rparr>, w'))))"

definition new_promise :: "('w, nat) pm_io" where
  "new_promise = (\<lambda>(s, w). (Ok (ms_promise s), (s\<lparr>ms_promise := ms_promise s + 1\<rparr>, w)))"

definition accessor_funds :: "'w paychManager \<Rightarrow> string \<Rightarrow> ('w, funds) pm_io" where
  "accessor_funds pm key = with_accessor pm key (\<lambda>_. get_funds)"

section \<open>Operations\<close>

definition context_done :: gerr where
  "context_done = GErr ''context canceled''"

definition PaychGet ::
    "'w paychManager \<Rightarrow> (string \<Rightarrow> ('w, unit) pm_io) \<Rightarrow> Address \<Rightarrow> Address \<Rightarrow> TokenAmount \<Rightarrow> ('w, Address \<times> Cid) pm_io" where
  "PaychGet pm sched from to amt =
     bindE (accessorByFromTo pm from to) (\<lambda>key.
     bindE new_promise (\<lambda>p.
     bindE (with_accessor pm key (\<lambda>_. getPaych p amt)) (\<lambda>_.
     bindE (sched key) (\<lambda>_.
     bindE (accessor_funds pm key) (\<lambda>f.
     wrapE ''Unable to get or create pay channel from accessor''
       (case getPaych_result p f of
          Some (addr, mcid, err) \<Rightarrow> (case err of None \<Rightarrow> ret (addr, mcid) | Some e \<Rightarrow> fail e)
        | None \<Rightarrow> bindE (with_accessor pm key (\<lambda>_. getPaych_cancel p)) (\<lambda>_. fail context_done)))))))"

definition PaychAllocateLane :: "'w paychManager \<Rightarrow> Address \<Rightarrow> ('w, u64) pm_io" where
  "PaychAllocateLane pm ch =
     bindE (wrapE ''Unable to find channel to allocate lane'' (accessorByAddress pm ch)) (\<lambda>key.
       with_accessor pm key (\<lambda>ca. on_node (AllocateLane (ca_store ca) ch)))"

definition PaychVoucherCreate ::
    "'w paychManager \<Rightarrow> Address \<Rightarrow> TokenAmount \<Rightarrow> u64 \<Rightarrow> ('w, VoucherCreateResult) pm_io" where
  "PaychVoucherCreate pm ch amt lane =
     (let vouch = \<lparr>sv_ChannelAddr = AddressUndef, sv_Lane = lane, sv_Nonce = 0, sv_Amount = amt, sv_Merges = [],
            sv_Signature = None, sv_Other = ''''\<rparr> in
      bindE (wrapE ''Unable to find channel to create voucher for'' (accessorByAddress pm ch)) (\<lambda>key.
        with_accessor pm key (\<lambda>ca. on_node (createVoucher ca ch vouch))))"

definition PaychGetWaitReady ::
    "'w paychManager \<Rightarrow> (string \<Rightarrow> ('w, unit) pm_io) \<Rightarrow> Cid \<Rightarrow> ('w, Address) pm_io" where
  "PaychGetWaitReady pm sched mcid =
     bindE (tryE (on_node (ByMessageCid (pm_store pm) mcid))
              (\<lambda>err. if err = ErrNotFound then fail (GErr (''Could not find wait msg cid '' @ mcid)) else fail err) ret)
       (\<lambda>ci. bindE (accessorByFromTo pm (ci_Control ci) (ci_Target ci)) (\<lambda>key.
         bindE new_promise (\<lambda>p.
         bindE (with_accessor pm key (\<lambda>ca. getPaychWaitReady ca p mcid)) (\<lambda>ready.
           case ready of
             Some ch \<Rightarrow> ret ch
           | None \<Rightarrow>
               bindE (sched key) (\<lambda>_.
               bindE (accessor_funds pm key) (\<lambda>f.
                 case map_of (fq_msgAnswers f) p of
                   None \<Rightarrow> fail context_done
                 | Some res \<Rightarrow> (case omr_err res of None \<Rightarrow> ret (omr_channel res) | Some e \<Rightarrow> fail e)))))))"

definition PaychAvailableFunds ::
    "'w paychManager \<Rightarrow> nat set \<Rightarrow> nat set \<Rightarrow> Address \<Rightarrow> ('w, availFunds option) pm_io" where
  "PaychAvailableFunds pm c1 c2 ch =
     bindE (accessorByAddress pm ch) (\<lambda>key.
     bindE (on_node (ByAddress (pm_store pm) ch)) (\<lambda>ci.
       with_accessor pm key (\<lambda>ca. availableFunds ca c1 c2 (ci_ChannelID ci))))"

definition ListChannels_pm :: "'w paychManager \<Rightarrow> ('w, Address list) pm_io" where
  "ListChannels_pm pm = on_node (ListChannels (pm_store pm))"

definition ListVouchers :: "'w paychManager \<Rightarrow> Address \<Rightarrow> ('w, VoucherInfo list) pm_io" where
  "ListVouchers pm ch =
     bindE (accessorByAddress pm ch) (\<lambda>key. with_accessor pm key (\<lambda>ca. on_node (VouchersForPaych (ca_store ca) ch)))"

definition BestSpendableByLane :: "'w paychManager \<Rightarrow> Address \<Rightarrow> ('w, (u64 \<times> SignedVoucher) list) pm_io" where
  "BestSpendableByLane pm ch = bindE (ListVouchers pm ch) (\<lambda>vouchers. lift_go (best_by_lane vouchers []))"

definition errProofNotSupported :: gerr where
  "errProofNotSupported = GErr ''payment channel proof parameter is not supported''"

definition SubmitVoucher ::
    "'w paychManager \<Rightarrow> Address \<Rightarrow> SignedVoucher option \<Rightarrow> bytes \<Rightarrow> bytes \<Rightarrow> ('w, Cid) pm_io" where
  "SubmitVoucher pm ch sv secret proof =
     (if length proof > 0 then fail errProofNotSupported
      else bindE (accessorByAddress pm ch) (\<lambda>key.
        with_accessor pm key (\<lambda>ca. on_node (submitVoucher ca ch sv secret))))"

definition Settle :: "'w paychManager \<Rightarrow> Address \<Rightarrow> ('w, Cid) pm_io" where
  "Settle pm addr =
     bindE (accessorByAddress pm addr) (\<lambda>key. with_accessor pm key (\<lambda>ca. on_node (settle ca addr)))"

definition Collect :: "'w paychManager \<Rightarrow> Address \<Rightarrow> ('w, Cid) pm_io" where
  "Collect pm addr =
     bindE (accessorByAddress pm addr) (\<lambda>key. with_accessor pm key (\<lambda>ca. on_node (collect ca addr)))"

section \<open>Inbound channels\<close>

definition nextLaneFromState :: "'w FullNode \<Rightarrow> PaychState \<Rightarrow> ('w, u64) io" where
  "nextLaneFromState api st =
     bindE (fn_AsArray api (ps_LaneStates st)) (\<lambda>laneCount.
       if laneCount = 0 then ret 0
       else bindE (fn_ForEach api (ps_LaneStates st)) (\<lambda>lanes.
         ret (fold (\<lambda>(idx, _) maxID. if idx > maxID then idx else maxID) lanes 0 + 1)))"

definition loadStateChannelInfo :: "'w paychManager \<Rightarrow> Address \<Rightarrow> u64 \<Rightarrow> ('w, ChannelInfo) io" where
  "loadStateChannelInfo pm ch dir =
     bindE (loadPaychActorState (pm_api pm) ch) (\<lambda>(_, st).
     bindE (wrapE ''Unable to get account key for From actor state'' (fn_StateAccountKey (pm_api pm) (ps_From st))) (\<lambda>from.
     bindE (wrapE ''Unable to get account key for To actor state'' (fn_StateAccountKey (pm_api pm) (ps_To st))) (\<lambda>to.
     bindE (wrapE ''Unable to get next lane from state'' (nextLaneFromState (pm_api pm) st)) (\<lambda>nextLane.
       ret \<lparr>ci_ChannelID = '''', ci_Channel = Some ch,
            ci_Control = (if dir = DirOutbound then from else to),
            ci_Target = (if dir = DirOutbound then to else from),
            ci_Direction = dir, ci_Vouchers = [], ci_NextLane = nextLane, ci_Amount = 0, ci_PendingAmount = 0,
            ci_CreateMsg = None, ci_AddFundsMsg = None, ci_Settling = False\<rparr>))))"

definition trackInboundChannel :: "'w paychManager \<Rightarrow> Address \<Rightarrow> ('w, ChannelInfo) io" where
  "trackInboundChannel pm ch =
     tryE (ByAddress (pm_store pm) ch)
       (\<lambda>err. if err \<noteq> ErrChannelNotTracked then fail err
          else
            bindE (loadStateChannelInfo pm ch DirInbound) (\<lambda>stateCi.
            bindE (fn_StateAccountKey (pm_api pm) (ci_Control stateCi)) (\<lambda>toKey.
            bindE (fn_WalletHas (pm_api pm) toKey) (\<lambda>has.
              if \<not> has
              then fail (GErr (''cannot add voucher for channel '' @ ch @
                     '': wallet does not have key for address '' @ ci_Control stateCi))
              else TrackChannel_store (pm_store pm) stateCi))))
       ret"

definition inboundChannelAccessor :: "'w paychManager \<Rightarrow> Address \<Rightarrow> ('w, string) pm_io" where
  "inboundChannelAccessor pm ch =
     bindE (on_node (trackInboundChannel pm ch)) (\<lambda>ci. accessorByFromTo pm (ci_Target ci) (ci_Control ci))"

definition AddVoucherInbound ::
    "'w paychManager \<Rightarrow> Address \<Rightarrow> SignedVoucher option \<Rightarrow> bytes \<Rightarrow> TokenAmount \<Rightarrow> ('w, TokenAmount) pm_io" where
  "AddVoucherInbound pm ch sv proof minDelta =
     (if length proof > 0 then fail errProofNotSupported
      else bindE (inboundChannelAccessor pm ch) (\<lambda>key.
        with_accessor pm key (\<lambda>ca. on_node (addVoucherUnlocked ca ch sv minDelta))))"

section \<open>Redeeming everything\<close>

text \<open>The wait for a message of the chain: without an answer its nil result is followed. The exit
  code is printed only.\<close>

definition wait_printed :: "'w FullNode \<Rightarrow> Cid \<Rightarrow> ('w, unit) io" where
  "wait_printed api mcid = tryE (fn_StateWaitMsg api mcid) (\<lambda>_. panic) (\<lambda>_. ret ())"

text \<open>The vouchers submitted, and how often \<open>Done\<close> is missing.\<close>

fun submit_all ::
    "'w paychManager \<Rightarrow> Address \<Rightarrow> (u64 \<times> SignedVoucher) list \<Rightarrow> ('w, SignedVoucher list \<times> nat) pm_io" where
  "submit_all pm ch [] = ret ([], 0)"
| "submit_all pm ch ((_, voucher) # best) =
     tryE (SubmitVoucher pm ch (Some voucher) [] [])
       (\<lambda>_. bindE (submit_all pm ch best) (\<lambda>(done, missing). ret (done, missing + 1)))
       (\<lambda>msgCid. bindE (on_node (wait_printed (pm_api pm) msgCid)) (\<lambda>_.
          bindE (submit_all pm ch best) (\<lambda>(done, missing). ret (voucher # done, missing))))"

text \<open>The loop over the channels; \<open>None\<close> when the wait group of a channel is never done.\<close>

fun redeem_channels :: "'w paychManager \<Rightarrow> Address list \<Rightarrow> ('w, SignedVoucher list option) pm_io" where
  "redeem_channels pm [] = ret (Some [])"
| "redeem_channels pm (ch # chs) =
     tryE (BestSpendableByLane pm ch) (\<lambda>_. redeem_channels pm chs) (\<lambda>best.
       bindE (tryE (Settle pm ch) (\<lambda>_. ret CidUndef) ret) (\<lambda>mcid.
       bindE (on_node (wait_printed (pm_api pm) mcid)) (\<lambda>_.
       bindE (submit_all pm ch best) (\<lambda>(done, missing).
         if missing > 0 then ret None
         else bindE (redeem_channels pm chs) (\<lambda>rest. ret (map_option (\<lambda>vs. done @ vs) rest))))))"

definition RedeemAll :: "'w paychManager \<Rightarrow> ('w, SignedVoucher list option) pm_io" where
  "RedeemAll pm = bindE (ListChannels_pm pm) (\<lambda>chs. redeem_channels pm chs)"

end
