(* ===== verification/CborRef.thy ===== *)
theory CborRef
  imports CborPaych
begin

text \<open>
  A library that meets the contract \<open>cbg_lib\<close>: the headers of CBOR as its standard defines
  them, and for the encodings of addresses, integers, CIDs, channel identifiers and vouchers
  byte strings in the manner of the libraries. It shows that the contract can hold and is
  what the examples of the development run on.
\<close>

section \<open>Numbers in big-endian bytes\<close>

fun be :: "nat \<Rightarrow> nat \<Rightarrow> bytes" where
  "be 0 x = []"
| "be (Suc k) x = be k (x div 256) @ [word_of_nat (x mod 256)]"

definition unbe :: "bytes \<Rightarrow> nat" where
  "unbe bs = foldl (\<lambda>a b. a * 256 + unat b) 0 bs"

lemma length_be [simp]: "length (be k x) = k"
  by (induction k arbitrary: x) auto

lemma unat_byte: "n < 256 \<Longrightarrow> unat (word_of_nat n :: u8) = n"
  by (simp add: unat_of_nat take_bit_nat_eq_self)

lemma unbe_be: "x < 256 ^ k \<Longrightarrow> unbe (be k x) = x"
proof (induction k arbitrary: x)
  case 0
  then show ?case by (simp add: unbe_def)
next
  case (Suc k)
  then have "x div 256 < 256 ^ k" by (simp add: less_mult_imp_div_less mult.commute)
  with Suc.IH show ?case by (simp add: unbe_def unat_byte)
qed

section \<open>Headers\<close>

definition ref_byte :: "u8 \<Rightarrow> nat \<Rightarrow> u8" where
  "ref_byte m low = word_of_nat (unat m * 32 + low)"

definition ref_header :: "u8 \<Rightarrow> u64 \<Rightarrow> bytes" where
  "ref_header m n =
     (let x = unat n in
      if x < 24 then [ref_byte m x]
      else if x < 256 then ref_byte m 24 # be 1 x
      else if x < 256 ^ 2 then ref_byte m 25 # be 2 x
      else if x < 256 ^ 4 then ref_byte m 26 # be 4 x
      else ref_byte m 27 # be 8 x)"

definition ref_take :: "u8 \<Rightarrow> nat \<Rightarrow> (u8 \<times> u64) reader" where
  "ref_take m k bs =
     (if length bs < k then Err (GErr ''unexpected EOF'')
      else Ok ((m, of_nat (unbe (take k bs))), drop k bs))"

fun ref_readHeader :: "(u8 \<times> u64) reader" where
  "ref_readHeader [] = Err (GErr ''EOF'')"
| "ref_readHeader (b # bs) =
     (let m = word_of_nat (unat b div 32); low = unat b mod 32 in
      if low < 24 then Ok ((m, of_nat low), bs)
      else if low = 24 then ref_take m 1 bs
      else if low = 25 then ref_take m 2 bs
      else if low = 26 then ref_take m 4 bs
      else if low = 27 then ref_take m 8 bs
      else Err (GErr ''invalid header''))"

lemma first_byte:
  assumes "m < (8 :: u8)" "low < 32"
  shows "unat (ref_byte m low) = unat m * 32 + low"
proof -
  have "unat m < 8" using assms(1) by (simp add: word_less_nat_alt)
  with assms(2) show ?thesis unfolding ref_byte_def by (intro unat_byte) simp
qed

lemma ref_take_be:
  "unat n < 256 ^ k \<Longrightarrow> ref_take m k (be k (unat n) @ bs) = Ok ((m, n), bs)"
  by (simp add: ref_take_def unbe_be)

lemma ref_readHeader_header: "m < 8 \<Longrightarrow> ref_readHeader (ref_header m n @ bs) = Ok ((m, n), bs)"
  using unsigned_less [of n, where ?'a = nat]
  by (auto simp: ref_header_def Let_def first_byte ref_take_be simp del: be.simps)

lemma ref_header_cons: "\<exists>c cs. ref_header m n = c # cs \<and> (m < 7 \<longrightarrow> c < 0xe0)"
proof -
  have "ref_byte m low < 0xe0" if "m < 7" "low < 32" for low
  proof -
    from that have m: "unat m < 7" by (simp add: word_less_nat_alt)
    then have "m < 8" by (simp add: word_less_nat_alt)
    with first_byte that(2) have "unat (ref_byte m low) = unat m * 32 + low" by blast
    with m that(2) show ?thesis by (simp add: word_less_nat_alt)
  qed
  then show ?thesis by (auto simp: ref_header_def Let_def)
qed

section \<open>Strings\<close>

definition string_of :: "bytes \<Rightarrow> string" where
  "string_of bs = map (\<lambda>b. char_of (unat b)) bs"

lemma string_of_bytes_of [simp]: "string_of (bytes_of s) = s"
proof -
  have "of_char c < (256 :: nat)" for c :: char
    using nat_of_char_less_256 [of c] by simp
  then show ?thesis by (simp add: string_of_def bytes_of_def unat_byte map_idI)
qed

lemma length_bytes_of [simp]: "length (bytes_of s) = length s"
  by (simp add: bytes_of_def)

text \<open>A string under a major type, with a bound on its length.\<close>

definition ref_w_str :: "u8 \<Rightarrow> nat \<Rightarrow> string writer" where
  "ref_w_str m bound s =
     (if length s > bound then Err (GErr ''too long'')
      else Ok (ref_header m (of_nat (length s)) @ bytes_of s))"

definition ref_r_str :: "u8 \<Rightarrow> nat \<Rightarrow> string reader" where
  "ref_r_str m bound = r_bind ref_readHeader (\<lambda>(maj, extra).
     if maj \<noteq> m then r_fail ''wrong type''
     else if unat extra > bound then r_fail ''too long''
     else r_bind (r_full (unat extra)) (\<lambda>b. r_ret (string_of b)))"

lemma ref_str_codec:
  assumes "m < 7" "bound < 2 ^ 32" "length s \<le> bound"
  shows "codec_ok (ref_w_str m bound) (ref_r_str m bound) s"
proof -
  obtain c cs where c: "ref_header m (of_nat (length s)) = c # cs" "c < 0xe0"
    using ref_header_cons assms(1) by blast
  have "m < 8" using assms(1) by (simp add: word_less_nat_alt)
  then have "ref_readHeader (c # cs @ bs) = Ok ((m, of_nat (length s)), bs)" for bs
    using ref_readHeader_header [of m "of_nat (length s)" bs] c by simp
  moreover have "unat (of_nat (length s) :: u64) = length s"
    using assms(2,3) by (intro unat_of_nat_small) simp
  ultimately show ?thesis
    using assms c by (intro codec_okI [of _ _ "c # cs @ bytes_of s"])
      (auto simp: ref_w_str_def ref_r_str_def)
qed

section \<open>Integers\<close>

definition ref_w_big :: "int writer" where
  "ref_w_big x =
     (if \<bar>x\<bar> < 256 ^ 16
      then Ok (ref_header MajByteString 17 @ (if x < 0 then 1 else 0) # be 16 (nat \<bar>x\<bar>))
      else Err (GErr ''big integer too large''))"

definition ref_r_big :: "int reader" where
  "ref_r_big = r_bind ref_readHeader (\<lambda>(maj, extra).
     if maj \<noteq> MajByteString \<or> extra \<noteq> 17 then r_fail ''wrong type''
     else r_bind (r_full 17) (\<lambda>b.
       r_ret (if hd b = 0 then int (unbe (tl b)) else - int (unbe (tl b)))))"

lemma ref_big_codec: "\<bar>x\<bar> < 256 ^ 16 \<Longrightarrow> codec_ok ref_w_big ref_r_big x"
proof -
  assume x: "\<bar>x\<bar> < 256 ^ 16"
  then have "nat \<bar>x\<bar> < 256 ^ 16" by (simp add: nat_less_iff)
  then have u: "unbe (be 16 (nat \<bar>x\<bar>)) = nat \<bar>x\<bar>" by (rule unbe_be)
  have h: "ref_header MajByteString 17 = [0x51]" by (simp add: ref_header_def ref_byte_def)
  show ?thesis
    using ref_readHeader_header [of MajByteString 17] x u
    by (intro codec_okI [of _ _ "ref_header MajByteString 17 @ (if x < 0 then 1 else 0) # be 16 (nat \<bar>x\<bar>)"])
       (auto simp: ref_w_big_def ref_r_big_def h simp del: be.simps ref_readHeader.simps)
qed

section \<open>The library\<close>

definition ref_cbg0 :: cbg where
  "ref_cbg0 =
     \<lparr>cg_MaxLength = 8192, cg_ByteArrayMaxLen = 2097152,
      cg_header = ref_header, cg_readHeader = ref_readHeader,
      cg_ReadString = ref_r_str MajTextString 8192,
      cg_bool = (\<lambda>b. if b then [0xf5] else [0xf4]),
      cg_WriteCid = ref_w_str 6 100, cg_ReadCid = ref_r_str 6 100,
      cg_WriteAddress = (\<lambda>a. if a = AddressUndef then Err (GErr ''cannot marshal undefined address'')
        else ref_w_str MajByteString 64 a),
      cg_WriteNilAddress = Err (GErr ''cannot marshal nil address''),
      cg_ReadAddress = ref_r_str MajByteString 64,
      cg_WriteBig = ref_w_big, cg_ReadBig = ref_r_big,
      cg_WriteChannelID = ref_w_str MajTextString 500, cg_ReadChannelID = ref_r_str MajTextString 500,
      cg_WriteVoucher = (\<lambda>_. Err (GErr '''')), cg_ReadVoucher = r_fail ''''\<rparr>"

definition ref_w_merge :: "(u64 \<times> u64) writer" where
  "ref_w_merge p = seq_w [w_uint ref_cbg0 (fst p), w_uint ref_cbg0 (snd p)]"

definition ref_r_merge :: "(u64 \<times> u64) reader" where
  "ref_r_merge = r_bind (r_uint ref_cbg0) (\<lambda>l. r_bind (r_uint ref_cbg0) (\<lambda>n. r_ret (l, n)))"

text \<open>A voucher is written as its fields in a row, the pairs of its merges as a list of numbers.\<close>

definition ref_w_voucher :: "SignedVoucher writer" where
  "ref_w_voucher v =
     seq_w
       [ref_w_str MajByteString 64 (sv_ChannelAddr v),
        w_uint ref_cbg0 (sv_Lane v), w_uint ref_cbg0 (sv_Nonce v), ref_w_big (sv_Amount v),
        w_array ref_cbg0 ''Merges'' ref_w_merge (sv_Merges v),
        w_ptr (ref_w_str MajByteString 200) (sv_Signature v),
        ref_w_str MajTextString 500 (sv_Other v)]"

definition ref_r_voucher :: "SignedVoucher reader" where
  "ref_r_voucher =
     r_bind (ref_r_str MajByteString 64) (\<lambda>a.
     r_bind (r_uint ref_cbg0) (\<lambda>l.
     r_bind (r_uint ref_cbg0) (\<lambda>n.
     r_bind ref_r_big (\<lambda>m.
     r_bind (r_array ref_cbg0 ''Merges'' ref_r_merge []) (\<lambda>ms.
     r_bind (r_ptr (ref_r_str MajByteString 200) None) (\<lambda>s.
     r_bind (ref_r_str MajTextString 500) (\<lambda>x.
     r_ret \<lparr>sv_ChannelAddr = a, sv_Lane = l, sv_Nonce = n, sv_Amount = m, sv_Merges = ms,
       sv_Signature = s, sv_Other = x\<rparr>)))))))"

definition ref_cbg :: cbg where
  "ref_cbg = ref_cbg0\<lparr>cg_WriteVoucher := ref_w_voucher, cg_ReadVoucher := ref_r_voucher\<rparr>"

lemma ref_small_header: "m < 8 \<Longrightarrow> n < 24 \<Longrightarrow> ref_header m n = [m * 32 + ucast n]"
proof -
  assume "m < 8" "n < 24"
  then have "unat n < 24" by (simp add: word_less_nat_alt)
  then have "ref_header m n = [ref_byte m (unat n)]" by (simp add: ref_header_def)
  then show ?thesis by (simp add: ref_byte_def unsigned_ucast_eq mult.commute)
qed

lemma ref_ReadString:
  "length s \<le> 8192 \<Longrightarrow>
     ref_r_str MajTextString 8192 (ref_header MajTextString (of_nat (length s)) @ bytes_of s @ bs) = Ok (s, bs)"
  using ref_str_codec [of MajTextString 8192 s] by (auto simp: codec_ok_def ref_w_str_def)

lemma ref_bool: "ref_readHeader ((if b then [0xf5] else [0xf4]) @ bs) =
    Ok ((MajOther, if b then 21 else 20), bs)"
  by simp

lemmas ref_laws = ref_readHeader_header ref_header_cons ref_small_header ref_ReadString ref_bool

interpretation ref: cbg_lib ref_cbg
  by unfold_locales
     (simp_all only: ref_cbg_def ref_cbg0_def cbg.simps ref_laws)

section \<open>Values it takes\<close>

interpretation ref0: cbg_lib ref_cbg0
  by unfold_locales (simp_all only: ref_cbg0_def cbg.simps ref_laws)

definition ref_voucher_fits :: "SignedVoucher \<Rightarrow> bool" where
  "ref_voucher_fits v \<longleftrightarrow> length (sv_ChannelAddr v) \<le> 64 \<and> \<bar>sv_Amount v\<bar> < 256 ^ 16 \<and>
     length (sv_Merges v) \<le> 8192 \<and> pred_option (\<lambda>s. length s \<le> 200) (sv_Signature v) \<and>
     length (sv_Other v) \<le> 500"

lemma ref_merge_codec: "codec_ok ref_w_merge ref_r_merge p"
proof -
  obtain l n where p: "p = (l, n)" by fastforce
  obtain b where b: "w_uint ref_cbg0 l = Ok b" "b \<noteq> []" "hd b \<noteq> CborNull"
      "\<And>bs. r_uint ref_cbg0 (b @ bs) = Ok (l, bs)"
    using ref0.codec_uint [of l] unfolding codec_ok_def by blast
  obtain c where c: "w_uint ref_cbg0 n = Ok c" "\<And>bs. r_uint ref_cbg0 (c @ bs) = Ok (n, bs)"
    using ref0.codec_uint [of n] unfolding codec_ok_def by blast
  from b c show ?thesis by (intro codec_okI [of _ _ "b @ c"]) (auto simp: p ref_w_merge_def ref_r_merge_def)
qed

lemma ref_voucher_codec:
  assumes "ref_voucher_fits v"
  shows "codec_ok ref_w_voucher ref_r_voucher v"
proof -
  note fits = assms [unfolded ref_voucher_fits_def]
  obtain a where a: "ref_w_str MajByteString 64 (sv_ChannelAddr v) = Ok a" "a \<noteq> []" "hd a \<noteq> CborNull"
      "\<And>bs. ref_r_str MajByteString 64 (a @ bs) = Ok (sv_ChannelAddr v, bs)"
    using ref_str_codec [of MajByteString 64 "sv_ChannelAddr v"] fits unfolding codec_ok_def by auto
  obtain l where l: "w_uint ref_cbg0 (sv_Lane v) = Ok l" "\<forall>bs. r_uint ref_cbg0 (l @ bs) = Ok (sv_Lane v, bs)"
    by (rule field_okE [OF ref0.field_uint])
  obtain n where n: "w_uint ref_cbg0 (sv_Nonce v) = Ok n" "\<forall>bs. r_uint ref_cbg0 (n @ bs) = Ok (sv_Nonce v, bs)"
    by (rule field_okE [OF ref0.field_uint])
  obtain m where m: "ref_w_big (sv_Amount v) = Ok m" "\<forall>bs. ref_r_big (m @ bs) = Ok (sv_Amount v, bs)"
    by (rule field_okE [OF codec_field [OF ref_big_codec]]) (use fits in auto)
  have "field_ok (w_array ref_cbg0 ''Merges'' ref_w_merge (sv_Merges v))
      (r_array ref_cbg0 ''Merges'' ref_r_merge []) (sv_Merges v)"
    using fits ref_merge_codec by (intro ref0.field_array) auto
  then obtain g where g: "w_array ref_cbg0 ''Merges'' ref_w_merge (sv_Merges v) = Ok g"
      "\<forall>bs. r_array ref_cbg0 ''Merges'' ref_r_merge [] (g @ bs) = Ok (sv_Merges v, bs)"
    by (rule field_okE)
  have "field_ok (w_ptr (ref_w_str MajByteString 200) (sv_Signature v))
      (r_ptr (ref_r_str MajByteString 200) None) (sv_Signature v)"
    using fits by (intro field_ptr ref_str_codec) auto
  then obtain s where s: "w_ptr (ref_w_str MajByteString 200) (sv_Signature v) = Ok s"
      "\<forall>bs. r_ptr (ref_r_str MajByteString 200) None (s @ bs) = Ok (sv_Signature v, bs)"
    by (rule field_okE)
  obtain x where x: "ref_w_str MajTextString 500 (sv_Other v) = Ok x"
      "\<forall>bs. ref_r_str MajTextString 500 (x @ bs) = Ok (sv_Other v, bs)"
    by (rule field_okE [OF codec_field [OF ref_str_codec [of MajTextString 500 "sv_Other v"]]])
       (use fits in auto)
  show ?thesis
    using a(2,3)
    by (intro codec_okI [of _ _ "a @ l @ n @ m @ g @ s @ x"])
       (simp_all add: ref_w_voucher_def ref_r_voucher_def a l n m g s x)
qed

lemma ref_codecs:
  "a \<noteq> AddressUndef \<Longrightarrow> length a \<le> 64 \<Longrightarrow> codec_ok (cg_WriteAddress ref_cbg) (cg_ReadAddress ref_cbg) a"
  "\<bar>i\<bar> < 256 ^ 16 \<Longrightarrow> codec_ok (cg_WriteBig ref_cbg) (cg_ReadBig ref_cbg) i"
  "length c \<le> 100 \<Longrightarrow> codec_ok (cg_WriteCid ref_cbg) (cg_ReadCid ref_cbg) c"
  "length h \<le> 500 \<Longrightarrow> codec_ok (cg_WriteChannelID ref_cbg) (cg_ReadChannelID ref_cbg) h"
  "ref_voucher_fits v \<Longrightarrow> codec_ok (cg_WriteVoucher ref_cbg) (cg_ReadVoucher ref_cbg) v"
  using ref_str_codec [of MajByteString 64 a] ref_big_codec [of i] ref_str_codec [of 6 100 c]
    ref_str_codec [of MajTextString 500 h] ref_voucher_codec [of v]
  by (simp_all add: ref_cbg_def ref_cbg0_def codec_ok_def)

end
