(* ===== verification/AskStore.thy ===== *)
theory AskStore
  imports ChannelStore CborRef
begin

text \<open>
  \<open>askstore.go\<close>: the prices a provider asks, cached in memory and kept in the datastore. The
  state of an \<open>AskStoreImpl\<close> is its cached ask next to the world of the datastore; its lock makes
  each operation a step. The locale \<open>ask_store\<close> is the contract of the interface \<open>AskStore\<close> that
  the provider calls, which every \<open>AskStoreImpl\<close> over a datastore meets.
\<close>

section \<open>Operations\<close>

definition DefaultPricePerByte :: TokenAmount where
  "DefaultPricePerByte = 2"

definition DefaultPaymentInterval :: u64 where
  "DefaultPaymentInterval = push_bit 20 1"

definition DefaultPaymentIntervalIncrease :: u64 where
  "DefaultPaymentIntervalIncrease = push_bit 20 1"

record 'w AskStoreImpl =
  as_ds :: "'w Datastore"
  as_key :: ds_key
  as_cbg :: cbg

type_synonym ('w, 'a) ask_io = "(Ask option \<times> 'w, 'a) io"

definition on_disk :: "('w, 'a) io \<Rightarrow> ('w, 'a) ask_io" where
  [go_defs]: "on_disk m = (\<lambda>(c, w). case m w of (r, w') \<Rightarrow> (r, (c, w')))"

definition cache_ask :: "Ask option \<Rightarrow> ('w, unit) ask_io" where
  [go_defs]: "cache_ask a = (\<lambda>(c, w). (Ok (), (a, w)))"

text \<open>\<open>namespace.Wrap\<close> puts a prefix before every key.\<close>

fun in_namespace :: "string \<Rightarrow> ds_key \<Rightarrow> ds_key" where
  "in_namespace p (KeyWithNamespaces ks) = KeyWithNamespaces (p # ks)"

definition saveAsk :: "'w AskStoreImpl \<Rightarrow> Ask option \<Rightarrow> ('w, unit) ask_io" where
  "saveAsk s a =
     bindE (lift_go (w_ptr (Marshal_Ask (as_cbg s)) a)) (\<lambda>b.
     bindE (on_disk (ds_Put (as_ds s) (as_key s) b)) (\<lambda>_.
     cache_ask a))"

definition SetAsk :: "'w AskStoreImpl \<Rightarrow> Ask option \<Rightarrow> ('w, unit) ask_io" where
  "SetAsk s ask = saveAsk s ask"

text \<open>The result is a copy; \<open>Ask\<close> holds no pointer that anybody changes.\<close>

definition GetAsk :: "('w, Ask option) ask_io" where
  "GetAsk = (\<lambda>(c, w). (Ok c, (c, w)))"

text \<open>An error of the datastore is wrapped with \<open>%w\<close>: it stays the error it was for
  \<open>xerrors.Is\<close>, which is all that is asked of it.\<close>

datatype load_error = Wrapped gerr | Plain gerr

fun xerrors_Is_NotFound :: "load_error \<Rightarrow> bool" where
  "xerrors_Is_NotFound (Wrapped e) \<longleftrightarrow> e = ErrNotFound"
| "xerrors_Is_NotFound (Plain e) \<longleftrightarrow> e = ErrNotFound"

fun load_gerr :: "load_error \<Rightarrow> gerr" where
  "load_gerr (Wrapped e) = Errorf ''failed to load most recent retrieval ask from disk'' e"
| "load_gerr (Plain e) = e"

definition loadAsk :: "'w AskStoreImpl \<Rightarrow> ('w, load_error option) ask_io" where
  "loadAsk s =
     tryE (on_disk (ds_Get (as_ds s) (as_key s)))
       (\<lambda>e. ret (Some (Wrapped e)))
       (\<lambda>askb. tryE (lift_go (load (Unmarshal_Ask (as_cbg s)) askb))
          (\<lambda>e. ret (Some (Plain e)))
          (\<lambda>ask. bindE (cache_ask (Some ask)) (\<lambda>_. ret None)))"

definition tryLoadAsk :: "'w AskStoreImpl \<Rightarrow> ('w, unit) ask_io" where
  "tryLoadAsk s = bindE (loadAsk s) (\<lambda>err.
     case err of
       None \<Rightarrow> ret ()
     | Some e \<Rightarrow> if xerrors_Is_NotFound e then ret () else fail (load_gerr e))"

definition defaultAsk :: Ask where
  "defaultAsk = \<lparr>ask_PricePerByte = DefaultPricePerByte, ask_PaymentInterval = DefaultPaymentInterval,
     ask_PaymentIntervalIncrease = DefaultPaymentIntervalIncrease\<rparr>"

text \<open>The new store, with what it has cached; \<open>ns\<close> are the namespaces that \<open>ds\<close> is already wrapped
  in.\<close>

definition ask_store_at :: "cbg \<Rightarrow> 'w Datastore \<Rightarrow> string list \<Rightarrow> ds_key \<Rightarrow> 'w AskStoreImpl" where
  "ask_store_at cb ds ns key = \<lparr>as_ds = ds, as_key = foldr in_namespace (ns @ [''1'']) key, as_cbg = cb\<rparr>"

definition NewAskStore ::
    "cbg \<Rightarrow> 'w Datastore \<Rightarrow> string list \<Rightarrow> ds_key \<Rightarrow> ('w, 'w AskStoreImpl \<times> Ask option) io" where
  "NewAskStore cb ds ns key = (\<lambda>w.
     let s = ask_store_at cb ds ns key in
     case bindE (tryLoadAsk s) (\<lambda>_.
            bindE GetAsk (\<lambda>ask.
              if ask = None
              then tryE (SetAsk s (Some defaultAsk))
                     (\<lambda>e. fail (Errorf ''failed setting a default retrieval ask'' e)) ret
              else ret ())) (None, w) of
       (Ok _, (c, w')) \<Rightarrow> (Ok (s, c), w')
     | (Err e, (c, w')) \<Rightarrow> (Err e, w')
     | (Panic, (c, w')) \<Rightarrow> (Panic, w'))"

section \<open>The interface \<open>AskStore\<close>\<close>

record 'w AskStore =
  aks_GetAsk :: "('w, Ask option) io"
  aks_SetAsk :: "Ask option \<Rightarrow> ('w, unit) io"

definition AskStore_of :: "'w AskStoreImpl \<Rightarrow> (Ask option \<times> 'w) AskStore" where
  "AskStore_of s = \<lparr>aks_GetAsk = GetAsk, aks_SetAsk = SetAsk s\<rparr>"

text \<open>What a provider relies on: reading changes nothing and shows the ask in force; an ask that
  can be kept is in force once it is set, one that cannot leaves the old one in force.\<close>

locale ask_store =
  fixes asks :: "'w AskStore"
    and in_force :: "'w \<Rightarrow> Ask option"
    and keepable :: "Ask \<Rightarrow> bool"
  assumes GetAsk: "aks_GetAsk asks w = (Ok (in_force w), w)"
    and SetAsk: "keepable a \<Longrightarrow> \<exists>w'. aks_SetAsk asks (Some a) w = (Ok (), w') \<and> in_force w' = Some a"
    and SetAsk_Err: "aks_SetAsk asks ask w = (Err e, w') \<Longrightarrow> in_force w' = in_force w"
begin

lemma set_then_get:
  assumes "keepable a"
  obtains w' where "aks_SetAsk asks (Some a) w = (Ok (), w')" "aks_GetAsk asks w' = (Ok (Some a), w')"
  using SetAsk [OF assms, of w] GetAsk by metis

lemma failed_set_then_get:
  "aks_SetAsk asks ask w = (Err e, w') \<Longrightarrow> aks_GetAsk asks w' = (Ok (in_force w), w')"
  using SetAsk_Err GetAsk by metis

end

section \<open>Over a datastore\<close>

locale ask_disk = datastore "as_ds s" contents rest + cbg_lib "as_cbg s"
  for s :: "'w AskStoreImpl" and contents :: "'w \<Rightarrow> ds_key \<Rightarrow> bytes option" and rest :: "'w \<Rightarrow> 'r"
begin

definition stored_ask :: "'w \<Rightarrow> Ask \<Rightarrow> bool" where
  "stored_ask w a \<longleftrightarrow> (\<exists>b. contents w (as_key s) = Some b \<and> load (Unmarshal_Ask (as_cbg s)) b = Ok a)"

lemma SetAsk_run:
  assumes "fits_Ask (as_cbg s) a"
  obtains w' where "AskStore.SetAsk s (Some a) (c, w) = (Ok (), (Some a, w'))" "stored_ask w' a" "rest w' = rest w"
    "\<forall>k. k \<noteq> as_key s \<longrightarrow> contents w' k = contents w k"
proof -
  obtain b where b: "Marshal_Ask (as_cbg s) a = Ok b" "Unmarshal_Ask (as_cbg s) (b @ []) = Ok (a, [])"
    using codec_okE [OF codec_Ask [OF assms]] by metis
  obtain w' where w': "ds_Put (as_ds s) (as_key s) b w = (Ok (), w')" "contents w' = (contents w)(as_key s \<mapsto> b)"
      "rest w' = rest w" by (rule PutE)
  have "AskStore.SetAsk s (Some a) (c, w) = (Ok (), (Some a, w'))"
    using b w' by (simp add: SetAsk_def saveAsk_def on_disk_def cache_ask_def bindE_def ret_def)
  moreover have "stored_ask w' a" using b w' by (simp add: stored_ask_def load_def)
  ultimately show ?thesis using w' that by simp
qed

lemma SetAsk_fails:
  assumes "AskStore.SetAsk s a (c, w) = (Err e, cw)"
  shows "cw = (c, w)"
proof (cases "w_ptr (Marshal_Ask (as_cbg s)) a")
  case (Ok b)
  obtain w' where "ds_Put (as_ds s) (as_key s) b w = (Ok (), w')" by (rule PutE)
  with Ok assms show ?thesis by (simp add: SetAsk_def saveAsk_def on_disk_def cache_ask_def bindE_def ret_def)
qed (use assms in \<open>simp_all add: SetAsk_def saveAsk_def fail_def panic_def bindE_def\<close>)

lemma tryLoadAsk_stored:
  "stored_ask w a \<Longrightarrow> tryLoadAsk s (c, w) = (Ok (), (Some a, w))"
  by (auto simp: stored_ask_def tryLoadAsk_def loadAsk_def on_disk_def cache_ask_def Get_simps ret_def
      bindE_def tryE_def)

lemma tryLoadAsk_absent:
  "contents w (as_key s) = None \<Longrightarrow> tryLoadAsk s (c, w) = (Ok (), (c, w))"
  by (simp add: tryLoadAsk_def loadAsk_def on_disk_def Get_simps ret_def bindE_def tryE_def)

sublocale asks: ask_store "AskStore_of s" fst "fits_Ask (as_cbg s)"
proof
  fix cw cw' :: "Ask option \<times> 'w" and a ask e
  obtain c w where cw: "cw = (c, w)" by fastforce
  show "aks_GetAsk (AskStore_of s) cw = (Ok (fst cw), cw)"
    by (simp add: cw AskStore_of_def GetAsk_def)
  show "\<exists>cw'. aks_SetAsk (AskStore_of s) (Some a) cw = (Ok (), cw') \<and> fst cw' = Some a"
    if "fits_Ask (as_cbg s) a"
    by (rule SetAsk_run [OF that, of c w]) (auto simp: cw AskStore_of_def)
  show "fst cw' = fst cw" if "aks_SetAsk (AskStore_of s) ask cw = (Err e, cw')"
    using SetAsk_fails [of ask c w e cw'] that by (simp add: cw AskStore_of_def)
qed

end

text \<open>A store over the in-memory datastore.\<close>

definition ex_asks :: "'r mem AskStoreImpl" where
  "ex_asks = ask_store_at ref_cbg mem_ds [''retrieval-ask''] (KeyWithNamespaces [''latest''])"

lemma ask_store_at_simps [simp]:
  "as_ds (ask_store_at cb ds ns key) = ds" "as_cbg (ask_store_at cb ds ns key) = cb"
  by (simp_all add: ask_store_at_def)

interpretation ex_asks: ask_disk ex_asks "\<lambda>(es, _). map_of es" snd
  unfolding ex_asks_def
  by (rule ask_disk.intro, unfold ask_store_at_simps, rule mem.datastore_axioms, rule ref.cbg_lib_axioms)

end
