(* ===== verification/Discovery.thy ===== *)
theory Discovery
  imports ChannelStore CborRef
begin

text \<open>
  \<open>discovery.go\<close>: the peers known to provide a payload, kept in the datastore under the hash of
  its CID.
\<close>

section \<open>Operations\<close>

record 'w Local =
  l_ds :: "'w Datastore"
  l_cbg :: cbg
  l_HashKey :: "Cid \<Rightarrow> string" \<comment> \<open>\<open>dshelp.MultihashToDsKey(cid.Hash())\<close>\<close>

definition NewLocalPeerResolver :: "cbg \<Rightarrow> (Cid \<Rightarrow> string) \<Rightarrow> 'w Datastore \<Rightarrow> 'w Local" where
  "NewLocalPeerResolver cb hash ds = \<lparr>l_ds = ds, l_cbg = cb, l_HashKey = hash\<rparr>"

definition peers_key :: "'w Local \<Rightarrow> Cid \<Rightarrow> ds_key" where
  "peers_key l c = KeyWithNamespaces [''localpeers-1'', l_HashKey l c]"

text \<open>
  Go compares the structs field by field, and \<open>PieceCID\<close> is a pointer. The list was read from the
  datastore just before, so a \<open>PieceCID\<close> in it points to a new object and equals no pointer but
  nil.
\<close>

definition same_struct :: "RetrievalPeer \<Rightarrow> RetrievalPeer \<Rightarrow> bool" where
  "same_struct p peer \<longleftrightarrow> rp_Address p = rp_Address peer \<and> rp_ID p = rp_ID peer \<and>
     rp_PieceCID p = None \<and> rp_PieceCID peer = None"

fun hasPeer :: "RetrievalPeer list \<Rightarrow> RetrievalPeer \<Rightarrow> bool" where
  "hasPeer [] peer \<longleftrightarrow> False"
| "hasPeer (p # peers) peer \<longleftrightarrow> (if same_struct p peer then True else hasPeer peers peer)"

definition AddPeer :: "'w Local \<Rightarrow> Cid \<Rightarrow> RetrievalPeer \<Rightarrow> ('w, unit) io" where
  "AddPeer l c peer =
     (let key = peers_key l c;
          write = (\<lambda>peers. lift_go (Marshal_RetrievalPeers (l_cbg l) \<lparr>Peers = peers\<rparr>)) in
      bindE (ds_Has (l_ds l) key) (\<lambda>exists.
        if \<not> exists
        then bindE (write [peer]) (\<lambda>newRecord. ds_Put (l_ds l) key newRecord)
        else bindE (ds_Get (l_ds l) key) (\<lambda>entry.
          bindE (lift_go (load (Unmarshal_RetrievalPeers (l_cbg l)) entry)) (\<lambda>peers.
            if hasPeer (Peers peers) peer then ret ()
            else bindE (write (Peers peers @ [peer])) (\<lambda>newRecord. ds_Put (l_ds l) key newRecord)))))"

definition GetPeers :: "'w Local \<Rightarrow> Cid \<Rightarrow> ('w, RetrievalPeer list) io" where
  "GetPeers l c =
     tryE (ds_Get (l_ds l) (peers_key l c))
       (\<lambda>err. if err = ErrNotFound then ret [] else fail err)
       (\<lambda>entry. bindE (lift_go (load (Unmarshal_RetrievalPeers (l_cbg l)) entry)) (\<lambda>peers. ret (Peers peers)))"

section \<open>Over a datastore\<close>

lemma hasPeer_iff: "hasPeer peers peer \<longleftrightarrow> (\<exists>p\<in>set peers. same_struct p peer)"
  by (induction peers) auto

lemma same_struct_eq: "same_struct p peer \<longleftrightarrow> p = peer \<and> rp_PieceCID peer = None"
  by (cases p; cases peer) (auto simp: same_struct_def)

lemma hasPeer_mem: "hasPeer peers peer \<longleftrightarrow> peer \<in> set peers \<and> rp_PieceCID peer = None"
  by (auto simp: hasPeer_iff same_struct_eq)

locale peer_store = datastore "l_ds l" contents rest + cbg_lib "l_cbg l"
  for l :: "'w Local" and contents :: "'w \<Rightarrow> ds_key \<Rightarrow> bytes option" and rest :: "'w \<Rightarrow> 'r"
begin

text \<open>The peers kept under the hash of a CID.\<close>

definition peers_at :: "'w \<Rightarrow> Cid \<Rightarrow> RetrievalPeer list \<Rightarrow> bool" where
  "peers_at w c ps \<longleftrightarrow> (case contents w (peers_key l c) of
       None \<Rightarrow> ps = []
     | Some b \<Rightarrow> load (Unmarshal_RetrievalPeers (l_cbg l)) b = Ok \<lparr>Peers = ps\<rparr>)"

lemma GetPeers_iff: "GetPeers l c w = (Ok ps, w) \<longleftrightarrow> peers_at w c ps"
proof (cases "contents w (peers_key l c)")
  case (Some b)
  then show ?thesis
    by (cases "load (Unmarshal_RetrievalPeers (l_cbg l)) b")
       (auto simp: peers_at_def GetPeers_def Get ret_def fail_def panic_def tryE_def bindE_def intro: RetrievalPeers.equality)
qed (auto simp: peers_at_def GetPeers_def Get ret_def tryE_def)

lemma AddPeer_run:
  assumes "peers_at w c ps" "\<not> hasPeer ps peer" "fits_RetrievalPeers (l_cbg l) \<lparr>Peers = ps @ [peer]\<rparr>"
  obtains w' where "AddPeer l c peer w = (Ok (), w')" "peers_at w' c (ps @ [peer])" "rest w' = rest w"
    "\<forall>k. k \<noteq> peers_key l c \<longrightarrow> contents w' k = contents w k"
proof -
  obtain b where b: "Marshal_RetrievalPeers (l_cbg l) \<lparr>Peers = ps @ [peer]\<rparr> = Ok b"
      "Unmarshal_RetrievalPeers (l_cbg l) (b @ []) = Ok (\<lparr>Peers = ps @ [peer]\<rparr>, [])"
    using codec_okE [OF codec_RetrievalPeers [OF assms(3)]] by metis
  obtain w' where w': "ds_Put (l_ds l) (peers_key l c) b w = (Ok (), w')"
      "contents w' = (contents w)(peers_key l c \<mapsto> b)" "rest w' = rest w" by (rule PutE)
  have "AddPeer l c peer w = (Ok (), w')"
  proof (cases "contents w (peers_key l c)")
    case None
    with assms(1) b w' show ?thesis by (simp add: peers_at_def AddPeer_def Has Let_def bindE_def ret_def)
  next
    case (Some e)
    with assms(1,2) b w' show ?thesis by (simp add: peers_at_def AddPeer_def Has Get Let_def bindE_def ret_def)
  qed
  moreover have "peers_at w' c (ps @ [peer])" using b w' by (simp add: peers_at_def load_def)
  ultimately show ?thesis using w' that by simp
qed

lemma AddPeer_known:
  assumes "peers_at w c ps" "hasPeer ps peer"
  shows "AddPeer l c peer w = (Ok (), w)"
  using assms
  by (cases "contents w (peers_key l c)")
     (auto simp: peers_at_def AddPeer_def Has Get Let_def bindE_def ret_def)

text \<open>A list that has no room for another peer is refused by the encoder.\<close>

lemma AddPeer_full:
  assumes "peers_at w c ps" "\<not> hasPeer ps peer" "length ps \<ge> 8192"
  shows "\<exists>e. AddPeer l c peer w = (Err e, w)"
proof -
  obtain b where "contents w (peers_key l c) = Some b"
    using assms(1,3) by (auto simp: peers_at_def split: option.splits)
  moreover have "\<exists>e. Marshal_RetrievalPeers (l_cbg l) \<lparr>Peers = ps @ [peer]\<rparr> = Err e"
    using assms(3) by (simp add: Marshal_RetrievalPeers_def w_name_def MaxLength w_array_def)
  ultimately show ?thesis using assms(1,2)
    by (auto simp: peers_at_def AddPeer_def Has Get Let_def bindE_def ret_def fail_def)
qed

lemma peers_at_other:
  assumes "\<forall>k. k \<noteq> peers_key l c \<longrightarrow> contents w' k = contents w k" "l_HashKey l c' \<noteq> l_HashKey l c"
  shows "peers_at w' c' ps \<longleftrightarrow> peers_at w c' ps"
  using assms by (simp add: peers_at_def peers_key_def)

end

definition ex_local :: "unit mem Local" where
  "ex_local = NewLocalPeerResolver ref_cbg (\<lambda>c. c) mem_ds"

lemma ex_local_simps [simp]: "l_ds ex_local = mem_ds" "l_cbg ex_local = ref_cbg" "l_HashKey ex_local = (\<lambda>c. c)"
  by (simp_all add: ex_local_def NewLocalPeerResolver_def)

interpretation ex_peers: peer_store ex_local "\<lambda>(es, _). map_of es" snd
  by (rule peer_store.intro, unfold ex_local_simps, rule mem.datastore_axioms, rule ref.cbg_lib_axioms)

end
