(* ===== verification/Network.thy ===== *)
theory Network
  imports Complex_Main CborRef ClientHandlers
begin

text \<open>
  \<open>network.go\<close>: query streams over the streams of the network, their opening with retries and the
  delegation of incoming streams. The host, its streams, the clock and the backoff library are
  parameters.
\<close>

section \<open>Query streams\<close>

text \<open>
  A stream between two peers: the bytes that a reader finds on it until its end, writing, closing.
  The buffered reader of a query stream keeps what it has read ahead, so its bytes count as
  unread.
\<close>

record 'w MuxedStream =
  mx_unread :: "'w \<Rightarrow> bytes"
  mx_set_unread :: "bytes \<Rightarrow> 'w \<Rightarrow> 'w"
  mx_Write :: "bytes \<Rightarrow> ('w, unit) io"
  mx_Close :: "('w, unit) io"
  mx_Reset :: "('w, unit) io"
  mx_RemotePeer :: PeerID

text \<open>The interface \<open>RetrievalQueryStream\<close>.\<close>

record 'w RetrievalQueryStream =
  rqs_ReadQuery :: "('w, Query) io"
  rqs_WriteQuery :: "Query \<Rightarrow> ('w, unit) io"
  rqs_ReadQueryResponse :: "('w, QueryResponse) io"
  rqs_WriteQueryResponse :: "QueryResponse \<Rightarrow> ('w, unit) io"
  rqs_Close :: "('w, unit) io"

record 'w queryStream =
  qs_p :: PeerID
  qs_rw :: "'w MuxedStream"

text \<open>What a failed read has taken from the stream is not observed: nobody reads on.\<close>

definition read_from :: "'w MuxedStream \<Rightarrow> 'a reader \<Rightarrow> ('w, 'a) io" where
  [go_defs]: "read_from s rd = (\<lambda>w. case rd (mx_unread s w) of
       Ok (x, bs) \<Rightarrow> (Ok x, mx_set_unread s bs w)
     | Err e \<Rightarrow> (Err e, w)
     | Panic \<Rightarrow> (Panic, w))"

text \<open>An encoder writes piece by piece; a value that cannot be encoded leaves nothing that the
  other side could take for one.\<close>

definition write_to :: "'w MuxedStream \<Rightarrow> bytes go \<Rightarrow> ('w, unit) io" where
  [go_defs]: "write_to s b = bindE (lift_go b) (mx_Write s)"

definition ReadQuery :: "cbg \<Rightarrow> 'w queryStream \<Rightarrow> ('w, Query) io" where
  "ReadQuery cb qs = read_from (qs_rw qs) (Unmarshal_Query cb)"

definition WriteQuery :: "cbg \<Rightarrow> 'w queryStream \<Rightarrow> Query \<Rightarrow> ('w, unit) io" where
  "WriteQuery cb qs q = write_to (qs_rw qs) (Marshal_Query cb q)"

definition ReadQueryResponse :: "cbg \<Rightarrow> 'w queryStream \<Rightarrow> ('w, QueryResponse) io" where
  "ReadQueryResponse cb qs = read_from (qs_rw qs) (Unmarshal_QueryResponse cb)"

definition WriteQueryResponse :: "cbg \<Rightarrow> 'w queryStream \<Rightarrow> QueryResponse \<Rightarrow> ('w, unit) io" where
  "WriteQueryResponse cb qs qr = write_to (qs_rw qs) (Marshal_QueryResponse cb qr)"

definition CloseStream :: "'w queryStream \<Rightarrow> ('w, unit) io" where
  "CloseStream qs = mx_Close (qs_rw qs)"

definition RetrievalQueryStream_of :: "cbg \<Rightarrow> 'w queryStream \<Rightarrow> 'w RetrievalQueryStream" where
  "RetrievalQueryStream_of cb qs =
     \<lparr>rqs_ReadQuery = ReadQuery cb qs, rqs_WriteQuery = WriteQuery cb qs,
      rqs_ReadQueryResponse = ReadQueryResponse cb qs,
      rqs_WriteQueryResponse = WriteQueryResponse cb qs, rqs_Close = CloseStream qs\<rparr>"

section \<open>The network\<close>

text \<open>\<open>time.Duration\<close>, in nanoseconds. The number of attempts is a \<open>float64\<close> in the code; the
  counter that it is compared with is exact up to 2^53.\<close>

type_synonym Duration = int

record 'w Host =
  h_NewStream :: "PeerID \<Rightarrow> string list \<Rightarrow> ('w, 'w MuxedStream) io"
  h_SetStreamHandler :: "string \<Rightarrow> 'w \<Rightarrow> 'w"
  h_RemoveStreamHandler :: "string \<Rightarrow> 'w \<Rightarrow> 'w"
  h_AddAddrs :: "PeerID \<Rightarrow> string list \<Rightarrow> Duration \<Rightarrow> 'w \<Rightarrow> 'w"
  h_ID :: PeerID
  h_Backoff :: "Duration \<Rightarrow> Duration \<Rightarrow> rat \<Rightarrow> nat \<Rightarrow> 'w \<Rightarrow> Duration \<times> 'w" \<comment> \<open>\<open>Duration()\<close>, with jitter\<close>
  h_Sleep :: "Duration \<Rightarrow> 'w \<Rightarrow> 'w"

record 'w libp2pRetrievalMarketNetwork =
  nw_host :: "'w Host"
  nw_cbg :: cbg
  nw_maxStreamOpenAttempts :: rat
  nw_minAttemptDuration :: Duration
  nw_maxAttemptDuration :: Duration
  nw_supportedProtocols :: "string list"

definition QueryProtocolID :: string where
  "QueryProtocolID = ''/fil/retrieval/qry/1.0.0''"

definition defaultMaxStreamOpenAttempts :: rat where
  "defaultMaxStreamOpenAttempts = 5"

definition defaultMinAttemptDuration :: Duration where
  "defaultMinAttemptDuration = 1 * 10 ^ 9"

definition defaultMaxAttemptDuration :: Duration where
  "defaultMaxAttemptDuration = 5 * 60 * 10 ^ 9"

type_synonym 'w network_option = "'w libp2pRetrievalMarketNetwork \<Rightarrow> 'w libp2pRetrievalMarketNetwork"

definition RetryParameters :: "Duration \<Rightarrow> Duration \<Rightarrow> rat \<Rightarrow> 'w network_option" where
  "RetryParameters minDuration maxDuration attempts = (\<lambda>impl.
     impl\<lparr>nw_maxStreamOpenAttempts := attempts, nw_minAttemptDuration := minDuration,
          nw_maxAttemptDuration := maxDuration\<rparr>)"

definition SupportedProtocols :: "string list \<Rightarrow> 'w network_option" where
  "SupportedProtocols supportedProtocols = (\<lambda>impl. impl\<lparr>nw_supportedProtocols := supportedProtocols\<rparr>)"

definition NewFromLibp2pHost ::
    "cbg \<Rightarrow> 'w Host \<Rightarrow> 'w network_option list \<Rightarrow> 'w libp2pRetrievalMarketNetwork" where
  "NewFromLibp2pHost cb h options =
     fold (\<lambda>option impl. option impl) options
       \<lparr>nw_host = h, nw_cbg = cb, nw_maxStreamOpenAttempts = defaultMaxStreamOpenAttempts,
        nw_minAttemptDuration = defaultMinAttemptDuration,
        nw_maxAttemptDuration = defaultMaxAttemptDuration,
        nw_supportedProtocols = [QueryProtocolID]\<rparr>"

section \<open>Opening a stream\<close>

text \<open>Go's conversion \<open>int(x)\<close> of a \<open>float64\<close> drops the fraction.\<close>

definition truncate :: "rat \<Rightarrow> int" where
  "truncate x = (if 0 \<le> x then \<lfloor>x\<rfloor> else \<lceil>x\<rceil>)"

text \<open>The loop may run forever: its value is \<open>None\<close> when it does. \<open>n\<close> is the attempt counter of the
  backoff, which \<open>Duration()\<close> advances by one.\<close>

type_synonym ('w, 'a) may = "'w \<Rightarrow> ('a go \<times> 'w) option"

definition exhausted :: "rat \<Rightarrow> gerr \<Rightarrow> gerr" where
  "exhausted attempts err =
     Errorf (''exhausted '' @ show_int (truncate attempts) @ '' attempts but failed to open stream, err'') err"

partial_function (option) openStream_from ::
    "'w libp2pRetrievalMarketNetwork \<Rightarrow> PeerID \<Rightarrow> nat \<Rightarrow> ('w, 'w MuxedStream) may" where
  "openStream_from impl peer n w =
     (case h_NewStream (nw_host impl) peer (nw_supportedProtocols impl) w of
        (Ok s, w1) \<Rightarrow> Some (Ok s, w1)
      | (Panic, w1) \<Rightarrow> Some (Panic, w1)
      | (Err err, w1) \<Rightarrow>
          (if of_nat n = nw_maxStreamOpenAttempts impl
           then Some (Err (exhausted (nw_maxStreamOpenAttempts impl) err), w1)
           else
             (let (d, w2) = h_Backoff (nw_host impl) (nw_minAttemptDuration impl)
                    (nw_maxAttemptDuration impl) (nw_maxStreamOpenAttempts impl) n w1
              in openStream_from impl peer (n + 1) (h_Sleep (nw_host impl) d w2))))"

definition openStream :: "'w libp2pRetrievalMarketNetwork \<Rightarrow> PeerID \<Rightarrow> ('w, 'w MuxedStream) may" where
  "openStream impl peer = openStream_from impl peer 0"

definition NewQueryStream ::
    "'w libp2pRetrievalMarketNetwork \<Rightarrow> PeerID \<Rightarrow> ('w, 'w RetrievalQueryStream) may" where
  "NewQueryStream impl peer w =
     (case openStream impl peer w of
        None \<Rightarrow> None
      | Some (Ok s, w1) \<Rightarrow> Some (Ok (RetrievalQueryStream_of (nw_cbg impl) \<lparr>qs_p = peer, qs_rw = s\<rparr>), w1)
      | Some (Err e, w1) \<Rightarrow> Some (Err e, w1)
      | Some (Panic, w1) \<Rightarrow> Some (Panic, w1))"

section \<open>Incoming streams\<close>

text \<open>The receiver, which the network keeps next to the world.\<close>

type_synonym 'w receiver = "'w RetrievalQueryStream \<Rightarrow> ('w, unit) io"
type_synonym ('w, 'a) net_io = "('w receiver option \<times> 'w, 'a) io"

definition SetDelegate :: "'w libp2pRetrievalMarketNetwork \<Rightarrow> 'w receiver \<Rightarrow> ('w, unit) net_io" where
  "SetDelegate impl r = (\<lambda>(_, w).
     (Ok (), (Some r, fold (h_SetStreamHandler (nw_host impl)) (nw_supportedProtocols impl) w)))"

definition StopHandlingRequests :: "'w libp2pRetrievalMarketNetwork \<Rightarrow> ('w, unit) net_io" where
  "StopHandlingRequests impl = (\<lambda>(_, w).
     (Ok (), (None, fold (h_RemoveStreamHandler (nw_host impl)) (nw_supportedProtocols impl) w)))"

definition handleNewQueryStream ::
    "'w libp2pRetrievalMarketNetwork \<Rightarrow> 'w MuxedStream \<Rightarrow> ('w, unit) net_io" where
  "handleNewQueryStream impl s = (\<lambda>(receiver, w).
     case receiver of
       None \<Rightarrow> (Ok (), (receiver, snd (mx_Reset s w)))
     | Some r \<Rightarrow>
         (case r (RetrievalQueryStream_of (nw_cbg impl) \<lparr>qs_p = mx_RemotePeer s, qs_rw = s\<rparr>) w of
            (res, w') \<Rightarrow> (res, (receiver, w'))))"

definition AddAddrs :: "'w libp2pRetrievalMarketNetwork \<Rightarrow> PeerID \<Rightarrow> string list \<Rightarrow> 'w \<Rightarrow> 'w" where
  "AddAddrs impl p addrs = h_AddAddrs (nw_host impl) p addrs (8 * 60 * 60 * 10 ^ 9)"

definition ID :: "'w libp2pRetrievalMarketNetwork \<Rightarrow> PeerID" where
  "ID impl = h_ID (nw_host impl)"

section \<open>When opening a stream returns\<close>

text \<open>The state after \<open>n\<close> failed attempts, the pauses between them included.\<close>

definition after_failure :: "'w libp2pRetrievalMarketNetwork \<Rightarrow> nat \<Rightarrow> 'w \<Rightarrow> 'w" where
  "after_failure impl n w1 =
     (let (d, w2) = h_Backoff (nw_host impl) (nw_minAttemptDuration impl)
            (nw_maxAttemptDuration impl) (nw_maxStreamOpenAttempts impl) n w1
      in h_Sleep (nw_host impl) d w2)"

inductive tries ::
    "'w libp2pRetrievalMarketNetwork \<Rightarrow> PeerID \<Rightarrow> nat \<Rightarrow> 'w \<Rightarrow> nat \<Rightarrow> 'w MuxedStream go \<Rightarrow> 'w \<Rightarrow> bool"
  for impl peer where
  opened: "h_NewStream (nw_host impl) peer (nw_supportedProtocols impl) w = (Ok s, w1) \<Longrightarrow>
     tries impl peer n w 1 (Ok s) w1"
| panicked: "h_NewStream (nw_host impl) peer (nw_supportedProtocols impl) w = (Panic, w1) \<Longrightarrow>
     tries impl peer n w 1 Panic w1"
| gave_up: "h_NewStream (nw_host impl) peer (nw_supportedProtocols impl) w = (Err e, w1) \<Longrightarrow>
     of_nat n = nw_maxStreamOpenAttempts impl \<Longrightarrow>
     tries impl peer n w 1 (Err (exhausted (nw_maxStreamOpenAttempts impl) e)) w1"
| again: "h_NewStream (nw_host impl) peer (nw_supportedProtocols impl) w = (Err e, w1) \<Longrightarrow>
     of_nat n \<noteq> nw_maxStreamOpenAttempts impl \<Longrightarrow>
     tries impl peer (Suc n) (after_failure impl n w1) k r w2 \<Longrightarrow>
     tries impl peer n w (Suc k) r w2"

lemma tries_returns: "tries impl peer n w k r w' \<Longrightarrow> openStream_from impl peer n w = Some (r, w')"
  by (induction rule: tries.induct)
     (subst openStream_from.simps, simp add: after_failure_def split: prod.splits)+

text \<open>A limit that is a natural number is met: at most one attempt more than it says is made.\<close>

lemma tries_bounded:
  assumes "nw_maxStreamOpenAttempts impl = of_nat m" "n \<le> m"
  shows "\<exists>k r w'. tries impl peer n w k r w' \<and> k \<le> Suc (m - n)"
  using assms(2)
proof (induction "m - n" arbitrary: n w)
  case (0 n w)
  then have n: "of_nat n = nw_maxStreamOpenAttempts impl" using assms(1) by simp
  show ?case
  proof (cases "h_NewStream (nw_host impl) peer (nw_supportedProtocols impl) w")
    case (Pair r w1)
    then show ?thesis by (cases r) (use n in \<open>force intro: tries.intros(1-3)\<close>)+
  qed
next
  case (Suc j n w)
  then have n: "of_nat n \<noteq> nw_maxStreamOpenAttempts impl" "j = m - Suc n" "Suc n \<le> m" using assms(1) by auto
  show ?case
  proof (cases "h_NewStream (nw_host impl) peer (nw_supportedProtocols impl) w")
    case (Pair r w1)
    show ?thesis
    proof (cases r)
      case (Err e)
      obtain k r' w' where "tries impl peer (Suc n) (after_failure impl n w1) k r' w'" "k \<le> Suc (m - Suc n)"
        using Suc.hyps(1) [OF n(2,3), of "after_failure impl n w1"] by blast
      with Pair Err n show ?thesis by (auto intro!: exI tries.again)
    qed (use Pair in \<open>force intro: tries.intros(1,2)\<close>)+
  qed
qed

lemma tries_all_fail:
  assumes "nw_maxStreamOpenAttempts impl = of_nat m" "n \<le> m"
    and fails: "\<forall>w. \<exists>w1. h_NewStream (nw_host impl) peer (nw_supportedProtocols impl) w = (Err e, w1)"
  shows "\<exists>w'. tries impl peer n w (Suc (m - n)) (Err (exhausted (nw_maxStreamOpenAttempts impl) e)) w'"
  using assms(2)
proof (induction "m - n" arbitrary: n w)
  case (0 n w)
  then have "of_nat n = nw_maxStreamOpenAttempts impl" "m - n = 0" using assms(1) by simp_all
  with fails [rule_format, of w] show ?case by (auto intro: tries.gave_up [unfolded One_nat_def])
next
  case (Suc j n w)
  then have n: "of_nat n \<noteq> nw_maxStreamOpenAttempts impl" "j = m - Suc n" "Suc n \<le> m" "m - n = Suc (m - Suc n)"
    using assms(1) by auto
  obtain w1 where "h_NewStream (nw_host impl) peer (nw_supportedProtocols impl) w = (Err e, w1)"
    using fails by blast
  with Suc.hyps(1) [OF n(2,3), of "after_failure impl n w1"] n(1) show ?case
    unfolding n(4) by (auto intro: tries.again)
qed

text \<open>With another limit a host that always fails is tried forever.\<close>

definition unreachable :: "'w libp2pRetrievalMarketNetwork \<Rightarrow> PeerID \<Rightarrow> bool" where
  "unreachable impl peer \<longleftrightarrow>
     (\<forall>w. \<exists>e w1. h_NewStream (nw_host impl) peer (nw_supportedProtocols impl) w = (Err e, w1))"

lemma never_opened:
  assumes "\<forall>m. nw_maxStreamOpenAttempts impl \<noteq> of_nat m" "unreachable impl peer"
  shows "openStream_from impl peer n w = None"
proof -
  have "(\<forall>m. nw_maxStreamOpenAttempts impl \<noteq> of_nat m) \<longrightarrow> \<not> unreachable impl peer"
    if "openStream_from impl peer n w = Some y" for y
  proof (rule openStream_from.raw_induct
      [where P = "\<lambda>impl peer n w y. (\<forall>m. nw_maxStreamOpenAttempts impl \<noteq> of_nat m) \<longrightarrow> \<not> unreachable impl peer", OF _ that],
      intro impI notI)
    fix f :: "'w libp2pRetrievalMarketNetwork \<Rightarrow> PeerID \<Rightarrow> nat \<Rightarrow> ('w, 'w MuxedStream) may"
      and impl :: "'w libp2pRetrievalMarketNetwork" and peer n w y
    assume IH: "\<And>impl peer n w y. f impl peer n w = Some y \<Longrightarrow>
        (\<forall>m. nw_maxStreamOpenAttempts impl \<noteq> of_nat m) \<longrightarrow> \<not> unreachable impl peer"
      and run: "(case h_NewStream (nw_host impl) peer (nw_supportedProtocols impl) w of
            (Ok s, w1) \<Rightarrow> Some (Ok s, w1)
          | (Err err, w1) \<Rightarrow> if of_nat n = nw_maxStreamOpenAttempts impl
              then Some (Err (exhausted (nw_maxStreamOpenAttempts impl) err), w1)
              else let (d, w2) = h_Backoff (nw_host impl) (nw_minAttemptDuration impl)
                     (nw_maxAttemptDuration impl) (nw_maxStreamOpenAttempts impl) n w1
                in f impl peer (n + 1) (h_Sleep (nw_host impl) d w2)
          | (Panic, w1) \<Rightarrow> Some (Panic, w1)) = Some y"
      and limit: "\<forall>m. nw_maxStreamOpenAttempts impl \<noteq> of_nat m" and no: "unreachable impl peer"
    obtain e w1 where "h_NewStream (nw_host impl) peer (nw_supportedProtocols impl) w = (Err e, w1)"
      using no unfolding unreachable_def by blast
    moreover have "of_nat n \<noteq> nw_maxStreamOpenAttempts impl" using limit by metis
    ultimately show False using run IH limit no by (auto split: prod.splits)
  qed
  with assms show ?thesis by (meson not_Some_eq)
qed

end
