(* ===== verification/ProviderFsm.thy ===== *)
theory ProviderFsm
  imports ClientHandlers
begin

text \<open>
  The retrieval provider's state machine: \<open>FsmProviderEvents\<close>, the entry functions and
  \<open>ProviderFinalityStates\<close> of \<open>statemachine.go\<close>, the deal that \<open>ValidatePull\<close> starts
  tracking, and what holds of the deals a provider can reach.
\<close>

section \<open>The table\<close>

datatype provider_arg =
    PArgErr gerr
  | PArgChannelID ChannelID
  | PArgUint64 u64
  | PArgAmount TokenAmount

type_synonym provider_event = "(ProviderEvent, DealStatus, provider_arg, ProviderDealState) fsm_event"
type_synonym provider_action = "provider_arg list \<Rightarrow> ProviderDealState \<Rightarrow> ProviderDealState go option"

fun p_on_unit :: "(ProviderDealState \<Rightarrow> ProviderDealState go) \<Rightarrow> provider_action" where
  "p_on_unit f [] d = Some (f d)"
| "p_on_unit f _ d = None"

fun p_on_error :: "(gerr \<Rightarrow> ProviderDealState \<Rightarrow> ProviderDealState go) \<Rightarrow> provider_action" where
  "p_on_error f [PArgErr e] d = Some (f e d)"
| "p_on_error f _ d = None"

fun p_on_channel :: "(ChannelID \<Rightarrow> ProviderDealState \<Rightarrow> ProviderDealState go) \<Rightarrow> provider_action" where
  "p_on_channel f [PArgChannelID c] d = Some (f c d)"
| "p_on_channel f _ d = None"

fun p_on_uint64 :: "(u64 \<Rightarrow> ProviderDealState \<Rightarrow> ProviderDealState go) \<Rightarrow> provider_action" where
  "p_on_uint64 f [PArgUint64 n] d = Some (f n d)"
| "p_on_uint64 f _ d = None"

fun p_on_amount :: "(TokenAmount \<Rightarrow> ProviderDealState \<Rightarrow> ProviderDealState go) \<Rightarrow> provider_action" where
  "p_on_amount f [PArgAmount n] d = Some (f n d)"
| "p_on_amount f _ d = None"

definition recordError :: "gerr \<Rightarrow> ProviderDealState \<Rightarrow> ProviderDealState go" where
  "recordError err deal = Ok (deal\<lparr>pds_Message := Error err\<rparr>)"

definition provider_transfer_events :: "provider_event list" where
  "provider_transfer_events =
     [Event ProviderEventOpen [(From DealStatusNew, ToNoChange)]
        (p_on_unit (\<lambda>deal. Ok (deal\<lparr>pds_TotalSent := 0, pds_FundsReceived := 0,
           pds_CurrentInterval := PaymentInterval (pds_Params deal)\<rparr>))),
      Event ProviderEventDealAccepted [(From DealStatusNew, To DealStatusOngoing)]
        (p_on_channel (\<lambda>channelID deal. Ok (deal\<lparr>pds_ChannelID := channelID\<rparr>))),
      Event ProviderEventBlockSent (FromMany [DealStatusOngoing] ToNoChange)
        (p_on_uint64 (\<lambda>totalSent deal. Ok (deal\<lparr>pds_TotalSent := totalSent\<rparr>))),
      Event ProviderEventBlocksCompleted
        (FromMany [DealStatusOngoing] (To DealStatusBlocksComplete)) no_action,
      Event ProviderEventPaymentRequested [(From DealStatusOngoing, To DealStatusFundsNeeded)]
        (p_on_uint64 (\<lambda>totalSent deal. Ok (deal\<lparr>pds_TotalSent := totalSent\<rparr>)))]"

definition provider_payment_events :: "provider_event list" where
  "provider_payment_events =
     [Event ProviderEventSaveVoucherFailed
        (FromMany [DealStatusFundsNeeded, DealStatusFundsNeededLastPayment] (To DealStatusFailing))
        (p_on_error recordError),
      Event ProviderEventPartialPaymentReceived
        (FromMany [DealStatusFundsNeeded, DealStatusFundsNeededLastPayment] ToNoChange)
        (p_on_amount (\<lambda>fundsReceived deal.
           Ok (deal\<lparr>pds_FundsReceived := pds_FundsReceived deal + fundsReceived\<rparr>))),
      Event ProviderEventPaymentReceived
        [(From DealStatusFundsNeeded, To DealStatusOngoing),
         (From DealStatusFundsNeededLastPayment, To DealStatusFinalizing)]
        (p_on_amount (\<lambda>fundsReceived deal.
           Ok (deal\<lparr>pds_FundsReceived := pds_FundsReceived deal + fundsReceived,
                    pds_CurrentInterval := pds_CurrentInterval deal +
                      PaymentIntervalIncrease (pds_Params deal)\<rparr>)))]"

definition provider_closing_events :: "provider_event list" where
  "provider_closing_events =
     [Event ProviderEventComplete
        (FromMany [DealStatusBlocksComplete, DealStatusFinalizing] (To DealStatusCompleting)) no_action,
      Event ProviderEventCleanupComplete [(From DealStatusCompleting, To DealStatusCompleted)] no_action,
      Event ProviderEventCancelComplete (FromMany [DealStatusFailing] (To DealStatusErrored)) no_action,
      Event ProviderEventDataTransferError [(FromAny, To DealStatusErrored)] (p_on_error recordError),
      Event ProviderEventMultiStoreError [(FromAny, To DealStatusErrored)] (p_on_error recordError),
      Event ProviderEventClientCancelled
        [(From DealStatusFailing, ToJustRecord), (FromAny, To DealStatusCancelled)]
        (p_on_unit (\<lambda>deal.
           Ok (if pds_Status deal \<noteq> DealStatusFailing
               then deal\<lparr>pds_Message := ''Client cancelled retrieval''\<rparr> else deal)))]"

definition FsmProviderEvents :: "provider_event list" where
  "FsmProviderEvents =
     provider_transfer_events @ provider_payment_events @ provider_closing_events"

definition ProviderFinalityStates :: "DealStatus list" where
  "ProviderFinalityStates = [DealStatusErrored, DealStatusCompleted, DealStatusCancelled]"

section \<open>Entry functions\<close>

record 'w ProviderDealEnvironment =
  pde_Node :: "'w RetrievalNode"
  pde_TrackTransfer :: "ProviderDealState \<Rightarrow> ('w, unit) io"
  pde_UntrackTransfer :: "ProviderDealState \<Rightarrow> ('w, unit) io"
  pde_DeleteStore :: "StoreID \<Rightarrow> ('w, unit) io"
  pde_ResumeDataTransfer :: "ChannelID \<Rightarrow> ('w, unit) io"
  pde_CloseDataTransfer :: "ChannelID \<Rightarrow> ('w, unit) io"

type_synonym provider_trigger = "(ProviderEvent \<times> provider_arg list) option"

definition p_trigger :: "ProviderEvent \<Rightarrow> provider_arg list \<Rightarrow> ('w, provider_trigger) io" where
  [go_defs]: "p_trigger e args = ret (Some (e, args))"

definition TrackTransfer ::
    "'w ProviderDealEnvironment \<Rightarrow> ProviderDealState \<Rightarrow> ('w, provider_trigger) io" where
  "TrackTransfer env deal =
     tryE (pde_TrackTransfer env deal)
       (\<lambda>err. p_trigger ProviderEventDataTransferError [PArgErr err])
       (\<lambda>_. ret None)"

definition UnpauseDeal ::
    "'w ProviderDealEnvironment \<Rightarrow> ProviderDealState \<Rightarrow> ('w, provider_trigger) io" where
  "UnpauseDeal env deal =
     tryE (pde_TrackTransfer env deal)
       (\<lambda>err. p_trigger ProviderEventDataTransferError [PArgErr err])
       (\<lambda>_. tryE (pde_ResumeDataTransfer env (pds_ChannelID deal))
          (\<lambda>err. p_trigger ProviderEventDataTransferError [PArgErr err])
          (\<lambda>_. ret None))"

definition CancelDeal ::
    "'w ProviderDealEnvironment \<Rightarrow> ProviderDealState \<Rightarrow> ('w, provider_trigger) io" where
  "CancelDeal env deal =
     tryE (pde_UntrackTransfer env deal)
       (\<lambda>err. p_trigger ProviderEventDataTransferError [PArgErr err])
       (\<lambda>_. tryE (pde_DeleteStore env (pds_StoreID deal))
          (\<lambda>err. p_trigger ProviderEventMultiStoreError [PArgErr err])
          (\<lambda>_. tryE (pde_CloseDataTransfer env (pds_ChannelID deal))
             (\<lambda>err. p_trigger ProviderEventDataTransferError [PArgErr err])
             (\<lambda>_. p_trigger ProviderEventCancelComplete [])))"

definition CleanupDeal ::
    "'w ProviderDealEnvironment \<Rightarrow> ProviderDealState \<Rightarrow> ('w, provider_trigger) io" where
  "CleanupDeal env deal =
     tryE (pde_UntrackTransfer env deal)
       (\<lambda>err. p_trigger ProviderEventDataTransferError [PArgErr err])
       (\<lambda>_. tryE (pde_DeleteStore env (pds_StoreID deal))
          (\<lambda>err. p_trigger ProviderEventMultiStoreError [PArgErr err])
          (\<lambda>_. p_trigger ProviderEventCleanupComplete []))"

fun ProviderStateEntryFuncs ::
    "DealStatus \<Rightarrow>
     ('w ProviderDealEnvironment \<Rightarrow> ProviderDealState \<Rightarrow> ('w, provider_trigger) io) option" where
  "ProviderStateEntryFuncs DealStatusOngoing = Some TrackTransfer"
| "ProviderStateEntryFuncs DealStatusFailing = Some CancelDeal"
| "ProviderStateEntryFuncs DealStatusCompleting = Some CleanupDeal"
| "ProviderStateEntryFuncs _ = None"

text \<open>The deal state that \<open>ValidatePull\<close> builds from a proposal (before a store is allocated).\<close>

definition newProviderDeal :: "DealProposal \<Rightarrow> PeerID \<Rightarrow> ProviderDealState" where
  "newProviderDeal proposal receiver =
     \<lparr>pds_DealProposal = proposal, pds_StoreID = 0, pds_ChannelID = '''',
      pds_Status = DealStatusNew, pds_Receiver = receiver, pds_TotalSent = 0,
      pds_FundsReceived = 0, pds_Message = '''', pds_CurrentInterval = 0\<rparr>"

section \<open>Reading the table\<close>

abbreviation set_provider_status :: "DealStatus \<Rightarrow> ProviderDealState \<Rightarrow> ProviderDealState" where
  "set_provider_status s d \<equiv> d\<lparr>pds_Status := s\<rparr>"

abbreviation provider_engine where
  "provider_engine \<equiv> fsm_engine pds_Status set_provider_status"

interpretation provider_fsm: fsm_engine pds_Status set_provider_status
    "fsm_apply pds_Status set_provider_status"
  by (rule fsm_apply_engine)

definition provider_trans :: "ProviderEvent \<Rightarrow> (DealStatus fsm_src \<times> DealStatus fsm_dest) list" where
  "provider_trans e = (case find_event FsmProviderEvents e of None \<Rightarrow> [] | Some ev \<Rightarrow> ev_transitions ev)"

definition provider_act :: "ProviderEvent \<Rightarrow> provider_action" where
  "provider_act e = (case find_event FsmProviderEvents e of None \<Rightarrow> (\<lambda>_ _. None) | Some ev \<Rightarrow> ev_action ev)"

lemmas provider_tables = FsmProviderEvents_def provider_transfer_events_def
  provider_payment_events_def provider_closing_events_def find_event_def

lemmas provider_table_simps [simp] =
  provider_trans_def [of ProviderEventOpen, unfolded provider_tables, simplified]
  provider_act_def [of ProviderEventOpen, unfolded provider_tables, simplified]
  provider_trans_def [of ProviderEventDealNotFound, unfolded provider_tables, simplified]
  provider_act_def [of ProviderEventDealNotFound, unfolded provider_tables, simplified]
  provider_trans_def [of ProviderEventDealRejected, unfolded provider_tables, simplified]
  provider_act_def [of ProviderEventDealRejected, unfolded provider_tables, simplified]
  provider_trans_def [of ProviderEventDealAccepted, unfolded provider_tables, simplified]
  provider_act_def [of ProviderEventDealAccepted, unfolded provider_tables, simplified]
  provider_trans_def [of ProviderEventBlockSent, unfolded provider_tables, simplified]
  provider_act_def [of ProviderEventBlockSent, unfolded provider_tables, simplified]
  provider_trans_def [of ProviderEventBlocksCompleted, unfolded provider_tables, simplified]
  provider_act_def [of ProviderEventBlocksCompleted, unfolded provider_tables, simplified]
  provider_trans_def [of ProviderEventPaymentRequested, unfolded provider_tables, simplified]
  provider_act_def [of ProviderEventPaymentRequested, unfolded provider_tables, simplified]
  provider_trans_def [of ProviderEventSaveVoucherFailed, unfolded provider_tables, simplified]
  provider_act_def [of ProviderEventSaveVoucherFailed, unfolded provider_tables, simplified]
  provider_trans_def [of ProviderEventPartialPaymentReceived, unfolded provider_tables, simplified]
  provider_act_def [of ProviderEventPartialPaymentReceived, unfolded provider_tables, simplified]
  provider_trans_def [of ProviderEventPaymentReceived, unfolded provider_tables, simplified]
  provider_act_def [of ProviderEventPaymentReceived, unfolded provider_tables, simplified]
  provider_trans_def [of ProviderEventComplete, unfolded provider_tables, simplified]
  provider_act_def [of ProviderEventComplete, unfolded provider_tables, simplified]
  provider_trans_def [of ProviderEventDataTransferError, unfolded provider_tables, simplified]
  provider_act_def [of ProviderEventDataTransferError, unfolded provider_tables, simplified]
  provider_trans_def [of ProviderEventCancelComplete, unfolded provider_tables, simplified]
  provider_act_def [of ProviderEventCancelComplete, unfolded provider_tables, simplified]
  provider_trans_def [of ProviderEventCleanupComplete, unfolded provider_tables, simplified]
  provider_act_def [of ProviderEventCleanupComplete, unfolded provider_tables, simplified]
  provider_trans_def [of ProviderEventMultiStoreError, unfolded provider_tables, simplified]
  provider_act_def [of ProviderEventMultiStoreError, unfolded provider_tables, simplified]
  provider_trans_def [of ProviderEventClientCancelled, unfolded provider_tables, simplified]
  provider_act_def [of ProviderEventClientCancelled, unfolded provider_tables, simplified]

lemma p_on_iff [simp]:
  "p_on_unit f args d = Some r \<longleftrightarrow> args = [] \<and> r = f d"
  "p_on_error fe args d = Some r \<longleftrightarrow> (\<exists>e. args = [PArgErr e] \<and> r = fe e d)"
  "p_on_channel fc args d = Some r \<longleftrightarrow> (\<exists>c. args = [PArgChannelID c] \<and> r = fc c d)"
  "p_on_uint64 fu args d = Some r \<longleftrightarrow> (\<exists>n. args = [PArgUint64 n] \<and> r = fu n d)"
  "p_on_amount fn args d = Some r \<longleftrightarrow> (\<exists>n. args = [PArgAmount n] \<and> r = fn n d)"
  by (auto elim!: p_on_unit.elims p_on_error.elims p_on_channel.elims p_on_uint64.elims p_on_amount.elims)

lemma provider_fire_eq:
  assumes "provider_engine fire"
  shows "fire FsmProviderEvents ProviderFinalityStates e args d =
    (if pds_Status d \<in> set ProviderFinalityStates then Rejected
     else case resolve (provider_trans e) (pds_Status d) of None \<Rightarrow> Rejected
     | Some dest \<Rightarrow>
         (case provider_act e args d of None \<Rightarrow> Rejected
          | Some (Ok d') \<Rightarrow> land set_provider_status dest d'
          | Some (Err _) \<Rightarrow> Rejected
          | Some Panic \<Rightarrow> Panicked))"
  by (auto simp: fsm_engine.fire_eq [OF assms] fsm_apply_def provider_trans_def provider_act_def
      split: option.splits)

lemma provider_act_status: "provider_act e args d = Some (Ok d1) \<Longrightarrow> pds_Status d1 = pds_Status d"
  by (cases e) (auto simp: recordError_def)

lemma provider_fire_move:
  assumes "provider_engine fire"
    and "fire FsmProviderEvents ProviderFinalityStates e args d = Entered d' \<or>
         fire FsmProviderEvents ProviderFinalityStates e args d = Recorded d'"
  obtains d1 s where "provider_act e args d = Some (Ok d1)" "d' = d1\<lparr>pds_Status := s\<rparr>"
    "s = (case the (resolve (provider_trans e) (pds_Status d)) of To t \<Rightarrow> t | _ \<Rightarrow> pds_Status d1)"
    "resolve (provider_trans e) (pds_Status d) \<noteq> None"
    "pds_Status d \<notin> set ProviderFinalityStates"
  using assms(2)
  by (auto simp: provider_fire_eq [OF assms(1)] land_def
      split: if_splits option.splits go.splits fsm_dest.splits)

lemma set_ProviderFinalityStates:
  "set ProviderFinalityStates = {DealStatusErrored, DealStatusCompleted, DealStatusCancelled}"
  by (simp add: ProviderFinalityStates_def)

section \<open>The states a provider's deal can reach\<close>

definition provider_closed :: "DealStatus set \<Rightarrow> bool" where
  "provider_closed S \<longleftrightarrow>
     (\<forall>s \<in> S. s \<notin> set ProviderFinalityStates \<longrightarrow>
        (\<forall>e t. resolve (provider_trans e) s = Some (To t) \<longrightarrow> t \<in> S))"

lemma provider_closed_fire:
  assumes "provider_engine fire" "provider_closed S" "pds_Status d \<in> S"
    and "fire FsmProviderEvents ProviderFinalityStates e args d = Entered d' \<or>
         fire FsmProviderEvents ProviderFinalityStates e args d = Recorded d'"
  shows "pds_Status d' \<in> S"
proof -
  from assms(1,4) obtain d1 s where act: "provider_act e args d = Some (Ok d1)"
    and d': "d' = d1\<lparr>pds_Status := s\<rparr>"
    and s: "s = (case the (resolve (provider_trans e) (pds_Status d)) of To t \<Rightarrow> t | _ \<Rightarrow> pds_Status d1)"
    and res: "resolve (provider_trans e) (pds_Status d) \<noteq> None"
    and nf: "pds_Status d \<notin> set ProviderFinalityStates"
    by (rule provider_fire_move)
  from res obtain dest where dest: "resolve (provider_trans e) (pds_Status d) = Some dest" by blast
  show ?thesis
    using assms(2,3) nf dest provider_act_status [OF act]
    by (cases dest) (auto simp: d' s provider_closed_def)
qed

lemma provider_closed_run:
  assumes "provider_engine fire" "provider_closed S"
  shows "pds_Status d \<in> S \<Longrightarrow>
    fsm_run (fire FsmProviderEvents ProviderFinalityStates) evs d = Some d' \<Longrightarrow> pds_Status d' \<in> S"
proof (induction evs arbitrary: d)
  case Nil
  then show ?case by simp
next
  case (Cons ev evs)
  obtain e args where ev: "ev = (e, args)" by fastforce
  show ?case
    using Cons.prems Cons.IH provider_closed_fire [OF assms, of d e args]
    by (auto simp: ev split: fsm_result.splits)
qed

definition provider_states :: "DealStatus set" where
  "provider_states =
     {DealStatusNew, DealStatusOngoing, DealStatusBlocksComplete, DealStatusFundsNeeded,
      DealStatusFailing, DealStatusCompleting, DealStatusCompleted, DealStatusErrored,
      DealStatusCancelled}"

lemma provider_states_closed: "provider_closed provider_states"
proof -
  have "t \<in> provider_states"
    if "s \<in> provider_states" "resolve (provider_trans e) s = Some (To t)" for s e t
    using that by (cases e) (auto simp: provider_states_def)
  then show ?thesis by (auto simp: provider_closed_def)
qed

end
