(* ===== verification/DtUtils.thy ===== *)
theory DtUtils
  imports ProviderFsm
begin

text \<open>
  \<open>dtutils.go\<close>: how events of the data transfer layer become events of the deal state
  machines. The data transfer library is a parameter: its event and channel state are
  records with what the code reads, and the receiver of events is an operation.
\<close>

section \<open>Data transfer values\<close>

datatype Voucher =
    VoucherDealProposal DealProposal
  | VoucherDealPayment DealPayment
  | VoucherOther

datatype VoucherResult =
    ResultDealResponse DealResponse
  | ResultOther

datatype dt_code =
    DtAccept | DtProgress | DtFinishTransfer | DtCancel | DtNewVoucherResult | DtError | DtOther

datatype dt_status = DtCompleted | DtStatusOther

record dt_event =
  dte_Code :: dt_code
  dte_Message :: string

record dt_channel_state =
  dcs_ChannelID :: ChannelID
  dcs_Recipient :: PeerID
  dcs_Status :: dt_status
  dcs_Received :: u64
  dcs_Message :: string
  dcs_Voucher :: Voucher
  dcs_LastVoucherResult :: VoucherResult

section \<open>Translation\<close>

definition clientEventForResponse :: "DealResponse \<Rightarrow> ClientEvent \<times> client_arg list" where
  "clientEventForResponse response =
     (case dr_Status response of
        DealStatusRejected \<Rightarrow> (ClientEventDealRejected, [ArgString (dr_Message response)])
      | DealStatusDealNotFound \<Rightarrow> (ClientEventDealNotFound, [ArgString (dr_Message response)])
      | DealStatusAccepted \<Rightarrow> (ClientEventDealAccepted, [])
      | DealStatusFundsNeededLastPayment \<Rightarrow>
          (ClientEventLastPaymentRequested, [ArgAmount (dr_PaymentOwed response)])
      | DealStatusCompleted \<Rightarrow> (ClientEventComplete, [])
      | DealStatusFundsNeeded \<Rightarrow>
          (ClientEventPaymentRequested, [ArgAmount (dr_PaymentOwed response)])
      | _ \<Rightarrow> (ClientEventUnknownResponseReceived, []))"

fun dealProposalFromVoucher :: "Voucher \<Rightarrow> DealProposal option" where
  "dealProposalFromVoucher (VoucherDealProposal p) = Some p"
| "dealProposalFromVoucher _ = None"

fun dealResponseFromVoucherResult :: "VoucherResult \<Rightarrow> DealResponse option" where
  "dealResponseFromVoucherResult (ResultDealResponse r) = Some r"
| "dealResponseFromVoucherResult ResultOther = None"

text \<open>\<open>errRejected\<close> is the text of the library's \<open>datatransfer.ErrRejected\<close>; the
  constant \<open>noEvent\<close> of the code is \<open>None\<close>.\<close>

definition clientEvent ::
    "string \<Rightarrow> dt_event \<Rightarrow> dt_channel_state \<Rightarrow> (ClientEvent \<times> client_arg list) option" where
  "clientEvent errRejected event channelState =
     (case dte_Code event of
        DtProgress \<Rightarrow> Some (ClientEventBlocksReceived, [ArgUint64 (dcs_Received channelState)])
      | DtFinishTransfer \<Rightarrow> Some (ClientEventAllBlocksReceived, [])
      | DtCancel \<Rightarrow> Some (ClientEventProviderCancelled, [])
      | DtNewVoucherResult \<Rightarrow>
          (case dealResponseFromVoucherResult (dcs_LastVoucherResult channelState) of
             None \<Rightarrow> None
           | Some response \<Rightarrow> Some (clientEventForResponse response))
      | DtError \<Rightarrow>
          (if dcs_Message channelState = errRejected
           then Some (ClientEventDealRejected, [ArgString ''rejected for unknown reasons''])
           else Some (ClientEventDataTransferError,
                  [ArgErr (GErr (''deal data transfer failed: '' @ dte_Message event))]))
      | _ \<Rightarrow> None)"

definition ClientDataTransferSubscriber ::
    "string \<Rightarrow> (DealID \<Rightarrow> ClientEvent \<Rightarrow> client_arg list \<Rightarrow> ('w, unit) io) \<Rightarrow>
     dt_event \<Rightarrow> dt_channel_state \<Rightarrow> ('w, unit) io" where
  "ClientDataTransferSubscriber errRejected send event channelState =
     (case dealProposalFromVoucher (dcs_Voucher channelState) of
        None \<Rightarrow> ret ()
      | Some dealProposal \<Rightarrow>
          (case clientEvent errRejected event channelState of
             None \<Rightarrow> ret ()
           | Some (retrievalEvent, params) \<Rightarrow>
               tryE (send (dp_ID dealProposal) retrievalEvent params) (\<lambda>_. ret ()) (\<lambda>_. ret ())))"

definition providerEvent ::
    "dt_event \<Rightarrow> dt_channel_state \<Rightarrow> (ProviderEvent \<times> provider_arg list) option" where
  "providerEvent event channelState =
     (case dte_Code event of
        DtAccept \<Rightarrow> Some (ProviderEventDealAccepted, [PArgChannelID (dcs_ChannelID channelState)])
      | DtError \<Rightarrow> Some (ProviderEventDataTransferError,
          [PArgErr (GErr (''deal data transfer failed: '' @ dte_Message event))])
      | DtCancel \<Rightarrow> Some (ProviderEventClientCancelled, [])
      | _ \<Rightarrow> None)"

definition ProviderDataTransferSubscriber ::
    "(ProviderDealIdentifier \<Rightarrow> ProviderEvent \<Rightarrow> provider_arg list \<Rightarrow> ('w, unit) io) \<Rightarrow>
     dt_event \<Rightarrow> dt_channel_state \<Rightarrow> ('w, unit) io" where
  "ProviderDataTransferSubscriber send event channelState =
     (case dealProposalFromVoucher (dcs_Voucher channelState) of
        None \<Rightarrow> ret ()
      | Some dealProposal \<Rightarrow>
          (let ident = \<lparr>pid_Receiver = dcs_Recipient channelState, pid_DealID = dp_ID dealProposal\<rparr>;
               complete = (if dcs_Status channelState = DtCompleted
                 then tryE (send ident ProviderEventComplete []) (\<lambda>_. ret ()) (\<lambda>_. ret ())
                 else ret ())
           in bindE complete (\<lambda>_.
             case providerEvent event channelState of
               None \<Rightarrow> ret ()
             | Some (retrievalEvent, params) \<Rightarrow>
                 tryE (send ident retrievalEvent params) (\<lambda>_. ret ()) (\<lambda>_. ret ()))))"

section \<open>The events fit the tables\<close>

text \<open>
  Every event that the client's subscriber sends has arguments that its action takes,
  except those of \<open>DealRejected\<close> (which has no action) and \<open>UnknownResponseReceived\<close>.
\<close>

lemma clientEvent_args_fit:
  assumes "clientEvent errRejected event cs = Some (e, args)"
    and "e \<noteq> ClientEventDealRejected" "e \<noteq> ClientEventUnknownResponseReceived"
  shows "client_act e args d \<noteq> None"
  using assms
  by (auto simp: clientEvent_def clientEventForResponse_def
      split: dt_code.splits option.splits if_splits DealStatus.splits)

lemma providerEvent_args_fit:
  assumes "providerEvent event cs = Some (e, args)"
  shows "provider_act e args d \<noteq> None"
  using assms by (auto simp: providerEvent_def split: dt_code.splits)

end
