(* ===== verification/ProviderProps.thy ===== *)
theory ProviderProps
  imports ClientProps DtUtils
begin

text \<open>
  What the provider's state machine guarantees: a deal completes only after all its blocks
  were sent, its books record exactly the payments accepted, its entry functions' triggers
  are accepted; and what it can never do, because its states for the last payment are
  unreachable. The last section joins the subscriber of \<open>dtutils.go\<close> to the client's table.
\<close>

abbreviation provider_apply where
  "provider_apply \<equiv> fsm_apply pds_Status set_provider_status"

section \<open>An example deal\<close>

definition ex_proposal :: DealProposal where
  "ex_proposal = \<lparr>dp_PayloadCID = ''cid'', dp_ID = 1, dp_Params = ex_params\<rparr>"

definition ex_served :: "(ProviderEvent \<times> provider_arg list) list" where
  "ex_served =
     [(ProviderEventDealAccepted, [PArgChannelID ''ch'']),
      (ProviderEventPaymentRequested, [PArgUint64 100]),
      (ProviderEventPartialPaymentReceived, [PArgAmount 400]),
      (ProviderEventPaymentReceived, [PArgAmount 600]),
      (ProviderEventBlocksCompleted, []),
      (ProviderEventComplete, []),
      (ProviderEventCleanupComplete, [])]"

definition ex_completed :: ProviderDealState where
  "ex_completed = (newProviderDeal ex_proposal ''peer'')\<lparr>pds_ChannelID := ''ch'',
     pds_Status := DealStatusCompleted, pds_TotalSent := 100, pds_FundsReceived := 1000,
     pds_CurrentInterval := 150\<rparr>"

lemmas provider_eval = provider_fire_eq [OF fsm_apply_engine] set_ProviderFinalityStates
  no_action_def newProviderDeal_def ex_proposal_def ex_params_def

lemma ex_served_run:
  "fsm_run (provider_apply FsmProviderEvents ProviderFinalityStates)
     ((ProviderEventOpen, []) # ex_served) (newProviderDeal ex_proposal ''peer'') = Some ex_completed"
  by (simp add: ex_served_def ex_completed_def provider_eval)

section \<open>Completion\<close>

text \<open>Into each of these states only one event leads, from one kind of state.\<close>

lemma provider_into_BlocksComplete:
  "resolve (provider_trans e) s = Some (To DealStatusBlocksComplete) \<Longrightarrow>
     e = ProviderEventBlocksCompleted \<and> s = DealStatusOngoing"
  by (cases e) (auto split: if_splits)

lemma provider_into_Completing:
  "resolve (provider_trans e) s = Some (To DealStatusCompleting) \<Longrightarrow>
     e = ProviderEventComplete \<and> s \<in> {DealStatusBlocksComplete, DealStatusFinalizing}"
  by (cases e) (auto split: if_splits)

lemma provider_into_Completed:
  "resolve (provider_trans e) s = Some (To DealStatusCompleted) \<Longrightarrow>
     e = ProviderEventCleanupComplete \<and> s = DealStatusCompleting"
  by (cases e) (auto split: if_splits)

text \<open>The last step into a status that differs from the one before.\<close>

lemma provider_status_step:
  assumes "provider_engine fire"
    and "fire FsmProviderEvents ProviderFinalityStates e args d = Entered d' \<or>
         fire FsmProviderEvents ProviderFinalityStates e args d = Recorded d'"
  shows "pds_Status d' = pds_Status d \<or>
    resolve (provider_trans e) (pds_Status d) = Some (To (pds_Status d'))"
proof -
  from assms obtain d1 s where act: "provider_act e args d = Some (Ok d1)"
    and d': "d' = d1\<lparr>pds_Status := s\<rparr>"
    and s: "s = (case the (resolve (provider_trans e) (pds_Status d)) of To t \<Rightarrow> t | _ \<Rightarrow> pds_Status d1)"
    and res: "resolve (provider_trans e) (pds_Status d) \<noteq> None"
    by (rule provider_fire_move)
  from res obtain dest where "resolve (provider_trans e) (pds_Status d) = Some dest" by blast
  then show ?thesis using provider_act_status [OF act] by (cases dest) (auto simp: d' s)
qed

lemma provider_reach_states:
  assumes "provider_engine fire"
    and "fsm_run (fire FsmProviderEvents ProviderFinalityStates) evs (newProviderDeal p r) = Some d"
  shows "pds_Status d \<in> provider_states"
  using provider_closed_run [OF assms(1) provider_states_closed _ assms(2)]
  by (simp add: newProviderDeal_def provider_states_def)

text \<open>The statuses on the way to completion, and the event that must have been accepted.\<close>

definition completing_states :: "DealStatus set" where
  "completing_states = {DealStatusBlocksComplete, DealStatusCompleting, DealStatusCompleted}"

lemma enters_completing:
  assumes "provider_engine fire"
    and "fire FsmProviderEvents ProviderFinalityStates e args d = Entered d' \<or>
         fire FsmProviderEvents ProviderFinalityStates e args d = Recorded d'"
    and "pds_Status d' \<in> completing_states" "pds_Status d \<notin> completing_states"
    and "pds_Status d \<in> provider_states"
  shows "e = ProviderEventBlocksCompleted \<and> pds_Status d = DealStatusOngoing"
  using provider_status_step [OF assms(1,2)] assms(3,4,5)
  by (auto simp: completing_states_def provider_states_def
      dest: provider_into_BlocksComplete provider_into_Completing provider_into_Completed)

lemma run_enters_completing:
  assumes "provider_engine fire"
  shows "fsm_run (fire FsmProviderEvents ProviderFinalityStates) evs d = Some d' \<Longrightarrow>
    pds_Status d \<in> provider_states \<Longrightarrow> pds_Status d \<notin> completing_states \<Longrightarrow>
    pds_Status d' \<in> completing_states \<Longrightarrow>
    \<exists>before args after d1. evs = before @ (ProviderEventBlocksCompleted, args) # after \<and>
      fsm_run (fire FsmProviderEvents ProviderFinalityStates) before d = Some d1 \<and>
      pds_Status d1 = DealStatusOngoing"
proof (induction evs arbitrary: d)
  case Nil
  then show ?case by simp
next
  case (Cons ev evs)
  obtain e args where ev: "ev = (e, args)" by fastforce
  have step: ?case
    if s: "fire FsmProviderEvents ProviderFinalityStates e args d = Entered d2 \<or>
        fire FsmProviderEvents ProviderFinalityStates e args d = Recorded d2" for d2
  proof (cases "pds_Status d2 \<in> completing_states")
    case True
    with enters_completing [OF assms s] Cons.prems show ?thesis
      by (intro exI [of _ "[]"] exI [of _ args] exI [of _ evs] exI [of _ d]) (simp add: ev)
  next
    case False
    have "fsm_run (fire FsmProviderEvents ProviderFinalityStates) evs d2 = Some d'"
      using Cons.prems(1) s by (auto simp: ev)
    from Cons.IH [OF this provider_closed_fire [OF assms provider_states_closed Cons.prems(2) s]
        False Cons.prems(4)]
    obtain b a c d1 where
      "evs = b @ (ProviderEventBlocksCompleted, a) # c"
      "fsm_run (fire FsmProviderEvents ProviderFinalityStates) b d2 = Some d1"
      "pds_Status d1 = DealStatusOngoing"
      by blast
    with s show ?thesis
      by (intro exI [of _ "ev # b"] exI [of _ a] exI [of _ c] exI [of _ d1]) (auto simp: ev)
  qed
  show ?case
  proof (cases "fire FsmProviderEvents ProviderFinalityStates e args d")
    case Rejected
    with Cons.prems Cons.IH [of d] obtain b a c d1 where
      "evs = b @ (ProviderEventBlocksCompleted, a) # c"
      "fsm_run (fire FsmProviderEvents ProviderFinalityStates) b d = Some d1"
      "pds_Status d1 = DealStatusOngoing"
      by (auto simp: ev)
    with Rejected show ?thesis
      by (intro exI [of _ "ev # b"] exI [of _ a] exI [of _ c] exI [of _ d1]) (simp add: ev)
  next
    case Panicked
    with Cons.prems show ?thesis by (simp add: ev)
  qed (use step in auto)
qed

text \<open>C8: a provider's deal is \<open>Completed\<close> only after its transfer reported, while the deal was
  \<open>Ongoing\<close>, that all blocks were sent: no order of payments, cancellations and completions
  of the transfer leads there otherwise.\<close>

theorem provider_completes_after_blocks:
  assumes "provider_engine fire"
    and "fsm_run (fire FsmProviderEvents ProviderFinalityStates) evs (newProviderDeal p r) = Some d"
    and "pds_Status d = DealStatusCompleted"
  shows "\<exists>before args after d1. evs = before @ (ProviderEventBlocksCompleted, args) # after \<and>
    fsm_run (fire FsmProviderEvents ProviderFinalityStates) before (newProviderDeal p r) = Some d1 \<and>
    pds_Status d1 = DealStatusOngoing"
  using run_enters_completing [OF assms(1,2)] assms(3)
  by (simp add: newProviderDeal_def completing_states_def provider_states_def)

theorem provider_completes_after_blocks_witness:
  "\<exists>before args after d1. (ProviderEventOpen, []) # ex_served =
      before @ (ProviderEventBlocksCompleted, args) # after \<and>
    fsm_run (provider_apply FsmProviderEvents ProviderFinalityStates) before
      (newProviderDeal ex_proposal ''peer'') = Some d1 \<and> pds_Status d1 = DealStatusOngoing"
  by (rule provider_completes_after_blocks [OF fsm_apply_engine ex_served_run])
     (simp add: ex_completed_def)

section \<open>Books\<close>

text \<open>The funds that an event adds, and whether it raises the interval.\<close>

fun funds_of :: "ProviderEvent \<Rightarrow> provider_arg list \<Rightarrow> TokenAmount" where
  "funds_of ProviderEventPartialPaymentReceived [PArgAmount n] = n"
| "funds_of ProviderEventPaymentReceived [PArgAmount n] = n"
| "funds_of _ _ = 0"

text \<open>What a run adds to the books: the sum of the accepted payments and the number of the
  accepted full payments.\<close>

fun books :: "(ProviderEvent \<Rightarrow> provider_arg list \<Rightarrow> ProviderDealState \<Rightarrow> ProviderDealState fsm_result) \<Rightarrow>
    (ProviderEvent \<times> provider_arg list) list \<Rightarrow> ProviderDealState \<Rightarrow> TokenAmount \<times> nat" where
  "books fr [] d = (0, 0)"
| "books fr ((e, args) # evs) d =
     (case fr e args d of
        Entered d' \<Rightarrow>
          (case books fr evs d' of (f, k) \<Rightarrow>
             (funds_of e args + f, (if e = ProviderEventPaymentReceived then 1 else 0) + k))
      | Recorded d' \<Rightarrow>
          (case books fr evs d' of (f, k) \<Rightarrow>
             (funds_of e args + f, (if e = ProviderEventPaymentReceived then 1 else 0) + k))
      | Rejected \<Rightarrow> books fr evs d
      | Panicked \<Rightarrow> (0, 0))"

text \<open>A deal that is still \<open>New\<close> has its opening books.\<close>

definition opened :: "ProviderDealState \<Rightarrow> bool" where
  "opened d \<longleftrightarrow> (pds_Status d = DealStatusNew \<longrightarrow>
     pds_FundsReceived d = 0 \<and> pds_CurrentInterval d = PaymentInterval (pds_Params d))"

lemma provider_act_proposal:
  "provider_act e args d = Some (Ok d1) \<Longrightarrow> pds_DealProposal d1 = pds_DealProposal d"
  by (cases e) (auto simp: recordError_def no_action_def split: if_splits)

lemma provider_act_books:
  assumes "provider_act e args d = Some (Ok d1)" "resolve (provider_trans e) (pds_Status d) \<noteq> None"
    and "opened d"
  shows "pds_FundsReceived d1 = pds_FundsReceived d + funds_of e args"
    and "pds_CurrentInterval d1 = pds_CurrentInterval d +
      (if e = ProviderEventPaymentReceived then PaymentIntervalIncrease (pds_Params d) else 0)"
  using assms
  by (cases e; auto simp: opened_def recordError_def no_action_def split: if_splits)+

lemma not_into_New: "resolve (provider_trans e) s \<noteq> Some (To DealStatusNew)"
  by (cases e) auto

lemma provider_fire_books:
  assumes "provider_engine fire" "opened d"
    and "fire FsmProviderEvents ProviderFinalityStates e args d = Entered d' \<or>
         fire FsmProviderEvents ProviderFinalityStates e args d = Recorded d'"
  shows "pds_FundsReceived d' = pds_FundsReceived d + funds_of e args"
    and "pds_CurrentInterval d' = pds_CurrentInterval d +
      (if e = ProviderEventPaymentReceived then PaymentIntervalIncrease (pds_Params d) else 0)"
    and "pds_DealProposal d' = pds_DealProposal d" and "opened d'"
proof -
  from assms(1,3) obtain d1 s where act: "provider_act e args d = Some (Ok d1)"
    and d': "d' = d1\<lparr>pds_Status := s\<rparr>"
    and res: "resolve (provider_trans e) (pds_Status d) \<noteq> None"
    by (rule provider_fire_move)
  note bk = provider_act_books [OF act res assms(2)] provider_act_proposal [OF act]
  from bk show "pds_FundsReceived d' = pds_FundsReceived d + funds_of e args"
    and "pds_CurrentInterval d' = pds_CurrentInterval d +
      (if e = ProviderEventPaymentReceived then PaymentIntervalIncrease (pds_Params d) else 0)"
    and "pds_DealProposal d' = pds_DealProposal d" by (simp_all add: d')
  show "opened d'"
  proof (cases "pds_Status d' = DealStatusNew")
    case True
    then have new: "pds_Status d = DealStatusNew"
      using provider_status_step [OF assms(1,3)] not_into_New by fastforce
    moreover have "funds_of e args = 0" "e \<noteq> ProviderEventPaymentReceived"
      using res new by (cases e; auto)+
    ultimately show ?thesis using assms(2) bk by (simp add: opened_def d')
  next
    case False
    then show ?thesis by (simp add: opened_def)
  qed
qed

lemma provider_run_books:
  assumes "provider_engine fire"
  shows "fsm_run (fire FsmProviderEvents ProviderFinalityStates) evs d = Some d' \<Longrightarrow> opened d \<Longrightarrow>
    books (fire FsmProviderEvents ProviderFinalityStates) evs d = (f, k) \<Longrightarrow>
    pds_FundsReceived d' = pds_FundsReceived d + f \<and>
    pds_CurrentInterval d' =
      pds_CurrentInterval d + of_nat k * PaymentIntervalIncrease (pds_Params d)"
proof (induction evs arbitrary: d f k)
  case Nil
  then show ?case by simp
next
  case (Cons ev evs)
  obtain e args where ev: "ev = (e, args)" by fastforce
  have step: ?case
    if s: "fire FsmProviderEvents ProviderFinalityStates e args d = Entered d2 \<or>
        fire FsmProviderEvents ProviderFinalityStates e args d = Recorded d2" for d2
  proof -
    obtain f2 k2 where b2: "books (fire FsmProviderEvents ProviderFinalityStates) evs d2 = (f2, k2)"
      by fastforce
    note bk = provider_fire_books [OF assms Cons.prems(2) s]
    have "fsm_run (fire FsmProviderEvents ProviderFinalityStates) evs d2 = Some d'"
      using Cons.prems(1) s by (auto simp: ev)
    from Cons.IH [OF this bk(4) b2] bk(1-3) Cons.prems(3) s b2
    show ?thesis by (auto simp: ev algebra_simps split: if_splits)
  qed
  show ?case
  proof (cases "fire FsmProviderEvents ProviderFinalityStates e args d")
    case Rejected
    with Cons show ?thesis by (simp add: ev)
  next
    case Panicked
    with Cons.prems show ?thesis by (simp add: ev)
  qed (use step in auto)
qed

text \<open>C7: once opened, whatever order of events a provider's deal sees, \<open>FundsReceived\<close> is the
  sum of the payments its table accepted, and \<open>CurrentInterval\<close> is the agreed interval plus
  the agreed increase once for each full payment (modulo \<open>2 ^ 64\<close>).\<close>

theorem provider_books_balance:
  assumes "provider_engine fire"
    and "fsm_run (fire FsmProviderEvents ProviderFinalityStates) ((ProviderEventOpen, []) # evs)
      (newProviderDeal p r) = Some d"
    and "fire FsmProviderEvents ProviderFinalityStates ProviderEventOpen [] (newProviderDeal p r) =
      Entered d0"
    and "books (fire FsmProviderEvents ProviderFinalityStates) evs d0 = (f, k)"
  shows "pds_FundsReceived d = f \<and>
    pds_CurrentInterval d =
      PaymentInterval (dp_Params p) + of_nat k * PaymentIntervalIncrease (dp_Params p)"
proof -
  have d0: "d0 = (newProviderDeal p r)\<lparr>pds_CurrentInterval := PaymentInterval (dp_Params p)\<rparr>"
    using assms(3)
    by (simp add: provider_fire_eq [OF assms(1)] newProviderDeal_def set_ProviderFinalityStates)
  moreover from assms(2,3)
  have "fsm_run (fire FsmProviderEvents ProviderFinalityStates) evs d0 = Some d" by simp
  moreover have "opened d0" by (simp add: d0 opened_def newProviderDeal_def)
  ultimately show ?thesis
    using provider_run_books [OF assms(1) _ _ assms(4)] by (simp add: newProviderDeal_def)
qed

theorem provider_books_balance_witness:
  "pds_FundsReceived ex_completed = 1000 \<and> pds_CurrentInterval ex_completed = 100 + of_nat 1 * 50"
  using provider_books_balance [OF fsm_apply_engine ex_served_run,
      of "(newProviderDeal ex_proposal ''peer'')\<lparr>pds_CurrentInterval := 100\<rparr>" 1000 1]
  by (simp add: ex_served_def provider_eval)

section \<open>The last payment\<close>

text \<open>A provider never waits for a last payment: whatever the events, its deals never are in
  \<open>FundsNeededLastPayment\<close> or \<open>Finalizing\<close>; and once all blocks are sent, the request that
  \<open>OnComplete\<close> makes for the rest of the price and every report of a payment are rejected,
  so the last payment never reaches the books.\<close>

theorem provider_last_payment_lost:
  assumes "provider_engine fire"
    and "fsm_run (fire FsmProviderEvents ProviderFinalityStates) evs (newProviderDeal p r) = Some d"
  shows "pds_Status d \<notin> {DealStatusFundsNeededLastPayment, DealStatusFinalizing} \<and>
    (pds_Status d = DealStatusBlocksComplete \<longrightarrow>
      (\<forall>e args. e \<in> {ProviderEventPaymentRequested, ProviderEventPartialPaymentReceived,
          ProviderEventPaymentReceived, ProviderEventSaveVoucherFailed} \<longrightarrow>
        fire FsmProviderEvents ProviderFinalityStates e args d = Rejected))"
  using provider_reach_states [OF assms]
  by (auto simp: provider_states_def provider_fire_eq [OF assms(1)] set_ProviderFinalityStates)

theorem provider_last_payment_lost_witness:
  "provider_apply FsmProviderEvents ProviderFinalityStates ProviderEventPaymentRequested [PArgUint64 150]
     (ex_completed\<lparr>pds_Status := DealStatusBlocksComplete\<rparr>) = Rejected"
proof -
  have "fsm_run (provider_apply FsmProviderEvents ProviderFinalityStates)
      ((ProviderEventOpen, []) # take 5 ex_served) (newProviderDeal ex_proposal ''peer'') =
    Some (ex_completed\<lparr>pds_Status := DealStatusBlocksComplete\<rparr>)"
    by (simp add: ex_served_def ex_completed_def provider_eval)
  from provider_last_payment_lost [OF fsm_apply_engine this] show ?thesis by simp
qed

section \<open>Entry functions\<close>

definition provider_accepts :: "ProviderDealState \<Rightarrow> ProviderEvent \<Rightarrow> provider_arg list \<Rightarrow> bool" where
  "provider_accepts d e args \<longleftrightarrow> resolve (provider_trans e) (pds_Status d) \<noteq> None \<and>
     (case provider_act e args d of Some (Ok _) \<Rightarrow> True | _ \<Rightarrow> False)"

lemma provider_entry_accepted:
  assumes "ProviderStateEntryFuncs (pds_Status d) = Some h"
    and "h env d w = (Ok (Some (e, args)), w')"
  shows "provider_accepts d e args"
  using assms
  by (cases "pds_Status d")
     (auto simp: TrackTransfer_def CancelDeal_def CleanupDeal_def p_trigger_def
        provider_accepts_def recordError_def no_action_def elim!: go_elims)

text \<open>Every event triggered by an entry function of the provider is accepted: the table
  declares it for the state the function runs in, with arguments that fit.\<close>

theorem provider_trigger_never_rejected:
  assumes "provider_engine fire"
    and "ProviderStateEntryFuncs (pds_Status d) = Some h"
    and "h env d w = (Ok (Some (e, args)), w')"
  shows "fire FsmProviderEvents ProviderFinalityStates e args d \<noteq> Rejected"
proof -
  have "pds_Status d \<notin> set ProviderFinalityStates"
    using assms(2) by (auto simp: ProviderFinalityStates_def)
  moreover from provider_entry_accepted [OF assms(2,3)] obtain dest d1 where
    "resolve (provider_trans e) (pds_Status d) = Some dest" "provider_act e args d = Some (Ok d1)"
    by (auto simp: provider_accepts_def split: option.splits go.splits)
  ultimately show ?thesis
    by (simp add: provider_fire_eq [OF assms(1)] land_def split: fsm_dest.splits)
qed

definition ex_provider_env :: "unit ProviderDealEnvironment" where
  "ex_provider_env =
     \<lparr>pde_Node = cde_Node ex_env, pde_TrackTransfer = (\<lambda>_. ret ()),
      pde_UntrackTransfer = (\<lambda>_. ret ()), pde_DeleteStore = (\<lambda>_. fail (GErr ''busy'')),
      pde_ResumeDataTransfer = (\<lambda>_. ret ()), pde_CloseDataTransfer = (\<lambda>_. ret ())\<rparr>"

theorem provider_trigger_never_rejected_witness:
  "provider_apply FsmProviderEvents ProviderFinalityStates ProviderEventMultiStoreError
     [PArgErr (GErr ''busy'')] (ex_completed\<lparr>pds_Status := DealStatusFailing\<rparr>) \<noteq> Rejected"
  by (rule provider_trigger_never_rejected
        [OF fsm_apply_engine, where h = CancelDeal and env = ex_provider_env and w = "()" and w' = "()"])
     (simp_all add: CancelDeal_def ex_provider_env_def ex_completed_def newProviderDeal_def
        p_trigger_def ret_def fail_def tryE_def)

section \<open>Responses to the client\<close>

text \<open>Of the responses a provider can send, the client's table takes exactly the five with an
  event and fitting arguments (accepted, not found, completed, funds needed, funds needed
  for the last payment). A rejection has no event in the table; a response with any other
  status is sent as \<open>UnknownResponseReceived\<close> without the status that its action takes:
  both are dropped in every state.\<close>

theorem unexpected_response_is_dropped:
  assumes "client_engine fire"
    and "clientEventForResponse response = (e, args)"
  shows "(\<exists>d. fire FsmClientEvents ClientFinalityStates e args d \<noteq> Rejected) \<longleftrightarrow>
    dr_Status response \<in> {DealStatusAccepted, DealStatusDealNotFound, DealStatusCompleted,
      DealStatusFundsNeeded, DealStatusFundsNeededLastPayment}"
proof
  assume "\<exists>d. fire FsmClientEvents ClientFinalityStates e args d \<noteq> Rejected"
  then show "dr_Status response \<in> {DealStatusAccepted, DealStatusDealNotFound, DealStatusCompleted,
      DealStatusFundsNeeded, DealStatusFundsNeededLastPayment}"
    using assms(2)
    by (auto simp: clientEventForResponse_def client_fire_eq [OF assms(1)]
        split: DealStatus.splits option.splits if_splits)
next
  assume st: "dr_Status response \<in> {DealStatusAccepted, DealStatusDealNotFound, DealStatusCompleted,
      DealStatusFundsNeeded, DealStatusFundsNeededLastPayment}"
  let ?d = "\<lambda>s. ex_ongoing\<lparr>cds_Status := s\<rparr>"
  note eval = clientEventForResponse_def client_fire_eq [OF assms(1)] set_ClientFinalityStates land_def
  have "fire FsmClientEvents ClientFinalityStates e args (?d DealStatusWaitForAcceptance) \<noteq> Rejected \<or>
    fire FsmClientEvents ClientFinalityStates e args (?d DealStatusOngoing) \<noteq> Rejected \<or>
    fire FsmClientEvents ClientFinalityStates e args (?d DealStatusFinalizing) \<noteq> Rejected"
    using st assms(2) by (auto simp: eval client_action_defs no_action_def)
  then show "\<exists>d. fire FsmClientEvents ClientFinalityStates e args d \<noteq> Rejected" by blast
qed

theorem unexpected_response_is_dropped_witness:
  "client_apply FsmClientEvents ClientFinalityStates ClientEventUnknownResponseReceived [] ex_ongoing
     = Rejected"
  using unexpected_response_is_dropped [OF fsm_apply_engine,
      of "\<lparr>dr_Status = DealStatusErrored, dr_ID = 1, dr_PaymentOwed = 0, dr_Message = ''''\<rparr>"
        ClientEventUnknownResponseReceived "[]"]
  by (simp add: clientEventForResponse_def)

end
