(* ===== verification/Validators.thy ===== *)
theory Validators
  imports ProviderProps
begin

text \<open>
  \<open>validators.go\<close> and the environments of \<open>environments.go\<close>: the validation of a retrieval
  request, and the revalidator that meters the bytes sent on a channel and takes the
  payments for them.

  A Go function that returns a voucher result together with an error is an operation whose
  value is the pair of both, because the code returns a response and an error at once.
  A panic ends the program: what it wrote before is not observed.
\<close>

section \<open>Validation of requests\<close>

type_synonym reply = "DealResponse option \<times> gerr option"

record 'w ValidationEnvironment =
  ve_CheckDealParams :: "TokenAmount \<Rightarrow> u64 \<Rightarrow> u64 \<Rightarrow> ('w, unit) io"
  ve_RunDealDecisioningLogic :: "ProviderDealState \<Rightarrow> ('w, bool \<times> string \<times> gerr option) io"
  ve_BeginTracking :: "ProviderDealState \<Rightarrow> ('w, unit) io"
  ve_NextStoreID :: "('w, StoreID) io"

definition ValidatePush :: "PeerID \<Rightarrow> Voucher \<Rightarrow> Cid \<Rightarrow> ('w, reply) io" where
  "ValidatePush sender voucher baseCid = ret (None, Some (GErr ''No pushes accepted''))"

definition ValidatePull ::
    "'w ValidationEnvironment \<Rightarrow> PeerID \<Rightarrow> Voucher \<Rightarrow> Cid \<Rightarrow> ('w, reply) io" where
  "ValidatePull env receiver voucher baseCid =
     (case dealProposalFromVoucher voucher of
        None \<Rightarrow> ret (None, Some (GErr ''Wrong voucher type''))
      | Some proposal \<Rightarrow>
          if dp_PayloadCID proposal \<noteq> baseCid
          then ret (None, Some (GErr ''Incorrect CID for this proposal''))
          else
            (let pds = newProviderDeal proposal receiver;
                 response = DealResponseUndefined\<lparr>dr_ID := dp_ID proposal\<rparr>;
                 decide = (\<lambda>response.
                   bindE (ve_RunDealDecisioningLogic env pds) (\<lambda>(accepted, reason, err).
                     if \<not> accepted
                     then ret (Some (response\<lparr>dr_Status := DealStatusRejected, dr_Message := reason\<rparr>), None)
                     else if err \<noteq> None
                     then ret (Some (response\<lparr>dr_Status := DealStatusErrored\<rparr>), None)
                     else tryE (ve_NextStoreID env)
                       (\<lambda>_. ret (Some (response\<lparr>dr_Status := DealStatusErrored\<rparr>), None))
                       (\<lambda>storeID.
                          tryE (ve_BeginTracking env (pds\<lparr>pds_StoreID := storeID\<rparr>))
                            (\<lambda>err. ret (None, Some err))
                            (\<lambda>_. ret (Some (response\<lparr>dr_Status := DealStatusAccepted\<rparr>), None)))))
             in tryE (ve_CheckDealParams env (PricePerByte (pds_Params pds))
                        (PaymentInterval (pds_Params pds)) (PaymentIntervalIncrease (pds_Params pds)))
                  (\<lambda>_. decide (response\<lparr>dr_Status := DealStatusRejected\<rparr>))
                  (\<lambda>_. decide response)))"

section \<open>The revalidator\<close>

record 'w RevalidatorEnvironment =
  re_Node :: "'w RetrievalNode"
  re_SendEvent :: "ProviderDealIdentifier \<Rightarrow> ProviderEvent \<Rightarrow> provider_arg list \<Rightarrow> ('w, unit) io"
  re_Get :: "ProviderDealIdentifier \<Rightarrow> ('w, ProviderDealState) io"

record channelData =
  ch_dealID :: ProviderDealIdentifier
  ch_totalSent :: u64
  ch_totalPaidFor :: u64
  ch_interval :: u64
  ch_pricePerByte :: TokenAmount
  ch_reload :: bool

text \<open>The map \<open>trackedChannels\<close>; each key has a \<open>channelData\<close> object of its own, so the map
  from channels to their values carries all the sharing there is.\<close>

type_synonym tracked = "ChannelID \<Rightarrow> channelData option"

text \<open>The revalidator's operations act on its map and the world of its environment.\<close>

type_synonym ('w, 'a) pr_io = "(tracked \<times> 'w, 'a) io"

definition in_world :: "('w, 'a) io \<Rightarrow> ('w, 'a) pr_io" where
  [go_defs]: "in_world m = (\<lambda>(t, w). case m w of (r, w') \<Rightarrow> (r, (t, w')))"

definition get_tracked :: "('w, tracked) pr_io" where
  [go_defs]: "get_tracked = (\<lambda>(t, w). (Ok t, (t, w)))"

definition put_channel :: "ChannelID \<Rightarrow> channelData \<Rightarrow> ('w, unit) pr_io" where
  [go_defs]: "put_channel chid c = (\<lambda>(t, w). (Ok (), (t(chid \<mapsto> c), w)))"

text \<open>\<open>_ = m()\<close>: the error is dropped.\<close>

definition ignoreE :: "('w, 'a) io \<Rightarrow> ('w, 'b) io \<Rightarrow> ('w, 'b) io" where
  [go_defs]: "ignoreE m k = tryE m (\<lambda>_. k) (\<lambda>_. k)"

text \<open>The bytes that a deal has paid for, as \<open>writeDealState\<close> counts them.\<close>

definition deal_paid_for :: "ProviderDealState \<Rightarrow> u64 go" where
  "deal_paid_for deal =
     bind_go (big_Div (max (pds_FundsReceived deal) 0) (PricePerByte (pds_Params deal)))
       (\<lambda>q. Ok (big_uint64 q))"

definition writeDealState :: "ProviderDealState \<Rightarrow> ('w, unit) pr_io" where
  "writeDealState deal =
     bindE get_tracked (\<lambda>t.
       case t (pds_ChannelID deal) of
         None \<Rightarrow> panic
       | Some channel \<Rightarrow>
           bindE (lift_go (deal_paid_for deal)) (\<lambda>paidFor.
             put_channel (pds_ChannelID deal)
               (channel\<lparr>ch_totalSent := pds_TotalSent deal, ch_totalPaidFor := paidFor,
                  ch_interval := pds_CurrentInterval deal,
                  ch_pricePerByte := PricePerByte (pds_Params deal)\<rparr>)))"

definition TrackChannel :: "ProviderDealState \<Rightarrow> ('w, unit) pr_io" where
  "TrackChannel deal =
     bindE (put_channel (pds_ChannelID deal)
              \<lparr>ch_dealID = Identifier deal, ch_totalSent = 0, ch_totalPaidFor = 0,
               ch_interval = 0, ch_pricePerByte = 0, ch_reload = False\<rparr>)
       (\<lambda>_. writeDealState deal)"

definition UntrackChannel :: "ProviderDealState \<Rightarrow> ('w, unit) pr_io" where
  "UntrackChannel deal = (\<lambda>(t, w). (Ok (), (t(pds_ChannelID deal := None), w)))"

text \<open>\<open>channel\<close> points to the object of \<open>chid\<close>; \<open>writeDealState\<close> writes to the object of the
  channel that the loaded deal names.\<close>

definition loadDealState ::
    "'w RevalidatorEnvironment \<Rightarrow> ChannelID \<Rightarrow> channelData \<Rightarrow> ('w, unit) pr_io" where
  "loadDealState env chid channel =
     (if \<not> ch_reload channel then ret ()
      else bindE (in_world (re_Get env (ch_dealID channel))) (\<lambda>deal.
        bindE (writeDealState deal) (\<lambda>_.
        bindE get_tracked (\<lambda>t.
          case t chid of
            None \<Rightarrow> panic
          | Some channel' \<Rightarrow> put_channel chid (channel'\<lparr>ch_reload := False\<rparr>)))))"

definition errorDealResponse :: "ProviderDealIdentifier \<Rightarrow> gerr \<Rightarrow> DealResponse" where
  "errorDealResponse dealID err =
     DealResponseUndefined\<lparr>dr_ID := pid_DealID dealID, dr_Message := Error err,
       dr_Status := DealStatusErrored\<rparr>"

definition payment_owed :: "ProviderDealState \<Rightarrow> TokenAmount" where
  "payment_owed deal =
     int64 (pds_TotalSent deal) * PricePerByte (pds_Params deal) - pds_FundsReceived deal"

definition settle_payment ::
    "'w RevalidatorEnvironment \<Rightarrow> ProviderDealIdentifier \<Rightarrow> ProviderDealState \<Rightarrow> TokenAmount \<Rightarrow>
     ('w, reply) io" where
  "settle_payment env dealID deal received =
     (let paymentOwed = payment_owed deal in
      if received < paymentOwed
      then ignoreE (re_SendEvent env dealID ProviderEventPartialPaymentReceived [PArgAmount received])
        (ret (Some (DealResponseUndefined\<lparr>dr_ID := dp_ID (pds_DealProposal deal),
                dr_Status := pds_Status deal, dr_PaymentOwed := paymentOwed - received\<rparr>),
              Some ErrPause))
      else ignoreE (re_SendEvent env dealID ProviderEventPaymentReceived [PArgAmount received])
        (if pds_Status deal = DealStatusFundsNeededLastPayment
         then ret (Some (DealResponseUndefined\<lparr>dr_ID := dp_ID (pds_DealProposal deal),
                dr_Status := DealStatusCompleted\<rparr>), None)
         else ret (None, None)))"

definition processPayment ::
    "'w RevalidatorEnvironment \<Rightarrow> ProviderDealIdentifier \<Rightarrow> DealPayment \<Rightarrow> ('w, reply) io" where
  "processPayment env dealID payment =
     tryE (rn_GetChainHead (re_Node env))
       (\<lambda>err. ignoreE (re_SendEvent env dealID ProviderEventSaveVoucherFailed [PArgErr err])
          (ret (Some (errorDealResponse dealID err), Some err)))
       (\<lambda>(tok, _). tryE (re_Get env dealID)
          (\<lambda>err. ret (Some (errorDealResponse dealID err), Some err))
          (\<lambda>deal. tryE (rn_SavePaymentVoucher (re_Node env) (pay_PaymentChannel payment)
                          (pay_PaymentVoucher payment) [] (payment_owed deal) tok)
             (\<lambda>err. ignoreE (re_SendEvent env dealID ProviderEventSaveVoucherFailed [PArgErr err])
                (ret (Some (errorDealResponse dealID err), Some err)))
             (\<lambda>received.
                if received = 0
                then (case pay_PaymentVoucher payment of
                        None \<Rightarrow> panic
                      | Some v \<Rightarrow> settle_payment env dealID deal (sv_Amount v - pds_FundsReceived deal))
                else settle_payment env dealID deal received)))"

definition Revalidate ::
    "'w RevalidatorEnvironment \<Rightarrow> ChannelID \<Rightarrow> Voucher \<Rightarrow> ('w, reply) pr_io" where
  "Revalidate env channelID voucher =
     bindE get_tracked (\<lambda>t.
       case t channelID of
         None \<Rightarrow> ret (None, None)
       | Some channel \<Rightarrow>
           (case voucher of
              VoucherDealPayment payment \<Rightarrow>
                bindE (in_world (processPayment env (ch_dealID channel) payment)) (\<lambda>(response, err).
                  if err = None
                  then bindE (put_channel channelID (channel\<lparr>ch_reload := True\<rparr>))
                    (\<lambda>_. ret (response, err))
                  else ret (response, err))
            | _ \<Rightarrow> ret (None, Some (GErr ''wrong voucher type''))))"

text \<open>What a channel owes for the bytes not paid for.\<close>

definition channel_owed :: "channelData \<Rightarrow> TokenAmount" where
  "channel_owed channel =
     int64 (ch_totalSent channel - ch_totalPaidFor channel) * ch_pricePerByte channel"

text \<open>The three results of the callbacks: whether the channel is handled, a response, an error.\<close>

type_synonym verdict = "bool \<times> reply"

text \<open>Both callbacks look the channel up, and load the deal again when it was paid.\<close>

definition with_channel ::
    "'w RevalidatorEnvironment \<Rightarrow> ChannelID \<Rightarrow> (channelData \<Rightarrow> ('w, verdict) pr_io) \<Rightarrow>
     ('w, verdict) pr_io" where
  "with_channel env chid k =
     bindE get_tracked (\<lambda>t.
       case t chid of
         None \<Rightarrow> ret (False, None, None)
       | Some channel \<Rightarrow>
           tryE (loadDealState env chid channel)
             (\<lambda>err. ret (True, None, Some err))
             (\<lambda>_. bindE get_tracked (\<lambda>t'.
                case t' chid of None \<Rightarrow> panic | Some channel' \<Rightarrow> k channel')))"

definition OnPullDataSent ::
    "'w RevalidatorEnvironment \<Rightarrow> ChannelID \<Rightarrow> u64 \<Rightarrow> ('w, verdict) pr_io" where
  "OnPullDataSent env chid additionalBytesSent =
     with_channel env chid (\<lambda>channel0.
       let channel = channel0\<lparr>ch_totalSent := ch_totalSent channel0 + additionalBytesSent\<rparr> in
       bindE (put_channel chid channel) (\<lambda>_.
         if ch_totalSent channel - ch_totalPaidFor channel \<ge> ch_interval channel
         then tryE (in_world (re_SendEvent env (ch_dealID channel) ProviderEventPaymentRequested
                      [PArgUint64 (ch_totalSent channel)]))
           (\<lambda>err. ret (True, None, Some err))
           (\<lambda>_. ret (True,
              Some (DealResponseUndefined\<lparr>dr_ID := pid_DealID (ch_dealID channel),
                dr_Status := DealStatusFundsNeeded, dr_PaymentOwed := channel_owed channel\<rparr>),
              Some ErrPause))
         else tryE (in_world (re_SendEvent env (ch_dealID channel) ProviderEventBlockSent
                      [PArgUint64 (ch_totalSent channel)]))
           (\<lambda>err. ret (True, None, Some err))
           (\<lambda>_. ret (True, None, None))))"

definition OnPushDataReceived :: "ChannelID \<Rightarrow> u64 \<Rightarrow> ('w, verdict) pr_io" where
  "OnPushDataReceived chid additionalBytesReceived = ret (False, None, None)"

definition OnComplete :: "'w RevalidatorEnvironment \<Rightarrow> ChannelID \<Rightarrow> ('w, verdict) pr_io" where
  "OnComplete env chid =
     with_channel env chid (\<lambda>channel.
       tryE (in_world (re_SendEvent env (ch_dealID channel) ProviderEventBlocksCompleted []))
         (\<lambda>err. ret (True, None, Some err))
         (\<lambda>_.
            if channel_owed channel = 0
            then ret (True, Some (DealResponseUndefined\<lparr>dr_ID := pid_DealID (ch_dealID channel),
                   dr_Status := DealStatusCompleted\<rparr>), None)
            else tryE (in_world (re_SendEvent env (ch_dealID channel) ProviderEventPaymentRequested
                         [PArgUint64 (ch_totalSent channel)]))
              (\<lambda>err. ret (True, None, Some err))
              (\<lambda>_. ret (True, Some (DealResponseUndefined\<lparr>dr_ID := pid_DealID (ch_dealID channel),
                   dr_Status := DealStatusFundsNeededLastPayment,
                   dr_PaymentOwed := channel_owed channel\<rparr>), Some ErrPause))))"

section \<open>The environments of the provider\<close>

text \<open>
  What \<open>environments.go\<close> reads of the \<open>Provider\<close>: its ask, its decider, the group of its state
  machines, its stores and its data transfer manager, all but the first two libraries.
\<close>

record 'w ProviderDeps =
  pv_GetAsk :: "('w, Ask) io"
  pv_dealDecider :: "(ProviderDealState \<Rightarrow> ('w, bool \<times> string \<times> gerr option) io) option"
  pv_node :: "'w RetrievalNode"
  pv_sm_Begin :: "ProviderDealIdentifier \<Rightarrow> ProviderDealState \<Rightarrow> ('w, unit) io"
  pv_sm_Send :: "ProviderDealIdentifier \<Rightarrow> ProviderEvent \<Rightarrow> provider_arg list \<Rightarrow> ('w, unit) io"
  pv_sm_GetSync :: "ProviderDealIdentifier \<Rightarrow> ('w, ProviderDealState) io"
  pv_ms_Next :: "('w, StoreID) io"
  pv_ms_Get :: "StoreID \<Rightarrow> ('w, unit) io"
  pv_ms_Delete :: "StoreID \<Rightarrow> ('w, unit) io"
  pv_dt_Resume :: "ChannelID \<Rightarrow> ('w, unit) io"
  pv_dt_Close :: "ChannelID \<Rightarrow> ('w, unit) io"

definition CheckDealParams :: "'w ProviderDeps \<Rightarrow> TokenAmount \<Rightarrow> u64 \<Rightarrow> u64 \<Rightarrow> ('w, unit) io" where
  "CheckDealParams p pricePerByte paymentInterval paymentIntervalIncrease =
     bindE (pv_GetAsk p) (\<lambda>ask.
       if pricePerByte < ask_PricePerByte ask then fail (GErr ''Price per byte too low'')
       else if paymentInterval > ask_PaymentInterval ask
       then fail (GErr ''Payment interval too large'')
       else if paymentIntervalIncrease > ask_PaymentIntervalIncrease ask
       then fail (GErr ''Payment interval increase too large'')
       else ret ())"

definition RunDealDecisioningLogic ::
    "'w ProviderDeps \<Rightarrow> ProviderDealState \<Rightarrow> ('w, bool \<times> string \<times> gerr option) io" where
  "RunDealDecisioningLogic p state =
     (case pv_dealDecider p of None \<Rightarrow> ret (True, '''', None) | Some decide \<Rightarrow> decide state)"

definition BeginTracking :: "'w ProviderDeps \<Rightarrow> ProviderDealState \<Rightarrow> ('w, unit) io" where
  "BeginTracking p pds =
     bindE (pv_sm_Begin p (Identifier pds) pds)
       (\<lambda>_. pv_sm_Send p (Identifier pds) ProviderEventOpen [])"

definition NextStoreID :: "'w ProviderDeps \<Rightarrow> ('w, StoreID) io" where
  "NextStoreID p = bindE (pv_ms_Next p) (\<lambda>storeID. bindE (pv_ms_Get p storeID) (\<lambda>_. ret storeID))"

definition providerValidationEnvironment :: "'w ProviderDeps \<Rightarrow> 'w ValidationEnvironment" where
  "providerValidationEnvironment p =
     \<lparr>ve_CheckDealParams = CheckDealParams p,
      ve_RunDealDecisioningLogic = RunDealDecisioningLogic p,
      ve_BeginTracking = BeginTracking p, ve_NextStoreID = NextStoreID p\<rparr>"

definition providerRevalidatorEnvironment :: "'w ProviderDeps \<Rightarrow> 'w RevalidatorEnvironment" where
  "providerRevalidatorEnvironment p =
     \<lparr>re_Node = pv_node p, re_SendEvent = pv_sm_Send p, re_Get = pv_sm_GetSync p\<rparr>"

text \<open>The node called through the revalidator's state.\<close>

definition node_in_world :: "'w RetrievalNode \<Rightarrow> (tracked \<times> 'w) RetrievalNode" where
  "node_in_world n =
     \<lparr>rn_GetChainHead = in_world (rn_GetChainHead n),
      rn_GetOrCreatePaymentChannel = (\<lambda>a b c d. in_world (rn_GetOrCreatePaymentChannel n a b c d)),
      rn_CheckAvailableFunds = (\<lambda>a. in_world (rn_CheckAvailableFunds n a)),
      rn_AllocateLane = (\<lambda>a. in_world (rn_AllocateLane n a)),
      rn_CreatePaymentVoucher = (\<lambda>a b c d. in_world (rn_CreatePaymentVoucher n a b c d)),
      rn_WaitForPaymentChannelReady = (\<lambda>a. in_world (rn_WaitForPaymentChannelReady n a)),
      rn_GetKnownAddresses = (\<lambda>a b. in_world (rn_GetKnownAddresses n a b)),
      rn_SavePaymentVoucher = (\<lambda>a b c d e. in_world (rn_SavePaymentVoucher n a b c d e))\<rparr>"

definition providerDealEnvironment :: "'w ProviderDeps \<Rightarrow> (tracked \<times> 'w) ProviderDealEnvironment" where
  "providerDealEnvironment p =
     \<lparr>pde_Node = node_in_world (pv_node p),
      pde_TrackTransfer = TrackChannel, pde_UntrackTransfer = UntrackChannel,
      pde_DeleteStore = (\<lambda>storeID. in_world (pv_ms_Delete p storeID)),
      pde_ResumeDataTransfer = (\<lambda>chid. in_world (pv_dt_Resume p chid)),
      pde_CloseDataTransfer = (\<lambda>chid. in_world (pv_dt_Close p chid))\<rparr>"

end
