(* ===== verification/Market.thy ===== *)
theory Market
  imports AskStore Discovery Network Validators
begin

text \<open>
  The two ends of the market: the methods of \<open>Client\<close> (\<open>client.go\<close>) and of \<open>Provider\<close>
  (\<open>provider.go\<close>), the client's environments (\<open>environments.go\<close>), the configuration of transports
  (\<open>dtutils.go\<close>) and the orders of the API server (\<open>api.go\<close>). The groups of state machines, the
  multistore, the data transfer manager and the store of files are parameters.
\<close>

text \<open>\<open>defer d()\<close>: it runs however the body ends, and its error is dropped.\<close>

definition deferred :: "('w, unit) io \<Rightarrow> ('w, 'a) io \<Rightarrow> ('w, 'a) io" where
  [go_defs]: "deferred d m = (\<lambda>w. case m w of (r, w1) \<Rightarrow>
     (case d w1 of (Panic, w2) \<Rightarrow> (Panic, w2) | (_, w2) \<Rightarrow> (r, w2)))"

section \<open>The client\<close>

type_synonym Store = string \<comment> \<open>\<open>*multistore.Store\<close>\<close>

record 'w Client =
  cl_network :: "'w libp2pRetrievalMarketNetwork"
  cl_node :: "'w RetrievalNode"
  cl_resolver :: "Cid \<Rightarrow> ('w, RetrievalPeer list) io"
  cl_counter_Next :: "('w, u64) io"
  cl_ms_Get :: "StoreID \<Rightarrow> ('w, Store) io"
  cl_ms_Next :: "('w, StoreID) io"
  cl_sm_Begin :: "DealID \<Rightarrow> ClientDealState \<Rightarrow> ('w, unit) io"
  cl_sm_Send :: "DealID \<Rightarrow> ClientEvent \<Rightarrow> ('w, unit) io"
  cl_sm_Get :: "DealID \<Rightarrow> ('w, ClientDealState) io"
  cl_sm_List :: "('w, ClientDealState list) io"
  cl_dt_OpenPull :: "PeerID \<Rightarrow> Voucher \<Rightarrow> Cid \<Rightarrow> ('w, ChannelID) io" \<comment> \<open>with the selector of everything\<close>
  cl_dt_SendVoucher :: "ChannelID \<Rightarrow> Voucher \<Rightarrow> ('w, unit) io"
  cl_dt_Close :: "ChannelID \<Rightarrow> ('w, unit) io"

definition FindProviders :: "'w Client \<Rightarrow> Cid \<Rightarrow> ('w, RetrievalPeer list) io" where
  "FindProviders c payloadCID = tryE (cl_resolver c payloadCID) (\<lambda>_. ret []) ret"

text \<open>\<open>Query\<close> of \<open>Client\<close>: it returns when the stream is opened or given up.\<close>

definition Client_Query ::
    "'w Client \<Rightarrow> RetrievalPeer \<Rightarrow> Cid \<Rightarrow> QueryParams \<Rightarrow> ('w, QueryResponse) may" where
  "Client_Query c p payloadCID params w =
     (case NewQueryStream (cl_network c) (rp_ID p) w of
        None \<Rightarrow> None
      | Some (Err e, w1) \<Rightarrow> Some (Err e, w1)
      | Some (Panic, w1) \<Rightarrow> Some (Panic, w1)
      | Some (Ok s, w1) \<Rightarrow>
          Some (deferred (rqs_Close s)
            (bindE (rqs_WriteQuery s \<lparr>q_PayloadCID = payloadCID, q_QueryParams = params\<rparr>)
               (\<lambda>_. rqs_ReadQueryResponse s)) w1))"

definition Retrieve ::
    "'w Client \<Rightarrow> Cid \<Rightarrow> Params \<Rightarrow> TokenAmount \<Rightarrow> RetrievalPeer \<Rightarrow> Address \<Rightarrow> Address \<Rightarrow> StoreID option \<Rightarrow>
     ('w, DealID) io" where
  "Retrieve c payloadCID params totalFunds p clientWallet minerWallet storeID =
     bindE (cl_counter_Next c) (\<lambda>dealID.
     bindE (case storeID of None \<Rightarrow> ret () | Some i \<Rightarrow> bindE (cl_ms_Get c i) (\<lambda>_. ret ())) (\<lambda>_.
     let dealState = newClientDeal payloadCID dealID params totalFunds (rp_ID p) clientWallet minerWallet storeID in
     bindE (cl_sm_Begin c (cds_ID dealState) dealState) (\<lambda>_.
     bindE (cl_sm_Send c (cds_ID dealState) ClientEventOpen) (\<lambda>_.
     ret dealID))))"

definition NewStoreID :: "'w Client \<Rightarrow> ('w, StoreID) io" where
  "NewStoreID c = cl_ms_Next c"

definition addMultiaddrs :: "'w Client \<Rightarrow> RetrievalPeer \<Rightarrow> ('w, unit) io" where
  "addMultiaddrs c p =
     bindE (rn_GetChainHead (cl_node c)) (\<lambda>(tok, _).
     bindE (rn_GetKnownAddresses (cl_node c) p tok) (\<lambda>maddrs.
     if length maddrs > 0 then (\<lambda>w. (Ok (), AddAddrs (cl_network c) (rp_ID p) maddrs w)) else ret ()))"

text \<open>\<open>deal.PaymentInfo.PayCh\<close> follows a pointer that may be nil.\<close>

fun restart_deals :: "'w Client \<Rightarrow> Address \<Rightarrow> ClientDealState list \<Rightarrow> ('w, unit) io" where
  "restart_deals c paymentChannel [] = ret ()"
| "restart_deals c paymentChannel (deal # deals) =
     (if cds_Status deal = DealStatusInsufficientFunds
      then (case cds_PaymentInfo deal of
          None \<Rightarrow> panic
        | Some info \<Rightarrow>
            if PayCh info = paymentChannel
            then bindE (cl_sm_Send c (cds_ID deal) ClientEventRecheckFunds)
                   (\<lambda>_. restart_deals c paymentChannel deals)
            else restart_deals c paymentChannel deals)
      else restart_deals c paymentChannel deals)"

definition TryRestartInsufficientFunds :: "'w Client \<Rightarrow> Address \<Rightarrow> ('w, unit) io" where
  "TryRestartInsufficientFunds c paymentChannel = bindE (cl_sm_List c) (restart_deals c paymentChannel)"

definition Client_CancelDeal :: "'w Client \<Rightarrow> DealID \<Rightarrow> ('w, unit) io" where
  "Client_CancelDeal c dealID = cl_sm_Send c dealID ClientEventCancel"

definition GetDeal :: "'w Client \<Rightarrow> DealID \<Rightarrow> ('w, ClientDealState) io" where
  "GetDeal c dealID = cl_sm_Get c dealID"

definition ListDeals :: "'w Client \<Rightarrow> ('w, DealID \<Rightarrow> ClientDealState option) io" where
  "ListDeals c = bindE (cl_sm_List c) (\<lambda>deals. ret (fold (\<lambda>deal m. m(cds_ID deal \<mapsto> deal)) deals Map.empty))"

text \<open>The calls by which a client or a provider makes itself known to the libraries: the group of
  state machines is made, the types of vouchers and results are registered, and the subscriber to
  data transfer events is.\<close>

record 'w Registrations =
  rg_fsmNew :: "('w, unit) io"
  rg_ProposalType :: "('w, unit) io"
  rg_PaymentType :: "('w, unit) io" \<comment> \<open>a voucher type for the client, a revalidator for the provider\<close>
  rg_ResultType :: "('w, unit) io"
  rg_Subscribe :: "('w, unit) io"

definition NewClient :: "'w Registrations \<Rightarrow> 'w Client \<Rightarrow> ('w, 'w Client) io" where
  "NewClient rg c =
     tryE (rg_fsmNew rg) (\<lambda>err. fail (Errorf ''Unable to initialize state machine'' err)) (\<lambda>_.
     bindE (rg_ResultType rg) (\<lambda>_.
     bindE (rg_ProposalType rg) (\<lambda>_.
     bindE (rg_PaymentType rg) (\<lambda>_.
     bindE (rg_Subscribe rg) (\<lambda>_.
     ret c)))))"

section \<open>The client's environments\<close>

definition OpenDataTransfer :: "'w Client \<Rightarrow> PeerID \<Rightarrow> DealProposal \<Rightarrow> ('w, ChannelID) io" where
  "OpenDataTransfer c to proposal =
     cl_dt_OpenPull c to (VoucherDealProposal proposal) (dp_PayloadCID proposal)"

definition SendDataTransferVoucher :: "'w Client \<Rightarrow> ChannelID \<Rightarrow> DealPayment \<Rightarrow> ('w, unit) io" where
  "SendDataTransferVoucher c channelID payment = cl_dt_SendVoucher c channelID (VoucherDealPayment payment)"

definition clientDealEnvironment :: "'w Client \<Rightarrow> 'w ClientDealEnvironment" where
  "clientDealEnvironment c =
     \<lparr>cde_Node = cl_node c, cde_OpenDataTransfer = OpenDataTransfer c,
      cde_SendDataTransferVoucher = SendDataTransferVoucher c, cde_CloseDataTransfer = cl_dt_Close c\<rparr>"

text \<open>No store is the nil store.\<close>

type_synonym 'w StoreGetter = "PeerID \<Rightarrow> DealID \<Rightarrow> ('w, Store option) io"

definition clientStoreGetter :: "'w Client \<Rightarrow> 'w StoreGetter" where
  "clientStoreGetter c otherPeer dealID =
     bindE (cl_sm_Get c dealID) (\<lambda>deal.
       case cds_StoreID deal of
         None \<Rightarrow> ret None
       | Some i \<Rightarrow> bindE (cl_ms_Get c i) (\<lambda>store. ret (Some store)))"

definition providerStoreGetter ::
    "(ProviderDealIdentifier \<Rightarrow> ('w, ProviderDealState) io) \<Rightarrow> (StoreID \<Rightarrow> ('w, Store) io) \<Rightarrow> 'w StoreGetter" where
  "providerStoreGetter getSync msGet otherPeer dealID =
     bindE (getSync \<lparr>pid_Receiver = otherPeer, pid_DealID = dealID\<rparr>) (\<lambda>deal.
     bindE (msGet (pds_StoreID deal)) (\<lambda>store. ret (Some store)))"

text \<open>A transport that can be configured is its \<open>UseStore\<close>.\<close>

definition TransportConfigurer ::
    "(ChannelID \<Rightarrow> PeerID) \<Rightarrow> 'w StoreGetter \<Rightarrow> ChannelID \<Rightarrow> Voucher \<Rightarrow>
     (ChannelID \<Rightarrow> Store \<Rightarrow> ('w, unit) io) option \<Rightarrow> ('w, unit) io" where
  "TransportConfigurer otherParty storeGetter channelID voucher transport =
     (case dealProposalFromVoucher voucher of
        None \<Rightarrow> ret ()
      | Some dealProposal \<Rightarrow>
          (case transport of
             None \<Rightarrow> ret ()
           | Some useStore \<Rightarrow>
               tryE (storeGetter (otherParty channelID) (dp_ID dealProposal)) (\<lambda>_. ret ()) (\<lambda>store.
                 case store of
                   None \<Rightarrow> ret ()
                 | Some s \<Rightarrow> tryE (useStore channelID s) (\<lambda>_. ret ()) ret)))"

section \<open>The provider\<close>

record 'w Provider =
  pr_minerAddress :: Address
  pr_askStore :: "'w AskStore"
  pr_store_GetSize :: "Cid \<Rightarrow> ('w, int) io" \<comment> \<open>of \<open>ipfsStore\<close>; an \<open>int64\<close>\<close>
  pr_sm_List :: "('w, ProviderDealState list) io"

definition Provider_GetAsk :: "'w Provider \<Rightarrow> ('w, Ask option) io" where
  "Provider_GetAsk p = aks_GetAsk (pr_askStore p)"

definition Provider_SetAsk :: "'w Provider \<Rightarrow> Ask option \<Rightarrow> ('w, unit) io" where
  "Provider_SetAsk p ask = aks_SetAsk (pr_askStore p) ask"

definition Provider_ListDeals :: "'w Provider \<Rightarrow> ('w, ProviderDealIdentifier \<Rightarrow> ProviderDealState option) io" where
  "Provider_ListDeals p =
     bindE (tryE (pr_sm_List p) (\<lambda>_. ret []) ret) (\<lambda>deals.
       ret (fold (\<lambda>deal m. m(\<lparr>pid_Receiver = pds_Receiver deal, pid_DealID = dp_ID (pds_DealProposal deal)\<rparr> \<mapsto> deal))
              deals Map.empty))"

definition unavailable :: "Address \<Rightarrow> Ask \<Rightarrow> QueryResponse" where
  "unavailable miner ask =
     \<lparr>qr_Status = QueryResponseUnavailable, qr_Size = 0, qr_PaymentAddress = miner,
      qr_MinPricePerByte = ask_PricePerByte ask, qr_MaxPaymentInterval = ask_PaymentInterval ask,
      qr_MaxPaymentIntervalIncrease = ask_PaymentIntervalIncrease ask, qr_Message = ''''\<rparr>"

definition HandleQueryStream :: "'w Provider \<Rightarrow> 'w RetrievalQueryStream \<Rightarrow> ('w, unit) io" where
  "HandleQueryStream p stream =
     deferred (rqs_Close stream)
       (tryE (rqs_ReadQuery stream) (\<lambda>_. ret ()) (\<lambda>query.
        bindE (Provider_GetAsk p) (\<lambda>ask.
          case ask of
            None \<Rightarrow> panic
          | Some ask \<Rightarrow>
              (let answer = unavailable (pr_minerAddress p) ask in
               bindE (tryE (pr_store_GetSize p (q_PayloadCID query)) (\<lambda>_. ret answer)
                        (\<lambda>size. ret (if size > 0
                           then answer\<lparr>qr_Status := QueryResponseAvailable, qr_Size := word_of_int size\<rparr>
                           else answer)))
                 (\<lambda>answer. tryE (rqs_WriteQueryResponse stream answer) (\<lambda>_. ret ()) ret)))))"

definition Start :: "'w libp2pRetrievalMarketNetwork \<Rightarrow> 'w Provider \<Rightarrow> ('w, unit) net_io" where
  "Start network p = SetDelegate network (HandleQueryStream p)"

definition Stop :: "'w libp2pRetrievalMarketNetwork \<Rightarrow> 'w Provider \<Rightarrow> ('w, unit) net_io" where
  "Stop network p = StopHandlingRequests network"

text \<open>A new provider works in a world that holds the cache of its asks, which starts with the ask
  given.\<close>

definition NewProvider ::
    "cbg \<Rightarrow> 'w Datastore \<Rightarrow> 'w Registrations \<Rightarrow> Address \<Rightarrow> (Cid \<Rightarrow> ('w, int) io) \<Rightarrow>
     ('w, ProviderDealState list) io \<Rightarrow> ('w, (Ask option \<times> 'w) Provider \<times> Ask option) io" where
  "NewProvider cb ds rg minerAddress getSize listDeals =
     bindE (NewAskStore cb ds [''retrieval-ask''] (KeyWithNamespaces [''latest''])) (\<lambda>(askStore, ask).
     tryE (rg_fsmNew rg) (\<lambda>err. fail (Errorf ''Unable to create state machine'' err)) (\<lambda>_.
     bindE (rg_ProposalType rg) (\<lambda>_.
     bindE (rg_PaymentType rg) (\<lambda>_.
     bindE (rg_ResultType rg) (\<lambda>_.
     bindE (rg_Subscribe rg) (\<lambda>_.
     ret (\<lparr>pr_minerAddress = minerAddress, pr_askStore = AskStore_of askStore,
           pr_store_GetSize = (\<lambda>c. on_disk (getSize c)), pr_sm_List = on_disk listDeals\<rparr>, ask)))))))"

section \<open>Orders of the API server\<close>

record RetrievalOrder =
  ro_PaymentInterval :: u64
  ro_PaymentIntervalIncrease :: u64
  ro_PricePerByte :: u64
  ro_Size :: u64
  ro_ContentID :: string
  ro_Client :: Address
  ro_Provider :: Address
  ro_ProviderPeer :: PeerID

definition order_total :: "RetrievalOrder \<Rightarrow> TokenAmount" where
  "order_total order = int64 (ro_PricePerByte order) * int64 (ro_Size order) + 500"

definition order_params :: "RetrievalOrder \<Rightarrow> Params go" where
  "order_params order =
     NewParams (int64 (ro_PricePerByte order)) (ro_PaymentInterval order) (ro_PaymentIntervalIncrease order)"

definition peer_with :: "PeerID \<Rightarrow> RetrievalPeer" where
  "peer_with i = \<lparr>rp_Address = AddressUndef, rp_ID = i, rp_PieceCID = None\<rparr>"

text \<open>The subscription to the client's events, which comes first, is in \<open>Subscribers\<close>.\<close>

definition Api_Retrieve :: "(string \<Rightarrow> Cid go) \<Rightarrow> 'w Client \<Rightarrow> RetrievalOrder \<Rightarrow> ('w, unit) io" where
  "Api_Retrieve cidDecode c order =
     bindE (lift_go (order_params order)) (\<lambda>params.
     bindE (lift_go (cidDecode (ro_ContentID order))) (\<lambda>mcid.
     bindE (NewStoreID c) (\<lambda>clientStoreID.
     bindE (Retrieve c mcid params (order_total order) (peer_with (ro_ProviderPeer order))
              (ro_Client order) (ro_Provider order) (Some clientStoreID)) (\<lambda>_.
     ret ()))))"

definition QueryDeal :: "(string \<Rightarrow> Cid go) \<Rightarrow> 'w Client \<Rightarrow> string \<Rightarrow> PeerID \<Rightarrow> ('w, QueryResponse) may" where
  "QueryDeal cidDecode c m pid = (\<lambda>w.
     case cidDecode m of
       Ok mcid \<Rightarrow> Client_Query c (peer_with pid) mcid zero_QueryParams w
     | Err e \<Rightarrow> Some (Err e, w)
     | Panic \<Rightarrow> Some (Panic, w))"

definition SetProviderAsk :: "'w Provider \<Rightarrow> int \<Rightarrow> u64 \<Rightarrow> u64 \<Rightarrow> ('w, unit) io" where
  "SetProviderAsk p ppb interval increase =
     Provider_SetAsk p (Some \<lparr>ask_PricePerByte = ppb, ask_PaymentInterval = interval, ask_PaymentIntervalIncrease = increase\<rparr>)"

end
