(* ===== verification/FileStore.thy ===== *)
theory FileStore
  imports Network "HOL-Library.AList" "HOL-Library.Multiset"
begin

text \<open>
  \<open>ipfs.go\<close>: the files and blocks of a provider, kept by a node of IPFS in a repository of its own.
  The node, its API, the files and the libraries of addresses and hashes are parameters.
\<close>

section \<open>The libraries\<close>

text \<open>An API of the node is a handle \<open>'api\<close>; files, nodes of files, readers and paths are opaque.\<close>

record PeerInfo =
  pin_ID :: PeerID
  pin_Addrs :: "string list"

record Block =
  bk_Cid :: Cid
  bk_RawData :: bytes

record ('api, 'w) ipfs_lib =
  il_Unixfs_Get :: "'api \<Rightarrow> string \<Rightarrow> ('w, string) io"
  il_Unixfs_Add :: "'api \<Rightarrow> string \<Rightarrow> ('w, Cid) io" \<comment> \<open>the CID of the path added\<close>
  il_Swarm_Peers :: "'api \<Rightarrow> ('w, PeerID list) io" \<comment> \<open>no peers when it fails\<close>
  il_Swarm_Connect :: "'api \<Rightarrow> PeerInfo \<Rightarrow> ('w, unit) io"
  il_Block_Stat :: "'api \<Rightarrow> string \<Rightarrow> ('w, unit) io"
  il_Block_Get :: "'api \<Rightarrow> string \<Rightarrow> ('w, string) io"
  il_Block_Put :: "'api \<Rightarrow> bytes \<Rightarrow> u64 \<Rightarrow> int \<Rightarrow> string \<Rightarrow> ('w, unit) io" \<comment> \<open>hash code and length, format\<close>
  il_WithOffline :: "'api \<Rightarrow> ('w, 'api) io"
  il_WriteTo :: "string \<Rightarrow> string \<Rightarrow> ('w, unit) io"
  il_Size :: "string \<Rightarrow> ('w, int) io"
  il_ParseURL :: "string \<Rightarrow> string go"
  il_NewWebFile :: "string \<Rightarrow> string"
  il_Stat :: "string \<Rightarrow> ('w, string) io"
  il_NewSerialFile :: "string \<Rightarrow> bool \<Rightarrow> string \<Rightarrow> ('w, string) io"
  il_ReadAll :: "string \<Rightarrow> ('w, bytes) io"
  il_NewPath :: "string \<Rightarrow> string"
  il_IpldPath :: "Cid \<Rightarrow> string"
  il_Hash :: "Cid \<Rightarrow> string"
  il_Type :: "Cid \<Rightarrow> u64"
  il_CodecToStr :: "u64 \<Rightarrow> string" \<comment> \<open>empty for an unknown codec, as Go's maps are\<close>
  il_DecodeHash :: "string \<Rightarrow> (u64 \<times> int) go"
  il_NewBlockWithCid :: "bytes \<Rightarrow> Cid \<Rightarrow> Block go"
  il_NewMultiaddr :: "string \<Rightarrow> string go"
  il_InfoFromP2pAddr :: "string \<Rightarrow> PeerInfo go"
  il_Sleep :: "Duration \<Rightarrow> 'w \<Rightarrow> 'w"

record 'api ipfsStore =
  is_api :: 'api
  is_node :: string

section \<open>Making a store\<close>

record IpfsConfig =
  cf_Bootstrap :: "string list"
  cf_Swarm :: "string list"
  cf_Identity :: string

record BuildCfg =
  bc_Online :: bool
  bc_Routing :: string
  bc_Repo :: string

record ('api, 'w) ipfs_setup =
  iu_NewPluginLoader :: "string \<Rightarrow> ('w, string) io"
  iu_Initialize :: "string \<Rightarrow> ('w, unit) io"
  iu_Inject :: "string \<Rightarrow> ('w, unit) io"
  iu_TempDir :: "string \<Rightarrow> string \<Rightarrow> ('w, string) io"
  iu_ConfigInit :: "nat \<Rightarrow> ('w, IpfsConfig) io" \<comment> \<open>bits of the key\<close>
  iu_RepoInit :: "string \<Rightarrow> IpfsConfig \<Rightarrow> ('w, unit) io"
  iu_RepoOpen :: "string \<Rightarrow> ('w, string) io"
  iu_NewNode :: "BuildCfg \<Rightarrow> ('w, string) io"
  iu_NewCoreAPI :: "string \<Rightarrow> ('w, 'api) io"

text \<open>The repository is made for a node that knows no peer and listens on any port. The error of
  parsing the constant address is dropped, its nil result would be followed.\<close>

definition NewIpfsStore :: "('api, 'w) ipfs_lib \<Rightarrow> ('api, 'w) ipfs_setup \<Rightarrow> ('w, 'api ipfsStore) io" where
  "NewIpfsStore lib iu =
     bindE (wrapE ''Unable to load plugins'' (iu_NewPluginLoader iu ''plugins'')) (\<lambda>plugins.
     bindE (wrapE ''Unable to initialize plugins'' (iu_Initialize iu plugins)) (\<lambda>_.
     bindE (wrapE ''Unable to inject plugins'' (iu_Inject iu plugins)) (\<lambda>_.
     bindE (wrapE ''Unable to get temp dir'' (iu_TempDir iu '''' ''ipfs-shell'')) (\<lambda>repoPath.
     bindE (wrapE ''Unable to create config'' (iu_ConfigInit iu 2048)) (\<lambda>cfg.
     case il_NewMultiaddr lib ''/ip4/0.0.0.0/tcp/0'' of
       Ok randAddr \<Rightarrow>
         bindE (wrapE ''Unable to initialize repo''
                  (iu_RepoInit iu repoPath (cfg\<lparr>cf_Bootstrap := [], cf_Swarm := [randAddr]\<rparr>))) (\<lambda>_.
         bindE (wrapE ''Unable to open repo'' (iu_RepoOpen iu repoPath)) (\<lambda>repo.
         bindE (wrapE ''Unable to create new ipfs node''
                  (iu_NewNode iu \<lparr>bc_Online = True, bc_Routing = ''DHTOption'', bc_Repo = repo\<rparr>)) (\<lambda>inode.
         bindE (wrapE ''Unable to attach api to ipfs node'' (iu_NewCoreAPI iu inode)) (\<lambda>ipfs.
         ret \<lparr>is_api = ipfs, is_node = inode\<rparr>))))
     | _ \<Rightarrow> panic)))))"

section \<open>Peers\<close>

text \<open>The addresses are collected by peer. The order of the collection is that of a Go map: any.\<close>

fun peer_infos ::
    "('api, 'w) ipfs_lib \<Rightarrow> string list \<Rightarrow> (PeerID \<times> string list) list \<Rightarrow> (PeerID \<times> string list) list go" where
  "peer_infos lib [] infos = Ok infos"
| "peer_infos lib (addrStr # peers) infos =
     bind_go (il_NewMultiaddr lib addrStr) (\<lambda>addr.
     bind_go (il_InfoFromP2pAddr lib addr) (\<lambda>pii.
       peer_infos lib peers (AList.map_default (pin_ID pii) (pin_Addrs pii) (\<lambda>addrs. addrs @ pin_Addrs pii) infos)))"

text \<open>Each goroutine connects to its peer and sends it on \<open>coPeers\<close>, whether it could or not; the
  result is what was sent. \<open>order\<close> is the order in which they run.\<close>

fun connect_all :: "('api, 'w) ipfs_lib \<Rightarrow> 'api \<Rightarrow> PeerInfo list \<Rightarrow> ('w, PeerInfo list) io" where
  "connect_all lib api [] = ret []"
| "connect_all lib api (p # ps) =
     bindE (tryE (il_Swarm_Connect lib api p) (\<lambda>_. ret ()) ret) (\<lambda>_.
     bindE (connect_all lib api ps) (\<lambda>sent. ret (p # sent)))"

definition connectToPeers ::
    "('api, 'w) ipfs_lib \<Rightarrow> (PeerInfo list \<Rightarrow> PeerInfo list) \<Rightarrow> 'api \<Rightarrow> string list \<Rightarrow> ('w, PeerInfo list) io" where
  "connectToPeers lib order api peers =
     bindE (lift_go (peer_infos lib peers [])) (\<lambda>infos.
       connect_all lib api (order (map (\<lambda>(i, addrs). \<lparr>pin_ID = i, pin_Addrs = addrs\<rparr>) infos)))"

text \<open>The loop asks until there is a peer; its value is \<open>None\<close> when there never is one.\<close>

partial_function (option) Store_GetFirstPeer ::
    "('api, 'w) ipfs_lib \<Rightarrow> 'api ipfsStore \<Rightarrow> ('w, PeerID) may" where
  "Store_GetFirstPeer lib s w =
     (case il_Swarm_Peers lib (is_api s) w of
        (Ok prs, w1) \<Rightarrow>
          (if length prs > 0 then Some (Ok (prs ! 0), w1)
           else Store_GetFirstPeer lib s (il_Sleep lib (5 * 10 ^ 9) w1))
      | (Err _, w1) \<Rightarrow> Store_GetFirstPeer lib s (il_Sleep lib (5 * 10 ^ 9) w1)
      | (Panic, w1) \<Rightarrow> Some (Panic, w1))"

section \<open>Files\<close>

definition GetFile :: "('api, 'w) ipfs_lib \<Rightarrow> 'api ipfsStore \<Rightarrow> string \<Rightarrow> string \<Rightarrow> ('w, unit) io" where
  "GetFile lib s cidStr out =
     bindE (wrapE ''Unable to get file from Unixfs'' (il_Unixfs_Get lib (is_api s) (il_NewPath lib cidStr)))
       (\<lambda>rootNode. wrapE ''Unable to write file for cid'' (il_WriteTo lib rootNode out))"

definition AddWebFile :: "('api, 'w) ipfs_lib \<Rightarrow> 'api ipfsStore \<Rightarrow> string \<Rightarrow> ('w, Cid) io" where
  "AddWebFile lib s urlStr =
     bindE (wrapE ''Unable to parse url'' (lift_go (il_ParseURL lib urlStr)))
       (\<lambda>u. wrapE ''Unable to add file to ipfs'' (il_Unixfs_Add lib (is_api s) (il_NewWebFile lib u)))"

definition AddFile :: "('api, 'w) ipfs_lib \<Rightarrow> 'api ipfsStore \<Rightarrow> string \<Rightarrow> ('w, Cid) io" where
  "AddFile lib s path =
     bindE (il_Stat lib path) (\<lambda>st.
     bindE (il_NewSerialFile lib path False st) (\<lambda>f.
     il_Unixfs_Add lib (is_api s) f))"

definition GetSize :: "('api, 'w) ipfs_lib \<Rightarrow> 'api ipfsStore \<Rightarrow> Cid \<Rightarrow> ('w, int) io" where
  "GetSize lib s c =
     bindE (wrapE ''getting ipfs block'' (il_Unixfs_Get lib (is_api s) (il_IpldPath lib c)))
       (\<lambda>st. wrapE ''Unable to get size from Node'' (il_Size lib st))"

section \<open>Blocks\<close>

definition DeleteBlock :: "'api ipfsStore \<Rightarrow> Cid \<Rightarrow> ('w, unit) io" where
  "DeleteBlock s c = fail (GErr ''Not supported'')"

definition AllKeysChan :: "'api ipfsStore \<Rightarrow> ('w, Cid list) io" where
  "AllKeysChan s = fail (GErr ''not supported'')"

definition HashOnRead :: "'api ipfsStore \<Rightarrow> bool \<Rightarrow> ('w, unit) io" where
  "HashOnRead s enabled = ret ()"

definition Has :: "('api, 'w) ipfs_lib \<Rightarrow> 'api ipfsStore \<Rightarrow> Cid \<Rightarrow> ('w, bool) io" where
  "Has lib s c =
     tryE (il_Block_Stat lib (is_api s) (il_IpldPath lib c))
       (\<lambda>err. if Error err = ''blockservice: key not found'' then ret False
          else fail (Errorf ''getting ipfs block'' err))
       (\<lambda>_. ret True)"

definition Get :: "('api, 'w) ipfs_lib \<Rightarrow> 'api ipfsStore \<Rightarrow> Cid \<Rightarrow> ('w, Block) io" where
  "Get lib s c =
     bindE (wrapE ''getting ipfs block'' (il_Block_Get lib (is_api s) (il_IpldPath lib c))) (\<lambda>rd.
     bindE (il_ReadAll lib rd) (\<lambda>data.
     lift_go (il_NewBlockWithCid lib data c)))"

definition Put :: "('api, 'w) ipfs_lib \<Rightarrow> 'api ipfsStore \<Rightarrow> Block \<Rightarrow> ('w, unit) io" where
  "Put lib s block =
     bindE (lift_go (il_DecodeHash lib (il_Hash lib (bk_Cid block)))) (\<lambda>(code, len).
       il_Block_Put lib (is_api s) (bk_RawData block) code len (il_CodecToStr lib (il_Type lib (bk_Cid block))))"

fun PutMany :: "('api, 'w) ipfs_lib \<Rightarrow> 'api ipfsStore \<Rightarrow> Block list \<Rightarrow> ('w, unit) io" where
  "PutMany lib s [] = ret ()"
| "PutMany lib s (block # blocks) = bindE (Put lib s block) (\<lambda>_. PutMany lib s blocks)"

text \<open>The store that uses the new API from then on; when the API cannot be made it keeps its own.\<close>

definition Offline :: "('api, 'w) ipfs_lib \<Rightarrow> 'api ipfsStore \<Rightarrow> ('w, 'api ipfsStore) io" where
  "Offline lib s =
     bindE (wrapE ''Unable to create offline api'' (il_WithOffline lib (is_api s)))
       (\<lambda>api. ret (s\<lparr>is_api := api\<rparr>))"

end
