(* ===== verification/Server.thy ===== *)
theory Server
  imports Market FileStore "HOL-Library.Char_ord"
begin

text \<open>
  The server of \<open>src/rtmkt/api/api.go\<close> beside its orders, which are in \<open>Market\<close>: files, the first
  peer, accounts and the events it reports; and the import of key files of \<open>spawn.go\<close>. The wallet,
  the Lotus node and the operating system are parameters.
\<close>

section \<open>Key files\<close>

text \<open>\<open>strings.TrimSpace\<close> on ASCII text, and \<open>hex.DecodeString\<close>: an odd digit at the end is looked at
  before the length is complained of. The message of an invalid byte is Go's but for the byte's code.\<close>

definition is_space :: "char \<Rightarrow> bool" where
  "is_space c \<longleftrightarrow> (of_char c :: nat) \<in> {9, 10, 11, 12, 13, 32}"

definition TrimSpace :: "string \<Rightarrow> string" where
  "TrimSpace s = rev (dropWhile is_space (rev (dropWhile is_space s)))"

definition fromHexChar :: "char \<Rightarrow> u8 go" where
  "fromHexChar c = (let n = of_char c :: nat in
     if 48 \<le> n \<and> n \<le> 57 then Ok (of_nat (n - 48))
     else if 97 \<le> n \<and> n \<le> 102 then Ok (of_nat (n - 97 + 10))
     else if 65 \<le> n \<and> n \<le> 70 then Ok (of_nat (n - 65 + 10))
     else Err (GErr (''encoding/hex: invalid byte: '' @ [c])))"

fun hex_DecodeString :: "string \<Rightarrow> bytes go" where
  "hex_DecodeString [] = Ok []"
| "hex_DecodeString [c] = bind_go (fromHexChar c) (\<lambda>_. Err (GErr ''encoding/hex: odd length hex string''))"
| "hex_DecodeString (c # d # s) =
     bind_go (fromHexChar c) (\<lambda>a. bind_go (fromHexChar d) (\<lambda>b.
     bind_go (hex_DecodeString s) (\<lambda>bs. Ok ((16 * a + b) # bs))))"

record ('k, 'w) Wallet =
  lw_WalletImport :: "'k \<Rightarrow> ('w, Address \<times> gerr option) io" \<comment> \<open>an address and an error\<close>
  lw_SetDefault :: "Address \<Rightarrow> ('w, unit) io"
  lw_GetDefault :: "('w, Address) io"

record 'w System =
  os_Getwd :: "('w, string) io"
  os_ReadFile :: "string \<Rightarrow> ('w, string) io"
  path_Join :: "string \<Rightarrow> string \<Rightarrow> string"

text \<open>The error of the import is shadowed before it is looked at.\<close>

definition WalletImport ::
    "'w System \<Rightarrow> (bytes \<Rightarrow> 'k go) \<Rightarrow> ('k, 'w) Wallet \<Rightarrow> string \<Rightarrow> ('w, Address) io" where
  "WalletImport sys unmarshal wallet name =
     bindE (wrapE ''Unable to get current directory'' (os_Getwd sys)) (\<lambda>wd.
     bindE (wrapE ''Unable to import private key file'' (os_ReadFile sys (path_Join sys wd name))) (\<lambda>fdata.
     bindE (wrapE ''Unable to decode hex string'' (lift_go (hex_DecodeString (TrimSpace fdata)))) (\<lambda>data.
     bindE (wrapE ''Unable to unmarshal keyinfo'' (lift_go (unmarshal data))) (\<lambda>ki.
     bindE (lw_WalletImport wallet ki) (\<lambda>(addr, err).
     bindE (lw_SetDefault wallet addr) (\<lambda>_.
     ret addr))))))"

section \<open>Accounts\<close>

definition DefaultAddress :: "('k, 'w) Wallet \<Rightarrow> ('w, Address) io" where
  "DefaultAddress wallet = bindE (lw_GetDefault wallet) ret"

text \<open>\<open>fil\<close> prints an amount of tokens.\<close>

definition AddressBalance ::
    "(Address \<Rightarrow> ('w, TokenAmount) io) \<Rightarrow> (TokenAmount \<Rightarrow> string) \<Rightarrow> Address \<Rightarrow> ('w, string) io" where
  "AddressBalance walletBalance fil addr = bindE (walletBalance addr) (\<lambda>amount. ret (fil amount))"

section \<open>Files\<close>

definition Api_AddWebFile :: "('api, 'w) ipfs_lib \<Rightarrow> 'api ipfsStore \<Rightarrow> string \<Rightarrow> ('w, Cid) io" where
  "Api_AddWebFile lib s url = bindE (AddWebFile lib s url) ret"

definition Api_AddFile :: "('api, 'w) ipfs_lib \<Rightarrow> 'api ipfsStore \<Rightarrow> string \<Rightarrow> ('w, Cid) io" where
  "Api_AddFile lib s path = AddFile lib s path"

definition Api_GetFile :: "('api, 'w) ipfs_lib \<Rightarrow> 'api ipfsStore \<Rightarrow> string \<Rightarrow> string \<Rightarrow> ('w, unit) io" where
  "Api_GetFile lib s fid to = GetFile lib s fid to"

section \<open>The first peer\<close>

record ProviderResponse =
  prs_QueryResponse :: QueryResponse
  prs_PeerID :: PeerID
  prs_IDAddress :: Address

text \<open>Sequencing of operations that may not return.\<close>

definition bindM :: "('w, 'a) may \<Rightarrow> ('a \<Rightarrow> ('w, 'b) may) \<Rightarrow> ('w, 'b) may" where
  [go_defs]: "bindM m f = (\<lambda>w. case m w of
       None \<Rightarrow> None
     | Some (Ok x, w1) \<Rightarrow> f x w1
     | Some (Err e, w1) \<Rightarrow> Some (Err e, w1)
     | Some (Panic, w1) \<Rightarrow> Some (Panic, w1))"

definition may_io :: "('w, 'a) io \<Rightarrow> ('w, 'a) may" where
  [go_defs]: "may_io m = (\<lambda>w. Some (m w))"

definition Api_GetFirstPeer ::
    "('api, 'w) ipfs_lib \<Rightarrow> 'api ipfsStore \<Rightarrow> (string \<Rightarrow> Cid go) \<Rightarrow> 'w Client \<Rightarrow> (Address \<Rightarrow> ('w, Address) io) \<Rightarrow>
     string \<Rightarrow> ('w, ProviderResponse) may" where
  "Api_GetFirstPeer lib s cidDecode c stateLookupID p =
     bindM (Store_GetFirstPeer lib s) (\<lambda>fp.
     bindM (may_io (lift_go (cidDecode p))) (\<lambda>pcid.
     bindM (Client_Query c (peer_with fp) pcid zero_QueryParams) (\<lambda>res.
     bindM (may_io (stateLookupID (qr_PaymentAddress res))) (\<lambda>idaddr.
     may_io (ret \<lparr>prs_QueryResponse = res, prs_PeerID = fp, prs_IDAddress = idaddr\<rparr>)))))"

section \<open>Events that are reported\<close>

record ApiProviderEvent =
  ape_Status :: string
  ape_TotalReceived :: string

record ApiClientEvent =
  ace_Status :: string
  ace_TotalReceived :: u64

text \<open>What a subscriber sends for an event and the deal after it.\<close>

definition provider_update :: "(TokenAmount \<Rightarrow> string) \<Rightarrow> ProviderDealState \<Rightarrow> ApiProviderEvent" where
  "provider_update fil st = \<lparr>ape_Status = DealStatuses (pds_Status st), ape_TotalReceived = fil (pds_FundsReceived st)\<rparr>"

definition client_update :: "ClientDealState \<Rightarrow> ApiClientEvent" where
  "client_update st = \<lparr>ace_Status = DealStatuses (cds_Status st), ace_TotalReceived = cds_TotalReceived st\<rparr>"

section \<open>The wallet\<close>

text \<open>What a wallet promises: \<open>keys\<close> are the addresses it has, \<open>addr_of\<close> the address of a key. An
  import that fails gives the undefined address, which is no key's; only an address the wallet has can
  be its default.\<close>

locale wallet =
  fixes wl :: "('k, 'w) Wallet"
    and keys :: "'w \<Rightarrow> Address set"
    and dflt :: "'w \<Rightarrow> Address option"
    and addr_of :: "'k \<Rightarrow> Address"
  assumes imported: "lw_WalletImport wl ki w = (Ok (a, None), w') \<Longrightarrow> a = addr_of ki \<and> keys w' = insert a (keys w)"
    and not_imported: "lw_WalletImport wl ki w = (Ok (a, Some e), w') \<Longrightarrow> a = AddressUndef \<and> keys w' = keys w"
    and import_ends: "\<exists>r w'. lw_WalletImport wl ki w = (Ok r, w')"
    and SetDefault: "a \<in> keys w \<Longrightarrow> lw_SetDefault wl a w = (Ok (), w') \<Longrightarrow> keys w' = keys w \<and> dflt w' = Some a"
    and no_key: "a \<notin> keys w \<Longrightarrow> \<exists>e. lw_SetDefault wl a w = (Err e, w)"
    and undef: "AddressUndef \<notin> keys w"
begin

lemma import_sets_default:
  assumes "bindE (lw_WalletImport wl ki) (\<lambda>(addr, err). bindE (lw_SetDefault wl addr) (\<lambda>_. ret addr)) w = (Ok a, w')"
  shows "a = addr_of ki \<and> a \<in> keys w' \<and> dflt w' = Some a"
proof -
  obtain b err w1 where i: "lw_WalletImport wl ki w = (Ok (b, err), w1)" using import_ends [of ki w] by auto
  show ?thesis
  proof (cases err)
    case None
    have b: "b = addr_of ki" "b \<in> keys w1" using imported [OF i [unfolded None]] by auto
    obtain w2 where s: "lw_SetDefault wl b w1 = (Ok (), w2)" "a = b" "w' = w2"
      using assms i by (auto elim!: bindE_Ok)
    with SetDefault [OF b(2) s(1)] b show ?thesis by simp
  next
    case (Some e)
    then have "b = AddressUndef" "keys w1 = keys w" using not_imported i by auto
    with no_key [of b w1] undef [of w1] assms i show ?thesis by (auto elim!: bindE_Ok)
  qed
qed

end

section \<open>A key file\<close>

text \<open>\<open>hex.EncodeToString\<close>, by which key files are written.\<close>

definition hex_digit :: "nat \<Rightarrow> char" where
  "hex_digit n = char_of (if n < 10 then 48 + n else 87 + n)"

definition hex_EncodeToString :: "bytes \<Rightarrow> string" where
  "hex_EncodeToString b = concat (map (\<lambda>x. [hex_digit (unat x div 16), hex_digit (unat x mod 16)]) b)"

lemma fromHexChar_digit: "n < 16 \<Longrightarrow> fromHexChar (hex_digit n) = Ok (of_nat n)"
  by (cases "n < 10") (auto simp: fromHexChar_def hex_digit_def)

lemma no_space_digit: "n < 16 \<Longrightarrow> \<not> is_space (hex_digit n)"
  by (auto simp: is_space_def hex_digit_def)

lemma hex_byte: "16 * of_nat (unat x div 16) + of_nat (unat x mod 16) = (x :: u8)"
proof -
  have "16 * of_nat (unat x div 16) + of_nat (unat x mod 16) = (of_nat (16 * (unat x div 16) + unat x mod 16) :: u8)"
    by (simp only: of_nat_add of_nat_mult of_nat_numeral)
  then show ?thesis by (simp only: mult_div_mod_eq) simp
qed

lemma unat_u8_div: "unat (x :: u8) div 16 < 16"
  using unsigned_less [of x, where ?'a = nat] by simp

lemma hex_roundtrip: "hex_DecodeString (hex_EncodeToString b) = Ok b"
proof (induction b)
  case (Cons x b)
  have "hex_EncodeToString (x # b) = hex_digit (unat x div 16) # hex_digit (unat x mod 16) # hex_EncodeToString b"
    by (simp add: hex_EncodeToString_def)
  with Cons show ?case by (simp add: fromHexChar_digit unat_u8_div hex_byte)
qed (simp add: hex_EncodeToString_def)

lemma TrimSpace_around:
  assumes "\<forall>c\<in>set (pre @ post). is_space c" "\<forall>c\<in>set t. \<not> is_space c"
  shows "TrimSpace (pre @ t @ post) = t"
proof -
  have "dropWhile is_space (pre @ t @ post) = (if t = [] then [] else t @ post)"
    using assms by (cases t) (simp_all add: dropWhile_append)
  moreover have "dropWhile is_space (rev post @ rev t) = rev t"
    using assms by (cases t rule: rev_cases) (simp_all add: dropWhile_append)
  ultimately show ?thesis by (simp add: TrimSpace_def)
qed

lemma TrimSpace_hex:
  assumes "\<forall>c\<in>set (pre @ post). is_space c"
  shows "hex_DecodeString (TrimSpace (pre @ hex_EncodeToString b @ post)) = Ok b"
proof -
  have "\<forall>c\<in>set (hex_EncodeToString b). \<not> is_space c"
    by (auto simp: hex_EncodeToString_def no_space_digit unat_u8_div)
  from TrimSpace_around [OF assms this] show ?thesis by (simp add: hex_roundtrip)
qed

lemma WalletImport_key_file:
  assumes "os_Getwd sys w = (Ok wd, w1)"
    and "os_ReadFile sys (path_Join sys wd name) w1 = (Ok (pre @ hex_EncodeToString b @ post), w2)"
    and "\<forall>c\<in>set (pre @ post). is_space c" "unmarshal b = Ok ki"
  shows "WalletImport sys unmarshal wl name w =
    bindE (lw_WalletImport wl ki) (\<lambda>(addr, err). bindE (lw_SetDefault wl addr) (\<lambda>_. ret addr)) w2"
  using assms(1,2,4) TrimSpace_hex [OF assms(3), of b]
  by (simp add: WalletImport_def wrapE_def bindE_def tryE_def ret_def)

text \<open>A key file, with spaces or line ends around its digits, gives back the key that was written to
  it, and the address returned is that key's, is kept by the wallet and is its default. When the wallet
  refuses the key, its error is lost: the caller gets the error of making the undefined address the
  default.\<close>

theorem key_file_sets_default:
  assumes "wallet wl keys dflt addr_of"
    and "os_Getwd sys w = (Ok wd, w1)"
    and "os_ReadFile sys (path_Join sys wd name) w1 = (Ok (pre @ hex_EncodeToString b @ post), w2)"
    and "\<forall>c\<in>set (pre @ post). is_space c" "unmarshal b = Ok ki"
  shows "(WalletImport sys unmarshal wl name w = (Ok a, w') \<longrightarrow> a = addr_of ki \<and> a \<in> keys w' \<and> dflt w' = Some a) \<and>
    (lw_WalletImport wl ki w2 = (Ok (a, Some e), w3) \<longrightarrow>
       (\<exists>e'. lw_SetDefault wl AddressUndef w3 = (Err e', w3) \<and> WalletImport sys unmarshal wl name w = (Err e', w3)))"
proof -
  note run = WalletImport_key_file [where unmarshal = unmarshal and b = b and wl = wl, OF assms(2-5)]
  have "\<exists>e'. lw_SetDefault wl AddressUndef w3 = (Err e', w3) \<and> WalletImport sys unmarshal wl name w = (Err e', w3)"
    if i: "lw_WalletImport wl ki w2 = (Ok (a, Some e), w3)"
  proof -
    have "a = AddressUndef" using wallet.not_imported [OF assms(1) i] by simp
    moreover obtain e' where "lw_SetDefault wl AddressUndef w3 = (Err e', w3)"
      using wallet.no_key [OF assms(1) wallet.undef [OF assms(1)], of w3] by blast
    ultimately show ?thesis using i by (simp add: run)
  qed
  with wallet.import_sets_default [OF assms(1), of ki w2 a w'] run show ?thesis by simp
qed

text \<open>A wallet in memory that refuses the empty key.\<close>

type_synonym mem_wallet = "Address list \<times> Address option"

definition mem_wl :: "(bytes, mem_wallet) Wallet" where
  "mem_wl = \<lparr>
     lw_WalletImport = (\<lambda>ki (ks, d). if ki = [] then (Ok (AddressUndef, Some (GErr ''no key'')), (ks, d))
       else let a = ''f1'' @ hex_EncodeToString ki in (Ok (a, None), (a # ks, d))),
     lw_SetDefault = (\<lambda>a (ks, d). if a \<in> set ks \<and> a \<noteq> AddressUndef then (Ok (), (ks, Some a))
       else (Err (GErr ''key not found''), (ks, d))),
     lw_GetDefault = (\<lambda>(ks, d). (case d of None \<Rightarrow> Err (GErr ''no default'') | Some a \<Rightarrow> Ok a, (ks, d)))\<rparr>"

interpretation mem_wallet: wallet mem_wl "\<lambda>(ks, _). {a \<in> set ks. a \<noteq> AddressUndef}" snd "\<lambda>ki. ''f1'' @ hex_EncodeToString ki"
  by unfold_locales (auto simp: mem_wl_def AddressUndef_def Let_def split: if_splits)

definition ex_system :: "string \<Rightarrow> mem_wallet System" where
  "ex_system file = \<lparr>os_Getwd = ret ''/home'', os_ReadFile = (\<lambda>p. if p = ''/home/client.private'' then ret file
     else fail (GErr ''no such file'')), path_Join = (\<lambda>d f. d @ CHR ''/'' # f)\<rparr>"

theorem key_file_sets_default_witness:
  "(\<exists>w'. WalletImport (ex_system ('' '' @ hex_EncodeToString [1, 171] @ ''   '')) Ok mem_wl ''client.private'' ([], None) =
       (Ok (''f1'' @ hex_EncodeToString [1, 171]), w') \<and> snd w' = Some (''f1'' @ hex_EncodeToString [1, 171])) \<and>
   WalletImport (ex_system ('''' @ hex_EncodeToString [] @ '' '')) Ok mem_wl ''client.private'' ([], None) =
     (Err (GErr ''key not found''), ([], None))"
proof -
  have sp: "\<forall>c\<in>set ('' '' @ ''   ''). is_space c" "\<forall>c\<in>set ('''' @ '' ''). is_space c" by (simp_all add: is_space_def)
  have sys: "os_Getwd (ex_system f) w = (Ok ''/home'', w)"
    "os_ReadFile (ex_system f) (path_Join (ex_system f) ''/home'' ''client.private'') w = (Ok f, w)" for f w
    by (simp_all add: ex_system_def ret_def)
  have import: "WalletImport (ex_system (pre @ hex_EncodeToString b @ post)) Ok mem_wl ''client.private'' w =
      bindE (lw_WalletImport mem_wl b) (\<lambda>(addr, err). bindE (lw_SetDefault mem_wl addr) (\<lambda>_. ret addr)) w"
    if "\<forall>c\<in>set (pre @ post). is_space c" for pre b post w
    by (rule WalletImport_key_file [OF sys that refl])
  obtain a w' where run: "WalletImport (ex_system ('' '' @ hex_EncodeToString [1, 171] @ ''   '')) Ok mem_wl ''client.private''
      ([], None) = (Ok a, w')"
    unfolding import [OF sp(1)] by (simp add: bindE_def ret_def mem_wl_def Let_def AddressUndef_def)
  have ok: "a = ''f1'' @ hex_EncodeToString [1, 171]" "snd w' = Some a"
    using key_file_sets_default [where unmarshal = Ok and b = "[1, 171]" and a = a and w' = w',
      OF mem_wallet.wallet_axioms sys sp(1) refl] run by blast+
  have bad: "lw_WalletImport mem_wl [] ([], None) = (Ok (AddressUndef, Some (GErr ''no key'')), ([], None))"
    by (simp add: mem_wl_def)
  have err: "\<exists>e'. lw_SetDefault mem_wl AddressUndef ([], None) = (Err e', ([], None)) \<and>
      WalletImport (ex_system ('''' @ hex_EncodeToString [] @ '' '')) Ok mem_wl ''client.private'' ([], None) = (Err e', ([], None))"
    using key_file_sets_default [where unmarshal = Ok and b = "[]", OF mem_wallet.wallet_axioms sys sp(2) refl] bad by blast
  from ok run err show ?thesis by (auto simp: mem_wl_def)
qed

end
