(* ===== verification/Commands.thy ===== *)
theory Commands
  imports ClientRuns Manager Server
begin

text \<open>
  The programs around the library: the client (\<open>src/rtmkt/client\<close>) and the provider
  (\<open>src/rtmkt/provider\<close>), from the point where their node runs (\<open>Programs\<close> has the rest), and the one
  that makes and funds a key (\<open>src/rtmkt/filground\<close>). Printing, signals and the command line are I/O.
\<close>

section \<open>The client\<close>

text \<open>An error is printed and the zero value of the result used.\<close>

definition logged :: "'a \<Rightarrow> ('w, 'a) may \<Rightarrow> ('w, 'a) may" where
  [go_defs]: "logged zero m = (\<lambda>w. case m w of
       Some (Err e, w') \<Rightarrow> Some (Ok zero, w')
     | r \<Rightarrow> r)"

text \<open>The event that the subscriber waits for.\<close>

definition deal_finished :: "ClientEvent \<Rightarrow> bool" where
  "deal_finished event \<longleftrightarrow> event = ClientEventCompleteVerified"

definition mcidString :: string where
  "mcidString = ''QmZNrFiWmW2QUZuqRLgJjG7AVmdDgGYqXwFZcMpjiZ14Qi''"

definition zero_Params :: Params where
  "zero_Params = \<lparr>PricePerByte = 0, PaymentInterval = 0, PaymentIntervalIncrease = 0\<rparr>"

text \<open>\<open>heard\<close> waits until the subscriber has been told of such an event.\<close>

definition client_command ::
    "('api, 'w) ipfs_lib \<Rightarrow> 'api ipfsStore \<Rightarrow> (string \<Rightarrow> Cid go) \<Rightarrow> 'w Client \<Rightarrow> ('k, 'w) Wallet \<Rightarrow>
      (DealID \<Rightarrow> ('w, unit) may) \<Rightarrow> ('w, unit) may" where
  "client_command lib s cidDecode c wal heard =
     bindM (Store_GetFirstPeer lib s) (\<lambda>peer.
     bindM (logged CidUndef (may_io (lift_go (cidDecode mcidString)))) (\<lambda>mcid.
     bindM (logged QueryResponseUndefined (Client_Query c (peer_with peer) mcid zero_QueryParams)) (\<lambda>res.
     bindM (may_io (NewStoreID c)) (\<lambda>clientStoreID.
     bindM (logged AddressUndef (may_io (lw_GetDefault wal))) (\<lambda>clientPaymentChannel.
     bindM (logged zero_Params (may_io (lift_go (NewParams 3 10000 1000)))) (\<lambda>params.
     bindM (logged 0 (may_io (Retrieve c mcid params (3 * int64 (qr_Size res) + 500) (peer_with peer)
         clientPaymentChannel (qr_PaymentAddress res) (Some clientStoreID)))) (\<lambda>did.
     bindM (heard did) (\<lambda>_.
     bindM (logged s (may_io (Offline lib s))) (\<lambda>s'.
     logged () (may_io (GetFile lib s' mcidString ''/file'')))))))))))"

section \<open>What the client's command is told\<close>

definition late_events :: "ClientEvent set" where
  "late_events = {ClientEventComplete, ClientEventCompleteVerified}"

text \<open>Of the entry functions only \<open>CheckComplete\<close> triggers one of these events.\<close>

lemma client_entry_late:
  assumes "client_entry env d w = (Ok (Some (e, args)), w')" "e \<in> late_events"
  shows "cds_Status d = DealStatusCheckComplete"
  using assms
  by (cases "cds_Status d")
     (auto simp: client_entry_def client_entry_defs late_events_def Let_def
       elim!: tryE_Ok split: if_splits option.splits prod.splits gerr.splits)

text \<open>The state of that function is entered by \<open>ClientEventComplete\<close> only.\<close>

lemma check_complete_entered:
  assumes "client_engine fire" "cds_Status d \<noteq> DealStatusCheckComplete" "e \<noteq> ClientEventComplete"
    and "client_events fire e args d = Entered d' \<or> client_events fire e args d = Recorded d'"
  shows "cds_Status d' \<noteq> DealStatusCheckComplete"
proof -
  from assms(1,4) obtain d1 s where act: "client_act e args d = Some (Ok d1)" "d' = d1\<lparr>cds_Status := s\<rparr>"
    and s: "s = (case the (resolve (client_trans e) (cds_Status d)) of To t \<Rightarrow> t | _ \<Rightarrow> cds_Status d1)"
    "resolve (client_trans e) (cds_Status d) \<noteq> None"
    by (rule client_fire_move)
  with assms(2,3) client_act_status [OF act(1)] show ?thesis
    by (cases e) (auto split: if_splits)
qed

definition quiet :: "(ClientEvent, client_arg, ClientDealState, 'w) live \<Rightarrow> bool" where
  "quiet = (\<lambda>(q, d, w). fst ` set q \<inter> late_events = {} \<and> cds_Status d \<noteq> DealStatusCheckComplete)"

lemma quiet_step:
  assumes "client_engine fire" "machine_step (client_events fire) (client_entry env) x y" "quiet x"
  shows "quiet y"
  using assms(2,3)
proof (induction rule: machine_step.induct)
  case (entered e args st st' w t w' q)
  have e: "e \<noteq> ClientEventComplete" "fst ` set q \<inter> late_events = {}" "cds_Status st \<noteq> DealStatusCheckComplete"
    using entered.prems by (auto simp: quiet_def late_events_def)
  have "cds_Status st' \<noteq> DealStatusCheckComplete"
    using check_complete_entered [OF assms(1) e(3,1)] entered.hyps(1) by blast
  moreover have "fst ` set (triggered t) \<inter> late_events = {}"
    using entered.hyps(2) calculation client_entry_late by (cases t) fastforce+
  ultimately show ?case using e(2) by (auto simp: quiet_def)
next
  case (recorded e args st st' q w)
  then show ?case
    using check_complete_entered [OF assms(1), of st e args st'] by (auto simp: quiet_def late_events_def)
qed (auto simp: quiet_def)

lemma quiet_run:
  assumes "client_engine fire" "(machine_step (client_events fire) (client_entry env))\<^sup>*\<^sup>* x y" "quiet x"
  shows "quiet y"
  using assms(2) quiet_step [OF assms(1)] assms(3) by (rule machine_invariant)

lemma quiet_settles:
  assumes "client_engine fire" "settles (client_events fire) (client_entry env) q (d, w) (d', w')" "quiet (q, d, w)"
  shows "cds_Status d' \<noteq> DealStatusCheckComplete"
  using quiet_run [OF assms(1) assms(2) [unfolded settles_def] assms(3)] by (simp add: quiet_def)

lemma quiet_accepts:
  assumes "client_engine fire"
  shows "accepts (client_events fire) (client_entry env) evs x e \<Longrightarrow> fst ` set evs \<inter> late_events = {} \<Longrightarrow>
     cds_Status (fst x) \<noteq> DealStatusCheckComplete \<Longrightarrow> e \<notin> late_events"
proof (induction rule: accepts.induct)
  case (now ev x e args q st w evs)
  with quiet_run [OF assms, of env "([ev], x)" "((e, args) # q, st, w)"] show ?case
    by (cases x) (auto simp: quiet_def)
next
  case (later ev x y evs e)
  with quiet_settles [OF assms, of env "[ev]" "fst x" "snd x" "fst y" "snd y"] show ?case
    by (cases x) (auto simp: quiet_def)
qed

text \<open>A deal that waits in Finalizing accepts the completion and nothing after it.\<close>

lemma finalizing_accepts:
  assumes "client_engine fire" "accepts (client_events fire) (client_entry env) [(ClientEventComplete, [])] (d, w) e"
    and "cds_Status d = DealStatusFinalizing"
  shows "e = ClientEventComplete"
  using assms(2)
proof cases
  case (now args q st w')
  from now(1) show ?thesis
  proof (cases rule: converse_rtranclpE)
    case (step y)
    from step(1) have "\<exists>st w. y = ([], st, w)"
      by (rule machine_stepE)
        (auto simp: client_events_eq [OF assms(1)] assms(3) run_simps)
    with step(2) show ?thesis by (auto elim: converse_rtranclpE machine_idleE)
  qed simp
qed (auto elim: accepts_NilE)

lemma honest_rounds_late:
  "\<exists>pre. honest_rounds price paid ts whole = pre @ [(ClientEventComplete, [])] \<and> fst ` set pre \<inter> late_events = {}"
proof (induction ts arbitrary: paid)
  case Nil
  show ?case
    by (rule exI [of _ "butlast (honest_rounds price paid [] whole)"]) (simp add: honest_end_def late_events_def)
next
  case (Cons t ts)
  then obtain pre where "honest_rounds price t ts whole = pre @ [(ClientEventComplete, [])]"
    "fst ` set pre \<inter> late_events = {}" by blast
  then show ?case
    by (intro exI [of _ "[(ClientEventBlocksReceived, [ArgUint64 t]),
        (ClientEventPaymentRequested, [ArgAmount (price * uint (t - paid))])] @ pre"])
      (simp add: late_events_def)
qed



section \<open>The provider\<close>

text \<open>What the provider's command does before it waits for the end.\<close>

definition provider_command ::
    "('api, 'w) ipfs_lib \<Rightarrow> 'api ipfsStore \<Rightarrow> ('k, 'w) Wallet \<Rightarrow> ('w, Cid \<times> int \<times> Address) may" where
  "provider_command lib s wal =
     bindM (logged CidUndef (may_io (AddWebFile lib s
         ''https://images.unsplash.com/photo-1601666703585-964591b026c5''))) (\<lambda>hcid.
     bindM (logged 0 (may_io (GetSize lib s hcid))) (\<lambda>size.
     bindM (logged AddressUndef (may_io (lw_GetDefault wal))) (\<lambda>addr.
     may_io (ret (hcid, size, addr)))))"

text \<open>Its subscriber redeems all vouchers when the provider learns that a deal is complete; an error is
  printed.\<close>

definition provider_on_event ::
    "'w paychManager \<Rightarrow> ProviderEvent \<Rightarrow> ('w, SignedVoucher list option) pm_io" where
  "provider_on_event pm event =
     (if event = ProviderEventComplete then tryE (RedeemAll pm) (\<lambda>_. ret (Some [])) ret else ret (Some []))"

section \<open>Making and funding a key\<close>

datatype SigType = SigTypeBLS | SigTypeSecp256k1

record FundingMessage =
  fm_From :: Address
  fm_To :: Address
  fm_Value :: TokenAmount
  fm_Nonce :: u64
  fm_Method :: u64
  fm_Gas :: "u64 \<times> TokenAmount \<times> TokenAmount" \<comment> \<open>limit, fee cap and premium\<close>

text \<open>The API of a Lotus node as the program uses it. A call returns a result and an error, and the
  estimate of the gas has no result where it fails.\<close>

record ('t, 'w) GroundNode =
  gn_GasEstimateMessageGas :: "FundingMessage \<Rightarrow> ('w, FundingMessage option \<times> gerr option) io"
  gn_MpoolGetNonce :: "Address \<Rightarrow> ('w, u64) io"
  gn_MpoolPush :: "FundingMessage \<times> 't \<Rightarrow> ('w, unit) io"

text \<open>The libraries: keys \<open>'k\<close>, open files \<open>'f\<close>, signatures \<open>'t\<close>. The connection to the node comes with
  what closes it, where it succeeds.\<close>

record ('k, 'f, 't, 'w) ground_lib =
  gl_NewWallet :: "('w, unit) io"
  gl_WalletNew :: "SigType \<Rightarrow> ('w, Address) io"
  gl_WalletExport :: "Address \<Rightarrow> ('w, 'k) io"
  gl_WalletImport :: "'k \<Rightarrow> ('w, Address \<times> gerr option) io"
  gl_WalletSign :: "Address \<Rightarrow> bytes \<Rightarrow> ('w, 't) io"
  gl_Create :: "string \<Rightarrow> ('w, 'f) io"
  gl_Write :: "'f \<Rightarrow> bytes \<Rightarrow> ('w, unit) io"
  gl_CloseFile :: "'f \<Rightarrow> ('w, unit) io"
  gl_marshal :: "'k \<Rightarrow> bytes go"
  gl_unmarshal :: "bytes \<Rightarrow> 'k go"
  gl_NewFullNodeRPC :: "('w, ('t, 'w) GroundNode \<times> ('w, unit) io option \<times> gerr option) io"
  gl_ParseFIL :: "string \<Rightarrow> TokenAmount \<times> gerr option"
  gl_StorageCid :: "FundingMessage \<Rightarrow> bytes go" \<comment> \<open>the bytes of the CID of its storage block\<close>

text \<open>The message is followed after its gas was estimated, whether or not there is one; the errors of
  the import, of the connection and of the amount are not looked at.\<close>

definition ground_send ::
    "('k, 'f, 't, 'w) ground_lib \<Rightarrow> ('t, 'w) GroundNode \<Rightarrow> Address \<Rightarrow> Address \<Rightarrow> ('w, unit) io" where
  "ground_send lib node addr kaddr =
     (let val = fst (gl_ParseFIL lib ''0.01'') in
     bindE (gn_GasEstimateMessageGas node
         \<lparr>fm_From = addr, fm_To = kaddr, fm_Value = val, fm_Nonce = 0, fm_Method = 0, fm_Gas = (0, 0, 0)\<rparr>)
       (\<lambda>(msg, _). case msg of
          None \<Rightarrow> panic
        | Some m \<Rightarrow>
            bindE (gn_MpoolGetNonce node (fm_From m)) (\<lambda>nonce.
            let m' = m\<lparr>fm_Nonce := nonce\<rparr> in
            bindE (lift_go (gl_StorageCid lib m')) (\<lambda>mbl.
            bindE (gl_WalletSign lib (fm_From m') mbl) (\<lambda>sig.
            wrapE ''MpoolPush failed with error'' (gn_MpoolPush node (m', sig)))))))"

text \<open>The deferred function closes the connection, whose closing function is nil where there is none,
  and then the file; the error of that is assigned to a variable that nobody reads.\<close>

definition ground_deferred ::
    "('k, 'f, 't, 'w) ground_lib \<Rightarrow> ('w, unit) io option \<Rightarrow> 'f \<Rightarrow> ('w, unit) io" where
  "ground_deferred lib closer fi = (case closer of
       None \<Rightarrow> panic
     | Some c \<Rightarrow> bindE c (\<lambda>_. tryE (gl_CloseFile lib fi) (\<lambda>_. ret ()) ret))"

definition ground_keytype :: "string \<Rightarrow> SigType go" where
  "ground_keytype t = (if t = ''bls'' then Ok SigTypeBLS
     else if t = ''secp256k1'' then Ok SigTypeSecp256k1
     else Err (GErr (''unrecognized key type: \"'' @ t @ ''\"'')))"

definition ground_action ::
    "'w System \<Rightarrow> ('k, 'f, 't, 'w) ground_lib \<Rightarrow> string \<Rightarrow> ('w, unit) io" where
  "ground_action sys lib keytype =
     bindE (gl_NewWallet lib) (\<lambda>_.
     bindE (lift_go (ground_keytype keytype)) (\<lambda>kt.
     bindE (gl_WalletNew lib kt) (\<lambda>kaddr.
     bindE (gl_WalletExport lib kaddr) (\<lambda>ki.
     bindE (gl_Create lib ''burgers.key'') (\<lambda>fi.
     bindE (lift_go (gl_marshal lib ki)) (\<lambda>b.
     bindE (wrapE ''failed to write key info to file'' (gl_Write lib fi b)) (\<lambda>_.
     bindE (wrapE ''Unable to get current directory'' (os_Getwd sys)) (\<lambda>wd.
     bindE (wrapE ''Unable to import private key file'' (os_ReadFile sys (path_Join sys wd ''client.private'')))
       (\<lambda>fdata.
     bindE (wrapE ''Unable to decode hex string'' (lift_go (hex_DecodeString (TrimSpace fdata)))) (\<lambda>data.
     bindE (wrapE ''Unable to unmarshal keyinfo'' (lift_go (gl_unmarshal lib data))) (\<lambda>iki.
     bindE (gl_WalletImport lib iki) (\<lambda>(addr, _).
     bindE (gl_NewFullNodeRPC lib) (\<lambda>(node, closer, _).
     deferred (ground_deferred lib closer fi) (ground_send lib node addr kaddr))))))))))))))"

lemma wrapE_run [simp]:
  "m w = (Ok x, w') \<Longrightarrow> wrapE p m w = (Ok x, w')"
  "m w = (Err e, w') \<Longrightarrow> wrapE p m w = (Err (Errorf p e), w')"
  by (simp_all add: wrapE_def ret_def fail_def)

text \<open>A failed estimate is not reported: the program panics, although it looks at the error of the
  next call. It has made the key by then.\<close>

lemma failed_estimate_panics:
  assumes "\<And>m w. \<exists>e w'. gn_GasEstimateMessageGas node m w = (Ok (None, e), w')"
  shows "fst (ground_send lib node addr kaddr w) = Panic"
proof -
  let ?m = "\<lparr>fm_From = addr, fm_To = kaddr, fm_Value = fst (gl_ParseFIL lib ''0.01''), fm_Nonce = 0,
    fm_Method = 0, fm_Gas = (0, 0, 0)\<rparr>"
  obtain e w' where "gn_GasEstimateMessageGas node ?m w = (Ok (None, e), w')" using assms by blast
  then show ?thesis by (simp add: ground_send_def panic_def)
qed

end
