(* ===== verification/Node.thy ===== *)
theory Node
  imports Manager ClientHandlers Validators
begin

text \<open>
  The \<open>retrievalNode\<close> of \<open>node.go\<close>: the node of a deal, over the payment channel manager and the
  node's API, with its test mode. It is the \<open>RetrievalNode\<close> that the deals of both parties call.
\<close>

datatype TestMode = TestModeOff | TestModeOn

text \<open>What it uses of the node's API and of the libraries.\<close>

record 'w lotusApi =
  la_ChainHead :: "('w, bytes \<times> int) io"
  la_StateMinerInfo :: "Address \<Rightarrow> bytes \<Rightarrow> ('w, bytes list) io" \<comment> \<open>the miner's multiaddresses\<close>
  la_TipSetKeyFromBytes :: "TipSetToken \<Rightarrow> bytes go"
  la_TokenOfKey :: "bytes \<Rightarrow> TipSetToken"
  la_NewMultiaddrBytes :: "bytes \<Rightarrow> string go"
  la_NewActorAddress :: "string \<Rightarrow> Address"
  la_GenerateCid :: "('w, Cid) io"
  la_MakeTestSignedVoucher :: "('w, SignedVoucher) io"

record 'w retrievalNode =
  rtn_tmode :: TestMode
  rtn_api :: "'w lotusApi"
  rtn_pm :: "'w paychManager"

type_synonym 'w scheduler = "string \<Rightarrow> ('w, unit) pm_io"

definition node_GetChainHead :: "'w retrievalNode \<Rightarrow> ('w, TipSetToken \<times> int) pm_io" where
  "node_GetChainHead rn =
     (if rtn_tmode rn = TestModeOn then ret ([], 0)
      else bindE (on_node (la_ChainHead (rtn_api rn))) (\<lambda>(key, height). ret (la_TokenOfKey (rtn_api rn) key, height)))"

definition node_GetOrCreatePaymentChannel ::
    "'w retrievalNode \<Rightarrow> 'w scheduler \<Rightarrow> Address \<Rightarrow> Address \<Rightarrow> TokenAmount \<Rightarrow> TipSetToken \<Rightarrow> ('w, Address \<times> Cid) pm_io" where
  "node_GetOrCreatePaymentChannel rn sched client miner funds tok =
     (if rtn_tmode rn = TestModeOn
      then bindE (on_node (la_GenerateCid (rtn_api rn))) (\<lambda>c. ret (la_NewActorAddress (rtn_api rn) ''testing'', c))
      else PaychGet (rtn_pm rn) sched client miner funds)"

definition node_AllocateLane :: "'w retrievalNode \<Rightarrow> Address \<Rightarrow> ('w, u64) pm_io" where
  "node_AllocateLane rn ch = (if rtn_tmode rn = TestModeOn then ret 10 else PaychAllocateLane (rtn_pm rn) ch)"

definition node_CreatePaymentVoucher ::
    "'w retrievalNode \<Rightarrow> Address \<Rightarrow> TokenAmount \<Rightarrow> u64 \<Rightarrow> TipSetToken \<Rightarrow> ('w, SignedVoucher) pm_io" where
  "node_CreatePaymentVoucher rn ch amount lane tok =
     (if rtn_tmode rn = TestModeOn then on_node (la_MakeTestSignedVoucher (rtn_api rn))
      else bindE (PaychVoucherCreate (rtn_pm rn) ch amount lane) (\<lambda>res.
        case vcr_Voucher res of
          None \<Rightarrow> fail (ShortfallError (vcr_Shortfall res))
        | Some sv \<Rightarrow> ret sv))"

definition node_WaitForPaymentChannelReady ::
    "'w retrievalNode \<Rightarrow> 'w scheduler \<Rightarrow> Cid \<Rightarrow> ('w, Address) pm_io" where
  "node_WaitForPaymentChannelReady rn sched mcid =
     (if rtn_tmode rn = TestModeOn then ret (la_NewActorAddress (rtn_api rn) ''testing'')
      else PaychGetWaitReady (rtn_pm rn) sched mcid)"

definition node_CheckAvailableFunds ::
    "'w retrievalNode \<Rightarrow> nat set \<Rightarrow> nat set \<Rightarrow> Address \<Rightarrow> ('w, ChannelAvailableFunds) pm_io" where
  "node_CheckAvailableFunds rn c1 c2 ch =
     (if rtn_tmode rn = TestModeOn
      then ret \<lparr>ConfirmedAmt = 10000, PendingAmt = 0, PendingWaitSentinel = None, QueuedAmt = 0, VoucherReedeemedAmt = 0\<rparr>
      else bindE (PaychAvailableFunds (rtn_pm rn) c1 c2 ch) (\<lambda>funds.
        case funds of
          None \<Rightarrow> panic
        | Some a \<Rightarrow> ret \<lparr>ConfirmedAmt = af_ConfirmedAmt a, PendingAmt = af_PendingAmt a,
            PendingWaitSentinel = af_PendingWaitSentinel a, QueuedAmt = af_QueuedAmt a,
            VoucherReedeemedAmt = af_VoucherReedeemedAmt a\<rparr>))"

fun parse_multiaddrs :: "(bytes \<Rightarrow> string go) \<Rightarrow> bytes list \<Rightarrow> string list \<Rightarrow> string list go" where
  "parse_multiaddrs new [] multiaddrs = Ok multiaddrs"
| "parse_multiaddrs new (a # as) multiaddrs = bind_go (new a) (\<lambda>m. parse_multiaddrs new as (multiaddrs @ [m]))"

definition node_GetKnownAddresses :: "'w retrievalNode \<Rightarrow> RetrievalPeer \<Rightarrow> TipSetToken \<Rightarrow> ('w, string list) pm_io" where
  "node_GetKnownAddresses rn p tok =
     (if rtn_tmode rn = TestModeOn then ret []
      else bindE (lift_go (la_TipSetKeyFromBytes (rtn_api rn) tok)) (\<lambda>tsk.
        bindE (on_node (la_StateMinerInfo (rtn_api rn) (rp_Address p) tsk)) (\<lambda>mi.
          lift_go (parse_multiaddrs (la_NewMultiaddrBytes (rtn_api rn)) mi []))))"

definition node_SavePaymentVoucher ::
    "'w retrievalNode \<Rightarrow> Address \<Rightarrow> SignedVoucher option \<Rightarrow> bytes \<Rightarrow> TokenAmount \<Rightarrow> TipSetToken \<Rightarrow> ('w, TokenAmount) pm_io" where
  "node_SavePaymentVoucher rn ch voucher proof expectedAmount tok =
     (if rtn_tmode rn = TestModeOn then ret expectedAmount
      else AddVoucherInbound (rtn_pm rn) ch voucher proof expectedAmount)"

text \<open>The interface that the deals call. What runs while a call waits, and the requests cancelled
  while funds are looked at, are arguments.\<close>

definition NewRetrievalNode ::
    "'w retrievalNode \<Rightarrow> 'w scheduler \<Rightarrow> nat set \<Rightarrow> nat set \<Rightarrow> (managerState \<times> 'w) RetrievalNode" where
  "NewRetrievalNode rn sched c1 c2 =
     \<lparr>rn_GetChainHead = node_GetChainHead rn,
      rn_GetOrCreatePaymentChannel = node_GetOrCreatePaymentChannel rn sched,
      rn_CheckAvailableFunds = node_CheckAvailableFunds rn c1 c2,
      rn_AllocateLane = node_AllocateLane rn,
      rn_CreatePaymentVoucher = node_CreatePaymentVoucher rn,
      rn_WaitForPaymentChannelReady = node_WaitForPaymentChannelReady rn sched,
      rn_GetKnownAddresses = node_GetKnownAddresses rn,
      rn_SavePaymentVoucher = node_SavePaymentVoucher rn\<rparr>"

end
