(* ===== verification/Assembly.thy ===== *)
theory Assembly
  imports Node Server
begin

text \<open>
  How a node is put together: \<open>spawn.go\<close>, \<open>datatransfer.go\<close> and the constructors of the payment channel
  manager. The connection to Lotus, the node of IPFS, the wallet, the groups of state machines, the
  multistore, the counters and the data transfer manager are made by libraries, which are parameters.
  A network, a client and a provider each act on the world next to what they keep themselves, so what
  the host does is lifted to worlds with more in them.
\<close>

section \<open>Lifting to larger worlds\<close>

definition lift_stream :: "'w MuxedStream \<Rightarrow> ('s \<times> 'w) MuxedStream" where
  "lift_stream s = \<lparr>mx_unread = (\<lambda>(_, w). mx_unread s w), mx_set_unread = (\<lambda>b. map_prod id (mx_set_unread s b)),
     mx_Write = (\<lambda>b. on_node (mx_Write s b)), mx_Close = on_node (mx_Close s), mx_Reset = on_node (mx_Reset s),
     mx_RemotePeer = mx_RemotePeer s\<rparr>"

definition lift_host :: "'w Host \<Rightarrow> ('s \<times> 'w) Host" where
  "lift_host h = \<lparr>h_NewStream = (\<lambda>p protocols. bindE (on_node (h_NewStream h p protocols)) (\<lambda>s. ret (lift_stream s))),
     h_SetStreamHandler = (\<lambda>p. map_prod id (h_SetStreamHandler h p)),
     h_RemoveStreamHandler = (\<lambda>p. map_prod id (h_RemoveStreamHandler h p)),
     h_AddAddrs = (\<lambda>p addrs ttl. map_prod id (h_AddAddrs h p addrs ttl)), h_ID = h_ID h,
     h_Backoff = (\<lambda>mn mx f n (s, w). case h_Backoff h mn mx f n w of (d, w') \<Rightarrow> (d, (s, w'))),
     h_Sleep = (\<lambda>d. map_prod id (h_Sleep h d))\<rparr>"

definition lift_network :: "'w libp2pRetrievalMarketNetwork \<Rightarrow> ('s \<times> 'w) libp2pRetrievalMarketNetwork" where
  "lift_network n = \<lparr>nw_host = lift_host (nw_host n), nw_cbg = nw_cbg n,
     nw_maxStreamOpenAttempts = nw_maxStreamOpenAttempts n, nw_minAttemptDuration = nw_minAttemptDuration n,
     nw_maxAttemptDuration = nw_maxAttemptDuration n, nw_supportedProtocols = nw_supportedProtocols n\<rparr>"

section \<open>Data transfer\<close>

text \<open>The manager of data transfers. Types are known by name; the validator and the revalidator that
  are registered with them are those of \<open>Validators\<close>.\<close>

record 'w transfer =
  dt_Start :: "('w, unit) io"
  dt_RegisterVoucherType :: "string \<Rightarrow> ('w, unit) io"
  dt_RegisterRevalidator :: "string \<Rightarrow> ('w, unit) io"
  dt_RegisterVoucherResultType :: "string \<Rightarrow> ('w, unit) io"
  dt_SubscribeToEvents :: "string \<Rightarrow> ('w, unit) io"
  dt_OpenPull :: "PeerID \<Rightarrow> Voucher \<Rightarrow> Cid \<Rightarrow> ('w, ChannelID) io"
  dt_SendVoucher :: "ChannelID \<Rightarrow> Voucher \<Rightarrow> ('w, unit) io"
  dt_Close :: "ChannelID \<Rightarrow> ('w, unit) io"

text \<open>Networks, loaders, exchanges and transports are handles.\<close>

record 'w transfer_libs =
  tl_gsNet :: "'w Host \<Rightarrow> string"
  tl_dtNet :: "'w Host \<Rightarrow> string"
  tl_LoaderForBlockstore :: "string \<Rightarrow> string"
  tl_StorerForBlockstore :: "string \<Rightarrow> string"
  tl_graphsync :: "string \<Rightarrow> string \<Rightarrow> string \<Rightarrow> string"
  tl_NewTransport :: "PeerID \<Rightarrow> string \<Rightarrow> string"
  tl_StoredCounter :: "'w Datastore \<Rightarrow> ds_key \<Rightarrow> ('w, u64) io" \<comment> \<open>its \<open>Next\<close>\<close>
  tl_NewDataTransfer :: "'w Datastore \<Rightarrow> string \<Rightarrow> string \<Rightarrow> ('w, u64) io \<Rightarrow> ('w, 'w transfer) io"

definition NewDataTransfer :: "'w transfer_libs \<Rightarrow> 'w Host \<Rightarrow> string \<Rightarrow> 'w Datastore \<Rightarrow> ('w, 'w transfer) io" where
  "NewDataTransfer lib host blockstore ds =
     (let gsNet = tl_gsNet lib host;
          dtNet = tl_dtNet lib host;
          loader = tl_LoaderForBlockstore lib blockstore;
          storer = tl_StorerForBlockstore lib blockstore;
          exchange = tl_graphsync lib gsNet loader storer;
          tp = tl_NewTransport lib (h_ID host) exchange;
          storedCounter = tl_StoredCounter lib ds (KeyWithNamespaces [''retrieval'', ''counter''])
      in tl_NewDataTransfer lib ds dtNet tp storedCounter)"

section \<open>The node\<close>

datatype NodeType = NodeTypeClient | NodeTypeProvider | NodeTypeFull

record 'w multistore =
  ms_Get :: "StoreID \<Rightarrow> ('w, Store) io"
  ms_Next :: "('w, StoreID) io"

text \<open>A group of state machines over a datastore, made by \<open>fsm.New\<close>; its machines act on the world
  of the deals.\<close>

record 'w clientGroup =
  cg_New :: "('w, unit) io"
  cg_Begin :: "DealID \<Rightarrow> ClientDealState \<Rightarrow> ('w, unit) io"
  cg_Send :: "DealID \<Rightarrow> ClientEvent \<Rightarrow> ('w, unit) io"
  cg_Get :: "DealID \<Rightarrow> ('w, ClientDealState) io"
  cg_List :: "('w, ClientDealState list) io"

record 'w providerGroup =
  pg_New :: "('w, unit) io"
  pg_List :: "('w, ProviderDealState list) io"

record ('api, 'k, 'w) spawn_libs =
  sl_NewFullNodeRPC :: "string \<Rightarrow> ('w, 'w lotusApi) io"
  sl_ipfs :: "('api, 'w) ipfs_lib"
  sl_setup :: "('api, 'w) ipfs_setup"
  sl_PeerHost :: "string \<Rightarrow> 'w Host" \<comment> \<open>what the node of IPFS has\<close>
  sl_Datastore :: "string \<Rightarrow> 'w Datastore"
  sl_Blockstore :: "string \<Rightarrow> string"
  sl_NewWallet :: "('w, ('k, 'w) Wallet) io"
  sl_FullNode :: "'w lotusApi \<Rightarrow> ('k, 'w) Wallet \<Rightarrow> string \<Rightarrow> 'w FullNode" \<comment> \<open>as the manager uses it\<close>
  sl_newUUID :: "('w, string) io"
  sl_emptyAddr :: Address
  sl_cbg :: cbg
  sl_HashKey :: "Cid \<Rightarrow> string"
  sl_Wrap :: "'w Datastore \<Rightarrow> string list \<Rightarrow> 'w Datastore" \<comment> \<open>\<open>namespace.Wrap\<close>\<close>
  sl_NewMultiDstore :: "'w Datastore \<Rightarrow> ('w, 'w multistore) io"
  sl_transfer :: "'w transfer_libs"
  sl_clientGroup :: "'w Datastore \<Rightarrow> (managerState \<times> 'w) clientGroup"
  sl_providerGroup :: "'w Datastore \<Rightarrow> 'w providerGroup"
  sl_system :: "'w System"
  sl_unmarshal :: "bytes \<Rightarrow> 'k go" \<comment> \<open>of the \<open>KeyInfo\<close>\<close>

record ('api, 'k, 'w) MyelNode =
  mn_Store :: "'api ipfsStore"
  mn_Client :: "(managerState \<times> 'w) Client option"
  mn_Provider :: "((Ask option \<times> 'w) Provider \<times> (Ask option \<times> 'w) receiver option \<times> Ask option) option"
    \<comment> \<open>with the receiver of its network and its cached ask\<close>
  mn_Wallet :: "('k, 'w) Wallet"
  mn_PaychMgr :: "'w paychManager"
  mn_Lotus :: "'w lotusApi"

definition NewChannelStore :: "('api, 'k, 'w) spawn_libs \<Rightarrow> 'w Datastore \<Rightarrow> 'w channelStore" where
  "NewChannelStore sl ds =
     \<lparr>cs_ds = sl_Wrap sl ds [''paych''], cs_newUUID = sl_newUUID sl, cs_cbg = sl_cbg sl, cs_emptyAddr = sl_emptyAddr sl\<rparr>"

text \<open>The manager itself; its state starts as \<open>NewPaychManager\<close>.\<close>

definition paych_manager ::
    "('api, 'k, 'w) spawn_libs \<Rightarrow> 'w lotusApi \<Rightarrow> ('k, 'w) Wallet \<Rightarrow> string \<Rightarrow> 'w Datastore \<Rightarrow> 'w paychManager" where
  "paych_manager sl lapi w inode ds = \<lparr>pm_api = sl_FullNode sl lapi w inode, pm_store = NewChannelStore sl ds\<rparr>"

text \<open>The types that the client and the provider register with the data transfer.\<close>

definition client_registrations :: "(managerState \<times> 'w) clientGroup \<Rightarrow> 'w transfer \<Rightarrow> (managerState \<times> 'w) Registrations" where
  "client_registrations sm dt =
     \<lparr>rg_fsmNew = cg_New sm,
      rg_ProposalType = on_node (dt_RegisterVoucherType dt ''DealProposal''),
      rg_PaymentType = on_node (dt_RegisterVoucherType dt ''DealPayment''),
      rg_ResultType = on_node (dt_RegisterVoucherResultType dt ''DealResponse''),
      rg_Subscribe = on_node (dt_SubscribeToEvents dt ''client'')\<rparr>"

definition provider_registrations :: "'w providerGroup \<Rightarrow> 'w transfer \<Rightarrow> 'w Registrations" where
  "provider_registrations sm dt =
     \<lparr>rg_fsmNew = pg_New sm,
      rg_ProposalType = dt_RegisterVoucherType dt ''DealProposal'',
      rg_PaymentType = dt_RegisterRevalidator dt ''DealPayment'',
      rg_ResultType = dt_RegisterVoucherResultType dt ''DealResponse'',
      rg_Subscribe = dt_SubscribeToEvents dt ''provider''\<rparr>"

text \<open>What a client is made of.\<close>

definition client_parts ::
    "'w libp2pRetrievalMarketNetwork \<Rightarrow> (managerState \<times> 'w) RetrievalNode \<Rightarrow> 'w Local \<Rightarrow> ('w, u64) io \<Rightarrow>
     'w multistore \<Rightarrow> (managerState \<times> 'w) clientGroup \<Rightarrow> 'w transfer \<Rightarrow> (managerState \<times> 'w) Client" where
  "client_parts network node resolver dealCounter multiDs sm dt =
     \<lparr>cl_network = lift_network network, cl_node = node, cl_resolver = (\<lambda>c. on_node (GetPeers resolver c)),
      cl_counter_Next = on_node dealCounter,
      cl_ms_Get = (\<lambda>i. on_node (ms_Get multiDs i)), cl_ms_Next = on_node (ms_Next multiDs),
      cl_sm_Begin = cg_Begin sm, cl_sm_Send = cg_Send sm, cl_sm_Get = cg_Get sm, cl_sm_List = cg_List sm,
      cl_dt_OpenPull = (\<lambda>p v c. on_node (dt_OpenPull dt p v c)),
      cl_dt_SendVoucher = (\<lambda>ch v. on_node (dt_SendVoucher dt ch v)),
      cl_dt_Close = (\<lambda>ch. on_node (dt_Close dt ch))\<rparr>"

definition Client_Start :: "(managerState \<times> 'w) Client \<Rightarrow> ('w, unit) pm_io" where
  "Client_Start c = ret ()"

definition spawn_client ::
    "('api, 'k, 'w) spawn_libs \<Rightarrow> string \<Rightarrow> 'w Datastore \<Rightarrow> 'w libp2pRetrievalMarketNetwork \<Rightarrow>
     (managerState \<times> 'w) RetrievalNode \<Rightarrow> ('k, 'w) Wallet \<Rightarrow> ('w, (managerState \<times> 'w) Client) pm_io" where
  "spawn_client sl inode ds net radapter wl =
     (let nds = sl_Wrap sl ds [''retrieval'', ''client''] in
      bindE (on_node (wrapE ''Unable to create multistore'' (sl_NewMultiDstore sl ds))) (\<lambda>multiDs.
      bindE (on_node (wrapE ''Unable to create graphsync data transfer''
               (NewDataTransfer (sl_transfer sl) (sl_PeerHost sl inode) (sl_Blockstore sl inode) nds))) (\<lambda>dataTransfer.
      bindE (on_node (wrapE ''Unable to start data transfer'' (dt_Start dataTransfer))) (\<lambda>_.
      bindE (on_node (WalletImport (sl_system sl) (sl_unmarshal sl) wl ''client.private'')) (\<lambda>_.
      let dealCounter = tl_StoredCounter (sl_transfer sl) ds (KeyWithNamespaces [''retrieval'', ''client'', ''dealcounter'']);
          resolver = NewLocalPeerResolver (sl_cbg sl) (sl_HashKey sl) ds;
          stateMachines = sl_clientGroup sl (sl_Wrap sl nds [''client-1''])
      in
      bindE (wrapE ''Unable to create new retrieval client''
               (NewClient (client_registrations stateMachines dataTransfer)
                  (client_parts net radapter resolver dealCounter multiDs stateMachines dataTransfer))) (\<lambda>client.
      bindE (Client_Start client) (\<lambda>_. ret client)))))))"

text \<open>The provider's network keeps its receiver and the provider its ask, which starts as \<open>NewProvider\<close>
  leaves it.\<close>

definition start_provider ::
    "'w libp2pRetrievalMarketNetwork \<Rightarrow> (Ask option \<times> 'w) Provider \<times> Ask option \<Rightarrow>
     ('w, (Ask option \<times> 'w) Provider \<times> (Ask option \<times> 'w) receiver option \<times> Ask option) io" where
  "start_provider net p = (\<lambda>w.
     case Start (lift_network net) (fst p) (None, (snd p, w)) of
       (Ok _, (receiver, (ask, w'))) \<Rightarrow> (Ok (fst p, receiver, ask), w')
     | (Err e, (_, (_, w'))) \<Rightarrow> (Err e, w')
     | (Panic, (_, (_, w'))) \<Rightarrow> (Panic, w'))"

definition spawn_provider ::
    "('api, 'k, 'w) spawn_libs \<Rightarrow> 'api ipfsStore \<Rightarrow> 'w Datastore \<Rightarrow> 'w libp2pRetrievalMarketNetwork \<Rightarrow> ('k, 'w) Wallet \<Rightarrow>
     ('w, (Ask option \<times> 'w) Provider \<times> (Ask option \<times> 'w) receiver option \<times> Ask option) io" where
  "spawn_provider sl ipfs ds net wl =
     (let pds = sl_Wrap sl ds [''retrieval'', ''provider'']; inode = is_node ipfs in
      bindE (wrapE ''Unable to create multistore'' (sl_NewMultiDstore sl pds)) (\<lambda>_.
      bindE (wrapE ''Unable to create graphsync data transfer''
               (NewDataTransfer (sl_transfer sl) (sl_PeerHost sl inode) (sl_Blockstore sl inode) pds)) (\<lambda>dataTransfer.
      bindE (wrapE ''Unable to start data transfer'' (dt_Start dataTransfer)) (\<lambda>_.
      bindE (WalletImport (sl_system sl) (sl_unmarshal sl) wl ''provider.private'') (\<lambda>providerAddress.
      let stateMachines = sl_providerGroup sl (sl_Wrap sl pds [''provider-1'']) in
      bindE (wrapE ''Unable to create new retrieval provider''
               (NewProvider (sl_cbg sl) pds (provider_registrations stateMachines dataTransfer) providerAddress
                  (GetSize (sl_ipfs sl) ipfs) (pg_List stateMachines))) (\<lambda>provider.
      wrapE ''Unable to start provider'' (start_provider net provider)))))))"

definition SpawnNode ::
    "('api, 'k, 'w) spawn_libs \<Rightarrow> 'w scheduler \<Rightarrow> nat set \<Rightarrow> nat set \<Rightarrow> NodeType \<Rightarrow> ('w, ('api, 'k, 'w) MyelNode) pm_io" where
  "SpawnNode sl sched c1 c2 nt =
     bindE (on_node (wrapE ''Unable to start lotus rpc''
              (sl_NewFullNodeRPC sl ''ws://35.184.58.104:8080/rpc/v0''))) (\<lambda>lapi.
     bindE (on_node (wrapE ''Unable to start ipfs node'' (NewIpfsStore (sl_ipfs sl) (sl_setup sl)))) (\<lambda>ipfs.
     let net = NewFromLibp2pHost (sl_cbg sl) (sl_PeerHost sl (is_node ipfs)) [];
         ds = sl_Datastore sl (is_node ipfs)
     in
     bindE (on_node (wrapE ''Unable to create new wallet'' (sl_NewWallet sl))) (\<lambda>wl.
     bindE (upd_funds (\<lambda>_. NewPaychManager)) (\<lambda>_.
     let paychMgr = paych_manager sl lapi wl (is_node ipfs) ds;
         radapter = NewRetrievalNode \<lparr>rtn_tmode = TestModeOff, rtn_api = lapi, rtn_pm = paychMgr\<rparr> sched c1 c2
     in
     bindE (if nt = NodeTypeClient \<or> nt = NodeTypeFull
            then bindE (spawn_client sl (is_node ipfs) ds net radapter wl) (\<lambda>c. ret (Some c)) else ret None) (\<lambda>client.
     bindE (if nt = NodeTypeProvider \<or> nt = NodeTypeFull
            then bindE (on_node (spawn_provider sl ipfs ds net wl)) (\<lambda>p. ret (Some p)) else ret None) (\<lambda>provider.
     ret \<lparr>mn_Store = ipfs, mn_Client = client, mn_Provider = provider, mn_Wallet = wl, mn_PaychMgr = paychMgr,
          mn_Lotus = lapi\<rparr>))))))"

text \<open>Closing gives up the connection and the node of IPFS, whose error is dropped.\<close>

definition Close ::
    "('w, unit) io \<Rightarrow> (string \<Rightarrow> ('w, unit) io) \<Rightarrow> ('api, 'k, 'w) MyelNode \<Rightarrow> ('w, unit) io" where
  "Close lcloser closeNode mn = bindE lcloser (\<lambda>_. tryE (closeNode (is_node (mn_Store mn))) (\<lambda>_. ret ()) ret)"

end
