(* ===== verification/ChannelStoreLaws.thy ===== *)
theory ChannelStoreLaws
  imports ChannelStore CborRef
begin

text \<open>
  What the channel store promises, over any datastore, encoding library and source of
  identifiers that meet their contracts: it is a finite map from identifiers to channels.
  The locale \<open>channel_store\<close> states the contract and proves each operation against that map;
  it is interpreted on the in-memory datastore with the reference encoding.
\<close>

section \<open>The map that a store holds\<close>

definition chan_at :: "'w channelStore \<Rightarrow> (ds_key \<Rightarrow> bytes option) \<Rightarrow> string \<Rightarrow> ChannelInfo option" where
  "chan_at s c i =
     (case c (dskeyForChannel i) of
        None \<Rightarrow> None
      | Some b \<Rightarrow> (case unmarshallChannelInfo s b of Ok ci \<Rightarrow> Some ci | _ \<Rightarrow> None))"

definition msg_at :: "'w channelStore \<Rightarrow> (ds_key \<Rightarrow> bytes option) \<Rightarrow> Cid \<Rightarrow> MsgInfo option" where
  "msg_at s c m =
     (case c (dskeyForMsg m) of
        None \<Rightarrow> None
      | Some b \<Rightarrow> (case load (Unmarshal_MsgInfo (cs_cbg s)) b of Ok mi \<Rightarrow> Some mi | _ \<Rightarrow> None))"

text \<open>The record as it is written: an address of nil is replaced.\<close>

definition filled :: "'w channelStore \<Rightarrow> ChannelInfo \<Rightarrow> ChannelInfo" where
  "filled s ci = (if ci_Channel ci = None then ci\<lparr>ci_Channel := Some (cs_emptyAddr s)\<rparr> else ci)"

definition storable :: "'w channelStore \<Rightarrow> ChannelInfo \<Rightarrow> bool" where
  "storable s ci \<longleftrightarrow>
     fits_ChannelInfo (cs_cbg s) (filled s ci) \<and> ci_Channel ci \<noteq> Some (cs_emptyAddr s)"

definition store_ok :: "'w channelStore \<Rightarrow> (ds_key \<Rightarrow> bytes option) \<Rightarrow> bool" where
  "store_ok s c \<longleftrightarrow> (\<forall>k b. has_prefix ''ChannelInfo'' k \<longrightarrow> c k = Some b \<longrightarrow>
     (\<exists>ci. k = dskeyForChannel (ci_ChannelID ci) \<and> ci_ChannelID ci \<noteq> '''' \<and>
        unmarshallChannelInfo s b = Ok ci \<and> storable s ci))"

lemma filled_ID [simp]: "ci_ChannelID (filled s ci) = ci_ChannelID ci"
  by (simp add: filled_def)

lemma keys_apart [simp]:
  "dskeyForChannel i = dskeyForChannel j \<longleftrightarrow> i = j"
  "dskeyForMsg m = dskeyForMsg n \<longleftrightarrow> m = n"
  "dskeyForMsg m \<noteq> dskeyForChannel i" "dskeyForChannel i \<noteq> dskeyForMsg m"
  "has_prefix ''ChannelInfo'' (dskeyForChannel i)" "\<not> has_prefix ''ChannelInfo'' (dskeyForMsg m)"
  by (auto simp: dskeyForChannel_def dskeyForMsg_def)

lemma storable_ID: "storable s ci \<Longrightarrow> length i \<le> 8192 \<Longrightarrow> storable s (ci\<lparr>ci_ChannelID := i\<rparr>)"
  by (auto simp: storable_def filled_def fits_ChannelInfo_def)

lemma store_okD:
  assumes "store_ok s c" "c (dskeyForChannel i) = Some b"
  shows "\<exists>ci. unmarshallChannelInfo s b = Ok ci \<and> ci_ChannelID ci = i \<and> i \<noteq> '''' \<and> storable s ci"
  using assms(1) [unfolded store_ok_def, rule_format, of "dskeyForChannel i" b] assms(2) by auto

lemma store_ok_chan:
  "store_ok s c \<Longrightarrow> chan_at s c i = Some ci \<Longrightarrow> ci_ChannelID ci = i \<and> i \<noteq> '''' \<and> storable s ci"
  using store_okD [of s c i] by (auto simp: chan_at_def split: option.splits)

lemma store_ok_get:
  assumes "store_ok s c" "c (dskeyForChannel i) = Some b"
  shows "\<exists>ci. unmarshallChannelInfo s b = Ok ci \<and> chan_at s c i = Some ci"
  using store_okD [OF assms] assms(2) by (auto simp: chan_at_def)

lemma chan_at_None: "store_ok s c \<Longrightarrow> chan_at s c i = None \<longleftrightarrow> c (dskeyForChannel i) = None"
  using store_ok_get [of s c i] by (auto simp: chan_at_def split: option.splits)

lemma prefix_not_msg: "has_prefix ''ChannelInfo'' k \<Longrightarrow> k \<noteq> dskeyForMsg m"
  by auto

lemma store_ok_msg [simp]: "store_ok s (c(dskeyForMsg m := v)) \<longleftrightarrow> store_ok s c"
  using prefix_not_msg by (auto simp: store_ok_def)

lemma chan_at_msg [simp]: "chan_at s (c(dskeyForMsg m := v)) i = chan_at s c i"
  by (simp add: chan_at_def)

lemma msg_at_chan [simp]: "msg_at s (c(dskeyForChannel i := v)) m = msg_at s c m"
  by (simp add: msg_at_def)

section \<open>The loop over the channels\<close>

lemma scan_chans_all:
  assumes "\<And>b. b \<in> set bs \<Longrightarrow> unmarshallChannelInfo s b = Ok (g b)"
  shows "scan_chans s f 0 (map Ok bs) ms = Ok (ms @ filter f (map g bs))"
  using assms by (induction bs arbitrary: ms) auto

lemma scan_chans_first:
  assumes "\<And>b. b \<in> set bs \<Longrightarrow> unmarshallChannelInfo s b = Ok (g b)"
  shows "scan_chans s f (Suc 0) (map Ok bs) [] = Ok (take 1 (filter f (map g bs)))"
  using assms by (induction bs) auto

section \<open>The contract\<close>

locale channel_store = datastore "cs_ds s" contents rest + cbg_lib "cs_cbg s"
  for s :: "'w channelStore" and contents :: "'w \<Rightarrow> ds_key \<Rightarrow> bytes option" and rest :: "'w \<Rightarrow> 'r" +
  fixes room :: "'w \<Rightarrow> bool" \<comment> \<open>the source of identifiers has one that is not in use\<close>
  assumes newUUID: "room w \<Longrightarrow> \<exists>i w'. cs_newUUID s w = (Ok i, w') \<and> i \<noteq> '''' \<and> length i \<le> 8192 \<and>
      contents w' = contents w \<and> rest w' = rest w \<and> contents w (dskeyForChannel i) = None"
    and emptyAddr: "codec_ok (cg_WriteAddress (cs_cbg s)) (cg_ReadAddress (cs_cbg s)) (cs_emptyAddr s)"
begin

abbreviation ok :: "'w \<Rightarrow> bool" where
  "ok w \<equiv> store_ok s (contents w)"

abbreviation chan :: "'w \<Rightarrow> string \<Rightarrow> ChannelInfo option" where
  "chan w \<equiv> chan_at s (contents w)"

abbreviation msg :: "'w \<Rightarrow> Cid \<Rightarrow> MsgInfo option" where
  "msg w \<equiv> msg_at s (contents w)"

lemma marshall_roundtrip:
  assumes "storable s ci"
  obtains b where "marshallChannelInfo s ci = Ok (filled s ci, b)" "unmarshallChannelInfo s b = Ok ci"
proof -
  from assms obtain b where b: "Marshal_ChannelInfo (cs_cbg s) (filled s ci) = Ok b"
      "\<forall>bs. Unmarshal_ChannelInfo (cs_cbg s) (b @ bs) = Ok (filled s ci, bs)"
    using codec_ChannelInfo [of "filled s ci"] unfolding storable_def codec_ok_def by blast
  have "Unmarshal_ChannelInfo (cs_cbg s) b = Ok (filled s ci, [])"
    using b(2) [rule_format, of "[]"] by simp
  with b assms show ?thesis
    by (intro that [of b])
       (auto simp: marshallChannelInfo_def unmarshallChannelInfo_def load_def filled_def Let_def
          storable_def)
qed

text \<open>Writing a record whose identifier is set updates the map there.\<close>

lemma put:
  assumes "ok w" "storable s ci" "ci_ChannelID ci \<noteq> ''''"
  obtains w' where "putChannelInfo s ci w = (Ok (filled s ci), w')" "ok w'"
    "chan w' = (chan w)(ci_ChannelID ci \<mapsto> ci)" "msg w' = msg w" "rest w' = rest w"
proof -
  obtain b where b: "marshallChannelInfo s ci = Ok (filled s ci, b)" "unmarshallChannelInfo s b = Ok ci"
    using assms(2) by (rule marshall_roundtrip)
  obtain w' where w': "ds_Put (cs_ds s) (dskeyForChannel (ci_ChannelID ci)) b w = (Ok (), w')"
      "contents w' = (contents w)(dskeyForChannel (ci_ChannelID ci) \<mapsto> b)" "rest w' = rest w"
    by (rule PutE)
  show ?thesis
  proof (rule that)
    show "putChannelInfo s ci w = (Ok (filled s ci), w')"
      using b w' assms(3) by (simp add: putChannelInfo_def)
    show "ok w'" using assms b w' by (auto simp: store_ok_def)
    show "chan w' = (chan w)(ci_ChannelID ci \<mapsto> ci)" using b w' by (auto simp: chan_at_def fun_eq_iff)
    show "msg w' = msg w" by (rule ext) (simp add: w'(2))
  qed (rule w'(3))
qed

text \<open>A record without an identifier gets a new one.\<close>

lemma put_new:
  assumes "ok w" "room w" "storable s ci" "ci_ChannelID ci = ''''"
  obtains i w' where
    "putChannelInfo s ci w = (Ok (filled s (ci\<lparr>ci_ChannelID := i\<rparr>)), w')" "ok w'" "chan w i = None"
    "chan w' = (chan w)(i \<mapsto> ci\<lparr>ci_ChannelID := i\<rparr>)" "msg w' = msg w" "rest w' = rest w" "i \<noteq> ''''"
    "storable s (ci\<lparr>ci_ChannelID := i\<rparr>)"
proof -
  obtain i w1 where i: "cs_newUUID s w = (Ok i, w1)" "i \<noteq> ''''" "length i \<le> 8192"
      "contents w1 = contents w" "rest w1 = rest w" "contents w (dskeyForChannel i) = None"
    using newUUID [OF assms(2)] by blast
  let ?ci = "ci\<lparr>ci_ChannelID := i\<rparr>"
  have st: "storable s ?ci" using assms(3) i(3) by (rule storable_ID)
  obtain w' where w': "putChannelInfo s ?ci w1 = (Ok (filled s ?ci), w')" "ok w'"
      "chan w' = (chan w1)(ci_ChannelID ?ci \<mapsto> ?ci)" "msg w' = msg w1" "rest w' = rest w1"
    by (rule put [of w1 ?ci]) (use assms(1) i st in auto)
  have "putChannelInfo s ci w = putChannelInfo s ?ci w1"
    using assms(4) i(1,2) by (simp add: putChannelInfo_def)
  moreover have "chan w i = None" using i(6) by (simp add: chan_at_def)
  ultimately show ?thesis using w' i st by (intro that [of i w']) auto
qed

lemma ByChannelID_eq:
  assumes "ok w"
  shows "ByChannelID s i w =
    (case chan w i of None \<Rightarrow> Err ErrChannelNotTracked | Some ci \<Rightarrow> Ok ci, w)"
proof (cases "contents w (dskeyForChannel i)")
  case None
  with assms have "chan w i = None" by (simp add: chan_at_None)
  with None show ?thesis by (simp add: ByChannelID_def Get_simps fail_def)
next
  case (Some b)
  with store_ok_get [OF assms] obtain ci where "unmarshallChannelInfo s b = Ok ci" "chan w i = Some ci"
    by blast
  with Some show ?thesis by (simp add: ByChannelID_def Get_simps ret_def)
qed

lemma RemoveChannel_run:
  assumes "ok w"
  obtains w' where "RemoveChannel s i w = (Ok (), w')" "ok w'" "chan w' = (chan w)(i := None)"
    "msg w' = msg w" "rest w' = rest w"
proof -
  obtain w' where w': "ds_Delete (cs_ds s) (dskeyForChannel i) w = (Ok (), w')"
      "contents w' = (contents w)(dskeyForChannel i := None)" "rest w' = rest w"
    by (rule DeleteE)
  show ?thesis
  proof (rule that)
    show "RemoveChannel s i w = (Ok (), w')" using w' by (simp add: RemoveChannel_def)
    show "ok w'" using assms w' by (auto simp: store_ok_def)
    show "chan w' = (chan w)(i := None)" using w' by (auto simp: chan_at_def fun_eq_iff)
    show "msg w' = msg w" by (rule ext) (simp add: w'(2))
  qed (rule w'(3))
qed

text \<open>A query reads every channel once.\<close>

lemma query_channels:
  assumes "ok w"
  obtains bs g where "ds_Query (cs_ds s) ''ChannelInfo'' w = (Ok (map Ok bs), w)"
    "\<forall>b\<in>set bs. unmarshallChannelInfo s b = Ok (g b)"
    "set (map g bs) = ran (chan w)" "distinct (map ci_ChannelID (map g bs))"
proof -
  obtain ks where ks: "distinct ks" "set ks = {k. has_prefix ''ChannelInfo'' k \<and> contents w k \<noteq> None}"
      "ds_Query (cs_ds s) ''ChannelInfo'' w = (Ok (map (\<lambda>k. Ok (the (contents w k))) ks), w)"
    using Query by blast
  have "\<forall>k\<in>set ks. \<exists>b ci. contents w k = Some b \<and> k = dskeyForChannel (ci_ChannelID ci) \<and>
      unmarshallChannelInfo s b = Ok ci"
    using assms unfolding ks(2) store_ok_def by fastforce
  then obtain h where h: "\<And>k. k \<in> set ks \<Longrightarrow> k = dskeyForChannel (ci_ChannelID (h k)) \<and>
      unmarshallChannelInfo s (the (contents w k)) = Ok (h k)"
    by (metis option.sel)
  define g where "g b = (case unmarshallChannelInfo s b of Ok ci \<Rightarrow> ci)" for b
  let ?bs = "map (\<lambda>k. the (contents w k)) ks"
  have g: "map g ?bs = map h ks" using h by (auto simp: g_def)
  have "map dskeyForChannel (map ci_ChannelID (map h ks)) = map id ks"
    unfolding map_map using h by (intro map_cong) auto
  then have "distinct (map dskeyForChannel (map ci_ChannelID (map h ks)))" using ks(1) by simp
  then have "distinct (map ci_ChannelID (map h ks))" by (rule distinct_map [THEN iffD1, THEN conjunct1])
  moreover have "h ` set ks = ran (chan w)"
  proof safe
    fix k assume k: "k \<in> set ks"
    then have "contents w k \<noteq> None" by (simp add: ks(2))
    with h [OF k] have "chan w (ci_ChannelID (h k)) = Some (h k)" by (auto simp: chan_at_def)
    then show "h k \<in> ran (chan w)" by (auto simp: ran_def)
  next
    fix ci assume "ci \<in> ran (chan w)"
    then obtain i where i: "chan w i = Some ci" by (auto simp: ran_def)
    then have "contents w (dskeyForChannel i) \<noteq> None" using chan_at_None [OF assms, of i] by simp
    then have k: "dskeyForChannel i \<in> set ks" by (simp add: ks(2))
    from h [OF k] i have "h (dskeyForChannel i) = ci"
      by (auto simp: chan_at_def split: option.splits)
    with k show "ci \<in> h ` set ks" by blast
  qed
  moreover have "\<forall>b\<in>set ?bs. unmarshallChannelInfo s b = Ok (g b)" using h by (auto simp: g_def)
  moreover have "ds_Query (cs_ds s) ''ChannelInfo'' w = (Ok (map Ok ?bs), w)"
    using ks(3) by (simp add: o_def)
  ultimately show ?thesis
    by (intro that [of ?bs g]) (simp_all only: g set_map)
qed

lemma findChans_all:
  assumes "ok w"
  obtains cis where "findChans s f 0 w = (Ok cis, w)" "set cis = {ci \<in> ran (chan w). f ci}"
    "distinct (map ci_ChannelID cis)"
proof -
  obtain bs g where q: "ds_Query (cs_ds s) ''ChannelInfo'' w = (Ok (map Ok bs), w)"
      "\<forall>b\<in>set bs. unmarshallChannelInfo s b = Ok (g b)"
      "set (map g bs) = ran (chan w)" "distinct (map ci_ChannelID (map g bs))"
    by (rule query_channels [OF assms])
  show ?thesis
  proof (rule that)
    show "findChans s f 0 w = (Ok (filter f (map g bs)), w)"
      using q(1) scan_chans_all [OF q(2) [rule_format], where ms = "[]"] by (simp add: findChans_def ret_def)
    show "set (filter f (map g bs)) = {ci \<in> ran (chan w). f ci}" using q(3) by auto
    show "distinct (map ci_ChannelID (filter f (map g bs)))" using q(4) by (rule distinct_map_filter)
  qed
qed

text \<open>\<open>findChan\<close> finds a channel that matches when there is one.\<close>

lemma findChan_none:
  assumes "ok w" "\<And>i ci. chan w i = Some ci \<Longrightarrow> \<not> f ci"
  shows "findChan s f w = (Err ErrChannelNotTracked, w)"
proof -
  obtain bs g where q: "ds_Query (cs_ds s) ''ChannelInfo'' w = (Ok (map Ok bs), w)"
      "\<forall>b\<in>set bs. unmarshallChannelInfo s b = Ok (g b)" "set (map g bs) = ran (chan w)"
    by (rule query_channels [OF assms(1)])
  have "filter f (map g bs) = []" using q(3) assms(2) by (auto simp: filter_empty_conv ran_def)
  then show ?thesis
    using q(1) scan_chans_first [OF q(2) [rule_format], where f = f]
    by (simp add: findChan_def findChans_def ret_def fail_def)
qed

lemma findChan_some:
  assumes "ok w" "chan w i = Some ci" "f ci"
  obtains cj where "findChan s f w = (Ok cj, w)" "chan w (ci_ChannelID cj) = Some cj" "f cj"
proof -
  obtain bs g where q: "ds_Query (cs_ds s) ''ChannelInfo'' w = (Ok (map Ok bs), w)"
      "\<forall>b\<in>set bs. unmarshallChannelInfo s b = Ok (g b)" "set (map g bs) = ran (chan w)"
    by (rule query_channels [OF assms(1)])
  have "ci \<in> set (filter f (map g bs))" using q(3) assms(2,3) by (auto simp: ran_def)
  then obtain cj cs where c: "filter f (map g bs) = cj # cs" by (cases "filter f (map g bs)") auto
  then have m: "cj \<in> set (filter f (map g bs))" by simp
  then obtain j where "chan w j = Some cj" using q(3) by (auto simp: ran_def)
  with store_ok_chan [OF assms(1)] have "chan w (ci_ChannelID cj) = Some cj" by metis
  moreover have "findChan s f w = (Ok cj, w)"
    using q(1) scan_chans_first [OF q(2) [rule_format], where f = f] c
    by (simp add: findChan_def findChans_def ret_def)
  ultimately show ?thesis using m by (intro that [of cj]) auto
qed

lemma findChan_unique:
  assumes "ok w" "chan w i = Some ci" "f ci"
    and "\<And>j cj. chan w j = Some cj \<Longrightarrow> f cj \<Longrightarrow> cj = ci"
  shows "findChan s f w = (Ok ci, w)"
proof -
  obtain cj where "findChan s f w = (Ok cj, w)" "chan w (ci_ChannelID cj) = Some cj" "f cj"
    by (rule findChan_some [of w i ci f]) (use assms(1-3) in auto)
  with assms(4) show ?thesis by blast
qed

lemma GetMessage_eq:
  assumes "msg w m = Some mi"
  shows "GetMessage s m w = (Ok mi, w)"
  using assms by (auto simp: msg_at_def GetMessage_def Get_simps ret_def split: option.splits go.splits)

lemma put_msg:
  assumes "ok w" "fits_MsgInfo (cs_cbg s) mi"
  obtains b w' where "Marshal_MsgInfo (cs_cbg s) mi = Ok b"
    "ds_Put (cs_ds s) (dskeyForMsg m) b w = (Ok (), w')" "ok w'" "chan w' = chan w"
    "msg w' = (msg w)(m \<mapsto> mi)" "rest w' = rest w"
proof -
  obtain b where b: "Marshal_MsgInfo (cs_cbg s) mi = Ok b"
      "\<forall>bs. Unmarshal_MsgInfo (cs_cbg s) (b @ bs) = Ok (mi, bs)"
    using codec_MsgInfo [OF assms(2)] unfolding codec_ok_def by blast
  obtain w' where w': "ds_Put (cs_ds s) (dskeyForMsg m) b w = (Ok (), w')"
      "contents w' = (contents w)(dskeyForMsg m \<mapsto> b)" "rest w' = rest w"
    by (rule PutE)
  have "load (Unmarshal_MsgInfo (cs_cbg s)) b = Ok mi"
    using b(2) [rule_format, of "[]"] by (simp add: load_def)
  then have "msg w' = (msg w)(m \<mapsto> mi)" by (intro ext) (simp add: w'(2) msg_at_def)
  moreover have "chan w' = chan w" by (intro ext) (simp add: w'(2))
  ultimately show ?thesis
    using b(1) w' assms(1) by (intro that [of b w']) auto
qed

end

end
