(* ===== verification/ChannelStoreProps.thy ===== *)
theory ChannelStoreProps
  imports ChannelStoreLaws
begin

text \<open>
  The channel store on the in-memory datastore, and its properties: it implements a finite
  map, hands out each lane once, links messages to their channels; an error in the middle
  of a query is taken for a channel that is not there.
\<close>

section \<open>The store in memory\<close>

definition unary :: "nat \<Rightarrow> string" where
  "unary k = replicate (Suc k) CHR ''u''"

definition mem_uuid :: "('r mem, string) io" where
  "mem_uuid = (\<lambda>(es, r).
     (Ok (hd (filter (\<lambda>i. map_of es (dskeyForChannel i) = None) (map unary [0..<Suc (length es)]))),
      (es, r)))"

definition mem_store :: "'r mem channelStore" where
  "mem_store = \<lparr>cs_ds = mem_ds, cs_newUUID = mem_uuid, cs_cbg = ref_cbg, cs_emptyAddr = ''empty''\<rparr>"

abbreviation mem_contents :: "'r mem \<Rightarrow> ds_key \<Rightarrow> bytes option" where
  "mem_contents \<equiv> \<lambda>(es, _). map_of es"

definition mem_room :: "'r mem \<Rightarrow> bool" where
  "mem_room w \<longleftrightarrow> length (fst w) < 8000"

lemma unary_fresh:
  assumes "length es < 8000"
  defines "i \<equiv> hd (filter (\<lambda>i. map_of es (dskeyForChannel i) = None) (map unary [0..<Suc (length es)]))"
  shows "map_of es (dskeyForChannel i) = None \<and> i \<noteq> '''' \<and> length i \<le> 8192"
proof -
  let ?taken = "fst ` set es" and ?c = "map unary [0..<Suc (length es)]"
  have "\<exists>i\<in>set ?c. map_of es (dskeyForChannel i) = None"
  proof (rule ccontr)
    assume "\<not> ?thesis"
    then have "(\<lambda>k. dskeyForChannel (unary k)) ` {0..<Suc (length es)} \<subseteq> ?taken"
      by (auto simp: map_of_eq_None_iff simp del: upt_Suc)
    then have "card ((\<lambda>k. dskeyForChannel (unary k)) ` {0..<Suc (length es)}) \<le> card ?taken"
      by (intro card_mono) auto
    moreover have "card ?taken \<le> length es"
      by (metis card_length length_map list.set_map)
    moreover have "inj_on (\<lambda>k. dskeyForChannel (unary k)) {0..<Suc (length es)}"
      by (auto simp: inj_on_def unary_def)
    ultimately show False by (simp add: card_image)
  qed
  then have "filter (\<lambda>i. map_of es (dskeyForChannel i) = None) ?c \<noteq> []"
    by (auto simp: filter_empty_conv simp del: upt_Suc)
  then have "i \<in> set (filter (\<lambda>i. map_of es (dskeyForChannel i) = None) ?c)"
    unfolding i_def by (rule hd_in_set)
  with assms(1) show ?thesis by (auto simp: unary_def simp del: upt_Suc)
qed

lemma mem_store_simps [simp]:
  "cs_ds mem_store = mem_ds" "cs_cbg mem_store = ref_cbg" "cs_newUUID mem_store = mem_uuid"
  "cs_emptyAddr mem_store = ''empty''"
  by (simp_all add: mem_store_def)

interpretation mem_cs: channel_store mem_store mem_contents snd mem_room
proof (unfold_locales, unfold mem_store_simps)
  show "\<exists>i w'. mem_uuid w = (Ok i, w') \<and> i \<noteq> '''' \<and> length i \<le> 8192 \<and>
      mem_contents w' = mem_contents w \<and> snd w' = snd w \<and>
      mem_contents w (dskeyForChannel i) = None" if "mem_room w" for w :: "'r mem"
    using unary_fresh [of "fst w"] that
    by (cases w) (simp add: mem_uuid_def mem_room_def)
  show "codec_ok (cg_WriteAddress ref_cbg) (cg_ReadAddress ref_cbg) ''empty''"
    by (intro ref_codecs) (simp_all add: AddressUndef_def)
qed (rule mem.Put mem.Delete mem.Query ref.small_header ref.readHeader ref.header_cons
       ref.bool_header ref.ReadString ref.MaxLength ref.ByteArrayMaxLen mem.Get mem.Has; assumption?)+

section \<open>A finite map\<close>

text \<open>C16: the channel store is a finite map. Writing a channel under its identifier changes what
  is read under that identifier and nothing else, and removing it takes it away again, over
  any datastore and encoding library that meet their contracts.\<close>

theorem store_is_map:
  assumes "channel_store s contents rest room"
    and "store_ok s (contents w)" "storable s ci" "ci_ChannelID ci \<noteq> ''''"
  shows "\<exists>w1 w2. putChannelInfo s ci w = (Ok (filled s ci), w1) \<and>
      (\<forall>j. ByChannelID s j w1 =
         (if j = ci_ChannelID ci then Ok ci else fst (ByChannelID s j w), w1)) \<and>
      RemoveChannel s (ci_ChannelID ci) w1 = (Ok (), w2) \<and>
      (\<forall>j. ByChannelID s j w2 =
         (if j = ci_ChannelID ci then Err ErrChannelNotTracked else fst (ByChannelID s j w), w2))"
proof -
  note read = channel_store.ByChannelID_eq [OF assms(1)]
  obtain w1 where w1: "putChannelInfo s ci w = (Ok (filled s ci), w1)" "store_ok s (contents w1)"
      "chan_at s (contents w1) = (chan_at s (contents w))(ci_ChannelID ci \<mapsto> ci)"
    by (rule channel_store.put [OF assms])
  obtain w2 where w2: "RemoveChannel s (ci_ChannelID ci) w1 = (Ok (), w2)" "store_ok s (contents w2)"
      "chan_at s (contents w2) = (chan_at s (contents w1))(ci_ChannelID ci := None)"
    by (rule channel_store.RemoveChannel_run [OF assms(1) w1(2)])
  show ?thesis
    using w1 w2 read [OF assms(2)] read [OF w1(2)] read [OF w2(2)]
    by (intro exI [of _ w1] exI [of _ w2]) auto
qed

abbreviation ex_store :: "unit mem channelStore" where
  "ex_store \<equiv> mem_store"

definition ex_ci :: ChannelInfo where
  "ex_ci = \<lparr>ci_ChannelID = ''c1'', ci_Channel = Some ''f2paych'', ci_Control = ''f1client'',
     ci_Target = ''f1miner'', ci_Direction = DirOutbound, ci_Vouchers = [], ci_NextLane = 3,
     ci_Amount = 5000, ci_PendingAmount = 0, ci_CreateMsg = None, ci_AddFundsMsg = None,
     ci_Settling = False\<rparr>"

lemma ex_ci_storable: "storable ex_store ex_ci"
  by (auto simp: storable_def filled_def fits_ChannelInfo_def ex_ci_def AddressUndef_def
      intro!: ref_codecs)

lemma empty_store_ok: "store_ok s (\<lambda>_. None)"
  by (simp add: store_ok_def)

theorem store_is_map_witness:
  "\<exists>w1. putChannelInfo ex_store ex_ci ([], ()) = (Ok ex_ci, w1) \<and>
     ByChannelID ex_store ''c1'' w1 = (Ok ex_ci, w1)"
proof -
  have "store_ok ex_store (mem_contents ([], ()))" by (simp add: empty_store_ok)
  from store_is_map [OF mem_cs.channel_store_axioms this ex_ci_storable]
  show ?thesis by (auto simp: ex_ci_def filled_def)
qed

section \<open>Lanes\<close>

fun allocate_lanes :: "'w channelStore \<Rightarrow> Address \<Rightarrow> nat \<Rightarrow> ('w, u64 list) io" where
  "allocate_lanes s ch 0 = ret []"
| "allocate_lanes s ch (Suc n) =
     bindE (AllocateLane s ch) (\<lambda>l. bindE (allocate_lanes s ch n) (\<lambda>ls. ret (l # ls)))"

text \<open>No other channel in the store has the address.\<close>

definition sole_channel :: "'w channelStore \<Rightarrow> (ds_key \<Rightarrow> bytes option) \<Rightarrow> Address \<Rightarrow> ChannelInfo \<Rightarrow> bool" where
  "sole_channel s c ch ci \<longleftrightarrow> ci_Channel ci = Some ch \<and> chan_at s c (ci_ChannelID ci) = Some ci \<and>
     (\<forall>j cj. chan_at s c j = Some cj \<longrightarrow> ci_Channel cj = Some ch \<longrightarrow> cj = ci)"

context channel_store
begin

lemma ByAddress_sole:
  assumes "ok w" "sole_channel s (contents w) ch ci"
  shows "ByAddress s ch w = (Ok ci, w)"
  unfolding ByAddress_def
  by (rule findChan_unique [OF assms(1)]) (use assms(2) in \<open>auto simp: sole_channel_def\<close>)

text \<open>Writing the channel of an address again, with the same identifier and address.\<close>

lemma put_sole:
  assumes "ok w" "sole_channel s (contents w) ch ci"
    and "storable s ci'" "ci_ChannelID ci' = ci_ChannelID ci" "ci_Channel ci' = Some ch"
  obtains w' where "putChannelInfo s ci' w = (Ok ci', w')" "ok w'" "sole_channel s (contents w') ch ci'"
    "chan w' = (chan w)(ci_ChannelID ci \<mapsto> ci')" "msg w' = msg w" "rest w' = rest w"
proof -
  have id: "ci_ChannelID ci \<noteq> ''''"
    using store_ok_chan [OF assms(1)] assms(2) by (auto simp: sole_channel_def)
  obtain w' where w': "putChannelInfo s ci' w = (Ok (filled s ci'), w')" "ok w'"
      "chan w' = (chan w)(ci_ChannelID ci' \<mapsto> ci')" "msg w' = msg w" "rest w' = rest w"
    by (rule put [of w ci']) (use assms id in auto)
  have sole: "sole_channel s (contents w') ch ci'"
  proof -
    have "cj = ci'" if "chan w' j = Some cj" "ci_Channel cj = Some ch" for j cj
    proof (cases "j = ci_ChannelID ci")
      case True
      with that w'(3) assms(4) show ?thesis by simp
    next
      case False
      with that w'(3) assms(4) have "chan w j = Some cj" by simp
      with that assms(2) have "cj = ci" by (auto simp: sole_channel_def)
      with \<open>chan w j = Some cj\<close> store_ok_chan [OF assms(1)] False show ?thesis by blast
    qed
    moreover have "chan w' (ci_ChannelID ci') = Some ci'" using w'(3) by simp
    ultimately show ?thesis unfolding sole_channel_def using assms(5) by blast
  qed
  have eq: "filled s ci' = ci'" using assms(5) by (simp add: filled_def)
  show ?thesis
    by (rule that [OF w'(1) [unfolded eq] w'(2) sole w'(3) [unfolded assms(4)] w'(4,5)])
qed

lemma AllocateLane_run:
  assumes "ok w" "sole_channel s (contents w) ch ci"
  obtains w' where "AllocateLane s ch w = (Ok (ci_NextLane ci), w')" "ok w'"
    "sole_channel s (contents w') ch (ci\<lparr>ci_NextLane := ci_NextLane ci + 1\<rparr>)" "rest w' = rest w"
proof -
  let ?ci = "ci\<lparr>ci_NextLane := ci_NextLane ci + 1\<rparr>"
  have "storable s ci"
    using store_ok_chan [OF assms(1)] assms(2) by (auto simp: sole_channel_def)
  then have "storable s ?ci" by (auto simp: storable_def filled_def fits_ChannelInfo_def)
  then obtain w' where w': "putChannelInfo s ?ci w = (Ok ?ci, w')" "ok w'"
      "sole_channel s (contents w') ch ?ci" "rest w' = rest w"
    by (rule put_sole [OF assms]) (use assms(2) in \<open>auto simp: sole_channel_def\<close>)
  with ByAddress_sole [OF assms] show ?thesis
    by (intro that [of w']) (simp_all add: AllocateLane_def ret_def)
qed

lemma allocate_lanes_run:
  "ok w \<Longrightarrow> sole_channel s (contents w) ch ci \<Longrightarrow>
     \<exists>w'. allocate_lanes s ch n w = (Ok (map (\<lambda>k. ci_NextLane ci + of_nat k) [0..<n]), w') \<and> ok w'"
proof (induction n arbitrary: w ci)
  case 0
  then show ?case by (simp add: ret_def)
next
  case (Suc n)
  let ?ci = "ci\<lparr>ci_NextLane := ci_NextLane ci + 1\<rparr>"
  obtain w1 where w1: "AllocateLane s ch w = (Ok (ci_NextLane ci), w1)" "ok w1"
      "sole_channel s (contents w1) ch ?ci"
    by (rule AllocateLane_run [OF Suc.prems])
  obtain w' where "allocate_lanes s ch n w1 =
      (Ok (map (\<lambda>k. ci_NextLane ?ci + of_nat k) [0..<n]), w')" "ok w'"
    using Suc.IH [OF w1(2,3)] by blast
  moreover have "map (\<lambda>k. ci_NextLane ci + of_nat k) [0..<Suc n] =
      ci_NextLane ci # map (\<lambda>k. ci_NextLane ?ci + of_nat k) [0..<n]"
    by (simp add: upt_conv_Cons map_Suc_upt [symmetric] o_def algebra_simps del: upt_Suc)
  ultimately show ?case using w1(1) by (simp add: ret_def del: upt_Suc)
qed

end

lemma lanes_distinct: "n \<le> 2 ^ 64 \<Longrightarrow> distinct (map (\<lambda>k. (l :: u64) + of_nat k) [0..<n])"
proof -
  assume n: "n \<le> 2 ^ 64"
  have "i = j" if "i < n" "j < n" "(of_nat i :: u64) = of_nat j" for i j
  proof -
    have "unat (of_nat i :: u64) = i" "unat (of_nat j :: u64) = j"
      using that(1,2) n by (auto simp del: unat_of_nat intro!: unat_of_nat_small)
    with that(3) show ?thesis by metis
  qed
  then show ?thesis by (auto simp: distinct_map inj_on_def)
qed

text \<open>C17: lanes. The lanes handed out for a channel are consecutive from its \<open>NextLane\<close>, and no
  lane is handed out twice in \<open>2 ^ 64\<close> allocations.\<close>

theorem lanes_never_repeat:
  assumes "channel_store s contents rest room"
    and "store_ok s (contents w)" "sole_channel s (contents w) ch ci" "n \<le> 2 ^ 64"
  shows "\<exists>ls w'. allocate_lanes s ch n w = (Ok ls, w') \<and>
    ls = map (\<lambda>k. ci_NextLane ci + of_nat k) [0..<n] \<and> distinct ls"
  using channel_store.allocate_lanes_run [OF assms(1-3)] lanes_distinct [OF assms(4)] by blast

definition ex_world :: "unit mem" where
  "ex_world = snd (putChannelInfo ex_store ex_ci ([], ()))"

lemma chan_at_empty [simp]: "chan_at s (\<lambda>_. None) = (\<lambda>_. None)"
  by (simp add: chan_at_def fun_eq_iff)

lemma ex_ci_ID [simp]: "ci_ChannelID ex_ci = ''c1''"
  by (simp add: ex_ci_def)

lemma ex_world_chans:
  "store_ok ex_store (mem_contents ex_world)" "chan_at ex_store (mem_contents ex_world) = [''c1'' \<mapsto> ex_ci]"
proof -
  have ok: "store_ok ex_store (mem_contents ([], ()))" by (simp add: empty_store_ok)
  have id: "ci_ChannelID ex_ci \<noteq> ''''" by (simp add: ex_ci_def)
  have "store_ok ex_store (mem_contents (snd (putChannelInfo ex_store ex_ci ([], ())))) \<and>
      chan_at ex_store (mem_contents (snd (putChannelInfo ex_store ex_ci ([], ())))) = [''c1'' \<mapsto> ex_ci]"
    by (rule mem_cs.put [OF ok ex_ci_storable id]) simp
  then show "store_ok ex_store (mem_contents ex_world)"
    "chan_at ex_store (mem_contents ex_world) = [''c1'' \<mapsto> ex_ci]"
    by (simp_all only: ex_world_def)
qed

lemma ex_world_sole: "sole_channel ex_store (mem_contents ex_world) ''f2paych'' ex_ci"
  unfolding sole_channel_def ex_world_chans(2) by (auto simp: ex_ci_def split: if_splits)

lemma ex_world_room: "mem_room ex_world"
  by (simp add: mem_room_def ex_world_def putChannelInfo_def ex_ci_def ret_def
      mem_ds_def bindE_def lift_go_def split: go.splits prod.splits)

theorem lanes_never_repeat_witness:
  "\<exists>w'. allocate_lanes ex_store ''f2paych'' 2 ex_world = (Ok [3, 4], w')"
proof -
  have "map (\<lambda>k. (3 :: u64) + of_nat k) [0..<2] = [3, 4]" by (simp add: numeral_2_eq_2)
  with lanes_never_repeat [OF mem_cs.channel_store_axioms ex_world_chans(1) ex_world_sole, of 2] show ?thesis
    by (simp add: ex_ci_def del: allocate_lanes.simps)
qed

section \<open>Messages and channels\<close>

text \<open>C20: a channel that is created is found again. The message that creates it leads to it, it
  is the active channel for its two parties when there was none, and recording the message's
  result marks the message as received with the text of its error.\<close>

theorem created_channel_is_found:
  assumes "channel_store s contents rest room"
    and "store_ok s (contents w)" "room w"
    and "\<forall>j cj. chan_at s (contents w) j = Some cj \<longrightarrow>
      \<not> (ci_Direction cj = DirOutbound \<and> \<not> ci_Settling cj \<and> ci_Control cj = from \<and> ci_Target cj = to)"
    and "codec_ok (cg_WriteAddress (cs_cbg s)) (cg_ReadAddress (cs_cbg s)) from"
    and "codec_ok (cg_WriteAddress (cs_cbg s)) (cg_ReadAddress (cs_cbg s)) to"
    and "codec_ok (cg_WriteCid (cs_cbg s)) (cg_ReadCid (cs_cbg s)) mcid"
    and "codec_ok (cg_WriteBig (cs_cbg s)) (cg_ReadBig (cs_cbg s)) amt"
    and "codec_ok (cg_WriteBig (cs_cbg s)) (cg_ReadBig (cs_cbg s)) 0"
    and "length (case err of None \<Rightarrow> '''' | Some e \<Rightarrow> Error e) \<le> 8192"
  shows "\<exists>ci w1 w2 i. CreateChannel s from to mcid amt w = (Ok (filled s ci), w1) \<and>
      ci_Control ci = from \<and> ci_Target ci = to \<and> ci_PendingAmount ci = amt \<and>
      ci_CreateMsg ci = Some mcid \<and> ci_Channel ci = None \<and>
      ByMessageCid s mcid w1 = (Ok ci, w1) \<and> OutboundActiveByFromTo s from to w1 = (Ok ci, w1) \<and>
      SaveMessageResult s mcid err w1 = (Ok (), w2) \<and>
      GetMessage s mcid w2 = (Ok \<lparr>mi_ChannelID = i, mi_MsgCid = mcid, mi_Received = True,
        mi_Err = (case err of None \<Rightarrow> '''' | Some e \<Rightarrow> Error e)\<rparr>, w2) \<and> i = ci_ChannelID ci"
proof -
  let ?ini = "new_outbound from to mcid amt"
  let ?r = "case err of None \<Rightarrow> '''' | Some e \<Rightarrow> Error e"
  have st: "storable s ?ini"
    using assms(5-9) channel_store.emptyAddr [OF assms(1)]
    by (auto simp: storable_def filled_def fits_ChannelInfo_def new_outbound_def)
  have id0: "ci_ChannelID ?ini = ''''" by (simp add: new_outbound_def)
  obtain i wa where a: "putChannelInfo s ?ini w = (Ok (filled s (?ini\<lparr>ci_ChannelID := i\<rparr>)), wa)"
      "store_ok s (contents wa)" "chan_at s (contents wa) = (chan_at s (contents w))(i \<mapsto> ?ini\<lparr>ci_ChannelID := i\<rparr>)"
      "i \<noteq> ''''" "storable s (?ini\<lparr>ci_ChannelID := i\<rparr>)"
    by (rule channel_store.put_new [OF assms(1-3) st id0])
  define c where "c = ?ini\<lparr>ci_ChannelID := i\<rparr>"
  have c: "ci_ChannelID c = i" "ci_Control c = from" "ci_Target c = to" "ci_Direction c = DirOutbound"
    "ci_Settling c = False" "ci_PendingAmount c = amt" "ci_CreateMsg c = Some mcid" "ci_Channel c = None"
    by (simp_all add: c_def new_outbound_def)
  note a = a [folded c_def]
  let ?m = "\<lparr>mi_ChannelID = i, mi_MsgCid = mcid, mi_Received = False, mi_Err = ''''\<rparr>"
  let ?m' = "\<lparr>mi_ChannelID = i, mi_MsgCid = mcid, mi_Received = True, mi_Err = ?r\<rparr>"
  have len: "length i \<le> 8192"
    using a(5) c(1) by (auto simp: storable_def filled_def fits_ChannelInfo_def split: if_splits)
  then have fits: "fits_MsgInfo (cs_cbg s) ?m" "fits_MsgInfo (cs_cbg s) ?m'"
    using assms(7,10) by (auto simp: fits_MsgInfo_def)
  obtain b w1 where b: "Marshal_MsgInfo (cs_cbg s) ?m = Ok b"
      "ds_Put (cs_ds s) (dskeyForMsg mcid) b wa = (Ok (), w1)" "store_ok s (contents w1)"
      "chan_at s (contents w1) = chan_at s (contents wa)"
      "msg_at s (contents w1) = (msg_at s (contents wa))(mcid \<mapsto> ?m)"
    by (rule channel_store.put_msg [OF assms(1) a(2) fits(1)])
  obtain b' w2 where b': "Marshal_MsgInfo (cs_cbg s) ?m' = Ok b'"
      "ds_Put (cs_ds s) (dskeyForMsg mcid) b' w1 = (Ok (), w2)"
      "msg_at s (contents w2) = (msg_at s (contents w1))(mcid \<mapsto> ?m')"
    by (rule channel_store.put_msg [OF assms(1) b(3) fits(2)])
  have create: "CreateChannel s from to mcid amt w = (Ok (filled s c), w1)"
    using a(1) b(1,2) c(1) by (simp add: CreateChannel_def SaveNewMessage_def ret_def)
  have get: "GetMessage s mcid w1 = (Ok ?m, w1)" "GetMessage s mcid w2 = (Ok ?m', w2)"
    using b(5) b'(3) channel_store.GetMessage_eq [OF assms(1)] by simp_all
  have at: "chan_at s (contents w1) i = Some c" using a(3) b(4) by simp
  have "findChan s (\<lambda>ci. ci_ChannelID ci = i) w1 = (Ok c, w1)"
  proof (rule channel_store.findChan_unique [OF assms(1) b(3) at])
    show "ci_ChannelID c = i" by (rule c(1))
  next
    fix j cj assume "chan_at s (contents w1) j = Some cj" "ci_ChannelID cj = i"
    with store_ok_chan [OF b(3)] at show "cj = c" by (metis option.inject)
  qed
  then have bm: "ByMessageCid s mcid w1 = (Ok c, w1)"
    using get(1) by (simp add: ByMessageCid_def)
  have act: "OutboundActiveByFromTo s from to w1 = (Ok c, w1)"
    unfolding OutboundActiveByFromTo_def
    using assms(4) a(3) b(4)
    by (intro channel_store.findChan_unique [OF assms(1) b(3) at]) (auto simp: c split: if_splits)
  have "SaveMessageResult s mcid err w1 = (Ok (), w2)"
    using get(1) b'(1,2) by (cases err) (simp_all add: SaveMessageResult_def)
  with create bm act get(2) show ?thesis
    by (intro exI [of _ c] exI [of _ w1] exI [of _ w2] exI [of _ i]) (simp add: c)
qed

theorem created_channel_is_found_witness:
  "\<exists>ci cj w1. CreateChannel ex_store ''f1new'' ''f1miner'' ''msg'' 700 ex_world = (Ok cj, w1) \<and>
     ByMessageCid ex_store ''msg'' w1 = (Ok ci, w1)"
proof -
  have none: "\<forall>j cj. chan_at ex_store (mem_contents ex_world) j = Some cj \<longrightarrow>
      \<not> (ci_Direction cj = DirOutbound \<and> \<not> ci_Settling cj \<and> ci_Control cj = ''f1new'' \<and>
        ci_Target cj = ''f1miner'')"
    unfolding ex_world_chans(2) by (auto simp: ex_ci_def split: if_splits)
  have codecs: "codec_ok (cg_WriteAddress (cs_cbg ex_store)) (cg_ReadAddress (cs_cbg ex_store)) ''f1new''"
    "codec_ok (cg_WriteAddress (cs_cbg ex_store)) (cg_ReadAddress (cs_cbg ex_store)) ''f1miner''"
    "codec_ok (cg_WriteCid (cs_cbg ex_store)) (cg_ReadCid (cs_cbg ex_store)) ''msg''"
    "codec_ok (cg_WriteBig (cs_cbg ex_store)) (cg_ReadBig (cs_cbg ex_store)) 700"
    "codec_ok (cg_WriteBig (cs_cbg ex_store)) (cg_ReadBig (cs_cbg ex_store)) 0"
    unfolding mem_store_simps by (rule ref_codecs; simp add: AddressUndef_def)+
  have "length (case None of None \<Rightarrow> '''' | Some e \<Rightarrow> Error e) \<le> 8192" by simp
  from created_channel_is_found [OF mem_cs.channel_store_axioms ex_world_chans(1) ex_world_room none
      codecs this]
  show ?thesis by blast
qed

section \<open>Errors\<close>

text \<open>An error among the results of a query is taken for "not tracked". A channel that lies
  behind the failing entry is not found, and no error is reported.\<close>

lemma query_error_hides_channels:
  assumes "ds_Query (cs_ds s) ''ChannelInfo'' w = (Ok (before @ Err e # after), w')"
    and "\<forall>r\<in>set before. \<exists>b ci. r = Ok b \<and> unmarshallChannelInfo s b = Ok ci \<and> \<not> f ci"
  shows "findChan s f w = (Err ErrChannelNotTracked, w')"
proof -
  have "scan_chans s f (Suc 0) (before @ Err e # after) [] = Ok []"
    using assms(2) by (induction before) auto
  then show ?thesis by (simp add: findChan_def findChans_def assms(1) ret_def fail_def)
qed

end
