(* ===== verification/VoucherLaws.thy ===== *)
theory VoucherLaws
  imports Vouchers ChannelStoreProps
begin

text \<open>
  What the voucher operations of a channel accessor promise, over any node and datastore that
  meet their contracts. The lanes are a map: applying vouchers keeps the highest nonce of each
  lane, and the check of a voucher compares the lanes with the voucher against the balance.
  The locale \<open>voucher_channel\<close> states the contract; its lemmas turn each operation into an
  equation over what the chain answers and what the store holds.
\<close>

section \<open>Calls that leave a part of the world alone\<close>

definition keeps :: "('w \<Rightarrow> 'c) \<Rightarrow> ('w, 'a) io \<Rightarrow> bool" where
  "keeps v m \<longleftrightarrow> (\<forall>w. v (snd (m w)) = v w)"

lemma keepsD: "keeps v m \<Longrightarrow> m w = (r, w') \<Longrightarrow> v w' = v w"
  unfolding keeps_def by (metis snd_conv)

lemma keeps_basic [intro, simp]:
  "keeps v (ret x)" "keeps v (fail e)" "keeps v panic" "keeps v (lift_go r)"
  by (simp_all add: keeps_def go_defs)

lemma keeps_tryE [intro]:
  assumes "keeps v m" "\<And>e. keeps v (h e)" "\<And>x. keeps v (f x)"
  shows "keeps v (tryE m h f)"
  unfolding keeps_def
proof
  fix w
  obtain r w1 where m: "m w = (r, w1)" by fastforce
  with keepsD [OF assms(1)] have "v w1 = v w" by blast
  with m assms(2,3) show "v (snd (tryE m h f w)) = v w" by (cases r) (auto simp: keeps_def)
qed

lemma keeps_bindE [intro]:
  assumes "keeps v m" "\<And>x. keeps v (f x)"
  shows "keeps v (bindE m f)"
  unfolding keeps_def
proof
  fix w
  obtain r w1 where m: "m w = (r, w1)" by fastforce
  with keepsD [OF assms(1)] have "v w1 = v w" by blast
  with m assms(2) show "v (snd (bindE m f w)) = v w" by (cases r) (auto simp: keeps_def)
qed

text \<open>What follows a call may rely on what the call keeps.\<close>

lemma bindE_cong_keeps:
  assumes "keeps v m" "\<And>x w'. v w' = v w \<Longrightarrow> f x w' = g x w'"
  shows "bindE m f w = bindE m g w"
proof -
  obtain r w1 where m: "m w = (r, w1)" by fastforce
  with keepsD [OF assms(1)] have "v w1 = v w" by blast
  with m assms(2) show ?thesis by (cases r) auto
qed

lemma bindE_cong_run: "m w = m' w \<Longrightarrow> bindE m f w = bindE m' f w"
  by (simp add: bindE_def)

lemma bindE_lift_go: "bindE (lift_go r) (\<lambda>x. lift_go (f x)) = lift_go (bind_go r f)"
  by (cases r) (simp_all add: fun_eq_iff bindE_def go_defs)

section \<open>Lanes\<close>

definition lanes_total :: "lanes \<Rightarrow> TokenAmount" where
  "lanes_total lanes = (\<Sum>(i, ls)\<leftarrow>lanes. ls_redeemed ls)"

definition redeemed_in :: "lanes \<Rightarrow> u64 \<Rightarrow> TokenAmount" where
  "redeemed_in lanes l = (case map_of lanes l of None \<Rightarrow> 0 | Some ls \<Rightarrow> ls_redeemed ls)"

definition voucher_lane :: "SignedVoucher \<Rightarrow> laneState" where
  "voucher_lane sv = \<lparr>ls_redeemed = sv_Amount sv, ls_nonce = sv_Nonce sv\<rparr>"

lemma voucher_lane_simps [simp]:
  "ls_redeemed (voucher_lane sv) = sv_Amount sv" "ls_nonce (voucher_lane sv) = sv_Nonce sv"
  by (simp_all add: voucher_lane_def)

lemma lanes_total_update:
  "distinct (map fst lanes) \<Longrightarrow>
     lanes_total (AList.update l ls lanes) = lanes_total lanes - redeemed_in lanes l + ls_redeemed ls"
proof (induction lanes)
  case Nil
  then show ?case by (simp add: lanes_total_def redeemed_in_def)
next
  case (Cons p lanes)
  have none: "fst p = l \<Longrightarrow> map_of lanes l = None"
    using Cons.prems by (auto simp: map_of_eq_None_iff)
  from Cons show ?case by (cases p) (auto simp: lanes_total_def redeemed_in_def none)
qed

lemma chain_lanes_distinct:
  "distinct (map fst lanes) \<Longrightarrow> distinct (map fst (fold (\<lambda>(i, l). AList.update i l) chain lanes))"
  by (induction chain arbitrary: lanes) (auto simp: distinct_update)

text \<open>Applying vouchers never lowers the nonce of a lane, and reaches the nonce of each of them.\<close>

lemma apply_vouchers_grow:
  assumes "apply_vouchers vs lanes = Ok lanes'" "map_of lanes l = Some ls"
  shows "\<exists>ls'. map_of lanes' l = Some ls' \<and> ls_nonce ls \<le> ls_nonce ls'"
  using assms
proof (induction vs lanes arbitrary: ls rule: apply_vouchers.induct)
  case (1 lanes)
  then show ?case by simp
next
  case (2 v vs lanes)
  obtain sv where sv: "vi_Voucher v = Some sv" "sv_Merges sv = []"
    using "2.prems"(1) by (auto split: option.splits if_splits)
  let ?up = "AList.update (sv_Lane sv) \<lparr>ls_redeemed = sv_Amount sv, ls_nonce = sv_Nonce sv\<rparr> lanes"
  show ?case
  proof (cases "map_of lanes (sv_Lane sv)")
    case None
    with "2.prems" sv have run: "apply_vouchers vs ?up = Ok lanes'" by simp
    from None "2.prems"(2) have "map_of ?up l = Some ls" by (auto simp: update_conv')
    with "2.IH"(1) sv None run show ?thesis by simp
  next
    case (Some old)
    show ?thesis
    proof (cases "sv_Nonce sv < ls_nonce old")
      case True
      with "2.prems" sv Some "2.IH"(2) show ?thesis by simp
    next
      case False
      with "2.prems" sv Some have run: "apply_vouchers vs ?up = Ok lanes'" by simp
      have "\<exists>ls1. map_of ?up l = Some ls1 \<and> ls_nonce ls \<le> ls_nonce ls1"
        using Some False "2.prems"(2) by (cases "l = sv_Lane sv") (auto simp: update_conv' not_less)
      then obtain ls1 where ls1: "map_of ?up l = Some ls1" "ls_nonce ls \<le> ls_nonce ls1" by blast
      from "2.IH"(3) [OF sv(1) _ refl Some False run ls1(1)] sv(2) ls1(2) show ?thesis
        by (auto intro: order_trans)
    qed
  qed
qed

lemma apply_vouchers_distinct:
  "apply_vouchers vs lanes = Ok lanes' \<Longrightarrow> distinct (map fst lanes) \<Longrightarrow> distinct (map fst lanes')"
  by (induction vs lanes rule: apply_vouchers.induct)
     (auto simp: Let_def distinct_update split: option.splits if_splits)

lemma apply_vouchers_nonce:
  assumes "apply_vouchers vs lanes = Ok lanes'" "v \<in> set vs" "vi_Voucher v = Some sv"
  shows "\<exists>ls. map_of lanes' (sv_Lane sv) = Some ls \<and> sv_Nonce sv \<le> ls_nonce ls"
  using assms
proof (induction vs arbitrary: lanes)
  case Nil
  then show ?case by simp
next
  case (Cons u vs)
  obtain su where su: "vi_Voucher u = Some su" "sv_Merges su = []"
    using Cons.prems(1) by (auto split: option.splits if_splits)
  then obtain mid where mid: "apply_vouchers vs mid = Ok lanes'"
      "\<exists>ls. map_of mid (sv_Lane su) = Some ls \<and> sv_Nonce su \<le> ls_nonce ls"
    using Cons.prems(1)
    by (auto simp: Let_def update_conv' not_less split: option.splits if_splits)
  show ?case
  proof (cases "v = u")
    case True
    with mid su Cons.prems(3) show ?thesis
      using apply_vouchers_grow [OF mid(1)] by (fastforce intro: order_trans)
  next
    case False
    with Cons.IH [OF mid(1)] Cons.prems(2,3) show ?thesis by simp
  qed
qed

text \<open>The check accepts exactly the vouchers that raise their lane and stay within the balance.\<close>

lemma check_lanes_iff:
  assumes "distinct (map fst lanes)"
  shows "check_lanes act lanes sv = Ok lanes' \<longleftrightarrow> lanes' = lanes \<and> sv_Merges sv = [] \<and>
    (\<forall>ls. map_of lanes (sv_Lane sv) = Some ls \<longrightarrow> ls_nonce ls < sv_Nonce sv \<and> ls_redeemed ls < sv_Amount sv) \<and>
    lanes_total (AList.update (sv_Lane sv) (voucher_lane sv) lanes) \<le> act_Balance act"
  unfolding lanes_total_update [OF assms]
  by (cases "map_of lanes (sv_Lane sv)")
     (auto simp: check_lanes_def totalRedeemedWithVoucher_def lanes_total_def redeemed_in_def Let_def
        split: if_splits)

section \<open>Finding a voucher\<close>

definition position :: "('a \<Rightarrow> bool) \<Rightarrow> 'a list \<Rightarrow> nat option" where
  "position P xs = (if \<exists>x\<in>set xs. P x then Some (length (takeWhile (\<lambda>x. \<not> P x) xs)) else None)"

lemma position_simps [simp]:
  "position P [] = None"
  "position P (x # xs) = (if P x then Some 0 else map_option Suc (position P xs))"
  by (simp_all add: position_def)

lemma position_Some: "position P xs = Some i \<Longrightarrow> i < length xs \<and> P (xs ! i)"
  by (induction xs arbitrary: i) (auto split: if_splits)

lemma position_None [simp]: "position P xs = None \<longleftrightarrow> (\<forall>x\<in>set xs. \<not> P x)"
  by (auto simp: position_def)

text \<open>A voucher that can be encoded.\<close>

definition encodable :: "cbg \<Rightarrow> SignedVoucher \<Rightarrow> bool" where
  "encodable cb sv \<longleftrightarrow> codec_ok (cg_WriteVoucher cb) (cg_ReadVoucher cb) sv"

lemma voucher_equals_iff:
  assumes "encodable cb sv" "\<forall>sw. x = Some sw \<longrightarrow> encodable cb sw"
  shows "voucher_equals cb (Some sv) x = Ok (x = Some sv)"
proof -
  obtain b where b: "cg_WriteVoucher cb sv = Ok b" "hd b \<noteq> CborNull" "\<forall>bs. cg_ReadVoucher cb (b @ bs) = Ok (sv, bs)"
    using assms(1) unfolding encodable_def codec_ok_def by blast
  show ?thesis
  proof (cases x)
    case None
    with b show ?thesis by (auto simp: voucher_equals_def)
  next
    case (Some sw)
    with assms(2) obtain c where c: "cg_WriteVoucher cb sw = Ok c" "\<forall>bs. cg_ReadVoucher cb (c @ bs) = Ok (sw, bs)"
      unfolding encodable_def codec_ok_def by blast
    have "b = c \<longleftrightarrow> sv = sw" using b c by (metis go.inject(1) prod.inject)
    with Some b c show ?thesis by (auto simp: voucher_equals_def)
  qed
qed

lemma infoForVoucher_position:
  assumes "encodable cb sv" "\<forall>v\<in>set vs. \<forall>sw. vi_Voucher v = Some sw \<longrightarrow> encodable cb sw"
  shows "infoForVoucher cb vs (Some sv) = Ok (position (\<lambda>v. vi_Voucher v = Some sv) vs)"
  using assms(2) by (induction vs) (auto simp: voucher_equals_iff [OF assms(1)])

lemma storable_encodable:
  assumes "storable s ci" "v \<in> set (ci_Vouchers ci)" "vi_Voucher v = Some sv"
  shows "encodable (cs_cbg s) sv"
proof -
  have "list_all (fits_VoucherInfo (cs_cbg s)) (ci_Vouchers ci)"
    using assms(1) by (auto simp: storable_def filled_def fits_ChannelInfo_def split: if_splits)
  with assms(2,3) show ?thesis
    by (auto simp: list_all_iff fits_VoucherInfo_def encodable_def)
qed

lemma infoForVoucher_storable:
  "storable s ci \<Longrightarrow> encodable (cs_cbg s) sv \<Longrightarrow>
     infoForVoucher (cs_cbg s) (ci_Vouchers ci) (Some sv) = Ok (position (\<lambda>v. vi_Voucher v = Some sv) (ci_Vouchers ci))"
  by (rule infoForVoucher_position) (auto intro: storable_encodable)

lemma storable_with_voucher:
  "storable s ci \<Longrightarrow> encodable (cs_cbg s) sv \<Longrightarrow> length (ci_Vouchers ci) < 8192 \<Longrightarrow> storable s (with_voucher ci sv)"
  by (auto simp: storable_def filled_def fits_ChannelInfo_def with_voucher_def fits_VoucherInfo_def encodable_def)

text \<open>The next nonce of a lane is past every nonce in it, unless the counter is at its end.\<close>

lemma nextNonce_loop_le:
  "nextNonce_loop vs lane m = Ok n \<Longrightarrow> m \<le> n \<and>
     (\<forall>v\<in>set vs. \<forall>sv. vi_Voucher v = Some sv \<longrightarrow> sv_Lane sv = lane \<longrightarrow> sv_Nonce sv \<le> n) \<and>
     (n = m \<or> (\<exists>v\<in>set vs. \<exists>sv. vi_Voucher v = Some sv \<and> sv_Lane sv = lane \<and> sv_Nonce sv = n))"
proof (induction vs arbitrary: m)
  case Nil
  then show ?case by simp
next
  case (Cons v vs)
  obtain sv where sv: "vi_Voucher v = Some sv" using Cons.prems by (cases "vi_Voucher v") auto
  show ?case
  proof (cases "sv_Lane sv = lane \<and> sv_Nonce sv > m")
    case True
    with Cons.prems sv have run: "nextNonce_loop vs lane (sv_Nonce sv) = Ok n" by simp
    from Cons.IH [OF run] True sv show ?thesis by auto
  next
    case False
    with Cons.prems sv have run: "nextNonce_loop vs lane m = Ok n" by (auto split: if_splits)
    from Cons.IH [OF run] False sv show ?thesis by (auto simp: not_less)
  qed
qed

lemma word_less_succ:
  assumes "(m :: u64) \<noteq> - 1"
  shows "m < m + 1"
proof -
  have "1 + m \<noteq> 0" using assms by (metis add.commute add_eq_0_iff)
  from unatSuc [OF this] show ?thesis by (simp add: word_less_nat_alt add.commute)
qed

lemma nextNonceForLane_fresh:
  assumes "nextNonceForLane ci lane = Ok n"
    and "\<forall>v\<in>set (ci_Vouchers ci). \<forall>sv. vi_Voucher v = Some sv \<longrightarrow> sv_Lane sv = lane \<longrightarrow> sv_Nonce sv \<noteq> - 1"
    and "v \<in> set (ci_Vouchers ci)" "vi_Voucher v = Some sv" "sv_Lane sv = lane"
  shows "sv_Nonce sv < n"
proof -
  obtain m where m: "nextNonce_loop (ci_Vouchers ci) lane 0 = Ok m" "n = m + 1"
    using assms(1) unfolding nextNonceForLane_def by (auto elim: bind_go_Ok)
  have "m \<noteq> - 1" using nextNonce_loop_le [OF m(1)] assms(2) by auto
  then have "m < m + 1" by (rule word_less_succ)
  with nextNonce_loop_le [OF m(1)] assms(3-5) m(2) show ?thesis by (auto intro: le_less_trans)
qed

section \<open>The contract\<close>

text \<open>The calls by which a voucher is checked leave the datastore alone.\<close>

definition quiet_node :: "'w FullNode \<Rightarrow> ('w \<Rightarrow> 'c) \<Rightarrow> bool" where
  "quiet_node api v \<longleftrightarrow>
     (\<forall>a. keeps v (fn_StateGetActor api a)) \<and> (\<forall>a. keeps v (fn_StateReadState api a)) \<and>
     (\<forall>c. keeps v (fn_ChainReadObj api c)) \<and> (\<forall>b c. keeps v (fn_PutBlock api b c)) \<and>
     (\<forall>c. keeps v (fn_AsArray api c)) \<and> (\<forall>c. keeps v (fn_ForEach api c)) \<and>
     (\<forall>a. keeps v (fn_StateAccountKey api a)) \<and> (\<forall>a b. keeps v (fn_WalletSign api a b))"

text \<open>What the chain answers about a channel before the stored vouchers are applied: the actor
  and its lanes, once the signature of the voucher has been verified.\<close>

definition chain_view :: "'w FullNode \<Rightarrow> Address \<Rightarrow> SignedVoucher \<Rightarrow> ('w, Actor \<times> lanes) io" where
  "chain_view api ch sv =
     bindE (loadPaychActorState api ch) (\<lambda>(act, st).
     bindE (fn_StateAccountKey api (ps_From st)) (\<lambda>from.
     bindE (lift_go (fn_SigningBytes api sv)) (\<lambda>vb.
     bindE (lift_go (fn_Verify api (sv_Signature sv) from vb)) (\<lambda>_.
     bindE (fn_AsArray api (ps_LaneStates st)) (\<lambda>_.
     bindE (fn_ForEach api (ps_LaneStates st)) (\<lambda>chain.
       ret (act, fold (\<lambda>(i, l). AList.update i l) chain [])))))))"

lemma chain_view_distinct:
  "chain_view api ch sv w = (Ok (act, lanes), w') \<Longrightarrow> distinct (map fst lanes)"
  unfolding chain_view_def
  by (elim bindE_Ok) (auto elim!: bindE_Ok simp: chain_lanes_distinct split: prod.splits)

text \<open>The answers under which a voucher is accepted, and the lanes it is checked against.\<close>

definition accepts ::
    "'w accessor \<Rightarrow> ChannelInfo \<Rightarrow> Address \<Rightarrow> SignedVoucher \<Rightarrow> TokenAmount \<Rightarrow> 'w \<Rightarrow> Actor \<Rightarrow> lanes \<Rightarrow> bool" where
  "accepts ca ci ch sv minDelta w act lanes \<longleftrightarrow> sv_ChannelAddr sv = ch \<and>
     (\<exists>chain w1. chain_view (ca_api ca) ch sv w = (Ok (act, chain), w1) \<and>
        apply_vouchers (ci_Vouchers ci) chain = Ok lanes) \<and>
     check_lanes act lanes sv = Ok lanes \<and> minDelta \<le> sv_Amount sv - redeemed_in lanes (sv_Lane sv)"

lemma accepts_lanes:
  assumes "accepts ca ci ch sv minDelta w act lanes"
  shows "distinct (map fst lanes)" "sv_Merges sv = []"
    "lanes_total (AList.update (sv_Lane sv) (voucher_lane sv) lanes) \<le> act_Balance act"
    "map_of lanes (sv_Lane sv) = Some ls \<Longrightarrow> ls_nonce ls < sv_Nonce sv \<and> ls_redeemed ls < sv_Amount sv"
    "v \<in> set (ci_Vouchers ci) \<Longrightarrow> vi_Voucher v = Some sw \<Longrightarrow> sv_Lane sw = sv_Lane sv \<Longrightarrow> sv_Nonce sw < sv_Nonce sv"
proof -
  obtain chain w1 where c: "chain_view (ca_api ca) ch sv w = (Ok (act, chain), w1)"
      "apply_vouchers (ci_Vouchers ci) chain = Ok lanes" "check_lanes act lanes sv = Ok lanes"
    using assms unfolding accepts_def by blast
  show d: "distinct (map fst lanes)"
    using apply_vouchers_distinct [OF c(2) chain_view_distinct [OF c(1)]] .
  note iff = c(3) [unfolded check_lanes_iff [OF d]]
  show "sv_Merges sv = []" "lanes_total (AList.update (sv_Lane sv) (voucher_lane sv) lanes) \<le> act_Balance act"
    "map_of lanes (sv_Lane sv) = Some ls \<Longrightarrow> ls_nonce ls < sv_Nonce sv \<and> ls_redeemed ls < sv_Amount sv"
    using iff by simp_all
  show "v \<in> set (ci_Vouchers ci) \<Longrightarrow> vi_Voucher v = Some sw \<Longrightarrow> sv_Lane sw = sv_Lane sv \<Longrightarrow> sv_Nonce sw < sv_Nonce sv"
    using apply_vouchers_nonce [OF c(2), of v sw] iff by (auto intro: le_less_trans)
qed

locale voucher_channel = channel_store "ca_store ca" contents rest room
  for ca :: "'w accessor" and contents :: "'w \<Rightarrow> ds_key \<Rightarrow> bytes option" and rest :: "'w \<Rightarrow> 'r"
    and room :: "'w \<Rightarrow> bool" +
  assumes quiet: "quiet_node (ca_api ca) contents"
begin

abbreviation sole :: "Address \<Rightarrow> ChannelInfo \<Rightarrow> 'w \<Rightarrow> bool" where
  "sole ch ci w \<equiv> sole_channel (ca_store ca) (contents w) ch ci"

lemma quiet_calls [intro, simp]:
  "keeps contents (fn_StateGetActor (ca_api ca) a)" "keeps contents (fn_StateReadState (ca_api ca) a)"
  "keeps contents (fn_ChainReadObj (ca_api ca) c)" "keeps contents (fn_PutBlock (ca_api ca) b c)"
  "keeps contents (fn_AsArray (ca_api ca) c)" "keeps contents (fn_ForEach (ca_api ca) c)"
  "keeps contents (fn_StateAccountKey (ca_api ca) a)" "keeps contents (fn_WalletSign (ca_api ca) a b)"
  using quiet by (simp_all add: quiet_node_def)

lemma load_keeps [intro, simp]: "keeps contents (loadPaychActorState (ca_api ca) ch)"
  unfolding loadPaychActorState_def wrapE_def by (intro keeps_bindE keeps_tryE) auto

lemma chain_view_keeps [intro, simp]: "keeps contents (chain_view (ca_api ca) ch sv)"
  unfolding chain_view_def by (auto intro!: keeps_bindE split: prod.splits)

lemma VouchersForPaych_sole:
  "ok w \<Longrightarrow> sole ch ci w \<Longrightarrow> VouchersForPaych (ca_store ca) ch w = (Ok (ci_Vouchers ci), w)"
  using ByAddress_sole [of w ch ci] by (simp add: VouchersForPaych_def ret_def)

text \<open>The lanes and the check, over what the chain answers and the vouchers of the store.\<close>

lemma laneStates_sole:
  assumes "ok w" "sole ch ci w"
  shows "laneStates ca st ch w =
    bindE (fn_AsArray (ca_api ca) (ps_LaneStates st)) (\<lambda>_.
    bindE (fn_ForEach (ca_api ca) (ps_LaneStates st)) (\<lambda>chain.
      lift_go (apply_vouchers (ci_Vouchers ci) (fold (\<lambda>(i, l). AList.update i l) chain [])))) w"
proof -
  have "tryE (VouchersForPaych (ca_store ca) ch)
      (\<lambda>err. if err \<noteq> ErrChannelNotTracked then fail err else ret []) ret w'
     = (Ok (ci_Vouchers ci), w')" if "contents w' = contents w" for w'
    using that assms VouchersForPaych_sole [of w' ch ci] by (simp add: ret_def)
  then show ?thesis
    unfolding laneStates_def
    by (intro bindE_cong_keeps [where v = contents]) auto
qed

lemma checkVoucher_sole:
  assumes "ok w" "sole ch ci w" "sv_ChannelAddr sv = ch"
  shows "checkVoucherValidUnlocked ca ch (Some sv) w =
    bindE (chain_view (ca_api ca) ch sv) (\<lambda>(act, chain).
      lift_go (bind_go (apply_vouchers (ci_Vouchers ci) chain) (\<lambda>lanes. check_lanes act lanes sv))) w"
proof -
  have lanes: "bindE (laneStates ca st ch) (\<lambda>lanes. lift_go (check_lanes act lanes sv)) w' =
    bindE (bindE (fn_AsArray (ca_api ca) (ps_LaneStates st)) (\<lambda>_.
      bindE (fn_ForEach (ca_api ca) (ps_LaneStates st)) (\<lambda>chain.
        ret (act, fold (\<lambda>(i, l). AList.update i l) chain []))))
      (\<lambda>(act, chain). lift_go (bind_go (apply_vouchers (ci_Vouchers ci) chain)
        (\<lambda>lanes. check_lanes act lanes sv))) w'"
    if "contents w' = contents w" for st act w'
    using that assms laneStates_sole [of w' ch ci st]
    by (simp add: bindE_cong_run [of "laneStates ca st ch"] bindE_assoc bindE_lift_go)
  have step: "contents w' = contents w \<Longrightarrow> keeps contents m \<Longrightarrow>
      (\<And>x w''. contents w'' = contents w \<Longrightarrow> f x w'' = g x w'') \<Longrightarrow> bindE m f w' = bindE m g w'"
    for w' and m :: "('w, 'b) io" and f g :: "'b \<Rightarrow> ('w, lanes) io"
    by (rule bindE_cong_keeps [where v = contents]) auto
  show ?thesis
    unfolding checkVoucherValidUnlocked_def chain_view_def bindE_assoc split_def
    by (auto simp: assms(3) lanes [unfolded bindE_assoc split_def] intro!: step)
qed

lemma sole_storable: "ok w \<Longrightarrow> sole ch ci w \<Longrightarrow> storable (ca_store ca) ci"
  using store_ok_chan [of "ca_store ca"] by (auto simp: sole_channel_def)

text \<open>Adding a voucher that is stored already changes nothing.\<close>

lemma addVoucher_again:
  assumes "ok w" "sole ch ci w" "v \<in> set (ci_Vouchers ci)" "vi_Voucher v = Some sv"
  shows "addVoucherUnlocked ca ch (Some sv) minDelta w = (Ok 0, w)"
proof -
  note st = sole_storable [OF assms(1,2)]
  have "position (\<lambda>v. vi_Voucher v = Some sv) (ci_Vouchers ci) \<noteq> None" using assms(3,4) by auto
  with infoForVoucher_storable [OF st storable_encodable [OF st assms(3,4)]] ByAddress_sole [OF assms(1,2)]
  show ?thesis by (auto simp: addVoucherUnlocked_def ret_def)
qed

text \<open>Adding a new one.\<close>

lemma addVoucher_new:
  assumes "ok w" "sole ch ci w" "\<forall>v\<in>set (ci_Vouchers ci). vi_Voucher v \<noteq> Some sv"
    and "encodable (cs_cbg (ca_store ca)) sv"
  shows "addVoucherUnlocked ca ch (Some sv) minDelta w =
    bindE (checkVoucherValidUnlocked ca ch (Some sv)) (\<lambda>lanes.
      let delta = sv_Amount sv - redeemed_in lanes (sv_Lane sv)
      in if minDelta > delta
         then fail (GErr (''addVoucher: supplied token amount too low; minD='' @ show_int minDelta @
              '', D='' @ show_int delta @ ''; laneAmt='' @ show_int (redeemed_in lanes (sv_Lane sv)) @
              ''; v.Amt='' @ show_int (sv_Amount sv)))
         else bindE (putChannelInfo (ca_store ca) (with_voucher ci sv)) (\<lambda>_. ret delta)) w"
proof -
  have "infoForVoucher (cs_cbg (ca_store ca)) (ci_Vouchers ci) (Some sv) = Ok None"
    using infoForVoucher_storable [OF sole_storable [OF assms(1,2)] assms(4)] assms(3) by auto
  with ByAddress_sole [OF assms(1,2)] show ?thesis
    unfolding redeemed_in_def by (simp add: addVoucherUnlocked_def Let_def)
qed

lemma addVoucher_new_Ok:
  assumes "ok w" "sole ch ci w" "\<forall>v\<in>set (ci_Vouchers ci). vi_Voucher v \<noteq> Some sv"
    and "storable (ca_store ca) (with_voucher ci sv)" "encodable (cs_cbg (ca_store ca)) sv"
    and "accepts ca ci ch sv minDelta w act lanes"
  obtains w' where
    "addVoucherUnlocked ca ch (Some sv) minDelta w = (Ok (sv_Amount sv - redeemed_in lanes (sv_Lane sv)), w')"
    "ok w'" "sole ch (with_voucher ci sv) w'"
proof -
  obtain chain w1 where c: "sv_ChannelAddr sv = ch" "chain_view (ca_api ca) ch sv w = (Ok (act, chain), w1)"
      "apply_vouchers (ci_Vouchers ci) chain = Ok lanes" "check_lanes act lanes sv = Ok lanes"
      "minDelta \<le> sv_Amount sv - redeemed_in lanes (sv_Lane sv)"
    using assms(6) unfolding accepts_def by blast
  have w1: "contents w1 = contents w" using keepsD [OF chain_view_keeps c(2)] .
  have check: "checkVoucherValidUnlocked ca ch (Some sv) w = (Ok lanes, w1)"
    using c by (simp add: checkVoucher_sole [OF assms(1,2)] ret_def)
  obtain w' where w': "putChannelInfo (ca_store ca) (with_voucher ci sv) w1 = (Ok (with_voucher ci sv), w')"
      "ok w'" "sole ch (with_voucher ci sv) w'"
    by (rule put_sole [of w1 ch ci "with_voucher ci sv"])
       (use assms(1,2,4) w1 in \<open>auto simp: with_voucher_def sole_channel_def\<close>)
  show ?thesis
    using c(5) check w' by (intro that [of w']) (simp_all add: addVoucher_new [OF assms(1-3,5)] Let_def ret_def)
qed

lemma addVoucher_new_OkD:
  assumes "ok w" "sole ch ci w" "\<forall>v\<in>set (ci_Vouchers ci). vi_Voucher v \<noteq> Some sv"
    and "encodable (cs_cbg (ca_store ca)) sv"
    and "addVoucherUnlocked ca ch (Some sv) minDelta w = (Ok d, w')"
  obtains act lanes where "accepts ca ci ch sv minDelta w act lanes"
    "d = sv_Amount sv - redeemed_in lanes (sv_Lane sv)"
proof -
  obtain lanes w1 where l: "checkVoucherValidUnlocked ca ch (Some sv) w = (Ok lanes, w1)"
      "minDelta \<le> sv_Amount sv - redeemed_in lanes (sv_Lane sv)"
      "d = sv_Amount sv - redeemed_in lanes (sv_Lane sv)"
    using assms(5) unfolding addVoucher_new [OF assms(1-4)] Let_def
  proof (elim bindE_Ok, goal_cases)
    case (1 lanes w1)
    then show ?case by (cases "minDelta > sv_Amount sv - redeemed_in lanes (sv_Lane sv)") (auto elim!: bindE_Ok)
  qed
  have ch: "sv_ChannelAddr sv = ch"
    using l(1) by (auto simp: checkVoucherValidUnlocked_def split: if_splits)
  obtain act chain where a: "chain_view (ca_api ca) ch sv w = (Ok (act, chain), w1)"
      "bind_go (apply_vouchers (ci_Vouchers ci) chain) (\<lambda>lanes. check_lanes act lanes sv) = Ok lanes"
    using l(1) unfolding checkVoucher_sole [OF assms(1,2) ch]
  proof (rule bindE_Ok, goal_cases)
    case (1 p w2)
    then show thesis by (cases p) (simp add: lift_go_def)
  qed
  obtain lanes' where a': "apply_vouchers (ci_Vouchers ci) chain = Ok lanes'" "check_lanes act lanes' sv = Ok lanes"
    by (rule bind_go_Ok [OF a(2)])
  have "lanes' = lanes"
    using a'(2) unfolding check_lanes_iff [OF apply_vouchers_distinct [OF a'(1) chain_view_distinct [OF a(1)]]]
    by simp
  then have "accepts ca ci ch sv minDelta w act lanes"
    unfolding accepts_def using ch a(1) a' l(2) by blast
  then show ?thesis using l(3) by (rule that)
qed

end

end
