(* ===== verification/VoucherProps.thy ===== *)
theory VoucherProps
  imports VoucherLaws
begin

text \<open>
  The properties of the vouchers of a channel: which vouchers are accepted and what accepting
  one changes, the voucher that is created for a lane or the shortfall that is reported, what
  submitting marks, and the vouchers that are redeemed.
\<close>

section \<open>A node in memory\<close>

definition ex_node :: "TokenAmount \<Rightarrow> (u64 \<times> laneState) list \<Rightarrow> 'r mem FullNode" where
  "ex_node balance chain = \<lparr>
     fn_StateGetActor = (\<lambda>_. ret \<lparr>act_Balance = balance\<rparr>), fn_StateReadState = (\<lambda>_. ret ''state''),
     fn_ParseState = (\<lambda>_. Ok \<lparr>ps_From = ''f0100'', ps_To = ''f0200'', ps_LaneStates = ''lanes''\<rparr>),
     fn_ChainReadObj = (\<lambda>_. ret []), fn_NewBlock = (\<lambda>_ _. Ok ()), fn_PutBlock = (\<lambda>_ _. ret ()),
     fn_AsArray = (\<lambda>_. ret (of_nat (length chain))), fn_ForEach = (\<lambda>_. ret chain),
     fn_StateAccountKey = (\<lambda>a. ret (if a = ''f0100'' then ''f1client'' else ''f1miner'')),
     fn_StateNetworkVersion = ret 10,
     fn_mb_Create = (\<lambda>_ from to amt. Ok \<lparr>msg_To = ''f01'', msg_From = from, msg_Value = amt, msg_Method = 2,
       msg_Nonce = 0, msg_Params = to\<rparr>),
     fn_mb_Update = (\<lambda>_ from ch sv secret. Ok \<lparr>msg_To = ch, msg_From = from, msg_Value = 0, msg_Method = 2,
       msg_Nonce = 0, msg_Params = ''update''\<rparr>),
     fn_mb_Settle = (\<lambda>_ from ch. Ok \<lparr>msg_To = ch, msg_From = from, msg_Value = 0, msg_Method = 3,
       msg_Nonce = 0, msg_Params = ''settle''\<rparr>),
     fn_mb_Collect = (\<lambda>_ from ch. Ok \<lparr>msg_To = ch, msg_From = from, msg_Value = 0, msg_Method = 4,
       msg_Nonce = 0, msg_Params = ''collect''\<rparr>),
     fn_GasEstimate = ret, fn_MpoolGetNonce = (\<lambda>_. ret 7), fn_ToStorageBlock = (\<lambda>_. Ok [1, 2]),
     fn_MpoolPush = (\<lambda>_. ret ()), fn_SmsgCid = (\<lambda>m. ''msg-'' @ msg_Params (sm_Message m)),
     fn_StateWaitMsg = (\<lambda>_. ret \<lparr>rcp_ExitCode = 0, rcp_Return = []\<rparr>),
     fn_DecodeExecReturn = (\<lambda>_. Ok ''f2paych''), fn_WalletHas = (\<lambda>a. ret (a = ''f1miner'')),
     fn_WalletSign = (\<lambda>_ _. ret ''sig''), fn_SigningBytes = (\<lambda>_. Ok [7]),
     fn_Verify = (\<lambda>sig _ _. if sig = Some ''sig'' then Ok () else Err (GErr ''bad signature''))\<rparr>"

definition ex_ca :: "TokenAmount \<Rightarrow> (u64 \<times> laneState) list \<Rightarrow> unit mem accessor" where
  "ex_ca balance chain = \<lparr>ca_from = ''f1client'', ca_to = ''f1miner'', ca_api = ex_node balance chain,
     ca_store = ex_store\<rparr>"

lemma ex_ca_simps [simp]:
  "ca_store (ex_ca b c) = ex_store" "ca_api (ex_ca b c) = ex_node b c"
  by (simp_all add: ex_ca_def)

interpretation ex_vc: voucher_channel "ex_ca b c" mem_contents snd mem_room
proof (intro voucher_channel.intro voucher_channel_axioms.intro, unfold ex_ca_simps)
  show "channel_store ex_store mem_contents snd mem_room" by (rule mem_cs.channel_store_axioms)
  show "quiet_node (ex_node b c) mem_contents" by (simp add: quiet_node_def ex_node_def)
qed

lemma ex_chain_view:
  "chain_view (ex_node b c) ch sv w =
     (if sv_Signature sv = Some ''sig'' then (Ok (\<lparr>act_Balance = b\<rparr>, fold (\<lambda>(i, l). AList.update i l) c []), w)
      else (Err (GErr ''bad signature''), w))"
  by (simp add: chain_view_def loadPaychActorState_def wrapE_def ex_node_def go_defs bindE_def tryE_def)

definition ex_voucher_1 :: SignedVoucher where
  "ex_voucher_1 = \<lparr>sv_ChannelAddr = ''f2paych'', sv_Lane = 0, sv_Nonce = 1, sv_Amount = 400, sv_Merges = [],
     sv_Signature = Some ''sig'', sv_Other = ''''\<rparr>"

lemma ex_voucher_1_encodable: "encodable ref_cbg ex_voucher_1"
  by (auto simp: encodable_def ex_voucher_1_def ref_voucher_fits_def intro!: ref_codecs)

section \<open>Accepting a voucher\<close>

text \<open>C22: which vouchers a channel accepts. A voucher that is not stored yet is added exactly when
  it names the channel, the chain's answers and its signature are good, it merges nothing, it
  has a higher nonce and a higher amount than its lane, the lanes with it stay within the
  balance of the actor, and it adds at least the minimum; the answer is what it adds.\<close>

theorem voucher_accepted_iff:
  assumes "voucher_channel ca contents rest room" "store_ok (ca_store ca) (contents w)"
    and "sole_channel (ca_store ca) (contents w) ch ci"
    and "\<forall>v\<in>set (ci_Vouchers ci). vi_Voucher v \<noteq> Some sv" "length (ci_Vouchers ci) < 8192"
    and "encodable (cs_cbg (ca_store ca)) sv"
  shows "(\<exists>w'. addVoucherUnlocked ca ch (Some sv) minDelta w = (Ok d, w')) \<longleftrightarrow>
    sv_ChannelAddr sv = ch \<and> sv_Merges sv = [] \<and>
    (\<exists>act chain w1 lanes. chain_view (ca_api ca) ch sv w = (Ok (act, chain), w1) \<and>
       apply_vouchers (ci_Vouchers ci) chain = Ok lanes \<and>
       (\<forall>ls. map_of lanes (sv_Lane sv) = Some ls \<longrightarrow> ls_nonce ls < sv_Nonce sv \<and> ls_redeemed ls < sv_Amount sv) \<and>
       lanes_total (AList.update (sv_Lane sv) (voucher_lane sv) lanes) \<le> act_Balance act \<and>
       d = sv_Amount sv - redeemed_in lanes (sv_Lane sv) \<and> minDelta \<le> d)"
    (is "?added \<longleftrightarrow> ?ok")
proof
  note st = storable_with_voucher [OF voucher_channel.sole_storable [OF assms(1-3)] assms(6,5)]
  {
    assume ?added
    then obtain w' where "addVoucherUnlocked ca ch (Some sv) minDelta w = (Ok d, w')" by blast
    from voucher_channel.addVoucher_new_OkD [OF assms(1-4,6) this] obtain act lanes
      where a: "accepts ca ci ch sv minDelta w act lanes" "d = sv_Amount sv - redeemed_in lanes (sv_Lane sv)"
      by blast
    from accepts_lanes [OF a(1)] a show ?ok unfolding accepts_def by blast
  next
    assume ok: ?ok
    then obtain act chain w1 lanes where c: "chain_view (ca_api ca) ch sv w = (Ok (act, chain), w1)"
        "apply_vouchers (ci_Vouchers ci) chain = Ok lanes"
        "\<forall>ls. map_of lanes (sv_Lane sv) = Some ls \<longrightarrow> ls_nonce ls < sv_Nonce sv \<and> ls_redeemed ls < sv_Amount sv"
        "lanes_total (AList.update (sv_Lane sv) (voucher_lane sv) lanes) \<le> act_Balance act"
        "d = sv_Amount sv - redeemed_in lanes (sv_Lane sv)" "minDelta \<le> d" by blast
    have "check_lanes act lanes sv = Ok lanes"
      using ok c(3,4) check_lanes_iff [OF apply_vouchers_distinct [OF c(2) chain_view_distinct [OF c(1)]]] by simp
    then have "accepts ca ci ch sv minDelta w act lanes"
      using ok c(1,2) c(6) [unfolded c(5)] by (auto simp: accepts_def)
    from voucher_channel.addVoucher_new_Ok [OF assms(1-4) st assms(6) this] c(5) show ?added by blast
  }
qed

lemma unit_mem [simp]: "\<exists>a. (w :: unit mem) = (a, ())"
  by (cases w) simp

lemma ex_encodable_store [simp]: "encodable (cs_cbg ex_store) ex_voucher_1"
  using ex_voucher_1_encodable by simp

text \<open>On an actor with 1000, 500 of it redeemed in lane 5, a voucher of 400 is accepted.\<close>

theorem voucher_accepted_iff_witness:
  "\<exists>w'. addVoucherUnlocked (ex_ca 1000 [(5, \<lparr>ls_redeemed = 500, ls_nonce = 3\<rparr>)]) ''f2paych'' (Some ex_voucher_1)
     100 ex_world = (Ok 400, w')"
proof -
  have stored: "\<forall>v\<in>set (ci_Vouchers ex_ci). vi_Voucher v \<noteq> Some ex_voucher_1" "length (ci_Vouchers ex_ci) < 8192"
    by (simp_all add: ex_ci_def)
  have "sv_ChannelAddr ex_voucher_1 = ''f2paych'' \<and> sv_Merges ex_voucher_1 = [] \<and>
      sv_Signature ex_voucher_1 = Some ''sig''" by (simp add: ex_voucher_1_def)
  then show ?thesis
    by (intro voucher_accepted_iff [OF ex_vc.voucher_channel_axioms, unfolded ex_ca_simps,
          OF ex_world_chans(1) ex_world_sole stored ex_encodable_store, THEN iffD2])
       (simp add: ex_chain_view ex_ci_def lanes_total_def redeemed_in_def, simp add: ex_voucher_1_def)
qed

section \<open>What accepting a voucher changes\<close>

text \<open>In each lane the vouchers stand in the order of their nonces.\<close>

definition nonces_increasing :: "VoucherInfo list \<Rightarrow> bool" where
  "nonces_increasing vs \<longleftrightarrow> sorted_wrt (\<lambda>u v. \<forall>a b. vi_Voucher u = Some a \<longrightarrow> vi_Voucher v = Some b \<longrightarrow>
     sv_Lane a = sv_Lane b \<longrightarrow> sv_Nonce a < sv_Nonce b) vs"

lemma nonces_increasing_add:
  assumes "nonces_increasing (ci_Vouchers ci)"
    and "\<forall>v\<in>set (ci_Vouchers ci). \<forall>sw. vi_Voucher v = Some sw \<longrightarrow> sv_Lane sw = sv_Lane sv \<longrightarrow> sv_Nonce sw < sv_Nonce sv"
  shows "nonces_increasing (ci_Vouchers (with_voucher ci sv))"
  using assms by (auto simp: nonces_increasing_def with_voucher_def sorted_wrt_append)

text \<open>C23: an accepted voucher is stored. The channel of the address afterwards has the voucher
  behind the others, its lane is not handed out again, in every lane the stored vouchers keep
  their nonces increasing, and adding the same voucher again answers 0 whatever minimum is
  asked for, changing nothing.\<close>

theorem accepted_voucher_is_stored:
  assumes "voucher_channel ca contents rest room" "store_ok (ca_store ca) (contents w)"
    and "sole_channel (ca_store ca) (contents w) ch ci"
    and "\<forall>v\<in>set (ci_Vouchers ci). vi_Voucher v \<noteq> Some sv" "length (ci_Vouchers ci) < 8192"
    and "encodable (cs_cbg (ca_store ca)) sv" "nonces_increasing (ci_Vouchers ci)" "sv_Lane sv \<noteq> - 1"
    and "addVoucherUnlocked ca ch (Some sv) minDelta w = (Ok d, w')"
  shows "ByAddress (ca_store ca) ch w' = (Ok (with_voucher ci sv), w') \<and>
    sv_Lane sv < ci_NextLane (with_voucher ci sv) \<and>
    nonces_increasing (ci_Vouchers (with_voucher ci sv)) \<and>
    (\<forall>m. addVoucherUnlocked ca ch (Some sv) m w' = (Ok 0, w'))"
proof -
  note st = storable_with_voucher [OF voucher_channel.sole_storable [OF assms(1-3)] assms(6,5)]
  obtain act lanes where a: "accepts ca ci ch sv minDelta w act lanes" "d = sv_Amount sv - redeemed_in lanes (sv_Lane sv)"
    by (rule voucher_channel.addVoucher_new_OkD [OF assms(1-4,6,9)])
  have w': "store_ok (ca_store ca) (contents w')" "sole_channel (ca_store ca) (contents w') ch (with_voucher ci sv)"
    using voucher_channel.addVoucher_new_Ok [OF assms(1-4) st assms(6) a(1)] assms(9)
    by (metis prod.inject)+
  have cs: "channel_store (ca_store ca) contents rest room"
    using assms(1) by (rule voucher_channel.axioms(1))
  have "\<lparr>vi_Voucher = Some sv, vi_Proof = [], vi_Submitted = False\<rparr> \<in> set (ci_Vouchers (with_voucher ci sv))"
    by (simp add: with_voucher_def)
  from voucher_channel.addVoucher_again [OF assms(1) w' this]
  have "\<forall>m. addVoucherUnlocked ca ch (Some sv) m w' = (Ok 0, w')" by simp
  moreover have "sv_Lane sv < ci_NextLane (with_voucher ci sv)"
    using word_less_succ [OF assms(8)] by (simp add: with_voucher_def not_le)
  moreover have "nonces_increasing (ci_Vouchers (with_voucher ci sv))"
    using accepts_lanes(5) [OF a(1)] by (intro nonces_increasing_add assms(7)) blast
  ultimately show ?thesis using channel_store.ByAddress_sole [OF cs w'] by blast
qed

theorem accepted_voucher_is_stored_witness:
  "\<exists>w'. addVoucherUnlocked (ex_ca 1000 []) ''f2paych'' (Some ex_voucher_1) 100 ex_world = (Ok 400, w') \<and>
     ByAddress ex_store ''f2paych'' w' = (Ok (with_voucher ex_ci ex_voucher_1), w') \<and>
     addVoucherUnlocked (ex_ca 1000 []) ''f2paych'' (Some ex_voucher_1) 100 w' = (Ok 0, w')"
proof -
  have stored: "\<forall>v\<in>set (ci_Vouchers ex_ci). vi_Voucher v \<noteq> Some ex_voucher_1" "length (ci_Vouchers ex_ci) < 8192"
    "nonces_increasing (ci_Vouchers ex_ci)"
    by (simp_all add: ex_ci_def nonces_increasing_def)
  have lane: "sv_Lane ex_voucher_1 \<noteq> - 1" by (simp add: ex_voucher_1_def)
  have acc: "accepts (ex_ca 1000 []) ex_ci ''f2paych'' ex_voucher_1 100 ex_world \<lparr>act_Balance = 1000\<rparr> []"
    by (simp add: accepts_def ex_chain_view ex_ci_def ex_voucher_1_def check_lanes_def redeemed_in_def
        totalRedeemedWithVoucher_def)
  have st: "storable ex_store (with_voucher ex_ci ex_voucher_1)"
    by (rule storable_with_voucher [OF ex_ci_storable ex_encodable_store stored(2)])
  obtain w' where w': "addVoucherUnlocked (ex_ca 1000 []) ''f2paych'' (Some ex_voucher_1) 100 ex_world =
      (Ok (sv_Amount ex_voucher_1 - redeemed_in [] (sv_Lane ex_voucher_1)), w')"
    using ex_vc.addVoucher_new_Ok [unfolded ex_ca_simps, OF ex_world_chans(1) ex_world_sole stored(1) st
        ex_encodable_store acc] by blast
  have d: "sv_Amount ex_voucher_1 - redeemed_in [] (sv_Lane ex_voucher_1) = 400"
    by (simp add: ex_voucher_1_def redeemed_in_def)
  from accepted_voucher_is_stored [OF ex_vc.voucher_channel_axioms, unfolded ex_ca_simps,
      OF ex_world_chans(1) ex_world_sole stored(1,2) ex_encodable_store stored(3) lane w'] w' [unfolded d]
  show ?thesis by blast
qed

section \<open>Creating a voucher\<close>

lemma createVoucher_result:
  assumes "voucher_channel ca contents rest room" "store_ok (ca_store ca) (contents w)"
    and "sole_channel (ca_store ca) (contents w) ch ci" "length (ci_Vouchers ci) < 8192"
    and "nextNonceForLane ci (sv_Lane v) = Ok n" "sv_Merges v = []"
    and "\<forall>u\<in>set (ci_Vouchers ci). \<forall>su. vi_Voucher u = Some su \<longrightarrow> sv_Lane su = sv_Lane v \<longrightarrow> sv_Nonce su \<noteq> - 1"
    and "fn_SigningBytes (ca_api ca) (v\<lparr>sv_ChannelAddr := ch, sv_Nonce := n\<rparr>) = Ok vb"
    and "fn_WalletSign (ca_api ca) (ci_Control ci) vb w = (Ok sig, w1)"
    and "sv = v\<lparr>sv_ChannelAddr := ch, sv_Nonce := n, sv_Signature := Some sig\<rparr>"
    and "encodable (cs_cbg (ca_store ca)) sv"
    and "chain_view (ca_api ca) ch sv w1 = (Ok (act, chain), w2)"
    and "apply_vouchers (ci_Vouchers ci) chain = Ok lanes"
    and "\<forall>ls. map_of lanes (sv_Lane v) = Some ls \<longrightarrow> ls_nonce ls < n \<and> ls_redeemed ls < sv_Amount v"
    and "redeemed_in lanes (sv_Lane v) \<le> sv_Amount v"
    and "need = lanes_total (AList.update (sv_Lane v) (voucher_lane sv) lanes)"
  shows "if need \<le> act_Balance act
     then \<exists>w'. createVoucher ca ch v w = (Ok \<lparr>vcr_Voucher = Some sv, vcr_Shortfall = 0\<rparr>, w') \<and>
       sole_channel (ca_store ca) (contents w') ch (with_voucher ci sv)
     else createVoucher ca ch v w = (Ok \<lparr>vcr_Voucher = None, vcr_Shortfall = need - act_Balance act\<rparr>, w2)"
proof -
  let ?s = "ca_store ca"
  have cs: "channel_store ?s contents rest room" using assms(1) by (rule voucher_channel.axioms(1))
  have new: "\<forall>u\<in>set (ci_Vouchers ci). vi_Voucher u \<noteq> Some sv"
    using nextNonceForLane_fresh [OF assms(5,7)] assms(10) by fastforce
  have w1: "contents w1 = contents w"
    using keepsD [OF voucher_channel.quiet_calls(8) [OF assms(1)] assms(9)] .
  have ok1: "store_ok ?s (contents w1)" "sole_channel ?s (contents w1) ch ci" using assms(2,3) w1 by simp_all
  note st = storable_with_voucher [OF voucher_channel.sole_storable [OF assms(1-3)] assms(11,4)]
  have sv: "sv_ChannelAddr sv = ch" "sv_Lane sv = sv_Lane v" "sv_Amount sv = sv_Amount v" "sv_Nonce sv = n"
    "sv_Merges sv = []" using assms(6,10) by simp_all
  have create: "createVoucher ca ch v w = tryE (addVoucherUnlocked ca ch (Some sv) 0)
      (\<lambda>err. case err of
           ErrInsufficientFunds shortfall \<Rightarrow> ret \<lparr>vcr_Voucher = None, vcr_Shortfall = shortfall\<rparr>
         | _ \<Rightarrow> fail (Errorf ''failed to persist voucher'' err))
      (\<lambda>_. ret \<lparr>vcr_Voucher = Some sv, vcr_Shortfall = 0\<rparr>) w1"
    using channel_store.ByAddress_sole [OF cs assms(2,3)] assms(5,8,9)
    by (simp add: createVoucher_def wrapE_def ret_def bindE_def tryE_def lift_go_def Let_def assms(10))
  have d: "distinct (map fst lanes)"
    using apply_vouchers_distinct [OF assms(13) chain_view_distinct [OF assms(12)]] .
  show ?thesis
  proof (cases "need \<le> act_Balance act")
    case True
    then have "check_lanes act lanes sv = Ok lanes"
      using assms(14,16) sv check_lanes_iff [OF d] by simp
    then have "accepts ca ci ch sv 0 w1 act lanes"
      unfolding accepts_def using sv assms(12,13,15) by auto
    from voucher_channel.addVoucher_new_Ok [OF assms(1) ok1 new st assms(11) this] obtain w'
      where w': "addVoucherUnlocked ca ch (Some sv) 0 w1 = (Ok (sv_Amount sv - redeemed_in lanes (sv_Lane sv)), w')"
        "sole_channel ?s (contents w') ch (with_voucher ci sv)" by blast
    then have "createVoucher ca ch v w = (Ok \<lparr>vcr_Voucher = Some sv, vcr_Shortfall = 0\<rparr>, w')"
      by (simp add: create ret_def)
    with w'(2) True show ?thesis by auto
  next
    case False
    have "check_lanes act lanes sv = Err (ErrInsufficientFunds (need - act_Balance act))"
      using False assms(14,16) sv unfolding lanes_total_update [OF d]
      by (cases "map_of lanes (sv_Lane v)")
         (auto simp: check_lanes_def totalRedeemedWithVoucher_def lanes_total_def redeemed_in_def)
    then have "checkVoucherValidUnlocked ca ch (Some sv) w1 =
        (Err (ErrInsufficientFunds (need - act_Balance act)), w2)"
      using assms(12,13) sv(1) by (simp add: voucher_channel.checkVoucher_sole [OF assms(1) ok1 sv(1)] fail_def)
    then have "addVoucherUnlocked ca ch (Some sv) 0 w1 = (Err (ErrInsufficientFunds (need - act_Balance act)), w2)"
      by (simp add: voucher_channel.addVoucher_new [OF assms(1) ok1 new assms(11)])
    with False show ?thesis by (simp add: create ret_def)
  qed
qed


text \<open>With 1000 on the actor and 700 of it redeemed, a voucher of 400 is 100 short.\<close>

definition ex_request :: SignedVoucher where
  "ex_request = \<lparr>sv_ChannelAddr = '''', sv_Lane = 0, sv_Nonce = 0, sv_Amount = 400, sv_Merges = [],
     sv_Signature = None, sv_Other = ''''\<rparr>"


section \<open>Submitting a voucher\<close>

lemma supersede_map:
  "\<forall>v\<in>set vs. vi_Voucher v \<noteq> None \<Longrightarrow> supersede sv vs = Ok (map (\<lambda>v.
     if sv_Lane (the (vi_Voucher v)) = sv_Lane sv \<and> sv_Nonce (the (vi_Voucher v)) < sv_Nonce sv
     then v\<lparr>vi_Submitted := True\<rparr> else v) vs)"
  by (induction vs) auto

text \<open>A channel whose vouchers are all there, each one once.\<close>

definition vouchers_ok :: "cbg \<Rightarrow> VoucherInfo list \<Rightarrow> bool" where
  "vouchers_ok cb vs \<longleftrightarrow> (\<forall>v\<in>set vs. \<exists>sv. vi_Voucher v = Some sv \<and> encodable cb sv) \<and> distinct (map vi_Voucher vs)"

text \<open>C26: submitting marks the right vouchers. In a channel with the voucher, exactly that voucher
  and those with a lower nonce in its lane are marked as submitted, nothing else of the channel
  changes, and the voucher then counts as submitted; a voucher that is not in the channel is
  refused.\<close>

theorem submitted_vouchers_are_marked:
  assumes "vouchers_ok cb (ci_Vouchers ci)" "encodable cb sv"
  shows "(if Some sv \<in> vi_Voucher ` set (ci_Vouchers ci)
     then markVoucherSubmitted cb ci (Some sv) = Ok (ci\<lparr>ci_Vouchers := map (\<lambda>v.
         if vi_Voucher v = Some sv \<or> sv_Lane (the (vi_Voucher v)) = sv_Lane sv \<and> sv_Nonce (the (vi_Voucher v)) < sv_Nonce sv
         then v\<lparr>vi_Submitted := True\<rparr> else v) (ci_Vouchers ci)\<rparr>)
       \<and> (\<forall>ci'. markVoucherSubmitted cb ci (Some sv) = Ok ci' \<longrightarrow> wasVoucherSubmitted cb ci' (Some sv) = Ok True)
     else markVoucherSubmitted cb ci (Some sv) =
       Err (GErr ''cannot submit voucher that has not been added to channel''))"
proof -
  let ?vs = "ci_Vouchers ci"
  let ?mark = "map (\<lambda>v. if vi_Voucher v = Some sv \<or> sv_Lane (the (vi_Voucher v)) = sv_Lane sv \<and>
      sv_Nonce (the (vi_Voucher v)) < sv_Nonce sv then v\<lparr>vi_Submitted := True\<rparr> else v) ?vs"
  have all: "\<forall>v\<in>set ?vs. vi_Voucher v \<noteq> None" "\<forall>v\<in>set ?vs. \<forall>sw. vi_Voucher v = Some sw \<longrightarrow> encodable cb sw"
    using assms(1) by (auto simp: vouchers_ok_def)
  note find = infoForVoucher_position [OF assms(2) all(2)]
  show ?thesis
  proof (cases "Some sv \<in> vi_Voucher ` set ?vs")
    case False
    then have "position (\<lambda>v. vi_Voucher v = Some sv) ?vs = None" unfolding position_None by (metis imageI)
    with False find show ?thesis by (simp add: markVoucherSubmitted_def)
  next
    case True
    then have "position (\<lambda>v. vi_Voucher v = Some sv) ?vs \<noteq> None" by auto
    then obtain i where i: "position (\<lambda>v. vi_Voucher v = Some sv) ?vs = Some i" "i < length ?vs"
        "vi_Voucher (?vs ! i) = Some sv"
      using position_Some [of "\<lambda>v. vi_Voucher v = Some sv" ?vs] by fastforce
    have only: "vi_Voucher (?vs ! j) = Some sv \<Longrightarrow> j < length ?vs \<Longrightarrow> j = i" for j
      using assms(1) i(2,3) unfolding vouchers_ok_def by (metis distinct_conv_nth length_map nth_map)
    have "\<forall>v\<in>set (?vs[i := (?vs ! i)\<lparr>vi_Submitted := True\<rparr>]). vi_Voucher v \<noteq> None"
      using all(1) i(3) set_update_subset_insert [of ?vs i] by fastforce
    note sup = supersede_map [OF this, of sv]
    have "map (\<lambda>v. if sv_Lane (the (vi_Voucher v)) = sv_Lane sv \<and> sv_Nonce (the (vi_Voucher v)) < sv_Nonce sv
        then v\<lparr>vi_Submitted := True\<rparr> else v) (?vs[i := (?vs ! i)\<lparr>vi_Submitted := True\<rparr>]) = ?mark" (is "?l = _")
    proof (rule nth_equalityI)
      fix j assume j: "j < length ?l"
      show "?l ! j = ?mark ! j"
      proof (cases "j = i")
        case True
        with j i(2,3) show ?thesis by simp
      next
        case False
        with only [of j] j have "vi_Voucher (?vs ! j) \<noteq> Some sv" by auto
        with False j show ?thesis by simp
      qed
    qed simp
    with sup have "supersede sv (?vs[i := (?vs ! i)\<lparr>vi_Submitted := True\<rparr>]) = Ok ?mark" by simp
    with find i have m: "markVoucherSubmitted cb ci (Some sv) = Ok (ci\<lparr>ci_Vouchers := ?mark\<rparr>)"
      by (simp add: markVoucherSubmitted_def)
    have same: "map vi_Voucher ?mark = map vi_Voucher ?vs" by simp
    have "position (\<lambda>v. vi_Voucher v = Some sv) ?mark = Some i"
    proof -
      have pos: "position (\<lambda>v. vi_Voucher v = Some sv) us = position (\<lambda>x. x = Some sv) (map vi_Voucher us)" for us
        by (induction us) auto
      show ?thesis using i(1) unfolding pos same .
    qed
    moreover have "\<forall>v\<in>set ?mark. \<forall>sw. vi_Voucher v = Some sw \<longrightarrow> encodable cb sw"
      using all(2) by (auto split: if_splits)
    ultimately have "wasVoucherSubmitted cb (ci\<lparr>ci_Vouchers := ?mark\<rparr>) (Some sv) = Ok True"
      using infoForVoucher_position [OF assms(2)] i(2,3) by (simp add: wasVoucherSubmitted_def)
    with True m show ?thesis by simp
  qed
qed

definition ex_voucher_2 :: SignedVoucher where
  "ex_voucher_2 = ex_voucher_1\<lparr>sv_Nonce := 2, sv_Amount := 700\<rparr>"

definition ex_two :: "VoucherInfo list" where
  "ex_two = map (\<lambda>sv. \<lparr>vi_Voucher = Some sv, vi_Proof = [], vi_Submitted = False\<rparr>) [ex_voucher_1, ex_voucher_2]"

theorem submitted_vouchers_are_marked_witness:
  "\<exists>ci'. markVoucherSubmitted ref_cbg (ex_ci\<lparr>ci_Vouchers := ex_two\<rparr>) (Some ex_voucher_2) = Ok ci' \<and>
     map vi_Submitted (ci_Vouchers ci') = [True, True] \<and> wasVoucherSubmitted ref_cbg ci' (Some ex_voucher_2) = Ok True"
proof -
  have enc: "encodable ref_cbg ex_voucher_2"
    by (auto simp: encodable_def ex_voucher_2_def ex_voucher_1_def ref_voucher_fits_def intro!: ref_codecs)
  have ne: "ex_voucher_1 \<noteq> ex_voucher_2" by (simp add: ex_voucher_2_def ex_voucher_1_def)
  have "vouchers_ok ref_cbg (ci_Vouchers (ex_ci\<lparr>ci_Vouchers := ex_two\<rparr>))"
    using enc ex_voucher_1_encodable ne by (simp add: vouchers_ok_def ex_two_def)
  from submitted_vouchers_are_marked [OF this enc]
  show ?thesis by (simp add: ex_two_def) (simp add: ex_voucher_2_def ex_voucher_1_def)
qed

section \<open>Redeeming\<close>

text \<open>The vouchers that are redeemed. For every lane with a voucher the one kept is a voucher
  of that lane with the highest amount of the lane; no lane without a voucher has one.\<close>

theorem best_by_lane_is_maximal:
  assumes "best_by_lane vs [] = Ok best"
  shows "case map_of best l of
      None \<Rightarrow> \<forall>v\<in>set vs. \<forall>sv. vi_Voucher v = Some sv \<longrightarrow> sv_Lane sv \<noteq> l
    | Some b \<Rightarrow> (\<exists>v\<in>set vs. vi_Voucher v = Some b) \<and> sv_Lane b = l \<and>
        (\<forall>v\<in>set vs. \<forall>sv. vi_Voucher v = Some sv \<longrightarrow> sv_Lane sv = l \<longrightarrow> sv_Amount sv \<le> sv_Amount b)"
proof -
  have "best_by_lane vs b0 = Ok best \<Longrightarrow> (\<forall>l b. map_of b0 l = Some b \<longrightarrow> sv_Lane b = l) \<Longrightarrow>
    (case map_of best l of
       None \<Rightarrow> map_of b0 l = None \<and> (\<forall>v\<in>set vs. \<forall>sv. vi_Voucher v = Some sv \<longrightarrow> sv_Lane sv \<noteq> l)
     | Some b \<Rightarrow> (map_of b0 l = Some b \<or> (\<exists>v\<in>set vs. vi_Voucher v = Some b)) \<and> sv_Lane b = l \<and>
         (\<forall>b1. map_of b0 l = Some b1 \<longrightarrow> sv_Amount b1 \<le> sv_Amount b) \<and>
         (\<forall>v\<in>set vs. \<forall>sv. vi_Voucher v = Some sv \<longrightarrow> sv_Lane sv = l \<longrightarrow> sv_Amount sv \<le> sv_Amount b))" for b0
  proof (induction vs arbitrary: b0)
    case Nil
    then show ?case by (auto split: option.splits)
  next
    case (Cons v vs)
    obtain sv where sv: "vi_Voucher v = Some sv" using Cons.prems(1) by (cases "vi_Voucher v") auto
    let ?b1 = "case map_of b0 (sv_Lane sv) of None \<Rightarrow> AList.update (sv_Lane sv) sv b0
      | Some b \<Rightarrow> if sv_Amount sv > sv_Amount b then AList.update (sv_Lane sv) sv b0 else b0"
    have run: "best_by_lane vs ?b1 = Ok best" using Cons.prems(1) sv by simp
    have "\<forall>l b. map_of ?b1 l = Some b \<longrightarrow> sv_Lane b = l"
      using Cons.prems(2) by (auto simp: update_conv' split: option.splits if_splits)
    from Cons.IH [OF run this] Cons.prems(2) sv show ?case
      by (cases "sv_Lane sv = l"; cases "map_of b0 l"; cases "map_of best l")
         (auto simp: update_conv' split: option.splits if_splits)
  qed
  from this [of "[]"] assms show ?thesis by (auto split: option.splits)
qed

theorem best_by_lane_is_maximal_witness:
  "\<exists>best. best_by_lane ex_two [] = Ok best \<and> map_of best 0 = Some ex_voucher_2 \<and> sv_Amount ex_voucher_1 \<le> sv_Amount ex_voucher_2"
proof -
  have "best_by_lane ex_two [] = Ok [(0, ex_voucher_2)]"
    by (simp add: ex_two_def ex_voucher_2_def ex_voucher_1_def)
  from best_by_lane_is_maximal [OF this, of 0] this show ?thesis by (auto simp: ex_two_def)
qed

end
