(* ===== verification/MarketProps.thy ===== *)
theory MarketProps
  imports Market
begin

text \<open>
  What the market keeps and answers: asks and peers survive in the datastore, opening a stream
  ends, a query is answered with the provider's prices, deals that wait for funds are rechecked.
\<close>

section \<open>Asks\<close>

lemma NewAskStore_stored:
  assumes "ask_disk (ask_store_at cb ds ns key) contents rest"
    and "ask_disk.stored_ask (ask_store_at cb ds ns key) contents w a"
  shows "NewAskStore cb ds ns key w = (Ok (ask_store_at cb ds ns key, Some a), w)"
  using ask_disk.tryLoadAsk_stored [OF assms] by (simp add: NewAskStore_def GetAsk_def ret_def bindE_def Let_def)

lemma stored_ask_cong:
  assumes "ask_disk s contents rest" "contents v (as_key s) = contents w (as_key s)"
  shows "ask_disk.stored_ask s contents v a \<longleftrightarrow> ask_disk.stored_ask s contents w a"
  using assms(2) by (simp add: ask_disk.stored_ask_def [OF assms(1)])


lemma ex_fits_Ask: "fits_Ask ref_cbg defaultAsk"
  by (auto simp: fits_Ask_def defaultAsk_def DefaultPricePerByte_def intro!: ref_codecs)


section \<open>Peers\<close>

text \<open>The peers of a payload are remembered in the order in which they were added. Adding a peer
  appends it, unless the same peer without a piece CID is there already, and leaves the peers of
  every other payload as they are; a peer with a piece CID is appended each time it is added; and
  a payload that has 8192 peers takes no more: adding another is an error that changes nothing.\<close>

theorem peers_are_remembered:
  assumes "peer_store l contents rest" "GetPeers l c w = (Ok ps, w)"
  shows "(fits_RetrievalPeers (l_cbg l) \<lparr>Peers = ps @ [peer]\<rparr> \<longrightarrow> (\<exists>w'. AddPeer l c peer w = (Ok (), w') \<and>
      GetPeers l c w' =
        (Ok (if peer \<in> set ps \<and> rp_PieceCID peer = None then ps else ps @ [peer]), w') \<and>
      (\<forall>c' ps'. l_HashKey l c' \<noteq> l_HashKey l c \<longrightarrow> GetPeers l c' w = (Ok ps', w) \<longrightarrow>
         GetPeers l c' w' = (Ok ps', w')))) \<and>
    (length ps \<ge> 8192 \<longrightarrow> peer \<notin> set ps \<longrightarrow> (\<exists>e. AddPeer l c peer w = (Err e, w)))"
proof (intro conjI impI)
  note iff = peer_store.GetPeers_iff [OF assms(1)]
  have at: "peer_store.peers_at l contents w c ps" using assms(2) by (simp add: iff)
  show "\<exists>w'. AddPeer l c peer w = (Ok (), w') \<and>
      GetPeers l c w' = (Ok (if peer \<in> set ps \<and> rp_PieceCID peer = None then ps else ps @ [peer]), w') \<and>
      (\<forall>c' ps'. l_HashKey l c' \<noteq> l_HashKey l c \<longrightarrow> GetPeers l c' w = (Ok ps', w) \<longrightarrow>
         GetPeers l c' w' = (Ok ps', w'))"
    if fits: "fits_RetrievalPeers (l_cbg l) \<lparr>Peers = ps @ [peer]\<rparr>"
  proof (cases "hasPeer ps peer")
    case True
    with peer_store.AddPeer_known [OF assms(1) at] assms(2) show ?thesis by (auto simp: hasPeer_mem)
  next
    case False
    obtain w' where w': "AddPeer l c peer w = (Ok (), w')" "peer_store.peers_at l contents w' c (ps @ [peer])"
        "\<forall>k. k \<noteq> peers_key l c \<longrightarrow> contents w' k = contents w k"
      by (rule peer_store.AddPeer_run [OF assms(1) at False fits])
    have "GetPeers l c' w' = (Ok ps', w')"
      if "l_HashKey l c' \<noteq> l_HashKey l c" "GetPeers l c' w = (Ok ps', w)" for c' ps'
      using peer_store.peers_at_other [OF assms(1) w'(3) that(1)] that(2) by (simp add: iff)
    with w'(1) iff [THEN iffD2, OF w'(2)] False show ?thesis by (auto simp: hasPeer_mem)
  qed
  show "\<exists>e. AddPeer l c peer w = (Err e, w)" if "length ps \<ge> 8192" "peer \<notin> set ps"
    using peer_store.AddPeer_full [OF assms(1) at _ that(1)] that(2) by (simp add: hasPeer_mem)
qed

definition ex_peer :: RetrievalPeer where
  "ex_peer = \<lparr>rp_Address = ''f01'', rp_ID = ''peer'', rp_PieceCID = Some ''piece''\<rparr>"

lemma ex_fits_peers: "n \<le> 8192 \<Longrightarrow> fits_RetrievalPeers ref_cbg \<lparr>Peers = replicate n ex_peer\<rparr>"
  by (auto simp: fits_RetrievalPeers_def fits_RetrievalPeer_def ex_peer_def AddressUndef_def list_all_iff intro!: ref_codecs)

theorem peers_are_remembered_witness:
  "\<exists>w' w'' :: unit mem. AddPeer ex_local ''c'' ex_peer ([], ()) = (Ok (), w') \<and> GetPeers ex_local ''c'' w' = (Ok [ex_peer], w') \<and>
     AddPeer ex_local ''c'' ex_peer w' = (Ok (), w'') \<and> GetPeers ex_local ''c'' w'' = (Ok [ex_peer, ex_peer], w'')"
proof -
  have twice: "[] @ [ex_peer] = replicate 1 ex_peer" "[ex_peer] @ [ex_peer] = replicate 2 ex_peer"
    by (simp_all add: numeral_2_eq_2)
  note fits = ex_fits_peers [of 1, folded twice] ex_fits_peers [of 2, folded twice]
  have "GetPeers ex_local ''c'' ([], ()) = (Ok [], ([] :: (ds_key \<times> bytes) list, ()))"
    by (simp add: GetPeers_def mem_ds_def ret_def tryE_def)
  then obtain w' :: "unit mem" where w': "AddPeer ex_local ''c'' ex_peer ([], ()) = (Ok (), w')" "GetPeers ex_local ''c'' w' = (Ok [ex_peer], w')"
    using peers_are_remembered [OF ex_peers.peer_store_axioms, of "''c''" "([], ())" "[]" ex_peer] fits(1)
    by auto
  then show ?thesis
    using peers_are_remembered [OF ex_peers.peer_store_axioms w'(2), of ex_peer] fits(2)
    by (auto simp: ex_peer_def)
qed

section \<open>Streams\<close>

text \<open>C40: opening a stream ends when the limit of attempts is a natural number \<open>m\<close>: at most \<open>m + 1\<close>
  attempts are made, with a pause between two, and when all fail exactly \<open>m + 1\<close> were made and the
  error says \<open>m\<close>. With any other limit, a host that cannot be reached keeps the caller forever.\<close>

theorem stream_retries:
  "(nw_maxStreamOpenAttempts impl = of_nat m \<longrightarrow>
      (\<exists>k r w'. openStream impl peer w = Some (r, w') \<and> tries impl peer 0 w k r w' \<and> k \<le> m + 1)) \<and>
   (nw_maxStreamOpenAttempts impl = of_nat m \<longrightarrow>
      (\<forall>w. \<exists>w1. h_NewStream (nw_host impl) peer (nw_supportedProtocols impl) w = (Err e, w1)) \<longrightarrow>
      (\<exists>w'. openStream impl peer w = Some (Err (exhausted (of_nat m) e), w') \<and>
        tries impl peer 0 w (m + 1) (Err (exhausted (of_nat m) e)) w')) \<and>
   ((\<forall>m. nw_maxStreamOpenAttempts impl \<noteq> of_nat m) \<longrightarrow> unreachable impl peer \<longrightarrow> openStream impl peer w = None)"
proof (intro conjI impI)
  show "\<exists>k r w'. openStream impl peer w = Some (r, w') \<and> tries impl peer 0 w k r w' \<and> k \<le> m + 1"
    if "nw_maxStreamOpenAttempts impl = of_nat m"
    using tries_bounded [OF that, of 0 peer w] tries_returns unfolding openStream_def by fastforce
  show "\<exists>w'. openStream impl peer w = Some (Err (exhausted (of_nat m) e), w') \<and>
      tries impl peer 0 w (m + 1) (Err (exhausted (of_nat m) e)) w'"
    if "nw_maxStreamOpenAttempts impl = of_nat m"
      "\<forall>w. \<exists>w1. h_NewStream (nw_host impl) peer (nw_supportedProtocols impl) w = (Err e, w1)"
    using tries_all_fail [OF that(1) _ that(2), of 0 w] tries_returns that(1) unfolding openStream_def by fastforce
qed (simp add: openStream_def never_opened)

text \<open>A host that cannot be reached, with the default limit and with a limit of two and a half; its
  world counts the attempts.\<close>

definition ex_host :: "nat Host" where
  "ex_host = \<lparr>h_NewStream = (\<lambda>_ _ n. (Err (GErr ''no route''), n + 1)), h_SetStreamHandler = (\<lambda>_ n. n),
     h_RemoveStreamHandler = (\<lambda>_ n. n), h_AddAddrs = (\<lambda>_ _ _ n. n), h_ID = ''me'',
     h_Backoff = (\<lambda>lo hi factor n w. (lo, w)), h_Sleep = (\<lambda>_ n. n)\<rparr>"

theorem stream_retries_witness:
  "(\<exists>w'. openStream (NewFromLibp2pHost ref_cbg ex_host []) ''peer'' 0 = Some (Err (exhausted 5 (GErr ''no route'')), w')) \<and>
   openStream (NewFromLibp2pHost ref_cbg ex_host [RetryParameters 1 2 (5 / 2)]) ''peer'' 0 = None"
proof -
  have five: "nw_maxStreamOpenAttempts (NewFromLibp2pHost ref_cbg ex_host []) = of_nat 5"
    by (simp add: NewFromLibp2pHost_def defaultMaxStreamOpenAttempts_def)
  have "of_nat m \<noteq> (5 / 2 :: rat)" for m
  proof
    assume "of_nat m = (5 / 2 :: rat)"
    then have "of_nat (2 * m) = (of_nat 5 :: rat)" by simp
    then have "2 * m = 5" by (simp only: of_nat_eq_iff)
    then show False by presburger
  qed
  moreover have "nw_maxStreamOpenAttempts (NewFromLibp2pHost ref_cbg ex_host [RetryParameters 1 2 (5 / 2)]) = 5 / 2"
    by (simp add: NewFromLibp2pHost_def RetryParameters_def)
  ultimately have half:
    "\<forall>m. nw_maxStreamOpenAttempts (NewFromLibp2pHost ref_cbg ex_host [RetryParameters 1 2 (5 / 2)]) \<noteq> of_nat m"
    by metis
  show ?thesis
    using stream_retries [of _ 5 "''peer''" 0 "GErr ''no route''", THEN conjunct2, THEN conjunct1, THEN mp, OF five]
      stream_retries [THEN conjunct2, THEN conjunct2, THEN mp, OF half, of "''peer''" 0]
    by (auto simp: unreachable_def NewFromLibp2pHost_def RetryParameters_def ex_host_def)
qed

section \<open>Queries\<close>

text \<open>The answer that a provider owes to a query.\<close>

definition offer :: "Address \<Rightarrow> Ask \<Rightarrow> int go \<Rightarrow> QueryResponse" where
  "offer miner ask found =
     (let have = (case found of Ok n \<Rightarrow> 0 < n | _ \<Rightarrow> False) in
      \<lparr>qr_Status = (if have then QueryResponseAvailable else QueryResponseUnavailable),
       qr_Size = (case found of Ok n \<Rightarrow> if 0 < n then word_of_int n else 0 | _ \<Rightarrow> 0),
       qr_PaymentAddress = miner, qr_MinPricePerByte = ask_PricePerByte ask,
       qr_MaxPaymentInterval = ask_PaymentInterval ask,
       qr_MaxPaymentIntervalIncrease = ask_PaymentIntervalIncrease ask, qr_Message = ''''\<rparr>)"

text \<open>
  A stream between the client and a provider that listens: \<open>s\<close> is the client's end and \<open>t\<close> the
  provider's. What the client writes the provider's network hands to the provider, and what the
  provider writes the client can read. \<open>files\<close> are the sizes of the provider's files.
\<close>

locale served = ask_store "pr_askStore p" in_force keepable + cbg_lib "nw_cbg srv"
  for srv :: "'w libp2pRetrievalMarketNetwork" and p :: "'w Provider"
    and in_force :: "'w \<Rightarrow> Ask option" and keepable :: "Ask \<Rightarrow> bool" +
  fixes s t :: "'w MuxedStream"
    and files :: "Cid \<Rightarrow> int go"
  assumes deliver: "\<exists>v1. mx_Write s b v = (Ok (), snd (snd (handleNewQueryStream srv t (Some (HandleQueryStream p), v1)))) \<and>
      mx_unread t v1 = b \<and> in_force v1 = in_force v"
    and answer: "\<exists>v'. mx_Write t b v = (Ok (), v') \<and> mx_unread s v' = b"
    and consume: "in_force (mx_set_unread t bs v) = in_force v"
    and close_server: "\<exists>v'. mx_Close t v = (Ok (), v') \<and> mx_unread s v' = mx_unread s v"
    and close_client: "fst (mx_Close s v) \<noteq> Panic"
    and files: "pr_store_GetSize p c v = (files c, v)" "files c \<noteq> Panic"
begin

lemma handler_answers:
  assumes "in_force v = Some a" "Unmarshal_Query (nw_cbg srv) (mx_unread t v) = Ok (q, [])"
    and "Marshal_QueryResponse (nw_cbg srv) (offer (pr_minerAddress p) a (files (q_PayloadCID q))) = Ok b"
  shows "\<exists>v'. handleNewQueryStream srv t (Some (HandleQueryStream p), v) = (Ok (), (Some (HandleQueryStream p), v')) \<and>
    mx_unread s v' = b"
proof -
  let ?v1 = "mx_set_unread t [] v"
  obtain v2 where v2: "mx_Write t b ?v1 = (Ok (), v2)" "mx_unread s v2 = b" using answer by blast
  obtain v3 where v3: "mx_Close t v2 = (Ok (), v3)" "mx_unread s v3 = mx_unread s v2" using close_server by blast
  have ask: "aks_GetAsk (pr_askStore p) ?v1 = (Ok (Some a), ?v1)" using assms(1) by (simp add: GetAsk consume)
  have body: "tryE (pr_store_GetSize p (q_PayloadCID q)) (\<lambda>_. ret (unavailable (pr_minerAddress p) a))
        (\<lambda>size. ret (if size > 0
           then (unavailable (pr_minerAddress p) a)\<lparr>qr_Status := QueryResponseAvailable, qr_Size := word_of_int size\<rparr>
           else unavailable (pr_minerAddress p) a)) ?v1 =
      (Ok (offer (pr_minerAddress p) a (files (q_PayloadCID q))), ?v1)"
    using files [of "q_PayloadCID q"]
    by (cases "files (q_PayloadCID q)") (simp_all add: tryE_def ret_def offer_def unavailable_def)
  have "handleNewQueryStream srv t (Some (HandleQueryStream p), v) = (Ok (), (Some (HandleQueryStream p), v3))"
    using assms(2,3) ask body v2 v3
    by (simp add: handleNewQueryStream_def HandleQueryStream_def deferred_def RetrievalQueryStream_of_def ReadQuery_def
        read_from_def WriteQueryResponse_def write_to_def CloseStream_def Provider_GetAsk_def ret_def bindE_def tryE_def Let_def)
  with v2 v3 show ?thesis by blast
qed

lemma query_answered:
  assumes "in_force w = Some a" "fits_Query (nw_cbg srv) \<lparr>q_PayloadCID = cid, q_QueryParams = params\<rparr>"
    and "fits_QueryResponse (nw_cbg srv) (offer (pr_minerAddress p) a (files cid))"
    and "openStream (cl_network c) (rp_ID rp) w0 = Some (Ok s, w)" "nw_cbg (cl_network c) = nw_cbg srv"
  shows "\<exists>w'. Client_Query c rp cid params w0 = Some (Ok (offer (pr_minerAddress p) a (files cid)), w')"
proof -
  let ?q = "\<lparr>q_PayloadCID = cid, q_QueryParams = params\<rparr>" and ?r = "offer (pr_minerAddress p) a (files cid)"
  obtain bq where bq: "Marshal_Query (nw_cbg srv) ?q = Ok bq" "\<And>bs. Unmarshal_Query (nw_cbg srv) (bq @ bs) = Ok (?q, bs)"
    using codec_okE [OF codec_Query [OF assms(2)]] by metis
  obtain br where br: "Marshal_QueryResponse (nw_cbg srv) ?r = Ok br"
      "\<And>bs. Unmarshal_QueryResponse (nw_cbg srv) (br @ bs) = Ok (?r, bs)"
    using codec_okE [OF codec_QueryResponse [OF assms(3)]] by metis
  obtain v1 where v1: "mx_Write s bq w = (Ok (), snd (snd (handleNewQueryStream srv t (Some (HandleQueryStream p), v1))))"
      "mx_unread t v1 = bq" "in_force v1 = in_force w"
    using deliver by blast
  obtain v2 where v2: "handleNewQueryStream srv t (Some (HandleQueryStream p), v1) = (Ok (), (Some (HandleQueryStream p), v2))"
      "mx_unread s v2 = br"
    using handler_answers [of v1 a ?q br] v1(2,3) assms(1) bq(2) [of "[]"] br(1) by auto
  have "mx_Write s bq w = (Ok (), v2)" using v1(1) v2(1) by simp
  then show ?thesis
    using assms(4,5) bq(1) br(2) [of "[]"] v2(2) close_client [of "mx_set_unread s [] v2"]
    by (cases "mx_Close s (mx_set_unread s [] v2)"; cases "fst (mx_Close s (mx_set_unread s [] v2))")
       (simp_all add: Client_Query_def NewQueryStream_def RetrievalQueryStream_of_def WriteQuery_def
        ReadQueryResponse_def read_from_def write_to_def CloseStream_def deferred_def bindE_def ret_def)
qed

end

text \<open>C12: a client that queries a provider gets exactly what the provider offers: available with the
  size when the provider's store has the payload with a positive size and unavailable otherwise,
  the prices of the ask in force and the provider's address. Query and answer go through the
  encodings and the streams of both sides.\<close>

theorem query_is_answered:
  assumes "served srv p in_force keepable s t files" "in_force w = Some a"
    and "fits_Query (nw_cbg srv) \<lparr>q_PayloadCID = cid, q_QueryParams = params\<rparr>"
    and "fits_QueryResponse (nw_cbg srv) (offer (pr_minerAddress p) a (files cid))"
    and "openStream (cl_network c) (rp_ID rp) w0 = Some (Ok s, w)" "nw_cbg (cl_network c) = nw_cbg srv"
  shows "\<exists>w'. Client_Query c rp cid params w0 = Some (Ok (offer (pr_minerAddress p) a (files cid)), w')"
  by (rule served.query_answered [OF assms])

text \<open>A provider behind a pipe, which is part of the world of its datastore.\<close>

record pipe =
  to_provider :: bytes
  to_client :: bytes

type_synonym ex_market = "Ask option \<times> pipe mem"

definition on_pipe :: "(pipe \<Rightarrow> pipe) \<Rightarrow> ex_market \<Rightarrow> ex_market" where
  "on_pipe f = (\<lambda>(c, es, p). (c, es, f p))"

definition ex_server_end :: "ex_market MuxedStream" where
  "ex_server_end =
     \<lparr>mx_unread = (\<lambda>(c, es, p). to_provider p), mx_set_unread = (\<lambda>b. on_pipe (to_provider_update (\<lambda>_. b))),
      mx_Write = (\<lambda>b v. (Ok (), on_pipe (to_client_update (\<lambda>_. b)) v)), mx_Close = ret (), mx_Reset = ret (),
      mx_RemotePeer = ''client''\<rparr>"

definition ex_files :: "Cid \<Rightarrow> int go" where
  "ex_files c = (if c = ''file'' then Ok 1000 else Err (GErr ''not found''))"

definition ex_provider :: "ex_market Provider" where
  "ex_provider = \<lparr>pr_minerAddress = ''f01'', pr_askStore = AskStore_of ex_asks,
     pr_store_GetSize = (\<lambda>c v. (ex_files c, v)), pr_sm_List = ret []\<rparr>"

definition ex_host_with :: "'w MuxedStream \<Rightarrow> 'w Host" where
  "ex_host_with s = \<lparr>h_NewStream = (\<lambda>_ _. ret s), h_SetStreamHandler = (\<lambda>_ v. v),
     h_RemoveStreamHandler = (\<lambda>_ v. v), h_AddAddrs = (\<lambda>_ _ _ v. v), h_ID = ''me'',
     h_Backoff = (\<lambda>lo hi factor n v. (lo, v)), h_Sleep = (\<lambda>_ v. v)\<rparr>"

definition ex_server :: "ex_market libp2pRetrievalMarketNetwork" where
  "ex_server = NewFromLibp2pHost ref_cbg (ex_host_with ex_server_end) []"

definition ex_client_end :: "ex_market MuxedStream" where
  "ex_client_end =
     \<lparr>mx_unread = (\<lambda>(c, es, p). to_client p), mx_set_unread = (\<lambda>b. on_pipe (to_client_update (\<lambda>_. b))),
      mx_Write = (\<lambda>b v. (Ok (), snd (snd (handleNewQueryStream ex_server ex_server_end
        (Some (HandleQueryStream ex_provider), on_pipe (to_provider_update (\<lambda>_. b)) v))))),
      mx_Close = ret (), mx_Reset = ret (), mx_RemotePeer = ''provider''\<rparr>"

lemma ex_served_simps:
  "pr_askStore ex_provider = AskStore_of ex_asks" "nw_cbg ex_server = ref_cbg" "as_cbg ex_asks = ref_cbg"
  by (simp_all add: ex_provider_def ex_server_def NewFromLibp2pHost_def ex_asks_def)

interpretation ex_served: served ex_server ex_provider fst "fits_Ask ref_cbg" ex_client_end ex_server_end ex_files
proof (rule served.intro, unfold ex_served_simps)
  show "ask_store (AskStore_of ex_asks :: ex_market AskStore) fst (fits_Ask ref_cbg)"
    using ex_asks.asks.ask_store_axioms unfolding ex_served_simps .
  show "cbg_lib ref_cbg" by (rule ref.cbg_lib_axioms)
  show "served_axioms ex_server ex_provider fst ex_client_end ex_server_end ex_files"
  proof
    fix b :: bytes and v :: ex_market
    show "\<exists>v1. mx_Write ex_client_end b v =
        (Ok (), snd (snd (handleNewQueryStream ex_server ex_server_end (Some (HandleQueryStream ex_provider), v1)))) \<and>
        mx_unread ex_server_end v1 = b \<and> fst v1 = fst v"
      by (rule exI [of _ "on_pipe (to_provider_update (\<lambda>_. b)) v"])
         (simp add: ex_client_end_def ex_server_end_def on_pipe_def split: prod.splits)
  qed (auto simp: ex_client_end_def ex_server_end_def ex_provider_def ex_files_def on_pipe_def ret_def split: prod.splits)
qed

definition ex_client_over :: "'w libp2pRetrievalMarketNetwork \<Rightarrow> 'w Client" where
  "ex_client_over nw =
     \<lparr>cl_network = nw,
      cl_node = \<lparr>rn_GetChainHead = ret (''tok'', 0), rn_GetOrCreatePaymentChannel = (\<lambda>_ _ _ _. ret ('''', '''')),
        rn_CheckAvailableFunds = (\<lambda>_. fail ErrNotFound), rn_AllocateLane = (\<lambda>_. ret 0),
        rn_CreatePaymentVoucher = (\<lambda>_ _ _ _. fail ErrNotFound), rn_WaitForPaymentChannelReady = (\<lambda>_. ret ''''),
        rn_GetKnownAddresses = (\<lambda>_ _. ret []), rn_SavePaymentVoucher = (\<lambda>_ _ _ _ _. ret 0)\<rparr>,
      cl_resolver = (\<lambda>_. ret []), cl_counter_Next = ret 1, cl_ms_Get = (\<lambda>_. ret ''store''), cl_ms_Next = ret 0,
      cl_sm_Begin = (\<lambda>_ _. ret ()), cl_sm_Send = (\<lambda>_ _. ret ()), cl_sm_Get = (\<lambda>_. fail ErrNotFound),
      cl_sm_List = ret [], cl_dt_OpenPull = (\<lambda>_ _ _. ret ''chid''), cl_dt_SendVoucher = (\<lambda>_ _. ret ()),
      cl_dt_Close = (\<lambda>_. ret ())\<rparr>"

theorem query_is_answered_witness:
  "\<exists>w'. Client_Query (ex_client_over (NewFromLibp2pHost ref_cbg (ex_host_with ex_client_end) [])) (peer_with ''provider'')
     ''file'' zero_QueryParams (Some defaultAsk, [], \<lparr>to_provider = [], to_client = []\<rparr>) =
     Some (Ok (offer ''f01'' defaultAsk (Ok 1000)), w')"
proof -
  let ?nw = "NewFromLibp2pHost ref_cbg (ex_host_with ex_client_end) []"
    and ?w = "(Some defaultAsk, [], \<lparr>to_provider = [], to_client = []\<rparr>) :: ex_market"
  have "openStream ?nw ''provider'' ?w = Some (Ok ex_client_end, ?w)"
    unfolding openStream_def
    by (rule tries_returns [OF tries.opened]) (simp add: NewFromLibp2pHost_def ex_host_with_def ret_def)
  then have open_: "openStream (cl_network (ex_client_over ?nw)) (rp_ID (peer_with ''provider'')) ?w = Some (Ok ex_client_end, ?w)"
    by (simp add: ex_client_over_def peer_with_def)
  have miner: "pr_minerAddress ex_provider = ''f01''" "ex_files ''file'' = Ok 1000"
    by (simp_all add: ex_provider_def ex_files_def)
  have q: "fits_Query (nw_cbg ex_server) \<lparr>q_PayloadCID = ''file'', q_QueryParams = zero_QueryParams\<rparr>"
    by (auto simp: ex_served_simps fits_Query_def fits_QueryParams_def zero_QueryParams_def intro!: ref_codecs)
  have r: "fits_QueryResponse (nw_cbg ex_server) (offer (pr_minerAddress ex_provider) defaultAsk (ex_files ''file''))"
    unfolding miner
    by (auto simp: ex_served_simps fits_QueryResponse_def offer_def wf_qstatus_def defaultAsk_def DefaultPricePerByte_def
        AddressUndef_def intro!: ref_codecs)
  have cb: "nw_cbg (cl_network (ex_client_over ?nw)) = nw_cbg ex_server"
    by (simp add: ex_client_over_def ex_server_def NewFromLibp2pHost_def)
  show ?thesis
    using query_is_answered [OF ex_served.served_axioms _ q r open_ cb] by (simp add: miner)
qed

section \<open>Deals that wait for funds\<close>

fun recheck_all :: "'w Client \<Rightarrow> DealID list \<Rightarrow> ('w, unit) io" where
  "recheck_all c [] = ret ()"
| "recheck_all c (i # is) = bindE (cl_sm_Send c i ClientEventRecheckFunds) (\<lambda>_. recheck_all c is)"

definition waits_for :: "Address \<Rightarrow> ClientDealState \<Rightarrow> bool" where
  "waits_for ch d \<longleftrightarrow> cds_Status d = DealStatusInsufficientFunds \<and> map_option PayCh (cds_PaymentInfo d) = Some ch"

lemma waiting_deal_is_paid:
  "client_inv d \<Longrightarrow> cds_Status d = DealStatusInsufficientFunds \<Longrightarrow> \<exists>info. cds_PaymentInfo d = Some info"
  by (simp add: client_inv_def payment_info_states_def)

lemma restart_deals_recheck:
  "\<forall>d\<in>set ds. client_inv d \<Longrightarrow> restart_deals c ch ds = recheck_all c (map cds_ID (filter (waits_for ch) ds))"
proof (induction ds)
  case (Cons d ds)
  show ?case
  proof (cases "cds_Status d = DealStatusInsufficientFunds")
    case True
    with Cons.prems obtain info where "cds_PaymentInfo d = Some info" using waiting_deal_is_paid by auto
    with True Cons show ?thesis by (simp add: waits_for_def)
  qed (use Cons in \<open>simp add: waits_for_def\<close>)
qed simp

text \<open>Restarting the deals of a payment channel sends the event that rechecks the funds exactly to
  the deals that wait for funds and are paid through that channel, in the order of the list and up
  to the first failure; over deals that events have led to it never follows a nil pointer; and the
  event takes each of those deals to the check of its funds.\<close>

theorem restart_rechecks_waiting_deals:
  assumes "client_engine fire" "cl_sm_List c w = (Ok ds, w1)" "\<forall>d\<in>set ds. client_reach fire d"
  shows "TryRestartInsufficientFunds c ch w = recheck_all c (map cds_ID (filter (waits_for ch) ds)) w1 \<and>
    (d \<in> set ds \<longrightarrow> waits_for ch d \<longrightarrow>
      fire FsmClientEvents ClientFinalityStates ClientEventRecheckFunds [] d = Entered (d\<lparr>cds_Status := DealStatusCheckFunds\<rparr>))"
proof (intro conjI impI)
  have "\<forall>d\<in>set ds. client_inv d" using assms(1,3) client_reach_inv by blast
  from restart_deals_recheck [OF this, of c ch]
  show "TryRestartInsufficientFunds c ch w = recheck_all c (map cds_ID (filter (waits_for ch) ds)) w1"
    using assms(2) by (simp add: TryRestartInsufficientFunds_def)
  show "fire FsmClientEvents ClientFinalityStates ClientEventRecheckFunds [] d = Entered (d\<lparr>cds_Status := DealStatusCheckFunds\<rparr>)"
    if "d \<in> set ds" "waits_for ch d"
    using that(2) client_fire_eq [OF assms(1), of ClientEventRecheckFunds "[]" d]
    by (auto simp: waits_for_def set_ClientFinalityStates)
qed

definition ex_waiting :: ClientDealState where
  "ex_waiting = ex_ongoing\<lparr>cds_PaymentRequested := 1000, cds_Status := DealStatusInsufficientFunds, cds_VoucherShortfall := 7,
     cds_Message := ''not enough current or pending funds in payment channel, shortfall of '' @ show_int 7\<rparr>"

lemma ex_waiting_reach: "client_reach client_apply ex_waiting"
  by (rule fsm_reach_run [OF ex_ongoing_reach, of "[(ClientEventPaymentRequested, [ArgAmount 1000]), (ClientEventSendFunds, []),
        (ClientEventVoucherShortfall, [ArgAmount 7]), (ClientEventFundsExpended, [ArgAmount 7])]"])
     (simp add: ex_waiting_def ex_ongoing_def ex_deal_def newClientDeal_def client_eval ex_params_def)

theorem restart_rechecks_waiting_deals_witness:
  "TryRestartInsufficientFunds ((ex_client_over (NewFromLibp2pHost ref_cbg ex_host []))\<lparr>cl_sm_List := ret [ex_ongoing, ex_waiting]\<rparr>)
     ''f2paych'' 0 = (Ok (), 0)"
  using restart_rechecks_waiting_deals [OF fsm_apply_engine,
      of "(ex_client_over (NewFromLibp2pHost ref_cbg ex_host []))\<lparr>cl_sm_List := ret [ex_ongoing, ex_waiting]\<rparr>" 0
         "[ex_ongoing, ex_waiting]" 0 "''f2paych''"]
    ex_ongoing_reach ex_waiting_reach
  by (simp add: ret_def bindE_def waits_for_def ex_waiting_def ex_ongoing_def ex_client_over_def)

end
