(* ===== verification/AssemblyProps.thy ===== *)
theory AssemblyProps
  imports Assembly VoucherProps MarketProps "HOL-Library.Sublist"
begin

text \<open>
  What a node that was put together promises: the parts that share its datastore do not get into each
  other's way, and it has the roles, the node and the keys that it was asked for.
\<close>

section \<open>Namespaces\<close>

fun ns_key :: "string list \<Rightarrow> ds_key \<Rightarrow> ds_key" where
  "ns_key ns (KeyWithNamespaces ks) = KeyWithNamespaces (ns @ ks)"

fun in_ns :: "string list \<Rightarrow> ds_key \<Rightarrow> bool" where
  "in_ns ns (KeyWithNamespaces ks) \<longleftrightarrow> prefix ns ks"

definition inside :: "string list \<Rightarrow> ('w \<Rightarrow> ds_key \<Rightarrow> bytes option) \<Rightarrow> 'w \<Rightarrow> ds_key \<Rightarrow> bytes option" where
  "inside ns contents w k = contents w (ns_key ns k)"

definition outside :: "string list \<Rightarrow> ('w \<Rightarrow> ds_key \<Rightarrow> bytes option) \<Rightarrow> ('w \<Rightarrow> 'r) \<Rightarrow> 'w \<Rightarrow> 'r \<times> (ds_key \<Rightarrow> bytes option)" where
  "outside ns contents rest w = (rest w, \<lambda>k. if in_ns ns k then None else contents w k)"

text \<open>An operation of a part: what it does to the part and answers depends on the part only, and what is
  outside stays as it is.\<close>

definition local_on :: "('w \<Rightarrow> 'p) \<Rightarrow> ('w \<Rightarrow> 'o) \<Rightarrow> ('w, 'a) io \<Rightarrow> bool" where
  "local_on p q m \<longleftrightarrow> (\<forall>w. q (snd (m w)) = q w) \<and>
     (\<forall>w v. p w = p v \<longrightarrow> fst (m w) = fst (m v) \<and> p (snd (m w)) = p (snd (m v)))"

named_theorems locals

lemma local_basic [locals]:
  "local_on p q (ret x)" "local_on p q (fail e)" "local_on p q panic" "local_on p q (lift_go r)"
  by (simp_all add: local_on_def go_defs)

lemma local_tryE [locals]:
  assumes "local_on p q m" "\<And>e. local_on p q (h e)" "\<And>x. local_on p q (f x)"
  shows "local_on p q (tryE m h f)"
proof -
  note D = local_on_def [of p q, THEN iffD1, THEN conjunct1, rule_format]
    local_on_def [of p q, THEN iffD1, THEN conjunct2, rule_format]
  have "q (snd (tryE m h f w)) = q w" for w
  proof -
    obtain r w1 where m: "m w = (r, w1)" by fastforce
    then have "q w1 = q w" using D(1) [OF assms(1), of w] by simp
    then show ?thesis using m D(1) [OF assms(2)] D(1) [OF assms(3)] by (cases r) (simp_all add: tryE_def)
  qed
  moreover have "fst (tryE m h f w) = fst (tryE m h f v) \<and> p (snd (tryE m h f w)) = p (snd (tryE m h f v))" if "p w = p v" for w v
  proof -
    obtain r w1 r' v1 where m: "m w = (r, w1)" "m v = (r', v1)" by fastforce
    then have r: "r' = r" and p: "p w1 = p v1" using D(2) [OF assms(1) that] by simp_all
    show ?thesis using m r p D(2) [OF assms(2) p] D(2) [OF assms(3) p] by (cases r) (simp_all add: tryE_def)
  qed
  ultimately show ?thesis unfolding local_on_def by blast
qed

lemma bindE_tryE: "bindE m f = tryE m fail f"
  by (auto simp: fun_eq_iff bindE_def tryE_def fail_def split: prod.splits go.splits)

lemma local_bindE [locals]:
  "local_on p q m \<Longrightarrow> (\<And>x. local_on p q (f x)) \<Longrightarrow> local_on p q (bindE m f)"
  unfolding bindE_tryE by (intro local_tryE local_basic)

lemma local_if [locals]: "local_on p q m \<Longrightarrow> local_on p q n \<Longrightarrow> local_on p q (if b then m else n)"
  by simp

context datastore
begin

lemma local_ops:
  "local_on contents rest (ds_Get ds k)" "local_on contents rest (ds_Has ds k)"
  "local_on contents rest (ds_Put ds k b)" "local_on contents rest (ds_Delete ds k)"
proof -
  show "local_on contents rest (ds_Get ds k)" "local_on contents rest (ds_Has ds k)"
    by (simp_all add: local_on_def Get Has)
  have put: "fst (ds_Put ds k b w) = Ok () \<and> contents (snd (ds_Put ds k b w)) = (contents w)(k \<mapsto> b) \<and>
      rest (snd (ds_Put ds k b w)) = rest w" for w
    using Put [of k b w] by auto
  have del: "fst (ds_Delete ds k w) = Ok () \<and> contents (snd (ds_Delete ds k w)) = (contents w)(k := None) \<and>
      rest (snd (ds_Delete ds k w)) = rest w" for w
    using Delete [of k w] by auto
  show "local_on contents rest (ds_Put ds k b)" "local_on contents rest (ds_Delete ds k)"
    by (simp_all add: local_on_def put del)
qed

text \<open>What is done under a prefix is local to it.\<close>

lemma local_under:
  shows "local_on (inside ns contents) (outside ns contents rest) (ds_Get ds (ns_key ns k))"
    and "local_on (inside ns contents) (outside ns contents rest) (ds_Has ds (ns_key ns k))"
    and "local_on (inside ns contents) (outside ns contents rest) (ds_Put ds (ns_key ns k) b)"
proof -
  have "contents w (ns_key ns k) = inside ns contents w k" for w by (simp add: inside_def)
  then show "local_on (inside ns contents) (outside ns contents rest) (ds_Get ds (ns_key ns k))"
      "local_on (inside ns contents) (outside ns contents rest) (ds_Has ds (ns_key ns k))"
    by (simp_all add: local_on_def Get Has)
  have in_ns: "in_ns ns (ns_key ns k)" by (cases k) simp
  have inj: "ns_key ns k' = ns_key ns k \<longleftrightarrow> k' = k" for k' by (cases k; cases k') simp
  have put: "fst (ds_Put ds (ns_key ns k) b w) = Ok () \<and>
      inside ns contents (snd (ds_Put ds (ns_key ns k) b w)) = (inside ns contents w)(k \<mapsto> b) \<and>
      outside ns contents rest (snd (ds_Put ds (ns_key ns k) b w)) = outside ns contents rest w" for w
    using Put [of "ns_key ns k" b w] in_ns by (auto simp: inside_def outside_def fun_eq_iff inj)
  show "local_on (inside ns contents) (outside ns contents rest) (ds_Put ds (ns_key ns k) b)"
    by (simp add: local_on_def put)
qed

end

text \<open>What \<open>namespace.Wrap\<close> promises: a namespace of a datastore is a datastore, which leaves alone what
  is outside of the namespace.\<close>

locale namespaces = datastore ds contents rest
  for ds :: "'w Datastore" and contents :: "'w \<Rightarrow> ds_key \<Rightarrow> bytes option" and rest :: "'w \<Rightarrow> 'r" +
  fixes wrap :: "'w Datastore \<Rightarrow> string list \<Rightarrow> 'w Datastore"
  assumes wrapped: "datastore (wrap ds ns) (inside ns contents) (outside ns contents rest)"
begin

lemma other_namespace:
  assumes "outside ns contents rest w' = outside ns contents rest w" "ns' \<parallel> ns"
  shows "inside ns' contents w' = inside ns' contents w"
proof
  fix k
  obtain ks where k: "k = KeyWithNamespaces ks" by (cases k)
  have "\<not> prefix ns (ns' @ ks)" using assms(2) by (metis parallelD1 parallelD2 prefixI prefix_same_cases)
  then have "\<not> in_ns ns (ns_key ns' k)" by (simp add: k)
  with fun_cong [OF arg_cong [OF assms(1), of snd], of "ns_key ns' k"]
  show "inside ns' contents w' k = inside ns' contents w k" by (simp add: inside_def outside_def)
qed

end

section \<open>Namespaces in memory\<close>

text \<open>Namespaces of the datastore in memory.\<close>

definition mem_wrap :: "'r mem Datastore \<Rightarrow> string list \<Rightarrow> 'r mem Datastore" where
  "mem_wrap ds ns = \<lparr>
     ds_Get = (\<lambda>k. ds_Get ds (ns_key ns k)), ds_Put = (\<lambda>k. ds_Put ds (ns_key ns k)),
     ds_Delete = (\<lambda>k. ds_Delete ds (ns_key ns k)), ds_Has = (\<lambda>k. ds_Has ds (ns_key ns k)),
     ds_Query = (\<lambda>p (es, r). (Ok (map (\<lambda>k. Ok (the (map_of es k)))
       (filter (\<lambda>k. case k of KeyWithNamespaces ks \<Rightarrow> prefix ns ks \<and> has_prefix p (KeyWithNamespaces (drop (length ns) ks)))
          (remdups (map fst es)))), (es, r)))\<rparr>"

lemma ns_key_eq [simp]: "ns_key ns k = ns_key ns k' \<longleftrightarrow> k = k'"
  by (cases k; cases k') simp

lemma in_ns_key [simp]: "in_ns ns (ns_key ns k)"
  by (cases k) simp

lemma mem_wrap_Query:
  "\<exists>ks. distinct ks \<and> set ks = {k. has_prefix p k \<and> inside ns mem_contents (es, r) k \<noteq> None} \<and>
     ds_Query (mem_wrap ds ns) p (es, r) = (Ok (map (\<lambda>k. Ok (the (inside ns mem_contents (es, r) k))) ks), (es, r))"
proof -
  let ?strip = "\<lambda>k. case k of KeyWithNamespaces ks \<Rightarrow> KeyWithNamespaces (drop (length ns) ks)"
  let ?here = "\<lambda>k. case k of KeyWithNamespaces ks \<Rightarrow> prefix ns ks \<and> has_prefix p (KeyWithNamespaces (drop (length ns) ks))"
  let ?l = "filter ?here (remdups (map fst es))"
  have strip: "?here k \<Longrightarrow> ns_key ns (?strip k) = k" for k
    by (cases k) (auto simp: prefix_def)
  have "inj_on ?strip (set ?l)"
    by (rule inj_on_inverseI [of _ "ns_key ns"]) (use strip in auto)
  then have d: "distinct (map ?strip ?l)" by (simp add: distinct_map)
  have s: "set (map ?strip ?l) = {k. has_prefix p k \<and> inside ns mem_contents (es, r) k \<noteq> None}"
  proof (intro set_eqI iffI)
    fix k assume "k \<in> set (map ?strip ?l)"
    then obtain k' where k': "k = ?strip k'" "?here k'" "k' \<in> fst ` set es" by auto
    then have "has_prefix p k" by (cases k') auto
    with k' strip [OF k'(2)] show "k \<in> {k. has_prefix p k \<and> inside ns mem_contents (es, r) k \<noteq> None}"
      by (simp add: inside_def map_of_eq_None_iff)
  next
    fix k assume k: "k \<in> {k. has_prefix p k \<and> inside ns mem_contents (es, r) k \<noteq> None}"
    then have "ns_key ns k \<in> fst ` set es" "?here (ns_key ns k)" "?strip (ns_key ns k) = k"
      by (cases k; auto simp: inside_def map_of_eq_None_iff)+
    then show "k \<in> set (map ?strip ?l)" by force
  qed
  have "map (\<lambda>k. Ok (the (inside ns mem_contents (es, r) k))) (map ?strip ?l) = map (\<lambda>k. Ok (the (map_of es k))) ?l"
    using strip by (auto simp: inside_def)
  with d s show ?thesis by (intro exI [of _ "map ?strip ?l"]) (simp add: mem_wrap_def)
qed

interpretation mem_ns: namespaces mem_ds mem_contents snd mem_wrap
proof
  fix ns p k b and w :: "'r mem"
  show "\<exists>ks. distinct ks \<and> set ks = {k. has_prefix p k \<and> inside ns mem_contents w k \<noteq> None} \<and>
      ds_Query (mem_wrap mem_ds ns) p w = (Ok (map (\<lambda>k. Ok (the (inside ns mem_contents w k))) ks), w)"
    using mem_wrap_Query [of p ns "fst w" "snd w" mem_ds] by simp
  show "\<exists>w'. ds_Put (mem_wrap mem_ds ns) k b w = (Ok (), w') \<and> inside ns mem_contents w' = (inside ns mem_contents w)(k \<mapsto> b) \<and>
      outside ns mem_contents snd w' = outside ns mem_contents snd w"
    by (auto simp: mem_wrap_def mem_ds_def inside_def outside_def fun_eq_iff split: prod.splits)
  show "\<exists>w'. ds_Delete (mem_wrap mem_ds ns) k w = (Ok (), w') \<and> inside ns mem_contents w' = (inside ns mem_contents w)(k := None) \<and>
      outside ns mem_contents snd w' = outside ns mem_contents snd w"
    by (auto simp: mem_wrap_def mem_ds_def inside_def outside_def fun_eq_iff map_of_filter_key split: prod.splits)
qed (auto simp: mem_wrap_def mem_ds_def inside_def split: option.splits)

section \<open>Writes to the datastore of a node\<close>

text \<open>The three parts of a node that keep their data under \<open>src/\<close> in its datastore, and the writes they do
  there: a channel that has its identifier, the messages of channels, the ask and the peers.\<close>

datatype part = ChannelPart | AskPart | PeerPart

fun part_ns :: "part \<Rightarrow> string list" where
  "part_ns ChannelPart = [''paych'']"
| "part_ns AskPart = [''retrieval'', ''provider'']"
| "part_ns PeerPart = [''localpeers-1'']"

datatype disk_write =
    PutChannel ChannelInfo
  | DropChannel string
  | NewMessage string Cid
  | MessageResult Cid "gerr option"
  | WriteAsk "Ask option"
  | WritePeer Cid RetrievalPeer

fun owner :: "disk_write \<Rightarrow> part" where
  "owner (WriteAsk _) = AskPart"
| "owner (WritePeer _ _) = PeerPart"
| "owner _ = ChannelPart"

fun named :: "disk_write \<Rightarrow> bool" where
  "named (PutChannel ci) \<longleftrightarrow> ci_ChannelID ci \<noteq> []"
| "named _ \<longleftrightarrow> True"

text \<open>The ask store that \<open>NewProvider\<close> makes when \<open>SpawnNode\<close> calls it, and the resolver of the
  client.\<close>

definition node_asks :: "('api, 'k, 'w) spawn_libs \<Rightarrow> 'w Datastore \<Rightarrow> 'w AskStoreImpl" where
  "node_asks sl ds = ask_store_at (sl_cbg sl) (sl_Wrap sl ds [''retrieval'', ''provider'']) [''retrieval-ask'']
     (KeyWithNamespaces [''latest''])"

definition node_peers :: "('api, 'k, 'w) spawn_libs \<Rightarrow> 'w Datastore \<Rightarrow> 'w Local" where
  "node_peers sl ds = NewLocalPeerResolver (sl_cbg sl) (sl_HashKey sl) ds"

fun run_write :: "('api, 'k, 'w) spawn_libs \<Rightarrow> 'w Datastore \<Rightarrow> disk_write \<Rightarrow> 'w \<Rightarrow> 'w" where
  "run_write sl ds (PutChannel ci) w = snd (putChannelInfo (NewChannelStore sl ds) ci w)"
| "run_write sl ds (DropChannel i) w = snd (RemoveChannel (NewChannelStore sl ds) i w)"
| "run_write sl ds (NewMessage i m) w = snd (SaveNewMessage (NewChannelStore sl ds) i m w)"
| "run_write sl ds (MessageResult m e) w = snd (SaveMessageResult (NewChannelStore sl ds) m e w)"
| "run_write sl ds (WriteAsk a) w = snd (snd (SetAsk (node_asks sl ds) a (None, w)))"
| "run_write sl ds (WritePeer c p) w = snd (AddPeer (node_peers sl ds) c p w)"

lemma channel_writes_local:
  assumes "datastore (cs_ds s) contents rest"
  shows "ci_ChannelID ci \<noteq> [] \<Longrightarrow> local_on contents rest (putChannelInfo s ci)"
    and "local_on contents rest (RemoveChannel s i)"
    and "local_on contents rest (SaveNewMessage s i m)"
    and "local_on contents rest (SaveMessageResult s m e)"
  using datastore.local_ops [OF assms]
  by (auto simp: putChannelInfo_def RemoveChannel_def SaveNewMessage_def SaveMessageResult_def GetMessage_def
      Let_def intro!: locals split: prod.splits)

text \<open>What setting an ask does to the disk.\<close>

definition ask_on_disk :: "'w AskStoreImpl \<Rightarrow> Ask option \<Rightarrow> ('w, unit) io" where
  "ask_on_disk s a = bindE (lift_go (w_ptr (Marshal_Ask (as_cbg s)) a)) (\<lambda>b. ds_Put (as_ds s) (as_key s) b)"

lemma SetAsk_disk: "snd (snd (SetAsk s a (c, w))) = snd (ask_on_disk s a w)"
  by (cases "w_ptr (Marshal_Ask (as_cbg s)) a")
     (auto simp: SetAsk_def saveAsk_def ask_on_disk_def go_defs bindE_def split: prod.splits go.splits)

lemma ask_write_local:
  assumes "datastore (as_ds s) contents rest"
  shows "local_on contents rest (ask_on_disk s a)"
  unfolding ask_on_disk_def by (intro locals datastore.local_ops [OF assms])

lemma peer_write_local:
  assumes "datastore (l_ds l) contents rest"
  shows "local_on (inside [''localpeers-1''] contents) (outside [''localpeers-1''] contents rest) (AddPeer l c p)"
proof -
  have "peers_key l c = ns_key [''localpeers-1''] (KeyWithNamespaces [l_HashKey l c])" by (simp add: peers_key_def)
  with datastore.local_under [OF assms, of "[''localpeers-1'']" "KeyWithNamespaces [l_HashKey l c]"] show ?thesis
    unfolding AddPeer_def Let_def by (auto intro!: locals)
qed

definition local_fun :: "('w \<Rightarrow> 'p) \<Rightarrow> ('w \<Rightarrow> 'o) \<Rightarrow> ('w \<Rightarrow> 'w) \<Rightarrow> bool" where
  "local_fun p q f \<longleftrightarrow> (\<forall>w. q (f w) = q w) \<and> (\<forall>w v. p w = p v \<longrightarrow> p (f w) = p (f v))"

lemma local_snd: "local_on p q m \<Longrightarrow> local_fun p q (\<lambda>w. snd (m w))"
  unfolding local_on_def local_fun_def by blast

lemma write_local:
  assumes "namespaces ds contents rest (sl_Wrap sl)" "named x"
  shows "local_fun (inside (part_ns (owner x)) contents) (outside (part_ns (owner x)) contents rest) (run_write sl ds x)"
proof -
  have ds: "datastore ds contents rest" using assms(1) by (rule namespaces.axioms(1))
  have "datastore (cs_ds (NewChannelStore sl ds)) (inside [''paych''] contents) (outside [''paych''] contents rest)"
    using namespaces.wrapped [OF assms(1)] by (simp add: NewChannelStore_def)
  note ch = channel_writes_local [OF this, THEN local_snd]
  have "datastore (as_ds (node_asks sl ds)) (inside [''retrieval'', ''provider''] contents)
      (outside [''retrieval'', ''provider''] contents rest)"
    using namespaces.wrapped [OF assms(1)] by (simp add: node_asks_def)
  note ask = ask_write_local [OF this, THEN local_snd]
  have "datastore (l_ds (node_peers sl ds)) contents rest" using ds by (simp add: node_peers_def NewLocalPeerResolver_def)
  note peer = peer_write_local [OF this, THEN local_snd]
  have "run_write sl ds (PutChannel ci) = (\<lambda>w. snd (putChannelInfo (NewChannelStore sl ds) ci w))"
    "run_write sl ds (DropChannel i) = (\<lambda>w. snd (RemoveChannel (NewChannelStore sl ds) i w))"
    "run_write sl ds (NewMessage i m) = (\<lambda>w. snd (SaveNewMessage (NewChannelStore sl ds) i m w))"
    "run_write sl ds (MessageResult m e) = (\<lambda>w. snd (SaveMessageResult (NewChannelStore sl ds) m e w))"
    "run_write sl ds (WriteAsk a) = (\<lambda>w. snd (ask_on_disk (node_asks sl ds) a w))"
    "run_write sl ds (WritePeer c p) = (\<lambda>w. snd (AddPeer (node_peers sl ds) c p w))" for ci i m e a c p
    by (simp_all add: fun_eq_iff SetAsk_disk)
  then show ?thesis using ch ask peer assms(2) by (cases x) (simp_all only: owner.simps part_ns.simps named.simps)
qed

lemma parts_apart: "p \<noteq> q \<Longrightarrow> part_ns p \<parallel> part_ns q"
  by (cases p; cases q) (auto simp: parallel_def)

lemma write_own:
  assumes "namespaces ds contents rest (sl_Wrap sl)" "named x"
    and "inside (part_ns (owner x)) contents w = inside (part_ns (owner x)) contents v"
  shows "inside (part_ns (owner x)) contents (run_write sl ds x w) = inside (part_ns (owner x)) contents (run_write sl ds x v)"
  using write_local [OF assms(1,2)] assms(3) unfolding local_fun_def by blast

lemma write_other:
  assumes "namespaces ds contents rest (sl_Wrap sl)" "named x" "owner x \<noteq> p"
  shows "inside (part_ns p) contents (run_write sl ds x w) = inside (part_ns p) contents w"
  using write_local [OF assms(1,2), unfolded local_fun_def, THEN conjunct1, THEN spec]
  by (rule namespaces.other_namespace [OF assms(1) _ parts_apart]) (rule assms(3) [symmetric])

text \<open>C37: the parts of a node do not interfere. Whatever writes the payment channels, the ask store and
  the resolver of peers make to the datastore that they share, in any order, each part ends as its own
  writes alone would have left it.\<close>

theorem node_stores_do_not_interfere:
  assumes "namespaces ds contents rest (sl_Wrap sl)" "\<forall>x\<in>set xs. named x"
  shows "inside (part_ns p) contents (fold (run_write sl ds) xs w) =
    inside (part_ns p) contents (fold (run_write sl ds) (filter (\<lambda>x. owner x = p) xs) w)"
proof -
  let ?p = "inside (part_ns p) contents" and ?run = "run_write sl ds"
  have "?p w = ?p v \<Longrightarrow> ?p (fold ?run xs w) = ?p (fold ?run (filter (\<lambda>x. owner x = p) xs) v)" for v
    using assms(2)
  proof (induction xs arbitrary: w v)
    case (Cons x xs)
    then have x: "named x" and xs: "\<forall>x\<in>set xs. named x" by simp_all
    show ?case
    proof (cases "owner x = p")
      case True
      then have "?p (?run x w) = ?p (?run x v)" using write_own [OF assms(1) x, of w v] Cons.prems(1) by simp
      from Cons.IH [OF this xs] True show ?thesis by simp
    next
      case False
      then have "?p (?run x w) = ?p v" using write_other [OF assms(1) x, of p w] Cons.prems(1) by simp
      from Cons.IH [OF this xs] False show ?thesis by simp
    qed
  qed simp
  then show ?thesis by simp
qed

section \<open>A spawned node\<close>

lemma on_node_Ok: "on_node m (s, w) = (Ok x, sw) \<longleftrightarrow> (\<exists>w'. m w = (Ok x, w') \<and> sw = (s, w'))"
  by (auto simp: on_node_def split: prod.splits)

lemma wrapE_Ok: "wrapE p m w = (Ok x, w') \<longleftrightarrow> m w = (Ok x, w')"
  by (auto simp: go_defs tryE_def split: prod.splits go.splits)

lemma keeps_on_node: "keeps v m \<Longrightarrow> keeps (\<lambda>(_, w). v w) (on_node m)"
  unfolding keeps_def on_node_def by (auto split: prod.splits) (metis snd_conv)

lemma keeps_on_disk: "keeps v m \<Longrightarrow> keeps (\<lambda>(_, w). v w) (on_disk m)"
  unfolding keeps_def on_disk_def by (auto split: prod.splits) (metis snd_conv)

text \<open>The calls by which a node is put together do not change what \<open>v\<close> looks at, which will be the
  wallet's default address.\<close>

definition quiet_spawn :: "('api, 'k, 'w) spawn_libs \<Rightarrow> ('w \<Rightarrow> 'c) \<Rightarrow> bool" where
  "quiet_spawn sl v \<longleftrightarrow>
     (\<forall>i ns k b. keeps v (ds_Get (sl_Wrap sl (sl_Datastore sl i) ns) k) \<and>
        keeps v (ds_Put (sl_Wrap sl (sl_Datastore sl i) ns) k b)) \<and>
     (\<forall>ds. keeps (\<lambda>(_, w). v w) (cg_New (sl_clientGroup sl ds)) \<and> keeps v (pg_New (sl_providerGroup sl ds))) \<and>
     (\<forall>ds net tp counter w dt w'. tl_NewDataTransfer (sl_transfer sl) ds net tp counter w = (Ok dt, w') \<longrightarrow>
        (\<forall>t. keeps v (dt_RegisterVoucherType dt t) \<and> keeps v (dt_RegisterRevalidator dt t) \<and>
           keeps v (dt_RegisterVoucherResultType dt t) \<and> keeps v (dt_SubscribeToEvents dt t))) \<and>
     (\<forall>i p w. v (h_SetStreamHandler (sl_PeerHost sl i) p w) = v w)"

text \<open>The files that the keys are read from.\<close>

definition key_files :: "'w System \<Rightarrow> (bytes \<Rightarrow> 'k go) \<Rightarrow> (string \<Rightarrow> 'k) \<Rightarrow> bool" where
  "key_files sys unmarshal key \<longleftrightarrow> (\<forall>name \<in> {''client.private'', ''provider.private''}. \<forall>w.
     \<exists>wd w1 pre b post w2. os_Getwd sys w = (Ok wd, w1) \<and>
       os_ReadFile sys (path_Join sys wd name) w1 = (Ok (pre @ hex_EncodeToString b @ post), w2) \<and>
       (\<forall>c\<in>set (pre @ post). is_space c) \<and> unmarshal b = Ok (key name))"

lemma import_key:
  assumes "wallet wl keys dflt addr_of" "key_files sys unmarshal key" "name \<in> {''client.private'', ''provider.private''}"
    and "WalletImport sys unmarshal wl name w = (Ok a, w')"
  shows "a = addr_of (key name) \<and> dflt w' = Some (addr_of (key name))"
proof -
  obtain wd w1 pre b post w2 where f: "os_Getwd sys w = (Ok wd, w1)"
    "os_ReadFile sys (path_Join sys wd name) w1 = (Ok (pre @ hex_EncodeToString b @ post), w2)"
    "\<forall>c\<in>set (pre @ post). is_space c" "unmarshal b = Ok (key name)"
    using bspec [OF assms(2) [unfolded key_files_def] assms(3), THEN spec, of w] by blast
  note run = WalletImport_key_file [where unmarshal = unmarshal and b = b and wl = wl, OF f]
  from wallet.import_sets_default [OF assms(1) assms(4) [unfolded run]] show ?thesis by simp
qed

lemma keeps_NewClient:
  assumes "keeps v (rg_fsmNew rg)" "keeps v (rg_ResultType rg)" "keeps v (rg_ProposalType rg)"
    "keeps v (rg_PaymentType rg)" "keeps v (rg_Subscribe rg)"
  shows "keeps v (NewClient rg c)"
  unfolding NewClient_def by (intro keeps_tryE keeps_bindE keeps_basic assms)

lemma keeps_NewAskStore:
  assumes "\<And>k. keeps v (ds_Get ds k)" "\<And>k b. keeps v (ds_Put ds k b)"
  shows "keeps v (NewAskStore cb ds ns key)"
proof -
  let ?s = "ask_store_at cb ds ns key" and ?v = "\<lambda>(_ :: Ask option, w). v w"
  have basic: "keeps ?v (cache_ask a)" "keeps ?v GetAsk" for a
    by (auto simp: keeps_def cache_ask_def GetAsk_def)
  have set: "keeps ?v (SetAsk ?s a)" for a
    unfolding SetAsk_def saveAsk_def ask_store_at_simps
    by (intro keeps_bindE keeps_basic keeps_on_disk assms basic)
  have "keeps ?v (tryLoadAsk ?s)"
    unfolding tryLoadAsk_def loadAsk_def ask_store_at_simps
    by (auto intro!: keeps_bindE keeps_tryE keeps_on_disk assms basic split: option.split)
  then have "keeps ?v (bindE (tryLoadAsk ?s) (\<lambda>_. bindE GetAsk (\<lambda>ask.
      if ask = None then tryE (SetAsk ?s (Some defaultAsk))
        (\<lambda>e. fail (Errorf ''failed setting a default retrieval ask'' e)) ret else ret ())))"
    by (auto intro!: keeps_bindE keeps_tryE basic set)
  then show ?thesis
    by (auto simp: keeps_def NewAskStore_def Let_def split: prod.splits go.splits dest: spec [of _ None])
qed

lemma keeps_NewProvider:
  assumes "\<And>k. keeps v (ds_Get ds k)" "\<And>k b. keeps v (ds_Put ds k b)"
    and "keeps v (rg_fsmNew rg)" "keeps v (rg_ResultType rg)" "keeps v (rg_ProposalType rg)"
    "keeps v (rg_PaymentType rg)" "keeps v (rg_Subscribe rg)"
  shows "keeps v (NewProvider cb ds rg a getSize deals)"
  unfolding NewProvider_def
  by (auto intro!: keeps_bindE keeps_tryE keeps_NewAskStore assms)

text \<open>Starting a provider makes it the receiver of its network.\<close>

lemma start_provider_run:
  "start_provider (NewFromLibp2pHost cb h []) p w =
     (let (ask, w') = fold (h_SetStreamHandler (lift_host h)) [QueryProtocolID] (snd p, w)
      in (Ok (fst p, Some (HandleQueryStream (fst p)), ask), w'))"
  by (simp add: start_provider_def Start_def SetDelegate_def lift_network_def NewFromLibp2pHost_def)

lemma keeps_start_provider:
  assumes "\<And>p w. v (h_SetStreamHandler h p w) = v w"
  shows "keeps v (start_provider (NewFromLibp2pHost cb h []) p)"
  by (simp add: keeps_def start_provider_run lift_host_def assms)

lemma spawn_client_Ok:
  assumes "spawn_client sl inode ds net radapter wl (m, w) = (Ok c, mw)" "wallet wl keys dflt addr_of"
    and "key_files (sl_system sl) (sl_unmarshal sl) key" "quiet_spawn sl dflt"
  shows "cl_node c = radapter \<and> dflt (snd mw) = Some (addr_of (key ''client.private''))"
proof -
  let ?v = "\<lambda>(_ :: managerState, w). dflt w"
  note r = assms(1) [unfolded spawn_client_def Let_def]
  then obtain multiDs w1 dt w2 w3 a w4 where d: "NewDataTransfer (sl_transfer sl) (sl_PeerHost sl inode) (sl_Blockstore sl inode)
        (sl_Wrap sl ds [''retrieval'', ''client'']) w1 = (Ok dt, w2)"
    and i: "WalletImport (sl_system sl) (sl_unmarshal sl) wl ''client.private'' w3 = (Ok a, w4)"
    and n: "NewClient (client_registrations (sl_clientGroup sl (sl_Wrap sl (sl_Wrap sl ds [''retrieval'', ''client'']) [''client-1''])) dt)
        (client_parts net radapter (NewLocalPeerResolver (sl_cbg sl) (sl_HashKey sl) ds)
          (tl_StoredCounter (sl_transfer sl) ds (KeyWithNamespaces [''retrieval'', ''client'', ''dealcounter'']))
          multiDs (sl_clientGroup sl (sl_Wrap sl (sl_Wrap sl ds [''retrieval'', ''client'']) [''client-1''])) dt)
        (m, w4) = (Ok c, mw)"
    by (auto simp: on_node_Ok wrapE_Ok Client_Start_def elim!: bindE_Ok)
  have dt_quiet: "keeps dflt (dt_RegisterVoucherType dt t)" "keeps dflt (dt_RegisterVoucherResultType dt t)"
      "keeps dflt (dt_SubscribeToEvents dt t)" for t
    using assms(4) d unfolding quiet_spawn_def NewDataTransfer_def Let_def by blast+
  have "keeps ?v (cg_New (sl_clientGroup sl x))" for x using assms(4) unfolding quiet_spawn_def by blast
  then have "dflt (snd mw) = dflt w4"
    using keepsD [OF keeps_NewClient [of ?v] n] dt_quiet
    by (simp add: client_registrations_def keeps_on_node split: prod.splits)
  moreover have "cl_node c = radapter"
    using n by (auto simp: NewClient_def client_parts_def elim!: bindE_Ok tryE_Ok)
  ultimately show ?thesis using import_key [OF assms(2,3) _ i] by simp
qed

lemma spawn_provider_Ok:
  assumes "spawn_provider sl ipfs (sl_Datastore sl (is_node ipfs)) (NewFromLibp2pHost cb (sl_PeerHost sl (is_node ipfs)) []) wl w = (Ok (p, r, ask), w')"
    and "wallet wl keys dflt addr_of" "key_files (sl_system sl) (sl_unmarshal sl) key" "quiet_spawn sl dflt"
  shows "pr_minerAddress p = addr_of (key ''provider.private'') \<and> r = Some (HandleQueryStream p) \<and>
    dflt w' = Some (addr_of (key ''provider.private''))"
proof -
  let ?pds = "sl_Wrap sl (sl_Datastore sl (is_node ipfs)) [''retrieval'', ''provider'']"
  obtain w1 dt w2 w3 a w4 w5 q where d: "NewDataTransfer (sl_transfer sl) (sl_PeerHost sl (is_node ipfs))
        (sl_Blockstore sl (is_node ipfs)) ?pds w1 = (Ok dt, w2)"
    and i: "WalletImport (sl_system sl) (sl_unmarshal sl) wl ''provider.private'' w3 = (Ok a, w4)"
    and n: "NewProvider (sl_cbg sl) ?pds (provider_registrations (sl_providerGroup sl (sl_Wrap sl ?pds [''provider-1''])) dt) a
        (GetSize (sl_ipfs sl) ipfs) (pg_List (sl_providerGroup sl (sl_Wrap sl ?pds [''provider-1'']))) w4 = (Ok q, w5)"
    and s: "start_provider (NewFromLibp2pHost cb (sl_PeerHost sl (is_node ipfs)) []) q w5 = (Ok (p, r, ask), w')"
    using assms(1) [unfolded spawn_provider_def Let_def] by (auto simp: wrapE_Ok elim!: bindE_Ok)
  have dt_quiet: "keeps dflt (dt_RegisterVoucherType dt t)" "keeps dflt (dt_RegisterRevalidator dt t)"
      "keeps dflt (dt_RegisterVoucherResultType dt t)" "keeps dflt (dt_SubscribeToEvents dt t)" for t
    using assms(4) d unfolding quiet_spawn_def NewDataTransfer_def Let_def by blast+
  have ds_quiet: "keeps dflt (ds_Get ?pds k)" "keeps dflt (ds_Put ?pds k b)" "keeps dflt (pg_New (sl_providerGroup sl x))" for k b x
    using assms(4) unfolding quiet_spawn_def by blast+
  have "\<And>p w. dflt (h_SetStreamHandler (sl_PeerHost sl (is_node ipfs)) p w) = dflt w"
    using assms(4) unfolding quiet_spawn_def by blast
  then have "dflt w' = dflt w5" using keepsD [OF keeps_start_provider s] by blast
  also have "\<dots> = dflt w4"
    using keepsD [OF keeps_NewProvider [OF ds_quiet(1,2)] n] dt_quiet ds_quiet(3) by (simp add: provider_registrations_def)
  finally have w': "dflt w' = dflt w4" .
  have "pr_minerAddress (fst q) = a" using n by (auto simp: NewProvider_def elim!: bindE_Ok tryE_Ok split: prod.splits)
  moreover have "p = fst q" "r = Some (HandleQueryStream (fst q))" using s by (auto simp: start_provider_run split: prod.splits)
  ultimately show ?thesis using import_key [OF assms(2,3) _ i] w' by simp
qed


section \<open>A node in memory\<close>

text \<open>The datastore and the wallet are kept in memory; the other libraries answer without doing anything.\<close>

type_synonym node_world = "mem_wallet mem"

definition ex_wallet :: "(bytes, node_world) Wallet" where
  "ex_wallet = \<lparr>lw_WalletImport = (\<lambda>k. on_node (lw_WalletImport mem_wl k)),
     lw_SetDefault = (\<lambda>a. on_node (lw_SetDefault mem_wl a)), lw_GetDefault = on_node (lw_GetDefault mem_wl)\<rparr>"

interpretation ex_wallet: wallet ex_wallet "\<lambda>(_, ks, _). {a \<in> set ks. a \<noteq> AddressUndef}" "snd \<circ> snd"
    "\<lambda>ki. ''f1'' @ hex_EncodeToString ki"
  by unfold_locales
     (auto simp: ex_wallet_def on_node_def mem_wl_def AddressUndef_def Let_def split: if_splits prod.splits)

definition ex_ipfs :: "(unit, node_world) ipfs_lib" where
  "ex_ipfs = \<lparr>il_Unixfs_Get = (\<lambda>_. ret), il_Unixfs_Add = (\<lambda>_. ret), il_Swarm_Peers = (\<lambda>_. ret []),
     il_Swarm_Connect = (\<lambda>_ _. ret ()), il_Block_Stat = (\<lambda>_ _. ret ()), il_Block_Get = (\<lambda>_. ret),
     il_Block_Put = (\<lambda>_ _ _ _ _. ret ()), il_WithOffline = ret, il_WriteTo = (\<lambda>_ _. ret ()), il_Size = (\<lambda>_. ret 1),
     il_ParseURL = Ok, il_NewWebFile = (\<lambda>u. u), il_Stat = ret, il_NewSerialFile = (\<lambda>p _ _. ret p),
     il_ReadAll = (\<lambda>_. ret []), il_NewPath = (\<lambda>p. p), il_IpldPath = (\<lambda>c. c), il_Hash = (\<lambda>c. c), il_Type = (\<lambda>_. 85),
     il_CodecToStr = (\<lambda>_. ''raw''), il_DecodeHash = (\<lambda>_. Ok (18, 32)),
     il_NewBlockWithCid = (\<lambda>b c. Ok \<lparr>bk_Cid = c, bk_RawData = b\<rparr>), il_NewMultiaddr = Ok,
     il_InfoFromP2pAddr = (\<lambda>a. Ok \<lparr>pin_ID = a, pin_Addrs = [a]\<rparr>), il_Sleep = (\<lambda>_ w. w)\<rparr>"

definition ex_setup :: "(unit, node_world) ipfs_setup" where
  "ex_setup = \<lparr>iu_NewPluginLoader = ret, iu_Initialize = (\<lambda>_. ret ()), iu_Inject = (\<lambda>_. ret ()),
     iu_TempDir = (\<lambda>d p. ret (d @ p)), iu_ConfigInit = (\<lambda>_. ret \<lparr>cf_Bootstrap = [], cf_Swarm = [], cf_Identity = ''me''\<rparr>),
     iu_RepoInit = (\<lambda>_ _. ret ()), iu_RepoOpen = ret, iu_NewNode = (\<lambda>c. ret (bc_Repo c)), iu_NewCoreAPI = (\<lambda>_. ret ())\<rparr>"

definition ex_node_host :: "node_world Host" where
  "ex_node_host = \<lparr>h_NewStream = (\<lambda>_ _. fail (GErr ''no route'')), h_SetStreamHandler = (\<lambda>_ w. w),
     h_RemoveStreamHandler = (\<lambda>_ w. w), h_AddAddrs = (\<lambda>_ _ _ w. w), h_ID = ''me'', h_Backoff = (\<lambda>d _ _ _ w. (d, w)),
     h_Sleep = (\<lambda>_ w. w)\<rparr>"

definition ex_transfer :: "node_world transfer" where
  "ex_transfer = \<lparr>dt_Start = ret (), dt_RegisterVoucherType = (\<lambda>_. ret ()), dt_RegisterRevalidator = (\<lambda>_. ret ()),
     dt_RegisterVoucherResultType = (\<lambda>_. ret ()), dt_SubscribeToEvents = (\<lambda>_. ret ()),
     dt_OpenPull = (\<lambda>_ _ _. fail (GErr ''no route'')), dt_SendVoucher = (\<lambda>_ _. ret ()), dt_Close = (\<lambda>_. ret ())\<rparr>"

definition ex_lotus :: "node_world lotusApi" where
  "ex_lotus = \<lparr>la_ChainHead = ret ([], 1), la_StateMinerInfo = (\<lambda>_ _. ret []), la_TipSetKeyFromBytes = (\<lambda>_. Ok []),
     la_TokenOfKey = (\<lambda>_. []), la_NewMultiaddrBytes = (\<lambda>_. Ok []), la_NewActorAddress = (\<lambda>s. s), la_GenerateCid = ret ''cid'',
     la_MakeTestSignedVoucher = fail (GErr ''no test'')\<rparr>"

definition ex_sl :: "(unit, bytes, node_world) spawn_libs" where
  "ex_sl = \<lparr>sl_NewFullNodeRPC = (\<lambda>_. ret ex_lotus), sl_ipfs = ex_ipfs, sl_setup = ex_setup, sl_PeerHost = (\<lambda>_. ex_node_host),
     sl_Datastore = (\<lambda>_. mem_ds), sl_Blockstore = (\<lambda>i. i), sl_NewWallet = ret ex_wallet,
     sl_FullNode = (\<lambda>_ _ _. ex_node 1000 []), sl_newUUID = mem_uuid, sl_emptyAddr = ''empty'', sl_cbg = ref_cbg,
     sl_HashKey = (\<lambda>c. c), sl_Wrap = mem_wrap,
     sl_NewMultiDstore = (\<lambda>_. ret \<lparr>ms_Get = (\<lambda>_. ret ''store''), ms_Next = ret 0\<rparr>),
     sl_transfer = \<lparr>tl_gsNet = h_ID, tl_dtNet = h_ID, tl_LoaderForBlockstore = (\<lambda>b. b), tl_StorerForBlockstore = (\<lambda>b. b),
       tl_graphsync = (\<lambda>n l s. n), tl_NewTransport = (\<lambda>p e. p), tl_StoredCounter = (\<lambda>_ _. ret 7),
       tl_NewDataTransfer = (\<lambda>_ _ _ _. ret ex_transfer)\<rparr>,
     sl_clientGroup = (\<lambda>_. \<lparr>cg_New = ret (), cg_Begin = (\<lambda>_ _. ret ()), cg_Send = (\<lambda>_ _. ret ()),
       cg_Get = (\<lambda>_. fail ErrNotFound), cg_List = ret []\<rparr>),
     sl_providerGroup = (\<lambda>_. \<lparr>pg_New = ret (), pg_List = ret []\<rparr>),
     sl_system = \<lparr>os_Getwd = ret ''/home'', os_ReadFile = (\<lambda>p. ret (hex_EncodeToString
       (if p = ''/home/client.private'' then [1] else [2]))), path_Join = (\<lambda>d f. d @ CHR ''/'' # f)\<rparr>,
     sl_unmarshal = Ok\<rparr>"

lemma ex_sl_simps [simp]:
  "sl_Wrap ex_sl = mem_wrap" "sl_cbg ex_sl = ref_cbg" "sl_emptyAddr ex_sl = ''empty''"
  by (simp_all add: ex_sl_def)

text \<open>A peer is written between a message and its result: the channels do not see it.\<close>

theorem node_stores_do_not_interfere_witness:
  "inside [''paych''] mem_contents (fold (run_write ex_sl mem_ds)
      [NewMessage ''c1'' ''msg'', WritePeer ''cid'' \<lparr>rp_Address = ''f01'', rp_ID = ''p'', rp_PieceCID = None\<rparr>,
       MessageResult ''msg'' None] ([], [], None)) =
   inside [''paych''] mem_contents (fold (run_write ex_sl mem_ds) [NewMessage ''c1'' ''msg'', MessageResult ''msg'' None] ([], [], None))"
  using node_stores_do_not_interfere [of mem_ds mem_contents snd ex_sl
      "[NewMessage ''c1'' ''msg'', WritePeer ''cid'' \<lparr>rp_Address = ''f01'', rp_ID = ''p'', rp_PieceCID = None\<rparr>, MessageResult ''msg'' None]"
      ChannelPart "([], [], None)"] mem_ns.namespaces_axioms
  by (simp del: run_write.simps)

lemma ex_key_files: "key_files (sl_system ex_sl) (sl_unmarshal ex_sl) (\<lambda>name. if name = ''client.private'' then [1] else [2])"
  unfolding key_files_def
proof (intro ballI allI)
  fix name w
  assume n: "name \<in> {''client.private'', ''provider.private''}"
  let ?b = "if name = ''client.private'' then [1] else [2 :: u8]"
  have "os_Getwd (sl_system ex_sl) w = (Ok ''/home'', w)"
    "os_ReadFile (sl_system ex_sl) (path_Join (sl_system ex_sl) ''/home'' name) w = (Ok ([] @ hex_EncodeToString ?b @ []), w)"
    "\<forall>c\<in>set ([] @ []). is_space c" "sl_unmarshal ex_sl ?b = Ok ?b"
    using n by (auto simp: ex_sl_def ret_def)
  then show "\<exists>wd w1 pre b post w2. os_Getwd (sl_system ex_sl) w = (Ok wd, w1) \<and>
      os_ReadFile (sl_system ex_sl) (path_Join (sl_system ex_sl) wd name) w1 = (Ok (pre @ hex_EncodeToString b @ post), w2) \<and>
      (\<forall>c\<in>set (pre @ post). is_space c) \<and> sl_unmarshal ex_sl b = Ok (if name = ''client.private'' then [1] else [2])"
    by (intro exI conjI)
qed

lemma ex_quiet: "quiet_spawn ex_sl (snd \<circ> snd)"
  by (auto simp: quiet_spawn_def ex_sl_def ex_transfer_def ex_node_host_def keeps_def mem_wrap_def mem_ds_def ret_def)

lemma ex_import:
  assumes "name \<in> {''client.private'', ''provider.private''}"
  shows "\<exists>a ks' d'. WalletImport (sl_system ex_sl) (sl_unmarshal ex_sl) ex_wallet name (es, ks, d) = (Ok a, (es, ks', d'))"
proof -
  let ?b = "if name = ''client.private'' then [1] else [2 :: u8]" and ?w = "(es, ks, d)"
  have "WalletImport (sl_system ex_sl) (sl_unmarshal ex_sl) ex_wallet name ?w =
      bindE (lw_WalletImport ex_wallet ?b) (\<lambda>(addr, err). bindE (lw_SetDefault ex_wallet addr) (\<lambda>_. ret addr)) ?w"
    using assms
    by (intro WalletImport_key_file [where wd = "''/home''" and pre = "[]" and post = "[]" and b = ?b and ?w1.0 = ?w])
       (auto simp: ex_sl_def ret_def)
  then show ?thesis
    by (simp add: ex_wallet_def mem_wl_def on_node_def bindE_def ret_def Let_def AddressUndef_def)
qed

lemma ex_asks_start:
  "\<exists>s a w'. NewAskStore ref_cbg (mem_wrap mem_ds ns) [''retrieval-ask''] (KeyWithNamespaces [''latest'']) ([], r :: mem_wallet) = (Ok (s, Some a), w')"
proof -
  let ?s = "ask_store_at ref_cbg (mem_wrap mem_ds ns) [''retrieval-ask''] (KeyWithNamespaces [''latest'']) :: node_world AskStoreImpl"
  have disk: "ask_disk ?s (inside ns mem_contents) (outside ns mem_contents snd)"
    by (rule ask_disk.intro, unfold ask_store_at_simps, rule mem_ns.wrapped, rule ref.cbg_lib_axioms)
  have fits: "fits_Ask (as_cbg ?s) defaultAsk" by (simp add: ex_fits_Ask)
  obtain w' where w': "SetAsk ?s (Some defaultAsk) (None, ([], r)) = (Ok (), (Some defaultAsk, w'))"
    by (rule ask_disk.SetAsk_run [OF disk fits, of None "([], r)"])
  have "tryLoadAsk ?s (None, ([], r)) = (Ok (), (None, ([], r)))"
    by (rule ask_disk.tryLoadAsk_absent [OF disk]) (simp add: inside_def)
  with w' show ?thesis
    by (cases w') (simp add: NewAskStore_def GetAsk_def ret_def bindE_def tryE_def Let_def)
qed

lemma ex_libs:
  "sl_NewFullNodeRPC ex_sl u = ret ex_lotus" "sl_ipfs ex_sl = ex_ipfs" "sl_setup ex_sl = ex_setup"
  "sl_PeerHost ex_sl i = ex_node_host" "sl_Datastore ex_sl i = mem_ds" "sl_NewWallet ex_sl = ret ex_wallet"
  "NewDataTransfer (sl_transfer ex_sl) h bs ds = ret ex_transfer" "dt_Start ex_transfer = ret ()"
  "sl_NewMultiDstore ex_sl ds = ret \<lparr>ms_Get = (\<lambda>_. ret ''store''), ms_Next = ret 0\<rparr>"
  "NewIpfsStore ex_ipfs ex_setup w = (Ok \<lparr>is_api = (), is_node = ''ipfs-shell''\<rparr>, w)"
  by (simp_all add: ex_sl_def NewDataTransfer_def ex_transfer_def NewIpfsStore_def ex_ipfs_def ex_setup_def
      wrapE_def ret_def bindE_def tryE_def)

lemma ex_spawn_client:
  "\<exists>c ks d. spawn_client ex_sl i mem_ds net node ex_wallet (m, [], [], None) = (Ok c, (m, [], ks, d))"
proof -
  obtain a ks d where client: "WalletImport (sl_system ex_sl) (sl_unmarshal ex_sl) ex_wallet ''client.private'' ([], [], None) =
      (Ok a, ([], ks, d))"
    using ex_import [of "''client.private''" "[]" "[]" None] by auto
  have "NewClient (client_registrations (sl_clientGroup ex_sl ds) ex_transfer) c = ret c" for ds c
    by (simp add: fun_eq_iff NewClient_def client_registrations_def ex_sl_def ex_transfer_def on_node_def ret_def bindE_def tryE_def)
  with client show ?thesis
    by (simp add: spawn_client_def ex_libs Let_def Client_Start_def on_node_def wrapE_def ret_def bindE_def tryE_def)
qed

lemma ex_spawn_provider:
  "\<exists>x w'. spawn_provider ex_sl s mem_ds (NewFromLibp2pHost ref_cbg ex_node_host []) ex_wallet ([], ks, d) = (Ok x, w')"
proof -
  obtain b ks' d' where provider: "WalletImport (sl_system ex_sl) (sl_unmarshal ex_sl) ex_wallet ''provider.private'' ([], ks, d) =
      (Ok b, ([], ks', d'))"
    using ex_import [of "''provider.private''" "[]" ks d] by auto
  obtain st ask w' where asks: "NewAskStore ref_cbg (mem_wrap mem_ds [''retrieval'', ''provider'']) [''retrieval-ask'']
      (KeyWithNamespaces [''latest'']) ([], ks', d') = (Ok (st, Some ask), w')"
    using ex_asks_start [of "[''retrieval'', ''provider'']" "(ks', d')"] by auto
  let ?pg = "sl_providerGroup ex_sl (mem_wrap (mem_wrap mem_ds [''retrieval'', ''provider'']) [''provider-1''])"
  obtain p where p: "NewProvider ref_cbg (mem_wrap mem_ds [''retrieval'', ''provider'']) (provider_registrations ?pg ex_transfer)
      b (GetSize ex_ipfs s) (pg_List ?pg) ([], ks', d') = (Ok p, w')"
    using asks by (simp add: NewProvider_def provider_registrations_def ex_sl_def ex_transfer_def ret_def bindE_def tryE_def)
  obtain x where "start_provider (NewFromLibp2pHost ref_cbg ex_node_host []) p w' = (Ok x, w')"
    by (simp add: start_provider_run lift_host_def ex_node_host_def)
  with p provider show ?thesis
    by (cases x; cases w') (simp add: spawn_provider_def ex_libs Let_def wrapE_def ret_def bindE_def tryE_def)
qed

lemma ex_spawns: "\<exists>n mw. SpawnNode ex_sl (\<lambda>_. ret ()) {} {} nt (NewPaychManager, ([], [], None)) = (Ok n, mw)"
proof -
  let ?ipfs = "\<lparr>is_api = (), is_node = ''ipfs-shell''\<rparr>" and ?net = "NewFromLibp2pHost ref_cbg ex_node_host []"
  let ?node = "NewRetrievalNode \<lparr>rtn_tmode = TestModeOff, rtn_api = ex_lotus,
      rtn_pm = paych_manager ex_sl ex_lotus ex_wallet ''ipfs-shell'' mem_ds\<rparr> (\<lambda>_. ret ()) {} {}"
  obtain c ks d where c: "spawn_client ex_sl ''ipfs-shell'' mem_ds ?net ?node ex_wallet (NewPaychManager, [], [], None) =
      (Ok c, (NewPaychManager, [], ks, d))" using ex_spawn_client by blast
  obtain x w' where x: "spawn_provider ex_sl ?ipfs mem_ds ?net ex_wallet ([], if nt = NodeTypeFull then ks else [],
      if nt = NodeTypeFull then d else None) = (Ok x, w')"
    using ex_spawn_provider by blast
  from c x show ?thesis
    by (cases w'; cases nt)
       (simp_all add: SpawnNode_def ex_libs Let_def on_node_def wrapE_def upd_funds_def ret_def bindE_def tryE_def)
qed


end
