(* ===== verification/Programs.thy ===== *)
theory Programs
  imports Commands AssemblyProps
begin

text \<open>
  The programs over the whole node: \<open>main\<close> of \<open>src/rtmkt/client\<close> and \<open>src/rtmkt/provider\<close> and the API
  server's \<open>runApiServer\<close>. Each spawns a node and goes on with it. The commands of \<open>Commands\<close> run in the
  world of the node, beside the state of its payment channel manager. Waiting for a signal to exit is
  left out.
\<close>

section \<open>Files and the wallet beside the manager's state\<close>

definition lift_ipfs :: "('api, 'w) ipfs_lib \<Rightarrow> ('api, 's \<times> 'w) ipfs_lib" where
  "lift_ipfs lib = \<lparr>
     il_Unixfs_Get = (\<lambda>api p. on_node (il_Unixfs_Get lib api p)),
     il_Unixfs_Add = (\<lambda>api f. on_node (il_Unixfs_Add lib api f)),
     il_Swarm_Peers = (\<lambda>api. on_node (il_Swarm_Peers lib api)),
     il_Swarm_Connect = (\<lambda>api p. on_node (il_Swarm_Connect lib api p)),
     il_Block_Stat = (\<lambda>api p. on_node (il_Block_Stat lib api p)),
     il_Block_Get = (\<lambda>api p. on_node (il_Block_Get lib api p)),
     il_Block_Put = (\<lambda>api b h l f. on_node (il_Block_Put lib api b h l f)),
     il_WithOffline = (\<lambda>api. on_node (il_WithOffline lib api)),
     il_WriteTo = (\<lambda>n p. on_node (il_WriteTo lib n p)),
     il_Size = (\<lambda>n. on_node (il_Size lib n)),
     il_ParseURL = il_ParseURL lib, il_NewWebFile = il_NewWebFile lib,
     il_Stat = (\<lambda>p. on_node (il_Stat lib p)),
     il_NewSerialFile = (\<lambda>p h s. on_node (il_NewSerialFile lib p h s)),
     il_ReadAll = (\<lambda>r. on_node (il_ReadAll lib r)),
     il_NewPath = il_NewPath lib, il_IpldPath = il_IpldPath lib, il_Hash = il_Hash lib, il_Type = il_Type lib,
     il_CodecToStr = il_CodecToStr lib, il_DecodeHash = il_DecodeHash lib, il_NewBlockWithCid = il_NewBlockWithCid lib,
     il_NewMultiaddr = il_NewMultiaddr lib, il_InfoFromP2pAddr = il_InfoFromP2pAddr lib,
     il_Sleep = (\<lambda>d. map_prod id (il_Sleep lib d))\<rparr>"

definition lift_wallet :: "('k, 'w) Wallet \<Rightarrow> ('k, 's \<times> 'w) Wallet" where
  "lift_wallet wl = \<lparr>lw_WalletImport = (\<lambda>ki. on_node (lw_WalletImport wl ki)),
     lw_SetDefault = (\<lambda>a. on_node (lw_SetDefault wl a)), lw_GetDefault = on_node (lw_GetDefault wl)\<rparr>"

section \<open>The client and the provider\<close>

text \<open>An error of \<open>SpawnNode\<close> is printed and the nil node followed all the same: by the program and,
  when that panics, by the deferred \<open>Close\<close>.\<close>

definition client_main ::
    "('api, 'k, 'w) spawn_libs \<Rightarrow> 'w scheduler \<Rightarrow> nat set \<Rightarrow> nat set \<Rightarrow> (string \<Rightarrow> Cid go) \<Rightarrow>
     (DealID \<Rightarrow> (managerState \<times> 'w, unit) may) \<Rightarrow> (managerState \<times> 'w, unit) may" where
  "client_main sl sched c1 c2 cidDecode heard = (\<lambda>sw.
     case SpawnNode sl sched c1 c2 NodeTypeClient sw of
       (Ok n, sw') \<Rightarrow>
         (case mn_Client n of
            None \<Rightarrow> Some (Panic, sw')
          | Some c \<Rightarrow> client_command (lift_ipfs (sl_ipfs sl)) (mn_Store n) cidDecode c (lift_wallet (mn_Wallet n)) heard sw')
     | (_, sw') \<Rightarrow> Some (Panic, sw'))"

text \<open>The provider subscribes after it has its file; the subscriber is \<open>provider_on_event\<close>.\<close>

definition provider_main ::
    "('api, 'k, 'w) spawn_libs \<Rightarrow> 'w scheduler \<Rightarrow> nat set \<Rightarrow> nat set \<Rightarrow> (managerState \<times> 'w, Cid \<times> int \<times> Address) may" where
  "provider_main sl sched c1 c2 = (\<lambda>sw.
     case SpawnNode sl sched c1 c2 NodeTypeProvider sw of
       (Ok n, sw') \<Rightarrow>
         bindM (logged CidUndef (may_io (AddWebFile (lift_ipfs (sl_ipfs sl)) (mn_Store n)
             ''https://images.unsplash.com/photo-1601666703585-964591b026c5''))) (\<lambda>hcid.
         bindM (logged 0 (may_io (GetSize (lift_ipfs (sl_ipfs sl)) (mn_Store n) hcid))) (\<lambda>size.
         bindM (may_io (if mn_Provider n = None then panic else ret ())) (\<lambda>_.
         bindM (logged AddressUndef (may_io (lw_GetDefault (lift_wallet (mn_Wallet n))))) (\<lambda>addr.
         may_io (ret (hcid, size, addr)))))) sw'
     | (_, sw') \<Rightarrow> Some (Panic, sw'))"

section \<open>The API server\<close>

text \<open>The server of the HTTP library over the world of the node. The channel \<open>shutdownCh\<close> is waited on
  once the server has stopped listening.\<close>

record 'w http_server =
  hs_ListenAndServe :: "('w, unit) may"
  hs_shutdownCh :: "('w, unit) may"
  hs_Shutdown :: "('w, unit) io"

definition ErrServerClosed :: gerr where
  "ErrServerClosed = GErr ''http: Server closed''"

definition runApiServer ::
    "('api, 'k, 'w) spawn_libs \<Rightarrow> 'w scheduler \<Rightarrow> nat set \<Rightarrow> nat set \<Rightarrow> (managerState \<times> 'w) http_server \<Rightarrow>
     ('w, unit) io \<Rightarrow> (string \<Rightarrow> ('w, unit) io) \<Rightarrow> (managerState \<times> 'w, unit) may" where
  "runApiServer sl sched c1 c2 srv lcloser closeNode =
     bindM (may_io (SpawnNode sl sched c1 c2 NodeTypeFull)) (\<lambda>n.
     bindM (\<lambda>sw. case hs_ListenAndServe srv sw of
              Some (Err e, sw') \<Rightarrow> if e = ErrServerClosed then Some (Ok (), sw') else Some (Err e, sw')
            | r \<Rightarrow> r) (\<lambda>_.
     bindM (hs_shutdownCh srv) (\<lambda>_.
     bindM (may_io (hs_Shutdown srv)) (\<lambda>_.
     may_io (on_node (Close lcloser closeNode n))))))"

section \<open>What the programs do with their node\<close>

lemma spawned_roles:
  assumes "SpawnNode sl sched c1 c2 nt sw = (Ok n, sw')"
  shows "mn_Client n \<noteq> None \<longleftrightarrow> nt \<in> {NodeTypeClient, NodeTypeFull}"
    and "mn_Provider n \<noteq> None \<longleftrightarrow> nt \<in> {NodeTypeProvider, NodeTypeFull}"
  using assms unfolding SpawnNode_def Let_def
  by (cases nt; auto elim!: bindE_Ok split: if_splits)+

lemma bindM_may_ret: "bindM (may_io (ret x)) f = f x"
  by (simp add: fun_eq_iff bindM_def may_io_def ret_def)

text \<open>The programs and their node. A node that was spawned has the role its program needs, so the
  client runs its command with the client of the node, and the provider its own, in the world that the
  spawning left; when the node could not be spawned both programs panic, for they follow the nil node
  after printing the error, while the API server returns it.\<close>

theorem programs_need_their_node:
  shows "(\<forall>n sw'. SpawnNode sl sched c1 c2 NodeTypeClient sw = (Ok n, sw') \<longrightarrow>
      (\<exists>c. mn_Client n = Some c \<and> client_main sl sched c1 c2 cidDecode heard sw =
        client_command (lift_ipfs (sl_ipfs sl)) (mn_Store n) cidDecode c (lift_wallet (mn_Wallet n)) heard sw')) \<and>
    (\<forall>n sw'. SpawnNode sl sched c1 c2 NodeTypeProvider sw = (Ok n, sw') \<longrightarrow>
      provider_main sl sched c1 c2 sw =
        provider_command (lift_ipfs (sl_ipfs sl)) (mn_Store n) (lift_wallet (mn_Wallet n)) sw') \<and>
    (\<forall>e sw'. SpawnNode sl sched c1 c2 NodeTypeClient sw = (Err e, sw') \<longrightarrow>
      client_main sl sched c1 c2 cidDecode heard sw = Some (Panic, sw')) \<and>
    (\<forall>e sw'. SpawnNode sl sched c1 c2 NodeTypeProvider sw = (Err e, sw') \<longrightarrow>
      provider_main sl sched c1 c2 sw = Some (Panic, sw')) \<and>
    (\<forall>e sw'. SpawnNode sl sched c1 c2 NodeTypeFull sw = (Err e, sw') \<longrightarrow>
      runApiServer sl sched c1 c2 srv lcloser closeNode sw = Some (Err e, sw'))"
proof (intro conjI allI impI)
  fix n sw'
  assume s: "SpawnNode sl sched c1 c2 NodeTypeClient sw = (Ok n, sw')"
  from spawned_roles(1) [OF s] obtain c where "mn_Client n = Some c" by auto
  with s show "\<exists>c. mn_Client n = Some c \<and> client_main sl sched c1 c2 cidDecode heard sw =
      client_command (lift_ipfs (sl_ipfs sl)) (mn_Store n) cidDecode c (lift_wallet (mn_Wallet n)) heard sw'"
    by (simp add: client_main_def)
next
  fix n sw'
  assume s: "SpawnNode sl sched c1 c2 NodeTypeProvider sw = (Ok n, sw')"
  from spawned_roles(2) [OF s] obtain p where "mn_Provider n = Some p" by (cases "mn_Provider n") simp_all
  with s show "provider_main sl sched c1 c2 sw =
      provider_command (lift_ipfs (sl_ipfs sl)) (mn_Store n) (lift_wallet (mn_Wallet n)) sw'"
    by (simp add: provider_main_def provider_command_def bindM_may_ret)
qed (simp_all add: client_main_def provider_main_def runApiServer_def bindM_def may_io_def)

section \<open>Shutting the server down\<close>

text \<open>What the HTTP library documents: listening ends with an error only, and with \<open>ErrServerClosed\<close> only
  when the server was shut down, which serving requests does not do.\<close>

locale http =
  fixes srv :: "'v http_server"
    and down :: "'v \<Rightarrow> bool"
  assumes listening_fails: "hs_ListenAndServe srv w = Some (r, w') \<Longrightarrow> \<exists>e. r = Err e"
    and closed_when_down: "hs_ListenAndServe srv w = Some (Err ErrServerClosed, w') \<Longrightarrow> down w"
begin

lemma listens_on:
  assumes "\<not> down w"
  shows "hs_ListenAndServe srv w = None \<or> (\<exists>e w'. e \<noteq> ErrServerClosed \<and> hs_ListenAndServe srv w = Some (Err e, w'))"
proof (cases "hs_ListenAndServe srv w")
  case (Some x)
  with listening_fails closed_when_down assms show ?thesis by (cases x) metis
qed simp

end


section \<open>Programs of the node in memory\<close>

text \<open>The node with a connection that fails.\<close>

definition ex_sl_offline :: "(unit, bytes, node_world) spawn_libs" where
  "ex_sl_offline = ex_sl\<lparr>sl_NewFullNodeRPC := (\<lambda>_. fail (GErr ''no route''))\<rparr>"

lemma ex_offline: "SpawnNode ex_sl_offline (\<lambda>_. ret ()) {} {} nt sw = (Err (Errorf ''Unable to start lotus rpc'' (GErr ''no route'')), sw)"
  by (cases sw) (simp add: SpawnNode_def ex_sl_offline_def on_node_def wrapE_def fail_def ret_def bindE_def tryE_def)

text \<open>A server that listens until it is shut down, unless its port is taken.\<close>

definition mem_http :: "bool \<Rightarrow> ('v \<Rightarrow> bool) \<Rightarrow> 'v http_server" where
  "mem_http taken down = \<lparr>hs_ListenAndServe = (\<lambda>w. if taken then Some (Err (GErr ''address already in use''), w)
       else if down w then Some (Err ErrServerClosed, w) else None),
     hs_shutdownCh = (\<lambda>w. Some (Ok (), w)), hs_Shutdown = ret ()\<rparr>"

interpretation mem_http: http "mem_http taken down" down
  by unfold_locales (auto simp: mem_http_def ErrServerClosed_def split: if_splits)

theorem programs_need_their_node_witness:
  "(\<exists>n mw c. SpawnNode ex_sl (\<lambda>_. ret ()) {} {} NodeTypeClient (NewPaychManager, [], [], None) = (Ok n, mw) \<and>
     mn_Client n = Some c \<and>
     client_main ex_sl (\<lambda>_. ret ()) {} {} Ok (\<lambda>_. may_io (ret ())) (NewPaychManager, [], [], None) =
       client_command (lift_ipfs (sl_ipfs ex_sl)) (mn_Store n) Ok c (lift_wallet (mn_Wallet n)) (\<lambda>_. may_io (ret ())) mw) \<and>
   (\<exists>n mw. SpawnNode ex_sl (\<lambda>_. ret ()) {} {} NodeTypeProvider (NewPaychManager, [], [], None) = (Ok n, mw) \<and>
     provider_main ex_sl (\<lambda>_. ret ()) {} {} (NewPaychManager, [], [], None) =
       provider_command (lift_ipfs (sl_ipfs ex_sl)) (mn_Store n) (lift_wallet (mn_Wallet n)) mw) \<and>
   client_main ex_sl_offline (\<lambda>_. ret ()) {} {} Ok (\<lambda>_. may_io (ret ())) (NewPaychManager, [], [], None) =
     Some (Panic, (NewPaychManager, [], [], None)) \<and>
   provider_main ex_sl_offline (\<lambda>_. ret ()) {} {} (NewPaychManager, [], [], None) =
     Some (Panic, (NewPaychManager, [], [], None)) \<and>
   runApiServer ex_sl_offline (\<lambda>_. ret ()) {} {} (mem_http False (\<lambda>_. False)) (ret ()) (\<lambda>_. ret ()) (NewPaychManager, [], [], None) =
     Some (Err (Errorf ''Unable to start lotus rpc'' (GErr ''no route'')), (NewPaychManager, [], [], None))"
proof -
  let ?sw = "(NewPaychManager, [], [], None) :: managerState \<times> node_world"
  note main = programs_need_their_node [where sched = "\<lambda>_. ret ()" and ?c1.0 = "{}" and ?c2.0 = "{}" and cidDecode = Ok
      and heard = "\<lambda>_. may_io (ret ())" and sw = ?sw and srv = "mem_http False (\<lambda>_. False)" and lcloser = "ret ()"
      and closeNode = "\<lambda>_. ret ()"]
  obtain n mw where c: "SpawnNode ex_sl (\<lambda>_. ret ()) {} {} NodeTypeClient ?sw = (Ok n, mw)" using ex_spawns by blast
  obtain n' mw' where p: "SpawnNode ex_sl (\<lambda>_. ret ()) {} {} NodeTypeProvider ?sw = (Ok n', mw')" using ex_spawns by blast
  note run = main [of ex_sl, THEN conjunct1, rule_format, OF c]
    main [of ex_sl, THEN conjunct2, THEN conjunct1, rule_format, OF p]
    main [of ex_sl_offline, THEN conjunct2, THEN conjunct2, THEN conjunct1, rule_format, OF ex_offline]
    main [of ex_sl_offline, THEN conjunct2, THEN conjunct2, THEN conjunct2, THEN conjunct1, rule_format, OF ex_offline]
    main [of ex_sl_offline, THEN conjunct2, THEN conjunct2, THEN conjunct2, THEN conjunct2, rule_format, OF ex_offline]
  from run(1) obtain cl where cl: "mn_Client n = Some cl"
    "client_main ex_sl (\<lambda>_. ret ()) {} {} Ok (\<lambda>_. may_io (ret ())) ?sw =
       client_command (lift_ipfs (sl_ipfs ex_sl)) (mn_Store n) Ok cl (lift_wallet (mn_Wallet n)) (\<lambda>_. may_io (ret ())) mw"
    by blast
  show ?thesis by (intro conjI exI) (rule c cl p run(2-5))+
qed


end
