(* ===== verification/Subscribers.thy ===== *)
theory Subscribers
  imports Server Funds "HOL-Library.Multiset"
begin

text \<open>
  Publishing events: the dispatchers and subscriptions of \<open>client.go\<close> and \<open>provider.go\<close>, the listeners
  for messages of \<open>paychmgr.go\<close> and the channels of events of \<open>src/rtmkt/api/api.go\<close>. The library of
  publishers and the sending on channels are parameters. A callback that never returns, because
  nobody reads the channel it sends on, is \<open>None\<close>.
\<close>

section \<open>Events and dispatchers\<close>

type_synonym 'w callback = "'w \<Rightarrow> 'w option"

datatype pub_event =
    internalClientEvent ClientEvent ClientDealState
  | internalProviderEvent ProviderEvent ProviderDealState
  | msgCompleteEvt Cid "gerr option"

datatype 'w SubscriberFn =
    ClientSubscriber "ClientEvent \<Rightarrow> ClientDealState \<Rightarrow> 'w callback"
  | ProviderSubscriber "ProviderEvent \<Rightarrow> ProviderDealState \<Rightarrow> 'w callback"
  | subscriberFn "Cid \<Rightarrow> gerr option \<Rightarrow> 'w callback"

text \<open>A dispatcher returns an error or nil, if it returns.\<close>

type_synonym 'w dispatcher = "pub_event \<Rightarrow> 'w SubscriberFn \<Rightarrow> 'w \<Rightarrow> (gerr option \<times> 'w) option"

definition called :: "'w callback \<Rightarrow> 'w \<Rightarrow> (gerr option \<times> 'w) option" where
  "called cb w = map_option (\<lambda>w'. (None, w')) (cb w)"

definition clientDispatcher :: "'w dispatcher" where
  "clientDispatcher ev f w = (case ev of
       internalClientEvent evt st \<Rightarrow> (case f of
           ClientSubscriber cb \<Rightarrow> called (cb evt st) w
         | _ \<Rightarrow> Some (Some (GErr ''wrong type of event''), w))
     | _ \<Rightarrow> Some (Some (GErr ''wrong type of event''), w))"

definition providerDispatcher :: "'w dispatcher" where
  "providerDispatcher ev f w = (case ev of
       internalProviderEvent evt st \<Rightarrow> (case f of
           ProviderSubscriber cb \<Rightarrow> called (cb evt st) w
         | _ \<Rightarrow> Some (Some (GErr ''wrong type of event''), w))
     | _ \<Rightarrow> Some (Some (GErr ''wrong type of event''), w))"

definition msgDispatcher :: "'w dispatcher" where
  "msgDispatcher ev f w = (case ev of
       msgCompleteEvt mcid err \<Rightarrow> (case f of
           subscriberFn sub \<Rightarrow> called (sub mcid err) w
         | _ \<Rightarrow> Some (Some (GErr ''wrong type of subscriber''), w))
     | _ \<Rightarrow> Some (Some (GErr ''wrong type of event''), w))"

section \<open>Publishers\<close>

text \<open>The library: a publisher \<open>'s\<close> is made with a dispatcher; a subscription has a key, by which it is
  given up.\<close>

record ('s, 'w) pubsub_lib =
  pl_New :: "'w dispatcher \<Rightarrow> 's"
  pl_Subscribe :: "'s \<Rightarrow> 'w SubscriberFn \<Rightarrow> 's \<times> nat"
  pl_Unsubscribe :: "'s \<Rightarrow> nat \<Rightarrow> 's"
  pl_Publish :: "'s \<Rightarrow> pub_event \<Rightarrow> 'w \<Rightarrow> (gerr option \<times> 'w) option"

definition Client_subscribers :: "('s, 'w) pubsub_lib \<Rightarrow> 's" where
  "Client_subscribers lib = pl_New lib clientDispatcher"

definition Client_SubscribeToEvents ::
    "('s, 'w) pubsub_lib \<Rightarrow> 's \<Rightarrow> (ClientEvent \<Rightarrow> ClientDealState \<Rightarrow> 'w callback) \<Rightarrow> 's \<times> nat" where
  "Client_SubscribeToEvents lib s subscriber = pl_Subscribe lib s (ClientSubscriber subscriber)"

text \<open>The error of publishing is dropped.\<close>

definition Client_notifySubscribers ::
    "('s, 'w) pubsub_lib \<Rightarrow> 's \<Rightarrow> ClientEvent \<Rightarrow> ClientDealState \<Rightarrow> 'w callback" where
  "Client_notifySubscribers lib s evt ds w = map_option snd (pl_Publish lib s (internalClientEvent evt ds) w)"

definition Provider_subscribers :: "('s, 'w) pubsub_lib \<Rightarrow> 's" where
  "Provider_subscribers lib = pl_New lib providerDispatcher"

definition Provider_SubscribeToEvents ::
    "('s, 'w) pubsub_lib \<Rightarrow> 's \<Rightarrow> (ProviderEvent \<Rightarrow> ProviderDealState \<Rightarrow> 'w callback) \<Rightarrow> 's \<times> nat" where
  "Provider_SubscribeToEvents lib s subscriber = pl_Subscribe lib s (ProviderSubscriber subscriber)"

definition Provider_notifySubscribers ::
    "('s, 'w) pubsub_lib \<Rightarrow> 's \<Rightarrow> ProviderEvent \<Rightarrow> ProviderDealState \<Rightarrow> 'w callback" where
  "Provider_notifySubscribers lib s evt ds w = map_option snd (pl_Publish lib s (internalProviderEvent evt ds) w)"

definition newMsgListeners :: "('s, 'w) pubsub_lib \<Rightarrow> 's" where
  "newMsgListeners lib = pl_New lib msgDispatcher"

definition onMsgComplete ::
    "('s, 'w) pubsub_lib \<Rightarrow> 's \<Rightarrow> Cid \<Rightarrow> (gerr option \<Rightarrow> 'w callback) \<Rightarrow> 's \<times> nat" where
  "onMsgComplete lib s mcid cb =
     pl_Subscribe lib s (subscriberFn (\<lambda>evt_mcid err w. if mcid = evt_mcid then cb err w else Some w))"

text \<open>The error of publishing is printed.\<close>

definition publishMsgComplete :: "('s, 'w) pubsub_lib \<Rightarrow> 's \<Rightarrow> Cid \<Rightarrow> gerr option \<Rightarrow> 'w callback" where
  "publishMsgComplete lib s mcid err w = map_option snd (pl_Publish lib s (msgCompleteEvt mcid err) w)"

section \<open>The channels of the API server\<close>

text \<open>\<open>send out v\<close> is \<open>out <- v\<close> on a channel without a buffer. Logging is left out.\<close>

definition RegisterProviderEvents ::
    "('s, 'w) pubsub_lib \<Rightarrow> ('ch \<Rightarrow> ApiProviderEvent \<Rightarrow> 'w callback) \<Rightarrow> (TokenAmount \<Rightarrow> string) \<Rightarrow> 'ch \<Rightarrow> 's \<Rightarrow> 's" where
  "RegisterProviderEvents lib send fil out s =
     fst (Provider_SubscribeToEvents lib s (\<lambda>event state. send out (provider_update fil state)))"

definition RegisterClientEvents ::
    "('s, 'w) pubsub_lib \<Rightarrow> ('ch \<Rightarrow> ApiClientEvent \<Rightarrow> 'w callback) \<Rightarrow> 'ch \<Rightarrow> 's \<Rightarrow> 's" where
  "RegisterClientEvents lib send out s =
     fst (Client_SubscribeToEvents lib s (\<lambda>event state. send out (client_update state)))"

text \<open>An order subscribes in the same way before it is looked at; what it does then is \<open>Api_Retrieve\<close>.\<close>

definition order_subscribes ::
    "('s, 'w) pubsub_lib \<Rightarrow> ('ch \<Rightarrow> ApiClientEvent \<Rightarrow> 'w callback) \<Rightarrow> 'ch \<Rightarrow> 's \<Rightarrow> 's" where
  "order_subscribes lib send out s =
     fst (Client_SubscribeToEvents lib s (\<lambda>event state. send out (client_update state)))"

definition Api_Order ::
    "('s, 'v) pubsub_lib \<Rightarrow> ('ch \<Rightarrow> ApiClientEvent \<Rightarrow> 'v callback) \<Rightarrow> 'ch \<Rightarrow> (string \<Rightarrow> Cid go) \<Rightarrow> 'w Client \<Rightarrow>
     RetrievalOrder \<Rightarrow> ('s \<times> 'w, 'ch) io" where
  "Api_Order lib send out cidDecode c order = (\<lambda>(s, w).
     case Api_Retrieve cidDecode c order w of (r, w') \<Rightarrow> (bind_go r (\<lambda>_. Ok out), (order_subscribes lib send out s, w')))"

section \<open>What a publisher promises\<close>

fun deliver :: "'w dispatcher \<Rightarrow> pub_event \<Rightarrow> 'w SubscriberFn list \<Rightarrow> 'w \<Rightarrow> (gerr option \<times> 'w) option" where
  "deliver d ev [] w = Some (None, w)"
| "deliver d ev (f # fs) w = (case d ev f w of
       Some (None, w') \<Rightarrow> deliver d ev fs w'
     | r \<Rightarrow> r)"

text \<open>An event goes to all subscribers, in an order that is not promised, up to the first error.\<close>

locale pubsub =
  fixes lib :: "('s, 'w) pubsub_lib"
    and subs :: "'s \<Rightarrow> (nat \<times> 'w SubscriberFn) list"
    and disp :: "'s \<Rightarrow> 'w dispatcher"
  assumes New: "subs (pl_New lib d) = []" "disp (pl_New lib d) = d"
    and Subscribe: "pl_Subscribe lib s f = (s', k) \<Longrightarrow>
      k \<notin> fst ` set (subs s) \<and> subs s' = subs s @ [(k, f)] \<and> disp s' = disp s"
    and Unsubscribe: "subs (pl_Unsubscribe lib s k) = filter (\<lambda>(j, f). j \<noteq> k) (subs s)"
      "disp (pl_Unsubscribe lib s k) = disp s"
    and Publish: "\<exists>fs. mset fs = mset (map snd (subs s)) \<and> pl_Publish lib s ev w = deliver (disp s) ev fs w"

text \<open>Subscribers one after the other; one that does not return keeps the others waiting.\<close>

fun call_all :: "'w callback list \<Rightarrow> 'w callback" where
  "call_all [] w = Some w"
| "call_all (cb # cbs) w = Option.bind (cb w) (call_all cbs)"

text \<open>The publisher of a client or of a provider after any subscriptions, with those that are in force.
  All are of the type that its dispatcher asserts, because each is made by \<open>wrap\<close>.\<close>

inductive subscribed ::
    "('s, 'w) pubsub_lib \<Rightarrow> 'w dispatcher \<Rightarrow> ('cb \<Rightarrow> 'w SubscriberFn) \<Rightarrow> 's \<Rightarrow> (nat \<times> 'cb) list \<Rightarrow> bool"
  for lib d wrap where
  new: "subscribed lib d wrap (pl_New lib d) []"
| subscribe: "subscribed lib d wrap s cbs \<Longrightarrow> pl_Subscribe lib s (wrap cb) = (s', k) \<Longrightarrow>
    subscribed lib d wrap s' (cbs @ [(k, cb)])"
| unsubscribe: "subscribed lib d wrap s cbs \<Longrightarrow>
    subscribed lib d wrap (pl_Unsubscribe lib s k) (filter (\<lambda>(j, cb). j \<noteq> k) cbs)"

lemma mset_mapE:
  assumes "mset ys = mset (map f xs)"
  obtains zs where "mset zs = mset xs" "ys = map f zs"
  using assms
proof (induction ys arbitrary: xs thesis)
  case (Cons y ys)
  then have "y \<in> set (map f xs)" by (metis list.set_intros(1) mset_eq_setD)
  then obtain x where x: "x \<in> set xs" "y = f x" by auto
  then have xs: "mset xs = add_mset x (mset (remove1 x xs))" by simp
  have "add_mset y (mset ys) = image_mset f (mset xs)" using Cons.prems(2) by simp
  also have "\<dots> = add_mset y (image_mset f (mset (remove1 x xs)))" unfolding xs x(2) by simp
  finally have "mset ys = mset (map f (remove1 x xs))" by simp
  then obtain zs where "mset zs = mset (remove1 x xs)" "ys = map f zs" using Cons.IH by blast
  with Cons.prems(1) [of "x # zs"] x show ?case by simp
qed simp

context pubsub
begin

lemma subscribed_subs:
  "subscribed lib d wrap s cbs \<Longrightarrow> subs s = map (\<lambda>(k, cb). (k, wrap cb)) cbs \<and> disp s = d"
proof (induction rule: subscribed.induct)
  case (subscribe s cbs cb s' k)
  with Subscribe [of s "wrap cb" s' k] show ?case by simp
next
  case (unsubscribe s cbs k)
  have "filter (\<lambda>(j, f). j \<noteq> k) (map (\<lambda>(k, cb). (k, wrap cb)) cbs) = map (\<lambda>(k, cb). (k, wrap cb)) (filter (\<lambda>(j, cb). j \<noteq> k) cbs)"
    by (induction cbs) auto
  with unsubscribe show ?case by (simp add: Unsubscribe)
qed (simp add: New)

lemma subscribed_distinct: "subscribed lib d wrap s cbs \<Longrightarrow> distinct (map fst cbs)"
proof (induction rule: subscribed.induct)
  case (subscribe s cbs cb s' k)
  with Subscribe [of s "wrap cb" s' k] subscribed_subs [of d wrap s cbs] show ?case by force
next
  case (unsubscribe s cbs k)
  then show ?case by (simp add: distinct_map_filter)
qed simp

lemma deliver_call_all:
  assumes "\<And>cb w. d ev (wrap cb) w = called (run cb) w"
  shows "map_option snd (deliver d ev (map wrap cbs) w) = call_all (map run cbs) w"
  by (induction cbs arbitrary: w) (auto simp: assms called_def split: option.splits bind_splits)

text \<open>Publishing calls every subscriber in force once.\<close>

lemma publish_calls_all:
  assumes "subscribed lib d wrap s cbs" "\<And>cb w. d ev (wrap cb) w = called (run cb) w"
  shows "\<exists>order. mset order = mset (map snd cbs) \<and> map_option snd (pl_Publish lib s ev w) = call_all (map run order) w"
proof -
  have s: "subs s = map (\<lambda>(k, cb). (k, wrap cb)) cbs" "disp s = d" using subscribed_subs [OF assms(1)] by simp_all
  obtain fs where fs: "mset fs = mset (map wrap (map snd cbs))" "pl_Publish lib s ev w = deliver d ev fs w"
    using Publish [of s ev w] s by (auto simp: comp_def case_prod_unfold)
  from mset_mapE [OF fs(1)] obtain order where "mset order = mset (map snd cbs)" "fs = map wrap order" by blast
  with fs(2) deliver_call_all [of d ev wrap run, OF assms(2)] show ?thesis by auto
qed

end

section \<open>What subscribers hear\<close>

lemma client_hears:
  assumes "pubsub lib subs disp" "subscribed lib clientDispatcher ClientSubscriber s cbs"
  shows "\<exists>order. mset order = mset (map snd cbs) \<and>
    Client_notifySubscribers lib s evt st w = call_all (map (\<lambda>cb. cb evt st) order) w"
  unfolding Client_notifySubscribers_def
  by (rule pubsub.publish_calls_all [OF assms]) (simp add: clientDispatcher_def)

lemma provider_hears:
  assumes "pubsub lib subs disp" "subscribed lib providerDispatcher ProviderSubscriber s cbs"
  shows "\<exists>order. mset order = mset (map snd cbs) \<and>
    Provider_notifySubscribers lib s evt st w = call_all (map (\<lambda>cb. cb evt st) order) w"
  unfolding Provider_notifySubscribers_def
  by (rule pubsub.publish_calls_all [OF assms]) (simp add: providerDispatcher_def)

text \<open>Every event of a client's or a provider's deals reaches all subscribers in force, each once,
  whatever the order in which the library calls them, and none that has unsubscribed; the type
  assertions of the dispatchers do not fail.\<close>

theorem every_subscriber_hears:
  assumes "pubsub lib subs disp"
  shows "(subscribed lib clientDispatcher ClientSubscriber s cbs \<longrightarrow>
      (\<exists>order. mset order = mset (map snd cbs) \<and>
        Client_notifySubscribers lib s evt st w = call_all (map (\<lambda>cb. cb evt st) order) w)) \<and>
    (subscribed lib providerDispatcher ProviderSubscriber s pcbs \<longrightarrow>
      (\<exists>order. mset order = mset (map snd pcbs) \<and>
        Provider_notifySubscribers lib s pevt pst w = call_all (map (\<lambda>cb. cb pevt pst) order) w))"
  using client_hears [OF assms] provider_hears [OF assms] by blast

lemma call_all_stuck: "cb \<in> set cbs \<Longrightarrow> (\<And>w. cb w = None) \<Longrightarrow> call_all cbs w = None"
  by (induction cbs arbitrary: w) (auto split: bind_splits)

lemma client_subscribe:
  assumes "subscribed lib clientDispatcher ClientSubscriber s cbs"
  shows "\<exists>k. subscribed lib clientDispatcher ClientSubscriber (fst (Client_SubscribeToEvents lib s cb)) (cbs @ [(k, cb)])"
  using subscribed.subscribe [OF assms, of cb] unfolding Client_SubscribeToEvents_def by (metis prod.collapse)

text \<open>C13: an order subscribes a channel of its own before it is looked at, and nothing takes the
  subscription back, not even when the order fails. If nobody reads the channel then, as when the
  caller was given the error instead of it, no event of any deal is reported any more: each
  notification of the client's subscribers waits forever, later subscriptions or not.\<close>

theorem unread_order_blocks_events:
  assumes "pubsub lib subs disp" "subscribed lib clientDispatcher ClientSubscriber s cbs"
    and "Api_Order lib send out cidDecode c order (s, w) = (r, (s', w'))" "\<And>v u. send out v u = None"
  shows "Client_notifySubscribers lib s' evt st u = None \<and>
    Client_notifySubscribers lib (RegisterClientEvents lib send other s') evt st u = None"
proof -
  let ?cb = "\<lambda>(event :: ClientEvent) state. send out (client_update state)"
  have stuck: "Client_notifySubscribers lib s1 evt st u = None"
    if sub: "subscribed lib clientDispatcher ClientSubscriber s1 cbs1" and k: "(k, ?cb) \<in> set cbs1" for s1 cbs1 k
  proof -
    obtain ord where ord: "mset ord = mset (map snd cbs1)"
        "Client_notifySubscribers lib s1 evt st u = call_all (map (\<lambda>cb. cb evt st) ord) u"
      using client_hears [OF assms(1) sub] by blast
    from k have "?cb \<in> set ord" unfolding mset_eq_setD [OF ord(1)] by force
    then have "send out (client_update st) \<in> set (map (\<lambda>cb. cb evt st) ord)" by force
    with ord(2) show ?thesis by (simp only: call_all_stuck [OF _ assms(4)])
  qed
  have "s' = fst (Client_SubscribeToEvents lib s ?cb)"
    using assms(3) by (auto simp: Api_Order_def order_subscribes_def split: prod.splits)
  with client_subscribe [OF assms(2), of ?cb] obtain k
    where k: "subscribed lib clientDispatcher ClientSubscriber s' (cbs @ [(k, ?cb)])" by auto
  obtain j where j: "subscribed lib clientDispatcher ClientSubscriber (RegisterClientEvents lib send other s')
      ((cbs @ [(k, ?cb)]) @ [(j, \<lambda>event state. send other (client_update state))])"
    using client_subscribe [OF k] unfolding RegisterClientEvents_def by blast
  from stuck [OF k, of k] stuck [OF j, of k] show ?thesis by simp
qed

section \<open>Listeners for messages\<close>

text \<open>The callback that \<open>msgPromise\<close> registers starts the goroutine that answers the promise.\<close>

definition answer_later :: "nat \<Rightarrow> Cid \<Rightarrow> gerr option \<Rightarrow> task list callback" where
  "answer_later p mcid err tasks = Some (tasks @ [AnswerMsg p mcid err])"

definition msg_callback :: "nat \<times> Cid \<Rightarrow> task list SubscriberFn" where
  "msg_callback l = (case l of (p, c) \<Rightarrow> subscriberFn (\<lambda>mcid err w. if c = mcid then answer_later p c err w else Some w))"

definition msgPromise :: "('s, task list) pubsub_lib \<Rightarrow> 's \<Rightarrow> nat \<Rightarrow> Cid \<Rightarrow> 's \<times> nat" where
  "msgPromise lib s p mcid = onMsgComplete lib s mcid (answer_later p mcid)"

text \<open>A publisher and the listeners of an accessor's \<open>funds\<close>.\<close>

definition listening :: "('s, task list) pubsub_lib \<Rightarrow> 's \<Rightarrow> funds \<Rightarrow> bool" where
  "listening lib s f \<longleftrightarrow> (\<exists>cbs. subscribed lib msgDispatcher msg_callback s cbs \<and> map snd cbs = fq_listeners f)"

definition unsubscribe_all :: "('s, 'w) pubsub_lib \<Rightarrow> nat list \<Rightarrow> 's \<Rightarrow> 's" where
  "unsubscribe_all lib ks s = fold (\<lambda>k s. pl_Unsubscribe lib s k) ks s"

lemma unsubscribe_all_subscribed:
  "subscribed lib d wrap s cbs \<Longrightarrow> subscribed lib d wrap (unsubscribe_all lib ks s) (filter (\<lambda>(j, cb). j \<notin> set ks) cbs)"
proof (induction ks arbitrary: s cbs)
  case (Cons k ks)
  have "filter (\<lambda>(j, cb). j \<notin> set ks) (filter (\<lambda>(j, cb). j \<noteq> k) cbs) = filter (\<lambda>(j, cb). j \<notin> set (k # ks)) cbs"
    by (induction cbs) auto
  with Cons.IH [OF subscribed.unsubscribe [OF Cons.prems, of k]] show ?case by (simp add: unsubscribe_all_def)
qed (simp add: unsubscribe_all_def)

lemma filter_without_keys:
  assumes "distinct (map fst xs)"
  shows "filter (\<lambda>(j, l). j \<notin> set (map fst (filter P xs))) xs = filter (\<lambda>x. \<not> P x) xs"
proof (rule filter_cong [OF refl])
  fix x assume x: "x \<in> set xs"
  have uniq: "y = x" if "y \<in> set xs" "fst y = fst x" for y
    using that x assms by (metis distinct_map inj_onD)
  have "fst x \<in> set (map fst (filter P xs)) \<longleftrightarrow> P x"
  proof
    assume "fst x \<in> set (map fst (filter P xs))"
    then obtain y where "y \<in> set xs" "P y" "fst y = fst x" by auto
    with uniq show "P x" by blast
  qed (use x in auto)
  then show "(case x of (j, l) \<Rightarrow> j \<notin> set (map fst (filter P xs))) \<longleftrightarrow> \<not> P x" by (simp add: case_prod_unfold)
qed

lemma call_all_answers:
  "call_all (map (\<lambda>(p, c) w. if c = mcid then answer_later p c err w else Some w) ls) tasks =
   Some (tasks @ map (\<lambda>(p, c). AnswerMsg p mcid err) (filter (\<lambda>(p, c). c = mcid) ls))"
  by (induction ls arbitrary: tasks) (auto simp: answer_later_def)

lemma listening_new: "fq_listeners f = [] \<Longrightarrow> listening lib (newMsgListeners lib) f"
  using subscribed.new [of lib msgDispatcher msg_callback] by (auto simp: listening_def newMsgListeners_def)

lemma listening_msgPromise:
  assumes "listening lib s f"
  shows "listening lib (fst (msgPromise lib s p mcid)) (f\<lparr>fq_listeners := fq_listeners f @ [(p, mcid)]\<rparr>)"
proof -
  from assms obtain cbs where cbs: "subscribed lib msgDispatcher msg_callback s cbs" "map snd cbs = fq_listeners f"
    by (auto simp: listening_def)
  have "subscribed lib msgDispatcher msg_callback (fst (msgPromise lib s p mcid))
      (cbs @ [(snd (msgPromise lib s p mcid), (p, mcid))])"
    by (rule subscribed.subscribe [OF cbs(1)]) (simp add: msgPromise_def onMsgComplete_def msg_callback_def)
  with cbs(2) show ?thesis by (auto simp: listening_def)
qed



section \<open>A publisher in memory\<close>

type_synonym 'w mem_pub = "'w dispatcher \<times> (nat \<times> 'w SubscriberFn) list"

definition mem_pubsub :: "('w mem_pub, 'w) pubsub_lib" where
  "mem_pubsub = \<lparr>pl_New = (\<lambda>d. (d, [])),
     pl_Subscribe = (\<lambda>(d, fs) f. let k = Suc (sum_list (map fst fs)) in ((d, fs @ [(k, f)]), k)),
     pl_Unsubscribe = (\<lambda>(d, fs) k. (d, filter (\<lambda>(j, f). j \<noteq> k) fs)),
     pl_Publish = (\<lambda>(d, fs) ev. deliver d ev (map snd fs))\<rparr>"

interpretation mem_pubsub: pubsub mem_pubsub snd fst
proof
  fix s :: "'w mem_pub" and f s' k
  assume s: "pl_Subscribe mem_pubsub s f = (s', k)"
  have "j < Suc (sum_list (map fst (snd s)))" if "j \<in> fst ` set (snd s)" for j
    using member_le_sum_list [of j "map fst (snd s)"] that by simp
  with s show "k \<notin> fst ` set (snd s) \<and> snd s' = snd s @ [(k, f)] \<and> fst s' = fst s"
    by (auto simp: mem_pubsub_def Let_def split: prod.splits)
next
  fix s :: "'w mem_pub" and ev w
  show "\<exists>fs. mset fs = mset (map snd (snd s)) \<and> pl_Publish mem_pubsub s ev w = deliver (fst s) ev fs w"
    by (intro exI [of _ "map snd (snd s)"]) (simp add: mem_pubsub_def case_prod_unfold)
qed (auto simp: mem_pubsub_def split: prod.splits)

text \<open>A channel that is read and one that is not; an order of something that is no content.\<close>

definition ex_send :: "string \<Rightarrow> ApiClientEvent \<Rightarrow> (string \<times> string) list callback" where
  "ex_send out v heard = (if out = ''read'' then Some (heard @ [(out, ace_Status v)]) else None)"

definition ex_asked_deal :: ClientDealState where
  "ex_asked_deal = newClientDeal ''cid'' 1 \<lparr>PricePerByte = 3, PaymentInterval = 100, PaymentIntervalIncrease = 10\<rparr> 500
     ''peer'' ''f1client'' ''f1miner'' None"

definition ex_order :: RetrievalOrder where
  "ex_order = \<lparr>ro_PaymentInterval = 100, ro_PaymentIntervalIncrease = 10, ro_PricePerByte = 3, ro_Size = 100,
     ro_ContentID = ''junk'', ro_Client = ''f1client'', ro_Provider = ''f1miner'', ro_ProviderPeer = ''peer''\<rparr>"

definition ex_two :: "(string \<times> string) list mem_pub" where
  "ex_two = RegisterClientEvents mem_pubsub ex_send ''read''
     (RegisterClientEvents mem_pubsub ex_send ''read'' (Client_subscribers mem_pubsub))"

theorem every_subscriber_hears_witness:
  "(\<exists>order. mset order = replicate_mset 2 (\<lambda>event state. ex_send ''read'' (client_update state)) \<and>
      Client_notifySubscribers mem_pubsub ex_two ClientEventOpen ex_asked_deal [] =
        call_all (map (\<lambda>cb. cb ClientEventOpen ex_asked_deal) order) []) \<and>
   Client_notifySubscribers mem_pubsub ex_two ClientEventOpen ex_asked_deal [] =
     Some [(''read'', ''DealStatusNew''), (''read'', ''DealStatusNew'')]"
proof -
  let ?cb = "\<lambda>(event :: ClientEvent) state. ex_send ''read'' (client_update state)"
  have new: "subscribed mem_pubsub clientDispatcher ClientSubscriber (Client_subscribers mem_pubsub) []"
    unfolding Client_subscribers_def by (rule subscribed.new)
  obtain j where "subscribed mem_pubsub clientDispatcher ClientSubscriber
      (RegisterClientEvents mem_pubsub ex_send ''read'' (Client_subscribers mem_pubsub)) [(j, ?cb)]"
    using client_subscribe [OF new, of ?cb] by (auto simp: RegisterClientEvents_def)
  from client_subscribe [OF this, of ?cb] obtain k
    where "subscribed mem_pubsub clientDispatcher ClientSubscriber ex_two [(j, ?cb), (k, ?cb)]"
    by (auto simp: RegisterClientEvents_def ex_two_def)
  from conjunct1 [OF every_subscriber_hears [OF mem_pubsub.pubsub_axioms], rule_format, OF this]
  have "\<exists>order. mset order = mset (map snd [(j, ?cb), (k, ?cb)]) \<and>
      Client_notifySubscribers mem_pubsub ex_two ClientEventOpen ex_asked_deal [] =
        call_all (map (\<lambda>cb. cb ClientEventOpen ex_asked_deal) order) []" by blast
  moreover have "Client_notifySubscribers mem_pubsub ex_two ClientEventOpen ex_asked_deal [] =
     Some [(''read'', ''DealStatusNew''), (''read'', ''DealStatusNew'')]"
    by (simp add: Client_notifySubscribers_def ex_two_def RegisterClientEvents_def Client_SubscribeToEvents_def
        Client_subscribers_def mem_pubsub_def clientDispatcher_def called_def ex_send_def client_update_def
        ex_asked_deal_def newClientDeal_def)
  ultimately show ?thesis by (simp add: numeral_2_eq_2)
qed

theorem unread_order_blocks_events_witness:
  "\<forall>c :: unit Client. \<exists>s'.
     Api_Order mem_pubsub ex_send ''unread'' (\<lambda>_. Err (GErr ''no content'')) c ex_order (ex_two, ()) =
       (Err (GErr ''no content''), (s', ())) \<and>
     Client_notifySubscribers mem_pubsub s' ClientEventOpen ex_asked_deal [] = None"
proof
  fix c :: "unit Client"
  let ?cb = "\<lambda>(event :: ClientEvent) state. ex_send ''read'' (client_update state)"
  have new: "subscribed mem_pubsub clientDispatcher ClientSubscriber (Client_subscribers mem_pubsub) []"
    unfolding Client_subscribers_def by (rule subscribed.new)
  obtain cbs where "subscribed mem_pubsub clientDispatcher ClientSubscriber
      (RegisterClientEvents mem_pubsub ex_send ''read'' (Client_subscribers mem_pubsub)) cbs"
    using client_subscribe [OF new, of ?cb] unfolding RegisterClientEvents_def by blast
  from client_subscribe [OF this, of ?cb] obtain cbs2
    where two: "subscribed mem_pubsub clientDispatcher ClientSubscriber ex_two cbs2"
    unfolding RegisterClientEvents_def ex_two_def by blast
  have run: "Api_Order mem_pubsub ex_send ''unread'' (\<lambda>_. Err (GErr ''no content'')) c ex_order (ex_two, ()) =
      (Err (GErr ''no content''), (order_subscribes mem_pubsub ex_send ''unread'' ex_two, ()))"
    by (simp add: Api_Order_def Api_Retrieve_def order_params_def NewParams_def bindE_def lift_go_def)
  have unread: "ex_send ''unread'' v u = None" for v u by (simp add: ex_send_def)
  from unread_order_blocks_events [where send = ex_send and out = "''unread''", OF mem_pubsub.pubsub_axioms two run unread] run
  show "\<exists>s'. Api_Order mem_pubsub ex_send ''unread'' (\<lambda>_. Err (GErr ''no content'')) c ex_order (ex_two, ()) =
      (Err (GErr ''no content''), (s', ())) \<and>
    Client_notifySubscribers mem_pubsub s' ClientEventOpen ex_asked_deal [] = None" by blast
qed

definition ex_listeners :: funds where
  "ex_listeners = no_funds\<lparr>fq_listeners := [(1, ''a''), (2, ''b'')]\<rparr>"

definition ex_listening :: "task list mem_pub" where
  "ex_listening = fst (msgPromise mem_pubsub (fst (msgPromise mem_pubsub (newMsgListeners mem_pubsub) 1 ''a'')) 2 ''b'')"


end
