(* ===== verification/Identifiers.thy ===== *)
theory Identifiers
  imports DealTypes
begin

text \<open>
  The keys of deals: the \<open>String\<close> methods of \<open>DealID\<close> and \<open>ProviderDealIdentifier\<close> in \<open>types.go\<close>, by
  which the groups of state machines tell their deals apart. How a peer's name is printed is a
  parameter.
\<close>

definition DealID_String :: "DealID \<Rightarrow> string" where
  "DealID_String d = show_nat (unat d)"

definition ProviderDealIdentifier_String :: "(PeerID \<Rightarrow> string) \<Rightarrow> ProviderDealIdentifier \<Rightarrow> string" where
  "ProviderDealIdentifier_String pretty p = pretty (pid_Receiver p) @ CHR ''/'' # DealID_String (pid_DealID p)"

section \<open>Decimal numbers\<close>

definition read_nat :: "string \<Rightarrow> nat" where
  "read_nat s = foldl (\<lambda>n c. 10 * n + (of_char c - 48)) 0 s"

lemma show_nat_digits: "c \<in> set (show_nat n) \<Longrightarrow> 48 \<le> (of_char c :: nat) \<and> (of_char c :: nat) \<le> 57"
proof (induction n rule: show_nat.induct)
  case (1 n)
  show ?case
  proof (cases "n < 10")
    case True
    with 1(2) show ?thesis by (simp add: show_nat.simps [of n])
  next
    case False
    with 1(2) have "c \<in> set (show_nat (n div 10)) \<or> c = char_of (48 + n mod 10)"
      by (simp add: show_nat.simps [of n] disj_commute)
    moreover have "n mod 10 < 10" by simp
    ultimately show ?thesis using 1(1) [OF False] by auto
  qed
qed

lemma read_show_nat: "read_nat (show_nat n) = n"
proof (induction n rule: show_nat.induct)
  case (1 n)
  show ?case
  proof (cases "n < 10")
    case True
    then show ?thesis by (simp add: show_nat.simps [of n] read_nat_def)
  next
    case False
    have "n mod 10 < 10" by simp
    with 1 [OF False] False show ?thesis by (simp add: show_nat.simps [of n] read_nat_def)
  qed
qed

lemma show_nat_inject [simp]: "show_nat m = show_nat n \<longleftrightarrow> m = n"
  by (metis read_show_nat)

lemma no_slash_in_digits: "CHR ''/'' \<notin> set (show_nat n)"
  using show_nat_digits [of "CHR ''/''" n] by auto

text \<open>The part behind the last separator determines the split.\<close>

lemma split_at_last:
  assumes "as @ c # xs = bs @ c # ys" "c \<notin> set xs" "c \<notin> set ys"
  shows "as = bs \<and> xs = ys"
proof -
  have "rev xs @ c # rev as = rev ys @ c # rev bs" using arg_cong [OF assms(1), of rev] by simp
  moreover have "takeWhile (\<lambda>x. x \<noteq> c) (rev zs @ c # us) = rev zs" if "c \<notin> set zs" for zs us
    using that by (auto simp: takeWhile_append)
  ultimately have "rev xs = rev ys" using assms(2,3) by metis
  with assms(1) show ?thesis by simp
qed

text \<open>No two deals share a key. Deals of a client have different keys when their numbers differ, and
  those of a provider when their numbers or the peers that receive them do, provided that peers are
  printed differently: whatever is in a printed name, a \<open>/\<close> included.\<close>

theorem deal_keys_are_distinct:
  assumes "inj pretty"
  shows "(DealID_String d = DealID_String e \<longleftrightarrow> d = e) \<and>
    (ProviderDealIdentifier_String pretty p = ProviderDealIdentifier_String pretty q \<longleftrightarrow> p = q)"
proof -
  have "p = q" if "ProviderDealIdentifier_String pretty p = ProviderDealIdentifier_String pretty q"
  proof -
    have "pretty (pid_Receiver p) = pretty (pid_Receiver q) \<and> DealID_String (pid_DealID p) = DealID_String (pid_DealID q)"
      using that [unfolded ProviderDealIdentifier_String_def DealID_String_def] unfolding DealID_String_def
      by (rule split_at_last) (rule no_slash_in_digits)+
    then have "pid_Receiver p = pid_Receiver q" "pid_DealID p = pid_DealID q"
      using injD [OF assms] by (auto simp: DealID_String_def word_unat_eq_iff)
    then show ?thesis by (cases p; cases q) simp
  qed
  then show ?thesis by (auto simp: DealID_String_def word_unat_eq_iff)
qed

text \<open>A name that looks like a deal of another peer.\<close>

theorem deal_keys_are_distinct_witness:
  "DealID_String 2 \<noteq> DealID_String 12 \<and>
   ProviderDealIdentifier_String id \<lparr>pid_Receiver = ''a/1'', pid_DealID = 2\<rparr> \<noteq>
     ProviderDealIdentifier_String id \<lparr>pid_Receiver = ''a'', pid_DealID = 12\<rparr>"
  using deal_keys_are_distinct [of id 2 12 "\<lparr>pid_Receiver = ''a/1'', pid_DealID = 2\<rparr>"
      "\<lparr>pid_Receiver = ''a'', pid_DealID = 12\<rparr>"] by simp

end
