(* ===== verification/ActorState.thy ===== *)
theory ActorState
  imports VoucherProps
begin

text \<open>
  The state of the payment channel actor in \<open>paychmgr.go\<close>, \<open>state0\<close>, with its array of lanes, which is
  loaded when it is first asked for and then kept. \<open>Vouchers\<close> reads the lanes from the chain each time;
  the code is shown to compute the same. The library of arrays is a parameter.
\<close>

section \<open>The state\<close>

record paych0_State =
  p0_From :: Address
  p0_To :: Address
  p0_ToSend :: TokenAmount
  p0_SettlingAt :: int
  p0_LaneStates :: Cid

text \<open>An array \<open>'arr\<close> has been loaded, but going through it reads its nodes: it hands over the lanes in
  their order and may fail before the last.\<close>

record ('arr, 'w) adt_lib =
  adt_AsArray :: "Cid \<Rightarrow> ('w, 'arr) io"
  adt_Length :: "'arr \<Rightarrow> u64"
  adt_Elements :: "'arr \<Rightarrow> ('w, (u64 \<times> laneState) list \<times> gerr option) io"

record 'arr state0 =
  s0_State :: paych0_State
  s0_lsAmt :: "'arr option"

definition state0_From :: "'arr state0 \<Rightarrow> Address" where
  "state0_From s = p0_From (s0_State s)"

definition state0_To :: "'arr state0 \<Rightarrow> Address" where
  "state0_To s = p0_To (s0_State s)"

definition state0_SettlingAt :: "'arr state0 \<Rightarrow> int" where
  "state0_SettlingAt s = p0_SettlingAt (s0_State s)"

definition state0_ToSend :: "'arr state0 \<Rightarrow> TokenAmount" where
  "state0_ToSend s = p0_ToSend (s0_State s)"

text \<open>Operations that may load the array return the state too.\<close>

definition getOrLoadLsAmt :: "('arr, 'w) adt_lib \<Rightarrow> 'arr state0 \<Rightarrow> ('w, 'arr \<times> 'arr state0) io" where
  "getOrLoadLsAmt lib s = (case s0_lsAmt s of
       Some lsamt \<Rightarrow> ret (lsamt, s)
     | None \<Rightarrow> bindE (adt_AsArray lib (p0_LaneStates (s0_State s))) (\<lambda>lsamt. ret (lsamt, s\<lparr>s0_lsAmt := Some lsamt\<rparr>)))"

definition LaneCount :: "('arr, 'w) adt_lib \<Rightarrow> 'arr state0 \<Rightarrow> ('w, u64 \<times> 'arr state0) io" where
  "LaneCount lib s = bindE (getOrLoadLsAmt lib s) (\<lambda>(lsamt, s). ret (adt_Length lib lsamt, s))"

fun for_lanes :: "(u64 \<Rightarrow> laneState \<Rightarrow> 'a \<Rightarrow> 'a go) \<Rightarrow> (u64 \<times> laneState) list \<Rightarrow> 'a \<Rightarrow> 'a go" where
  "for_lanes cb [] acc = Ok acc"
| "for_lanes cb ((i, ls) # xs) acc = bind_go (cb i ls acc) (for_lanes cb xs)"

text \<open>\<open>acc\<close> is what the callback changes; its error ends the iteration.\<close>

definition ForEachLaneState ::
    "('arr, 'w) adt_lib \<Rightarrow> 'arr state0 \<Rightarrow> (u64 \<Rightarrow> laneState \<Rightarrow> 'a \<Rightarrow> 'a go) \<Rightarrow> 'a \<Rightarrow> ('w, 'a \<times> 'arr state0) io" where
  "ForEachLaneState lib s cb acc =
     bindE (getOrLoadLsAmt lib s) (\<lambda>(lsamt, s).
     bindE (adt_Elements lib lsamt) (\<lambda>(xs, err).
     bindE (lift_go (for_lanes cb xs acc)) (\<lambda>acc.
       case err of None \<Rightarrow> ret (acc, s) | Some e \<Rightarrow> fail e)))"

text \<open>\<open>laneState\<close> of the accessor: the lanes of the chain, then the vouchers over them.\<close>

definition accessor_laneState ::
    "('arr, 'w) adt_lib \<Rightarrow> 'w accessor \<Rightarrow> 'arr state0 \<Rightarrow> Address \<Rightarrow> ('w, lanes) io" where
  "accessor_laneState lib ca s ch =
     bindE (LaneCount lib s) (\<lambda>(laneCount, s).
     bindE (ForEachLaneState lib s (\<lambda>idx ls lanes. Ok (AList.update idx ls lanes)) []) (\<lambda>(chain, s).
     bindE (tryE (VouchersForPaych (ca_store ca) ch)
              (\<lambda>err. if err \<noteq> ErrChannelNotTracked then fail err else ret []) ret) (\<lambda>vouchers.
       lift_go (apply_vouchers vouchers chain))))"

section \<open>The cache is not seen\<close>

text \<open>The actor as \<open>Vouchers\<close> sees it, and what it reads of the lanes.\<close>

definition actor_view :: "'arr state0 \<Rightarrow> PaychState" where
  "actor_view s = \<lparr>ps_From = state0_From s, ps_To = state0_To s, ps_LaneStates = p0_LaneStates (s0_State s)\<rparr>"

definition reads_lanes :: "('arr, 'w) adt_lib \<Rightarrow> 'w FullNode \<Rightarrow> bool" where
  "reads_lanes lib api \<longleftrightarrow>
     fn_AsArray api = (\<lambda>c. bindE (adt_AsArray lib c) (\<lambda>a. ret (adt_Length lib a))) \<and>
     fn_ForEach api = (\<lambda>c. bindE (adt_AsArray lib c) (\<lambda>a. bindE (adt_Elements lib a) (\<lambda>(xs, err).
       case err of None \<Rightarrow> ret xs | Some e \<Rightarrow> fail e)))"

text \<open>Content of a content-addressed store does not change: what was loaded is loaded again, without
  an effect.\<close>

definition loads_again :: "('arr, 'w) adt_lib \<Rightarrow> bool" where
  "loads_again lib \<longleftrightarrow> (\<forall>c w a w'. adt_AsArray lib c w = (Ok a, w') \<longrightarrow> adt_AsArray lib c w' = (Ok a, w'))"

lemma for_lanes_update: "for_lanes (\<lambda>idx ls lanes. Ok (AList.update idx ls lanes)) xs acc = Ok (fold (\<lambda>(i, l). AList.update i l) xs acc)"
  by (induction xs arbitrary: acc) auto

text \<open>The lanes that the code computes with its cached array are those of \<open>Vouchers\<close>, which loads the
  array twice: same result or error, and same effects, for a state whose array is not yet loaded.\<close>

theorem cached_lanes_agree:
  assumes "reads_lanes lib (ca_api ca)" "loads_again lib" "s0_lsAmt s = None"
  shows "accessor_laneState lib ca s ch w = laneStates ca (actor_view s) ch w"
proof (cases "adt_AsArray lib (p0_LaneStates (s0_State s)) w")
  case (Pair r w1)
  show ?thesis
  proof (cases r)
    case (Ok a)
    with Pair assms(2) have again: "adt_AsArray lib (p0_LaneStates (s0_State s)) w1 = (Ok a, w1)"
      by (auto simp: loads_again_def)
    obtain r2 w2 where el: "adt_Elements lib a w1 = (r2, w2)" by (cases "adt_Elements lib a w1")
    show ?thesis
      using Pair Ok again el assms(1,3)
      by (cases r2)
         (auto simp: accessor_laneState_def laneStates_def LaneCount_def ForEachLaneState_def getOrLoadLsAmt_def
           actor_view_def reads_lanes_def for_lanes_update bindE_def ret_def fail_def lift_go_def split: option.splits prod.splits)
  qed (use Pair assms in \<open>simp_all add: accessor_laneState_def laneStates_def LaneCount_def getOrLoadLsAmt_def
      actor_view_def reads_lanes_def bindE_def\<close>)
qed

section \<open>An actor with one lane\<close>

definition ex_adt :: "(lanes, unit mem) adt_lib" where
  "ex_adt = \<lparr>adt_AsArray = (\<lambda>_. ret [(3, \<lparr>ls_redeemed = 400, ls_nonce = 1\<rparr>)]), adt_Length = (\<lambda>a. of_nat (length a)),
     adt_Elements = (\<lambda>a. ret (a, None))\<rparr>"

definition ex_state0 :: "lanes state0" where
  "ex_state0 = \<lparr>s0_State = \<lparr>p0_From = ''f0100'', p0_To = ''f0200'', p0_ToSend = 0, p0_SettlingAt = 0,
     p0_LaneStates = ''lanes''\<rparr>, s0_lsAmt = None\<rparr>"

theorem cached_lanes_agree_witness:
  "accessor_laneState ex_adt (ex_ca 1000 [(3, \<lparr>ls_redeemed = 400, ls_nonce = 1\<rparr>)]) ex_state0 ''f2paych'' ([], ()) =
     laneStates (ex_ca 1000 [(3, \<lparr>ls_redeemed = 400, ls_nonce = 1\<rparr>)]) (actor_view ex_state0) ''f2paych'' ([], ()) \<and>
   fst (LaneCount ex_adt ex_state0 ([], ())) = Ok (1, ex_state0\<lparr>s0_lsAmt := Some [(3, \<lparr>ls_redeemed = 400, ls_nonce = 1\<rparr>)]\<rparr>)"
proof -
  have "reads_lanes ex_adt (ca_api (ex_ca 1000 [(3, \<lparr>ls_redeemed = 400, ls_nonce = 1\<rparr>)]))"
    by (simp add: reads_lanes_def ex_adt_def ex_node_def ret_def bindE_def)
  moreover have "loads_again ex_adt" "s0_lsAmt ex_state0 = None"
    by (simp_all add: loads_again_def ex_adt_def ex_state0_def ret_def)
  ultimately have "accessor_laneState ex_adt (ex_ca 1000 [(3, \<lparr>ls_redeemed = 400, ls_nonce = 1\<rparr>)]) ex_state0 ''f2paych'' ([], ()) =
     laneStates (ex_ca 1000 [(3, \<lparr>ls_redeemed = 400, ls_nonce = 1\<rparr>)]) (actor_view ex_state0) ''f2paych'' ([], ())"
    by (rule cached_lanes_agree)
  then show ?thesis by (simp add: LaneCount_def getOrLoadLsAmt_def ex_adt_def ex_state0_def ret_def bindE_def)
qed

end
