(* ===== verification/EventTypes.thy ===== *)
theory EventTypes
  imports ClientProps ProviderProps
begin

text \<open>
  The types of events: each event of the tables has a list of parameter types, those of its callback.
  Go checks them when an event is handled; here they are a type system for the events that the code
  sends.
\<close>

section \<open>Signatures\<close>

datatype arg_type = TError | TChannelID | TString | TStatus | TCid | TAddress | TAmount | TUint64

fun client_arg_type :: "client_arg \<Rightarrow> arg_type" where
  "client_arg_type (ArgErr _) = TError"
| "client_arg_type (ArgChannelID _) = TChannelID"
| "client_arg_type (ArgString _) = TString"
| "client_arg_type (ArgStatus _) = TStatus"
| "client_arg_type (ArgCid _) = TCid"
| "client_arg_type (ArgAddress _) = TAddress"
| "client_arg_type (ArgAmount _) = TAmount"
| "client_arg_type (ArgUint64 _) = TUint64"

fun provider_arg_type :: "provider_arg \<Rightarrow> arg_type" where
  "provider_arg_type (PArgErr _) = TError"
| "provider_arg_type (PArgChannelID _) = TChannelID"
| "provider_arg_type (PArgUint64 _) = TUint64"
| "provider_arg_type (PArgAmount _) = TAmount"

text \<open>The parameters of the callbacks, by event; \<open>None\<close> for an event that the table does not declare.\<close>

fun client_signature :: "ClientEvent \<Rightarrow> arg_type list option" where
  "client_signature ClientEventWriteDealProposalErrored = Some [TError]"
| "client_signature ClientEventDealProposed = Some [TChannelID]"
| "client_signature ClientEventDealNotFound = Some [TString]"
| "client_signature ClientEventUnknownResponseReceived = Some [TStatus]"
| "client_signature ClientEventPaymentChannelErrored = Some [TError]"
| "client_signature ClientEventPaymentChannelCreateInitiated = Some [TCid]"
| "client_signature ClientEventPaymentChannelAddingFunds = Some [TCid, TAddress]"
| "client_signature ClientEventPaymentChannelReady = Some [TAddress]"
| "client_signature ClientEventAllocateLaneErrored = Some [TError]"
| "client_signature ClientEventLaneAllocated = Some [TUint64]"
| "client_signature ClientEventDataTransferError = Some [TError]"
| "client_signature ClientEventLastPaymentRequested = Some [TAmount]"
| "client_signature ClientEventPaymentRequested = Some [TAmount]"
| "client_signature ClientEventBlocksReceived = Some [TUint64]"
| "client_signature ClientEventFundsExpended = Some [TAmount]"
| "client_signature ClientEventBadPaymentRequested = Some [TString]"
| "client_signature ClientEventCreateVoucherFailed = Some [TError]"
| "client_signature ClientEventVoucherShortfall = Some [TAmount]"
| "client_signature ClientEventWriteDealPaymentErrored = Some [TError]"
| "client_signature ClientEventDealRejected = None"
| "client_signature ClientEventPaymentChannelAddFundsErrored = None"
| "client_signature ClientEventUnsealPaymentRequested = None"
| "client_signature _ = Some []"

fun provider_signature :: "ProviderEvent \<Rightarrow> arg_type list option" where
  "provider_signature ProviderEventDealAccepted = Some [TChannelID]"
| "provider_signature ProviderEventBlockSent = Some [TUint64]"
| "provider_signature ProviderEventPaymentRequested = Some [TUint64]"
| "provider_signature ProviderEventSaveVoucherFailed = Some [TError]"
| "provider_signature ProviderEventPartialPaymentReceived = Some [TAmount]"
| "provider_signature ProviderEventPaymentReceived = Some [TAmount]"
| "provider_signature ProviderEventDataTransferError = Some [TError]"
| "provider_signature ProviderEventMultiStoreError = Some [TError]"
| "provider_signature ProviderEventDealNotFound = None"
| "provider_signature ProviderEventDealRejected = None"
| "provider_signature _ = Some []"

definition client_typed :: "ClientEvent \<Rightarrow> client_arg list \<Rightarrow> bool" where
  "client_typed e args \<longleftrightarrow> (\<exists>ts. client_signature e = Some ts \<and> map client_arg_type args = ts)"

definition provider_typed :: "ProviderEvent \<Rightarrow> provider_arg list \<Rightarrow> bool" where
  "provider_typed e args \<longleftrightarrow> (\<exists>ts. provider_signature e = Some ts \<and> map provider_arg_type args = ts)"

lemma client_arg_type_iff [simp]:
  "client_arg_type a = TError \<longleftrightarrow> (\<exists>x. a = ArgErr x)"
  "client_arg_type a = TChannelID \<longleftrightarrow> (\<exists>x. a = ArgChannelID x)"
  "client_arg_type a = TString \<longleftrightarrow> (\<exists>x. a = ArgString x)"
  "client_arg_type a = TStatus \<longleftrightarrow> (\<exists>x. a = ArgStatus x)"
  "client_arg_type a = TCid \<longleftrightarrow> (\<exists>x. a = ArgCid x)"
  "client_arg_type a = TAddress \<longleftrightarrow> (\<exists>x. a = ArgAddress x)"
  "client_arg_type a = TAmount \<longleftrightarrow> (\<exists>x. a = ArgAmount x)"
  "client_arg_type a = TUint64 \<longleftrightarrow> (\<exists>x. a = ArgUint64 x)"
  by (cases a; simp)+

lemma provider_arg_type_iff [simp]:
  "provider_arg_type a = TError \<longleftrightarrow> (\<exists>x. a = PArgErr x)"
  "provider_arg_type a = TChannelID \<longleftrightarrow> (\<exists>x. a = PArgChannelID x)"
  "provider_arg_type a = TAmount \<longleftrightarrow> (\<exists>x. a = PArgAmount x)"
  "provider_arg_type a = TUint64 \<longleftrightarrow> (\<exists>x. a = PArgUint64 x)"
  by (cases a; simp)+

section \<open>The tables take what is typed\<close>

lemma client_taken_iff: "client_act e args d \<noteq> None \<longleftrightarrow> client_typed e args"
  by (cases e) (auto simp: client_typed_def map_eq_Cons_conv)

lemma provider_taken_iff: "provider_act e args d \<noteq> None \<longleftrightarrow> provider_typed e args"
  by (cases e) (auto simp: provider_typed_def map_eq_Cons_conv)

section \<open>What the code sends is typed\<close>

lemma client_trigger_typed:
  assumes "ClientStateEntryFuncs (cds_Status d) = Some h" "h env d w = (Ok (Some (e, args)), w')"
  shows "client_typed e args"
proof -
  from client_entry_accepted [OF assms] consider "client_act e args d \<noteq> None"
    | "cds_Status d = DealStatusInsufficientFunds" "e = ClientEventPaymentChannelErrored"
    by (auto simp: client_accepts_def)
  then show ?thesis
  proof cases
    case 1
    then show ?thesis using client_taken_iff by blast
  next
    case 2
    with assms show ?thesis
      by (auto simp: ReAddFunds_def client_typed_def elim!: tryE_Ok split: prod.splits)
  qed
qed

lemma provider_trigger_typed:
  assumes "ProviderStateEntryFuncs (pds_Status d) = Some h" "h env d w = (Ok (Some (e, args)), w')"
  shows "provider_typed e args"
proof -
  from provider_entry_accepted [OF assms] have "provider_act e args d \<noteq> None"
    by (auto simp: provider_accepts_def split: option.splits)
  then show ?thesis using provider_taken_iff by blast
qed

lemma clientEvent_typed:
  assumes "clientEvent errRejected event cs = Some (e, args)"
  shows "client_typed e args \<longleftrightarrow> e \<noteq> ClientEventDealRejected \<and> e \<noteq> ClientEventUnknownResponseReceived"
  using assms
  by (auto simp: clientEvent_def clientEventForResponse_def client_typed_def
      split: dt_code.splits option.splits if_splits DealStatus.splits)


text \<open>A response that the code does not know and one that it does, and what the table makes of them.\<close>

definition ex_result :: "DealStatus \<Rightarrow> dt_channel_state" where
  "ex_result s = \<lparr>dcs_ChannelID = ''ch'', dcs_Recipient = ''peer'', dcs_Status = DtStatusOther, dcs_Received = 0,
     dcs_Message = '''', dcs_Voucher = VoucherOther,
     dcs_LastVoucherResult = ResultDealResponse (DealResponseUndefined\<lparr>dr_Status := s, dr_PaymentOwed := 7\<rparr>)\<rparr>"


end
