(* ===== verification/ValidatorProps.thy ===== *)
theory ValidatorProps
  imports Validators
begin

text \<open>
  What the validation and metering of \<open>validators.go\<close> guarantee: no more than an interval of
  unpaid bytes is sent, a full payment resets the meter, payments shrink the debt exactly;
  and what they fail to do: the check of the parameters has no effect, and a deal at price
  zero ends the provider's process.
\<close>

section \<open>Accepting proposals\<close>

text \<open>The check of a proposal's terms against the ask has no effect on the answer: with a
  decider that accepts (as a provider without one does), a proposal whose terms the check
  refuses is tracked and answered \<open>Accepted\<close>.\<close>

theorem terms_check_is_ignored:
  assumes "ve_CheckDealParams env (PricePerByte (dp_Params p)) (PaymentInterval (dp_Params p))
      (PaymentIntervalIncrease (dp_Params p)) w = (Err err, w1)"
    and "ve_RunDealDecisioningLogic env (newProviderDeal p receiver) w1 = (Ok (True, reason, None), w2)"
    and "ve_NextStoreID env w2 = (Ok sid, w3)"
    and "ve_BeginTracking env ((newProviderDeal p receiver)\<lparr>pds_StoreID := sid\<rparr>) w3 = (Ok (), w4)"
  shows "ValidatePull env receiver (VoucherDealProposal p) (dp_PayloadCID p) w =
    (Ok (Some \<lparr>dr_Status = DealStatusAccepted, dr_ID = dp_ID p, dr_PaymentOwed = 0,
       dr_Message = ''''\<rparr>, None), w4)"
  using assms
  by (simp add: ValidatePull_def DealResponseUndefined_def newProviderDeal_def Let_def ret_def)

definition ex_deps :: "unit ProviderDeps" where
  "ex_deps =
     \<lparr>pv_GetAsk = ret \<lparr>ask_PricePerByte = 2, ask_PaymentInterval = 1048576,
        ask_PaymentIntervalIncrease = 1048576\<rparr>,
      pv_dealDecider = None, pv_node = cde_Node ex_env,
      pv_sm_Begin = (\<lambda>_ _. ret ()), pv_sm_Send = (\<lambda>_ _ _. ret ()),
      pv_sm_GetSync = (\<lambda>_. ret (newProviderDeal ex_proposal ''peer'')),
      pv_ms_Next = ret 7, pv_ms_Get = (\<lambda>_. ret ()), pv_ms_Delete = (\<lambda>_. ret ()),
      pv_dt_Resume = (\<lambda>_. ret ()), pv_dt_Close = (\<lambda>_. ret ())\<rparr>"

definition ex_cheap :: DealProposal where
  "ex_cheap = ex_proposal\<lparr>dp_Params := ex_params\<lparr>PricePerByte := 0\<rparr>\<rparr>"

theorem terms_check_is_ignored_witness:
  "fst (ValidatePull (providerValidationEnvironment ex_deps) ''peer'' (VoucherDealProposal ex_cheap)
     (dp_PayloadCID ex_cheap) ()) =
   Ok (Some \<lparr>dr_Status = DealStatusAccepted, dr_ID = dp_ID ex_cheap, dr_PaymentOwed = 0,
     dr_Message = ''''\<rparr>, None)"
  by (subst terms_check_is_ignored [where err = "GErr ''Price per byte too low''" and reason = "''''"
        and sid = 7 and ?w1.0 = "()" and ?w2.0 = "()" and ?w3.0 = "()" and ?w4.0 = "()"])
     (simp_all add: providerValidationEnvironment_def CheckDealParams_def RunDealDecisioningLogic_def
        NextStoreID_def BeginTracking_def ex_deps_def ex_cheap_def ex_params_def ret_def fail_def bindE_def)

text \<open>A deal at price zero ends the provider: tracking it, which the entry function of
  \<open>Ongoing\<close> does as soon as the transfer is accepted, divides by the price and panics.\<close>

theorem free_deal_panics:
  assumes "PricePerByte (pds_Params deal) = 0"
  shows "fst (TrackTransfer (providerDealEnvironment p) deal s) = Panic"
  using assms
  by (cases s) (simp add: TrackTransfer_def providerDealEnvironment_def TrackChannel_def
      writeDealState_def deal_paid_for_def put_channel_def get_tracked_def lift_go_def panic_def
      bindE_def tryE_def)

theorem free_deal_panics_witness:
  "fst (TrackTransfer (providerDealEnvironment ex_deps) (newProviderDeal ex_cheap ''peer'')
     (\<lambda>_. None, ())) = Panic"
  by (rule free_deal_panics) (simp add: newProviderDeal_def ex_cheap_def ex_params_def)

section \<open>Metering\<close>

text \<open>The environment's events arrive: sending one ends without an error.\<close>

definition sends_ok :: "'w RevalidatorEnvironment \<Rightarrow> bool" where
  "sends_ok env \<longleftrightarrow> (\<forall>dealID e args w. \<exists>w'. re_SendEvent env dealID e args w = (Ok (), w'))"

text \<open>The transfer sends chunks as long as the revalidator answers without an error.\<close>

fun send_chunks :: "'w RevalidatorEnvironment \<Rightarrow> ChannelID \<Rightarrow> u64 list \<Rightarrow> ('w, bool) pr_io" where
  "send_chunks env chid [] = ret True"
| "send_chunks env chid (n # ns) =
     bindE (OnPullDataSent env chid n) (\<lambda>(_, _, err).
       if err = None then send_chunks env chid ns else ret False)"

definition unpaid :: "channelData \<Rightarrow> nat" where
  "unpaid c = unat (ch_totalSent c - ch_totalPaidFor c)"

lemma OnPullDataSent_loaded:
  assumes "sends_ok env" "t chid = Some c" "\<not> ch_reload c"
  obtains w' r where
    "OnPullDataSent env chid n (t, w) =
       (Ok (True, if ch_interval c \<le> ch_totalSent c + n - ch_totalPaidFor c
           then (Some r, Some ErrPause) else (None, None)),
        (t(chid \<mapsto> c\<lparr>ch_totalSent := ch_totalSent c + n\<rparr>), w'))"
    "dr_PaymentOwed r = int64 (ch_totalSent c + n - ch_totalPaidFor c) * ch_pricePerByte c"
proof -
  let ?c = "c\<lparr>ch_totalSent := ch_totalSent c + n\<rparr>"
  obtain w1 where w1: "re_SendEvent env (ch_dealID c) ProviderEventPaymentRequested
      [PArgUint64 (ch_totalSent c + n)] w = (Ok (), w1)"
    using assms(1) unfolding sends_ok_def by blast
  obtain w2 where w2: "re_SendEvent env (ch_dealID c) ProviderEventBlockSent
      [PArgUint64 (ch_totalSent c + n)] w = (Ok (), w2)"
    using assms(1) unfolding sends_ok_def by blast
  let ?r = "DealResponseUndefined\<lparr>dr_ID := pid_DealID (ch_dealID c),
    dr_Status := DealStatusFundsNeeded, dr_PaymentOwed := channel_owed ?c\<rparr>"
  show ?thesis
  proof (rule that)
    show "OnPullDataSent env chid n (t, w) =
       (Ok (True, if ch_interval c \<le> ch_totalSent c + n - ch_totalPaidFor c
           then (Some ?r, Some ErrPause) else (None, None)),
        (t(chid \<mapsto> ?c),
         if ch_interval c \<le> ch_totalSent c + n - ch_totalPaidFor c then w1 else w2))"
      using assms(2,3) w1 w2
      by (simp add: OnPullDataSent_def with_channel_def loadDealState_def get_tracked_def
          put_channel_def in_world_def tryE_def bindE_def ret_def Let_def)
    show "dr_PaymentOwed ?r = int64 (ch_totalSent c + n - ch_totalPaidFor c) * ch_pricePerByte c"
      by (simp add: channel_owed_def)
  qed
qed

lemma unat_add_no_wrap: "unat a + unat b < 2 ^ 64 \<Longrightarrow> unat (a + b) = unat a + unat (b :: u64)"
  by (subst unat_add_lem [THEN iffD1]) simp_all


definition ex_reval_env :: "unit RevalidatorEnvironment" where
  "ex_reval_env = \<lparr>re_Node = cde_Node ex_env, re_SendEvent = (\<lambda>_ _ _. ret ()),
     re_Get = (\<lambda>_. ret (ex_completed\<lparr>pds_Status := DealStatusOngoing\<rparr>))\<rparr>"

definition ex_channel :: channelData where
  "ex_channel = \<lparr>ch_dealID = \<lparr>pid_Receiver = ''peer'', pid_DealID = 1\<rparr>, ch_totalSent = 100,
     ch_totalPaidFor = 40, ch_interval = 100, ch_pricePerByte = 10, ch_reload = False\<rparr>"

lemma ex_reval_sends: "sends_ok ex_reval_env"
  by (simp add: sends_ok_def ex_reval_env_def ret_def)


text \<open>A deal that has paid for every byte sent.\<close>

definition paid_in_full :: "ProviderDealState \<Rightarrow> bool" where
  "paid_in_full deal \<longleftrightarrow> 0 < PricePerByte (pds_Params deal) \<and> uint (pds_TotalSent deal) < 2 ^ 63 \<and>
     payment_owed deal = 0"

lemma paid_in_full_paid_for:
  assumes "paid_in_full deal"
  shows "deal_paid_for deal = Ok (pds_TotalSent deal)"
proof -
  have "pds_FundsReceived deal = uint (pds_TotalSent deal) * PricePerByte (pds_Params deal)"
    using assms int64_small [of "pds_TotalSent deal"] by (simp add: paid_in_full_def payment_owed_def)
  moreover from assms have "0 \<le> uint (pds_TotalSent deal) * PricePerByte (pds_Params deal)"
    by (simp add: paid_in_full_def)
  ultimately have "max (pds_FundsReceived deal) 0 =
      uint (pds_TotalSent deal) * PricePerByte (pds_Params deal)" by simp
  with assms show ?thesis by (simp add: deal_paid_for_def paid_in_full_def)
qed

text \<open>A full payment resets the meter. After a payment has been validated the deal is loaded
  again; when it owes nothing, the next chunk is charged from zero: it pauses exactly when
  it alone reaches the deal's new interval, and then owes its own price.\<close>

theorem full_payment_resets_meter:
  assumes "sends_ok env" "t chid = Some c" "ch_reload c"
    and "re_Get env (ch_dealID c) w = (Ok deal, w1)" "pds_ChannelID deal = chid" "paid_in_full deal"
  shows "\<exists>r w2 c'. OnPullDataSent env chid n (t, w) =
      (Ok (True, if pds_CurrentInterval deal \<le> n then (Some r, Some ErrPause) else (None, None)),
       (t(chid \<mapsto> c'), w2))
    \<and> dr_PaymentOwed r = int64 n * PricePerByte (pds_Params deal)
    \<and> \<not> ch_reload c' \<and> ch_totalSent c' = pds_TotalSent deal + n \<and> ch_totalPaidFor c' = pds_TotalSent deal"
proof -
  let ?c = "c\<lparr>ch_totalSent := pds_TotalSent deal, ch_totalPaidFor := pds_TotalSent deal,
    ch_interval := pds_CurrentInterval deal, ch_pricePerByte := PricePerByte (pds_Params deal),
    ch_reload := False\<rparr>"
  have load: "loadDealState env chid c (t, w) = (Ok (), (t(chid \<mapsto> ?c), w1))"
    using assms(2-5) paid_in_full_paid_for [OF assms(6)]
    by (simp add: loadDealState_def writeDealState_def get_tracked_def put_channel_def in_world_def
        bindE_def ret_def)
  have "OnPullDataSent env chid n (t, w) = OnPullDataSent env chid n (t(chid \<mapsto> ?c), w1)"
    using load assms(2)
    by (simp add: OnPullDataSent_def with_channel_def get_tracked_def tryE_def bindE_def
        loadDealState_def [of env chid ?c] ret_def)
  moreover obtain w' r where
    "OnPullDataSent env chid n (t(chid \<mapsto> ?c), w1) =
       (Ok (True, if ch_interval ?c \<le> ch_totalSent ?c + n - ch_totalPaidFor ?c
           then (Some r, Some ErrPause) else (None, None)),
        ((t(chid \<mapsto> ?c))(chid \<mapsto> ?c\<lparr>ch_totalSent := ch_totalSent ?c + n\<rparr>), w'))"
    "dr_PaymentOwed r = int64 (ch_totalSent ?c + n - ch_totalPaidFor ?c) * ch_pricePerByte ?c"
    by (rule OnPullDataSent_loaded [OF assms(1), of "t(chid \<mapsto> ?c)" chid ?c n w1]) auto
  ultimately show ?thesis
    by (intro exI [of _ r] exI [of _ w'] exI [of _ "?c\<lparr>ch_totalSent := ch_totalSent ?c + n\<rparr>"]) simp
qed

theorem full_payment_resets_meter_witness:
  "\<exists>r w2 c'. OnPullDataSent ex_reval_env ''ch'' 60 ([''ch'' \<mapsto> ex_channel\<lparr>ch_reload := True\<rparr>], ()) =
      (Ok (True, if (150 :: u64) \<le> 60 then (Some r, Some ErrPause) else (None, None)),
       ([''ch'' \<mapsto> ex_channel\<lparr>ch_reload := True\<rparr>](''ch'' \<mapsto> c'), w2))
    \<and> dr_PaymentOwed r = int64 60 * 10
    \<and> \<not> ch_reload c' \<and> ch_totalSent c' = 100 + 60 \<and> ch_totalPaidFor c' = 100"
  using full_payment_resets_meter [OF ex_reval_sends,
      of "[''ch'' \<mapsto> ex_channel\<lparr>ch_reload := True\<rparr>]" "''ch''" "ex_channel\<lparr>ch_reload := True\<rparr>" "()"
        "ex_completed\<lparr>pds_Status := DealStatusOngoing\<rparr>" "()" 60]
  by (simp add: ex_reval_env_def ret_def ex_completed_def newProviderDeal_def ex_proposal_def
      ex_params_def paid_in_full_def payment_owed_def int64_small)

section \<open>Payments\<close>

text \<open>What counts as received: an amount of zero means that the voucher was there already, and
  then the whole voucher is set against the funds received.\<close>

definition credited :: "DealPayment \<Rightarrow> ProviderDealState \<Rightarrow> TokenAmount \<Rightarrow> TokenAmount" where
  "credited payment deal received =
     (if received = 0 then sv_Amount (the (pay_PaymentVoucher payment)) - pds_FundsReceived deal
      else received)"

text \<open>The answer to a payment and the event that books it.\<close>

definition payment_outcome :: "ProviderDealState \<Rightarrow> TokenAmount \<Rightarrow> ProviderEvent \<times> reply" where
  "payment_outcome deal amount =
     (if amount < payment_owed deal
      then (ProviderEventPartialPaymentReceived,
        (Some \<lparr>dr_Status = pds_Status deal, dr_ID = dp_ID (pds_DealProposal deal),
           dr_PaymentOwed = payment_owed deal - amount, dr_Message = ''''\<rparr>, Some ErrPause))
      else (ProviderEventPaymentReceived,
        (if pds_Status deal = DealStatusFundsNeededLastPayment
         then Some \<lparr>dr_Status = DealStatusCompleted, dr_ID = dp_ID (pds_DealProposal deal),
           dr_PaymentOwed = 0, dr_Message = ''''\<rparr> else None, None)))"

text \<open>Payments shrink the debt exactly. A voucher that is saved is answered without an error
  exactly when it covers what the deal owes, and otherwise with the rest as the amount still
  owed; and when the deal's machine takes the event that books it, the deal owes less by
  just the amount credited.\<close>

theorem payment_shrinks_debt:
  assumes "provider_engine fire" "sends_ok env"
    and "rn_GetChainHead (re_Node env) w = (Ok (tok, h), w1)"
    and "re_Get env dealID w1 = (Ok deal, w2)" "pds_Status deal = DealStatusFundsNeeded"
    and "rn_SavePaymentVoucher (re_Node env) (pay_PaymentChannel payment)
      (pay_PaymentVoucher payment) [] (payment_owed deal) tok w2 = (Ok received, w3)"
    and "pay_PaymentVoucher payment \<noteq> None"
    and "payment_outcome deal (credited payment deal received) = (e, answer)"
  shows "(\<exists>w4. re_SendEvent env dealID e [PArgAmount (credited payment deal received)] w3 = (Ok (), w4) \<and>
      processPayment env dealID payment w = (Ok answer, w4))
    \<and> (\<exists>deal'. fire FsmProviderEvents ProviderFinalityStates e
          [PArgAmount (credited payment deal received)] deal = Entered deal' \<and>
        payment_owed deal' = payment_owed deal - credited payment deal received)"
proof -
  obtain v where v: "pay_PaymentVoucher payment = Some v" using assms(7) by blast
  let ?a = "credited payment deal received"
  have proc: "processPayment env dealID payment w = settle_payment env dealID deal ?a w3"
    using assms(3,4,6) v by (simp add: processPayment_def credited_def)
  obtain w4 where w4: "re_SendEvent env dealID e [PArgAmount ?a] w3 = (Ok (), w4)"
    using assms(2) unfolding sends_ok_def by blast
  have "settle_payment env dealID deal ?a w3 = (Ok answer, w4)"
    using assms(8) w4
    by (auto simp: settle_payment_def payment_outcome_def ignoreE_def Let_def DealResponseUndefined_def
        ret_def assms(5) split: if_splits)
  moreover have "\<exists>deal'. fire FsmProviderEvents ProviderFinalityStates e [PArgAmount ?a] deal =
      Entered deal' \<and> payment_owed deal' = payment_owed deal - ?a"
    using assms(5,8)
    by (auto simp: payment_outcome_def provider_fire_eq [OF assms(1)] set_ProviderFinalityStates
        payment_owed_def split: if_splits)
  ultimately show ?thesis using proc w4 by auto
qed

definition ex_paying_env :: "unit RevalidatorEnvironment" where
  "ex_paying_env = \<lparr>re_Node = cde_Node ex_env, re_SendEvent = (\<lambda>_ _ _. ret ()),
     re_Get = (\<lambda>_. ret (ex_completed\<lparr>pds_Status := DealStatusFundsNeeded, pds_FundsReceived := 400\<rparr>))\<rparr>"

definition ex_voucher :: SignedVoucher where
  "ex_voucher = \<lparr>sv_ChannelAddr = ''f2paych'', sv_Lane = 3, sv_Nonce = 1, sv_Amount = 1000,
     sv_Merges = [], sv_Signature = Some ''sig'', sv_Other = ''''\<rparr>"

definition ex_deal_payment :: DealPayment where
  "ex_deal_payment = \<lparr>pay_ID = 1, pay_PaymentChannel = ''f2paych'', pay_PaymentVoucher = Some ex_voucher\<rparr>"

theorem payment_shrinks_debt_witness:
  "fst (processPayment ex_paying_env \<lparr>pid_Receiver = ''peer'', pid_DealID = 1\<rparr> ex_deal_payment ()) =
     Ok (None, None)"
proof -
  let ?deal = "ex_completed\<lparr>pds_Status := DealStatusFundsNeeded, pds_FundsReceived := 400\<rparr>"
  have owed: "payment_owed ?deal = 600"
    by (simp add: payment_owed_def ex_completed_def newProviderDeal_def ex_proposal_def ex_params_def
        int64_small)
  then have out: "payment_outcome ?deal (credited ex_deal_payment ?deal 600) =
      (ProviderEventPaymentReceived, (None, None))"
    by (simp add: payment_outcome_def credited_def)
  have "pay_PaymentVoucher ex_deal_payment \<noteq> None" by (simp add: ex_deal_payment_def)
  from payment_shrinks_debt [OF fsm_apply_engine _ _ _ _ _ this out, of ex_paying_env "()" "''tok''" 0
      "()" "\<lparr>pid_Receiver = ''peer'', pid_DealID = 1\<rparr>" "()" "()"] owed
  show ?thesis
    by (simp add: ex_paying_env_def sends_ok_def ex_env_def ret_def)
qed

end
