(* ===== verification/CborProps.thy ===== *)
theory CborProps
  imports CborRef ValidatorProps
begin

text \<open>
  The round trips of the deal states that the two state machines store, and of the voucher
  and its answer that the parties exchange.
\<close>

text \<open>C21: deals and messages are encoded without loss. A client's deal, a provider's deal, a
  payment and a response within the limits of the encoding are each read back as they were
  written, whatever bytes follow them.\<close>

theorem deals_roundtrip:
  assumes "cbg_lib cb" "fits_ClientDealState cb c" "fits_ProviderDealState cb p"
    and "fits_DealPayment cb pay" "fits_DealResponse cb r"
  shows "(\<exists>b. Marshal_ClientDealState cb c = Ok b \<and>
      (\<forall>bs. Unmarshal_ClientDealState cb (b @ bs) = Ok (c, bs)))
    \<and> (\<exists>b. Marshal_ProviderDealState cb p = Ok b \<and>
      (\<forall>bs. Unmarshal_ProviderDealState cb (b @ bs) = Ok (p, bs)))
    \<and> (\<exists>b. Marshal_DealPayment cb pay = Ok b \<and> (\<forall>bs. Unmarshal_DealPayment cb (b @ bs) = Ok (pay, bs)))
    \<and> (\<exists>b. Marshal_DealResponse cb r = Ok b \<and> (\<forall>bs. Unmarshal_DealResponse cb (b @ bs) = Ok (r, bs)))"
  using cbg_lib.codec_ClientDealState [OF assms(1,2)] cbg_lib.codec_ProviderDealState [OF assms(1,3)]
    cbg_lib.codec_DealPayment [OF assms(1,4)] cbg_lib.codec_DealResponse [OF assms(1,5)]
  unfolding codec_ok_def by blast

definition ex_response :: DealResponse where
  "ex_response = \<lparr>dr_Status = DealStatusFundsNeeded, dr_ID = 1, dr_PaymentOwed = 1000, dr_Message = ''''\<rparr>"

lemma ex_fits:
  "fits_ClientDealState ref_cbg ex_ongoing" "fits_ProviderDealState ref_cbg ex_completed"
  "fits_DealPayment ref_cbg ex_deal_payment" "fits_DealResponse ref_cbg ex_response"
  by (auto simp: fits_ClientDealState_def fits_ProviderDealState_def fits_DealPayment_def
      fits_DealResponse_def fits_DealProposal_def fits_Params_def fits_PaymentInfo_def ex_ongoing_def
      ex_deal_def newClientDeal_def ex_params_def ex_completed_def newProviderDeal_def ex_proposal_def
      ex_deal_payment_def ex_voucher_def ex_response_def wf_status_def AddressUndef_def
      ref_voucher_fits_def intro!: ref_codecs)

theorem deals_roundtrip_witness:
  "\<exists>b. Marshal_ClientDealState ref_cbg ex_ongoing = Ok b \<and>
     (\<forall>bs. Unmarshal_ClientDealState ref_cbg (b @ bs) = Ok (ex_ongoing, bs))"
  using deals_roundtrip [OF ref.cbg_lib_axioms ex_fits] by blast

end
