(* ===== verification/FundsProps.thy ===== *)
theory FundsProps
  imports Funds VoucherProps
begin

text \<open>
  The properties of the queue for funds: the loop that filters it, the merging of the requests,
  what makes it wait, that every request is answered at most once however the operations
  interleave, and what the end of a message changes in the store.
\<close>

section \<open>The loop\<close>

lemma move_active_run:
  "k \<le> length q \<Longrightarrow> \<exists>q' i. fold move_active [0..<k] (q, 0) = (q', i) \<and> i \<le> k \<and> length q' = length q \<and>
     take i q' = filter fr_active (take k q) \<and> drop k q' = drop k q"
proof (induction k)
  case 0
  then show ?case by simp
next
  case (Suc k)
  then obtain q' i where q': "fold move_active [0..<k] (q, 0) = (q', i)" "i \<le> k" "length q' = length q"
      "take i q' = filter fr_active (take k q)" "drop k q' = drop k q" by auto
  have k: "k < length q" using Suc.prems by simp
  have nth: "q' ! k = q ! k"
    using q'(3,5) k by (metis Cons_nth_drop_Suc list.inject)
  have drop: "drop (Suc k) q' = drop (Suc k) q"
    using q'(5) by (metis drop_Suc tl_drop)
  have step: "fold move_active [0..<Suc k] (q, 0) = (if fr_active (q ! k) then (q'[i := q ! k], i + 1) else (q', i))"
    using q'(1) nth by (simp add: move_active_def [of k])
  have snoc: "filter fr_active (take (Suc k) q) = filter fr_active (take k q) @ (if fr_active (q ! k) then [q ! k] else [])"
    using k by (simp add: take_Suc_conv_app_nth)
  show ?case
  proof (cases "fr_active (q ! k)")
    case True
    have "take (i + 1) (q'[i := q ! k]) = take i q' @ [q ! k]"
      using q'(2,3) k by (simp add: take_Suc_conv_app_nth)
    with True step snoc q'(2-4) drop show ?thesis by (intro exI [of _ "q'[i := q ! k]"] exI [of _ "i + 1"]) simp
  next
    case False
    with step snoc q'(2-4) drop show ?thesis by (intro exI [of _ q'] exI [of _ i]) simp
  qed
qed

lemma free_slots: "take i (fold (\<lambda>rem q. q[i := None]) js q) = take i q"
  by (induction js arbitrary: q) simp_all

lemma filterQueue_eq: "filterQueue q = filter fr_active q"
proof (cases "q = []")
  case True
  then show ?thesis by (simp add: filterQueue_def)
next
  case False
  obtain q' i where q': "fold move_active [0..<length q] (q, 0) = (q', i)" "i \<le> length q" "length q' = length q"
      "take i q' = filter fr_active (take (length q) q)"
    using move_active_run [of "length q" q] by auto
  from False q' show ?thesis by (simp add: filterQueue_def free_slots take_map o_def)
qed

text \<open>Filtering the queue in place is filtering. Although the loop that frees the slots behind
  the active requests writes the same slot each time, the queue afterwards holds exactly the
  active requests in their order.\<close>

theorem filterQueue_is_filter: "filterQueue q = filter fr_active q"
  by (rule filterQueue_eq)

section \<open>The queue through the operations\<close>

text \<open>The part of an accessor that its requests see.\<close>

definition requests_view :: "funds \<times> 'w \<Rightarrow> fundsReq list \<times> (nat \<times> paychFundsRes) list" where
  "requests_view = (\<lambda>(f, w). (fq_queue f, fq_answers f))"

lemma view_calls [intro, simp]:
  "keeps requests_view (on_node m)" "keeps requests_view (spawn t)" "keeps requests_view get_funds"
  "keeps requests_view (upd_funds (\<lambda>f. f\<lparr>fq_tasks := g1 f\<rparr>))"
  "keeps requests_view (upd_funds (\<lambda>f. f\<lparr>fq_tasks := g1 f, fq_listeners := g2 f\<rparr>))"
  "keeps requests_view (upd_funds (\<lambda>f. f\<lparr>fq_listeners := g2 f\<rparr>))"
  "keeps requests_view (upd_funds (\<lambda>f. f\<lparr>fq_msgAnswers := g3 f\<rparr>))"
  by (auto simp: keeps_def requests_view_def go_defs split: prod.splits)

lemma keeps_logE [intro]: "keeps v m \<Longrightarrow> keeps v (logE m)"
  unfolding logE_def by (auto intro!: keeps_tryE)

lemma createPaych_keeps [intro, simp]: "keeps requests_view (createPaych ca amt)"
  unfolding createPaych_def by (auto intro!: keeps_bindE keeps_tryE simp: Let_def)

lemma addFunds_keeps [intro, simp]: "keeps requests_view (addFunds ca ci amt)"
  unfolding addFunds_def by (auto intro!: keeps_bindE simp: Let_def split: option.splits)

lemma processTask_keeps [intro, simp]: "keeps requests_view (processTask ca amt)"
  unfolding processTask_def by (auto intro!: keeps_bindE keeps_tryE simp: Let_def)

lemma run_task_keeps: "t \<noteq> ProcessQueue \<Longrightarrow> keeps requests_view (run_task ca c1 c2 t)"
  by (cases t)
     (auto intro!: keeps_bindE keeps_tryE simp: msgWaitComplete_def fireMsgComplete_def answerMsg_def Let_def
        split: option.splits)

lemma WaitReady_keeps: "keeps requests_view (logE (getPaychWaitReady ca p mcid))"
  unfolding getPaychWaitReady_def
  by (auto intro!: keeps_logE keeps_bindE split: option.splits)

lemma merged_sum_eq: "merged_sum rs acc = acc + (\<Sum>r\<leftarrow>filter fr_active rs. fr_amt r)"
  by (induction rs arbitrary: acc) auto

lemma merged_onComplete_eq: "merged_onComplete rs res = map (\<lambda>r. (fr_promise r, res)) (filter fr_active rs)"
  by (induction rs) auto

lemma cancelReqs_promises [simp]: "map fr_promise (cancelReqs c q) = map fr_promise q"
  by (simp add: cancelReqs_def o_def if_distrib cong: if_cong)

lemma cancelReqs_empty [simp]: "cancelReqs {} q = q"
  by (simp add: cancelReqs_def)

section \<open>One message for all\<close>

text \<open>The requests of a queue are merged. The active requests are served by one task for the sum
  of their amounts; when it has a result the queue is empty afterwards and exactly the requests
  that are still active have that result as their answer.\<close>

theorem requests_are_merged:
  assumes "reqs = cancelReqs c1 (filter fr_active (fq_queue f))"
    and "amt = (\<Sum>r\<leftarrow>filter fr_active reqs. fr_amt r)" "amt \<noteq> 0"
    and "processTask ca amt (f\<lparr>fq_queue := reqs\<rparr>, w) = (Ok (Some res), (f', w'))"
  shows "processQueue ca c1 c2 '''' (f, w) =
    (Ok None, (f'\<lparr>fq_queue := [], fq_answers := fq_answers f @
       map (\<lambda>r. (fr_promise r, res)) (filter fr_active (cancelReqs c2 reqs))\<rparr>, w'))"
proof -
  have "requests_view (f', w') = requests_view (f\<lparr>fq_queue := reqs\<rparr>, w)"
    using keepsD [OF processTask_keeps assms(4)] .
  then have f': "fq_queue f' = reqs" "fq_answers f' = fq_answers f" by (simp_all add: requests_view_def)
  have q: "filterQueue (fq_queue f) \<noteq> []" using assms(1-3) by (auto simp: filterQueue_eq cancelReqs_def)
  have "merged_sum reqs 0 = amt" using assms(2) by (simp add: merged_sum_eq)
  moreover have "cancelReqs c1 (filterQueue (fq_queue f)) = reqs" using assms(1) by (simp add: filterQueue_eq)
  ultimately show ?thesis
    using assms(3,4) q f'
    by (simp add: processQueue_def set_queue_def answer_def get_funds_def upd_funds_def on_node_def
        currentAvailableFunds_def merged_onComplete_eq Let_def ret_def bindE_def)
qed

text \<open>When the queue waits. When the active requests sum to zero, or when the message that
  creates the channel or adds funds to it is not confirmed, nothing is sent, no request is
  answered and the active requests stay in the queue. A request for nothing alone is thus never
  answered.\<close>

theorem queue_waits:
  assumes "reqs = cancelReqs c1 (filter fr_active (fq_queue f))"
    and "(\<Sum>r\<leftarrow>filter fr_active reqs. fr_amt r) = 0 \<or>
      (\<exists>ci. OutboundActiveByFromTo (ca_store ca) (ca_from ca) (ca_to ca) w = (Ok ci, w) \<and>
         (ci_CreateMsg ci \<noteq> None \<or> ci_AddFundsMsg ci \<noteq> None))"
  shows "\<exists>q. processQueue ca c1 c2 '''' (f, w) = (Ok None, (f\<lparr>fq_queue := q\<rparr>, w)) \<and>
    (q = reqs \<or> q = cancelReqs c2 reqs)"
proof (cases "filter fr_active (fq_queue f) = []")
  case True
  with assms(1) have "reqs = []" by (simp add: cancelReqs_def)
  with True show ?thesis
    by (intro exI [of _ "[]"]) (simp add: processQueue_def filterQueue_eq set_queue_def get_funds_def
        upd_funds_def on_node_def currentAvailableFunds_def Let_def ret_def bindE_def)
next
  case False
  have sum: "merged_sum (cancelReqs c1 (filterQueue (fq_queue f))) 0 = (\<Sum>r\<leftarrow>filter fr_active reqs. fr_amt r)"
    using assms(1) by (simp add: merged_sum_eq filterQueue_eq)
  have q: "cancelReqs c1 (filterQueue (fq_queue f)) = reqs" "filterQueue (fq_queue f) \<noteq> []"
    using assms(1) False by (simp_all add: filterQueue_eq)
  show ?thesis
  proof (cases "(\<Sum>r\<leftarrow>filter fr_active reqs. fr_amt r) = 0")
    case True
    with sum q show ?thesis
      by (intro exI [of _ reqs]) (simp add: processQueue_def set_queue_def get_funds_def upd_funds_def on_node_def
          currentAvailableFunds_def Let_def ret_def bindE_def)
  next
    case nonzero: False
    with assms(2) obtain ci where "OutboundActiveByFromTo (ca_store ca) (ca_from ca) (ca_to ca) w = (Ok ci, w)"
        "ci_CreateMsg ci \<noteq> None \<or> ci_AddFundsMsg ci \<noteq> None" by blast
    then have "processTask ca amt (g, w) = (Ok None, (g, w))" for amt g
      by (auto simp: processTask_def on_node_def tryE_def ret_def Let_def)
    with nonzero sum q show ?thesis
      by (intro exI [of _ "cancelReqs c2 reqs"]) (simp add: processQueue_def set_queue_def get_funds_def upd_funds_def on_node_def
          currentAvailableFunds_def Let_def ret_def bindE_def)
  qed
qed

section \<open>Every interleaving\<close>

text \<open>The runs of an accessor from the start, with the promises requested so far: actions in any
  order, each with a promise of its own, none of which panics.\<close>

fun requested :: "action \<Rightarrow> nat set" where
  "requested (Request p amt) = {p}"
| "requested _ = {}"

inductive acc_run :: "'w accessor \<Rightarrow> nat set \<Rightarrow> funds \<times> 'w \<Rightarrow> bool" for ca where
  start: "acc_run ca {} (no_funds, w)"
| step: "acc_run ca R s \<Longrightarrow> run_action ca a s = (r, s') \<Longrightarrow> r \<noteq> Panic \<Longrightarrow> requested a \<inter> R = {} \<Longrightarrow>
    acc_run ca (R \<union> requested a) s'"
| world: "acc_run ca R (f, w) \<Longrightarrow> acc_run ca R (f, w')" \<comment> \<open>the chain and other accessors move on\<close>

inductive_cases acc_runE: "acc_run ca R s"

text \<open>What processing does to the queue and the answers.\<close>

lemma processQueue_view:
  assumes "processQueue ca c1 c2 channelID s = (r, s')" "requests_view s = (q, as)"
  shows "\<exists>q'. (map fr_promise q' = map fr_promise (filter fr_active q) \<and> requests_view s' = (q', as)) \<or>
    (\<exists>res. map fr_promise q' = map fr_promise (filter fr_active q) \<and>
       requests_view s' = ([], as @ map (\<lambda>r. (fr_promise r, res)) (filter fr_active q')))"
proof -
  let ?q = "filterQueue q" and ?reqs = "cancelReqs c1 (filterQueue q)"
  obtain f w where s: "s = (f, w)" by fastforce
  with assms(2) have f: "fq_queue f = q" "fq_answers f = as" by (simp_all add: requests_view_def)
  have node: "requests_view s' = requests_view (g, w0)" if "on_node m (g, w0) = (r, s')" for m and g :: funds and w0 w1
    using keepsD [OF view_calls(1) that] .
  define amt where "amt = merged_sum ?reqs 0"
  show ?thesis
  proof (cases "length ?q = 0 \<or> amt = 0")
    case True
    then obtain m q' where "on_node m (f\<lparr>fq_queue := q'\<rparr>, w) = (r, s')" "q' = ?q \<or> q' = ?reqs"
      using assms(1) unfolding s processQueue_def amt_def
      by (auto simp: get_funds_def set_queue_def upd_funds_def Let_def f bindE_def split: if_splits)
    with node [of m "f\<lparr>fq_queue := q'\<rparr>" w] f show ?thesis
      by (intro exI [of _ q']) (auto simp: requests_view_def filterQueue_eq)
  next
    case False
    obtain pr f1 w1 where task: "processTask ca amt (f\<lparr>fq_queue := ?reqs\<rparr>, w) = (pr, (f1, w1))"
      by (metis prod.exhaust)
    with keepsD [OF processTask_keeps task] f have f1: "fq_queue f1 = ?reqs" "fq_answers f1 = as"
      by (simp_all add: requests_view_def)
    have run: "(case pr of
        Ok (Some res) \<Rightarrow> on_node (currentAvailableFunds ca channelID 0)
          (f1\<lparr>fq_queue := [], fq_answers := as @ merged_onComplete (cancelReqs c2 ?reqs) res\<rparr>, w1)
      | Ok None \<Rightarrow> on_node (currentAvailableFunds ca channelID amt) (f1\<lparr>fq_queue := cancelReqs c2 ?reqs\<rparr>, w1)
      | Err e \<Rightarrow> (Err e, (f1, w1)) | Panic \<Rightarrow> (Panic, (f1, w1))) = (r, s')"
      using assms(1) False task f1 unfolding s processQueue_def amt_def [symmetric]
      by (auto simp: get_funds_def set_queue_def answer_def upd_funds_def Let_def f amt_def bindE_def
          split: go.splits option.splits)
    show ?thesis
    proof (cases pr)
      case (Ok found)
      show ?thesis
      proof (cases found)
        case None
        with Ok run node [of _ "f1\<lparr>fq_queue := cancelReqs c2 ?reqs\<rparr>" w1] f1 show ?thesis
          by (intro exI [of _ "cancelReqs c2 ?reqs"]) (auto simp: requests_view_def filterQueue_eq)
      next
        case (Some res)
        with Ok run node [of _ "f1\<lparr>fq_queue := [], fq_answers := as @ merged_onComplete (cancelReqs c2 ?reqs) res\<rparr>" w1]
        show ?thesis
          by (intro exI [of _ "cancelReqs c2 ?reqs"]) (auto simp: requests_view_def filterQueue_eq merged_onComplete_eq)
      qed
    qed (use run f1 in \<open>auto simp: requests_view_def filterQueue_eq intro!: exI [of _ ?reqs]\<close>)
  qed
qed

definition requests_ok :: "nat set \<Rightarrow> fundsReq list \<times> (nat \<times> paychFundsRes) list \<Rightarrow> bool" where
  "requests_ok R = (\<lambda>(q, as). distinct (map fr_promise q @ map fst as) \<and>
     set (map fr_promise q @ map fst as) \<subseteq> R)"

lemma processQueue_ok:
  assumes "processQueue ca c1 c2 channelID s = (r, s')" "requests_ok R (requests_view s)"
  shows "requests_ok R (requests_view s')"
proof -
  obtain q as where v: "requests_view s = (q, as)" by fastforce
  from processQueue_view [OF assms(1) v] obtain q' where q': "map fr_promise q' = map fr_promise (filter fr_active q)"
      "requests_view s' = (q', as) \<or> (\<exists>res. requests_view s' = ([], as @ map (\<lambda>r. (fr_promise r, res)) (filter fr_active q')))"
    by blast
  have d: "distinct (map fr_promise q')" "set (map fr_promise q') \<subseteq> set (map fr_promise q)"
    using assms(2) v unfolding q'(1) by (auto simp: requests_ok_def distinct_map_filter)
  then have "distinct (map fr_promise (filter fr_active q'))"
    "set (map fr_promise (filter fr_active q')) \<subseteq> set (map fr_promise q)"
    by (auto simp: distinct_map_filter)
  note d = d this
  have ok: "distinct (map fst as)" "set (map fr_promise q) \<inter> set (map fst as) = {}"
    "set (map fr_promise q) \<subseteq> R" "set (map fst as) \<subseteq> R"
    using assms(2) v by (auto simp: requests_ok_def)
  have "requests_ok R (q', as)"
    unfolding requests_ok_def prod.case distinct_append set_append using d(1,2) ok by blast
  moreover have "requests_ok R ([], as @ map (\<lambda>r. (fr_promise r, res)) (filter fr_active q'))" for res
  proof -
    have "map fst (as @ map (\<lambda>r. (fr_promise r, res)) (filter fr_active q')) =
        map fst as @ map fr_promise (filter fr_active q')" by (simp add: o_def)
    then show ?thesis
      unfolding requests_ok_def prod.case list.map append_Nil
      unfolding distinct_append set_append using d(3,4) ok by (simp only: distinct_append set_append) blast
  qed
  ultimately show ?thesis using q'(2) by auto
qed

lemma requests_ok_add:
  assumes "requests_ok R (q, as)" "p \<notin> R"
  shows "requests_ok (R \<union> {p}) (q @ [newFundsReq p amt], as)"
proof -
  have "set (map fr_promise q @ map fst as) \<subseteq> R" "distinct (map fr_promise q @ map fst as)"
    using assms(1) by (simp_all add: requests_ok_def)
  moreover from this assms(2) have "p \<notin> set (map fr_promise q)" "p \<notin> set (map fst as)" by auto
  ultimately show ?thesis by (auto simp: requests_ok_def newFundsReq_def)
qed

lemma logE_snd: "logE m s = (r, s') \<Longrightarrow> \<exists>r'. m s = (r', s')"
  by (cases "m s"; cases "fst (m s)") (auto simp: logE_def ret_def)

lemma keeps_ok: "keeps requests_view m \<Longrightarrow> m s = (r, s') \<Longrightarrow> requests_ok R (requests_view s) \<Longrightarrow>
    requests_ok R (requests_view s')"
  by (metis keepsD)

lemma run_task_ok:
  assumes "run_task ca c1 c2 t s = (r, s')" "requests_ok R (requests_view s)"
  shows "requests_ok R (requests_view s')"
proof (cases "t = ProcessQueue")
  case True
  with assms(1) obtain r' where "processQueue ca c1 c2 '''' s = (r', s')" using logE_snd by fastforce
  from processQueue_ok [OF this assms(2)] show ?thesis .
next
  case False
  from keeps_ok [OF run_task_keeps [OF False] assms] show ?thesis .
qed

lemma run_action_ok:
  assumes "run_action ca a s = (r, s')" "requests_ok R (requests_view s)" "requested a \<inter> R = {}"
  shows "requests_ok (R \<union> requested a) (requests_view s')"
proof (cases a)
  case (Request p amt)
  with assms requests_ok_add [of R "fq_queue (fst s)" "fq_answers (fst s)" p amt] show ?thesis
    by (cases s) (auto simp: getPaych_def enqueue_def requests_view_def upd_funds_def spawn_def bindE_def)
next
  case (Cancel p)
  obtain f w where s: "s = (f, w)" by fastforce
  from Cancel assms(1) have "requests_view s' = (cancelReqs {p} (fq_queue f), fq_answers f)"
    by (auto simp: s getPaych_cancel_def upd_funds_def requests_view_def)
  moreover have "fr_promise ` set (cancelReqs {p} q) = fr_promise ` set q" for q
    by (metis cancelReqs_promises set_map)
  ultimately show ?thesis
    using assms(2) Cancel by (simp add: requests_ok_def requests_view_def s)
next
  case (AvailableFunds channelID c1 c2)
  with assms(1) obtain r' where "processQueue ca c1 c2 channelID s = (r', s')"
    using logE_snd by (fastforce simp: availableFunds_def)
  from processQueue_ok [OF this assms(2)] AvailableFunds show ?thesis by simp
next
  case (WaitReady p mcid)
  with keeps_ok [OF WaitReady_keeps _ assms(2)] assms(1) show ?thesis by auto
next
  case (RunTask i c1 c2)
  obtain f w where s: "s = (f, w)" by fastforce
  show ?thesis
  proof (cases "i < length (fq_tasks f)")
    case True
    let ?f = "f\<lparr>fq_tasks := take i (fq_tasks f) @ drop (Suc i) (fq_tasks f)\<rparr>"
    have "run_task ca c1 c2 (fq_tasks f ! i) (?f, w) = (r, s')"
      using assms(1) RunTask True by (simp add: s get_funds_def upd_funds_def bindE_def)
    moreover have "requests_ok R (requests_view (?f, w))" using assms(2) by (simp add: s requests_view_def)
    ultimately show ?thesis using RunTask run_task_ok by fastforce
  next
    case False
    with assms RunTask show ?thesis by (simp add: s get_funds_def bindE_def ret_def)
  qed
qed

text \<open>C27: no request is answered twice. However requests, cancellations, calls and tasks
  interleave, whatever the chain does in between, and whichever requests are cancelled while the
  queue is processed, each answer belongs to a promise that was requested, no promise has two,
  and a promise that is still in the queue has none.\<close>

theorem answered_at_most_once:
  assumes "acc_run ca R (f, w)"
  shows "distinct (map fst (fq_answers f)) \<and> fst ` set (fq_answers f) \<subseteq> R \<and>
    (\<forall>r\<in>set (fq_queue f). fr_promise r \<in> R \<and> getPaych_result (fr_promise r) f = None)"
proof -
  have "acc_run ca R s \<Longrightarrow> requests_ok R (requests_view s)" for s
  proof (induction rule: acc_run.induct)
    case (start w)
    then show ?case by (simp add: requests_ok_def requests_view_def no_funds_def)
  next
    case (step R s a r s')
    then show ?case using run_action_ok by blast
  next
    case (world R f w w')
    then show ?case by (simp add: requests_view_def)
  qed
  from this [OF assms] show ?thesis
    by (auto simp: requests_ok_def requests_view_def getPaych_result_def map_of_eq_None_iff)
qed

theorem answered_at_most_once_witness:
  "\<exists>f w. acc_run (ex_ca 1000 []) {0, 1} (f, w) \<and> map fr_promise (fq_queue f) = [1, 0] \<and>
     distinct (map fst (fq_answers f))"
proof -
  let ?ca = "ex_ca 1000 []"
  let ?f = "no_funds\<lparr>fq_queue := [newFundsReq 1 500, newFundsReq 0 0], fq_tasks := [ProcessQueue, ProcessQueue]\<rparr>"
  have "acc_run ?ca ({} \<union> requested (Request 1 500)) (no_funds\<lparr>fq_queue := [newFundsReq 1 500], fq_tasks := [ProcessQueue]\<rparr>, ex_world)"
    by (rule acc_run.step [OF acc_run.start [of _ ex_world]])
       (auto simp: getPaych_def enqueue_def no_funds_def upd_funds_def spawn_def bindE_def)
  then have "acc_run ?ca (({} \<union> requested (Request 1 500)) \<union> requested (Request 0 0)) (?f, ex_world)"
    by (rule acc_run.step)
       (auto simp: getPaych_def enqueue_def no_funds_def upd_funds_def spawn_def bindE_def)
  then have run: "acc_run ?ca {0, 1} (?f, ex_world)" by (simp add: insert_commute)
  from answered_at_most_once [OF run] run show ?thesis
    by (intro exI [of _ ?f] exI [of _ ex_world]) (simp add: newFundsReq_def)
qed

section \<open>The end of a message\<close>

context channel_store
begin

lemma mutate_run:
  assumes "ok w" "chan w i = Some ci" "storable s (g ci)" "ci_ChannelID (g ci) = i"
  obtains w' where "mutateChannelInfo s i g w = (Ok (), w')" "ok w'" "chan w' = (chan w)(i \<mapsto> g ci)"
    "msg w' = msg w" "rest w' = rest w"
proof -
  have "i \<noteq> ''''" using store_ok_chan [OF assms(1,2)] by simp
  then obtain w' where w': "putChannelInfo s (g ci) w = (Ok (filled s (g ci)), w')" "ok w'"
      "chan w' = (chan w)(ci_ChannelID (g ci) \<mapsto> g ci)" "msg w' = msg w" "rest w' = rest w"
    using put [OF assms(1,3)] assms(4) by metis
  with assms(2,4) show ?thesis
    by (intro that [of w']) (simp_all add: mutateChannelInfo_def logE_def ByChannelID_eq [OF assms(1)] ret_def)
qed

end

text \<open>What becomes of a channel whose message ends.\<close>

definition created_at :: "Address \<Rightarrow> ChannelInfo \<Rightarrow> ChannelInfo" where
  "created_at a ci = ci\<lparr>ci_Channel := Some a, ci_Amount := ci_PendingAmount ci, ci_PendingAmount := 0,
     ci_CreateMsg := None\<rparr>"

definition funded :: "ChannelInfo \<Rightarrow> ChannelInfo" where
  "funded ci = ci\<lparr>ci_Amount := ci_Amount ci + ci_PendingAmount ci, ci_PendingAmount := 0, ci_AddFundsMsg := None\<rparr>"

definition not_funded :: "ChannelInfo \<Rightarrow> ChannelInfo" where
  "not_funded ci = ci\<lparr>ci_PendingAmount := 0, ci_AddFundsMsg := None\<rparr>"

text \<open>C32: how the end of a message changes its channel. Confirmed on chain, a created channel gets
  its address and the pending amount, and added funds move from pending to the amount; failed
  on chain, the channel is removed or the pending amount dropped; nothing else in the store
  changes. When the wait itself fails, the store stays as it was, the message still pending, so
  that the queue of the channel goes on waiting.\<close>

theorem message_outcomes:
  assumes "channel_store s contents rest room" "ca_store ca = s" "store_ok s (contents w)"
    and "chan_at s (contents w) i = Some ci" "fn_StateWaitMsg (ca_api ca) mcid w = (r, w1)" "contents w1 = contents w"
    and "\<forall>rcp. r = Ok rcp \<longrightarrow> fn_DecodeExecReturn (ca_api ca) (rcp_Return rcp) = Ok robust"
    and "storable s (created_at robust ci)" "storable s (funded ci)" "storable s (not_funded ci)"
  shows "case r of
      Ok receipt \<Rightarrow> \<exists>wc wa ec ea. waitPaychCreateMsg ca i mcid w = (Ok ec, wc) \<and> waitAddFundsMsg ca i mcid w = (Ok ea, wa) \<and>
        (if rcp_ExitCode receipt = 0
         then ec = None \<and> chan_at s (contents wc) = (chan_at s (contents w))(i \<mapsto> created_at robust ci) \<and>
           ea = None \<and> chan_at s (contents wa) = (chan_at s (contents w))(i \<mapsto> funded ci)
         else ec \<noteq> None \<and> chan_at s (contents wc) = (chan_at s (contents w))(i := None) \<and>
           ea \<noteq> None \<and> chan_at s (contents wa) = (chan_at s (contents w))(i \<mapsto> not_funded ci))
    | Err e \<Rightarrow> waitPaychCreateMsg ca i mcid w = (Ok (Some e), w1) \<and> waitAddFundsMsg ca i mcid w = (Ok (Some e), w1) \<and>
        chan_at s (contents w1) = chan_at s (contents w)
    | Panic \<Rightarrow> True"
proof (cases r)
  case (Err e)
  with assms(5,6) show ?thesis by (simp add: waitPaychCreateMsg_def waitAddFundsMsg_def ret_def)
next
  case Panic
  then show ?thesis by simp
next
  case (Ok receipt)
  have ok1: "store_ok s (contents w1)" "chan_at s (contents w1) i = Some ci" using assms(3,4,6) by simp_all
  have id: "ci_ChannelID ci = i" using store_ok_chan [OF assms(3,4)] by simp
  show ?thesis
  proof (cases "rcp_ExitCode receipt = 0")
    case True
    have upd: "(\<lambda>ci. ci\<lparr>ci_Channel := Some robust, ci_Amount := ci_PendingAmount ci, ci_PendingAmount := 0, ci_CreateMsg := None\<rparr>)
        = created_at robust"
      "(\<lambda>ci. ci\<lparr>ci_Amount := ci_Amount ci + ci_PendingAmount ci, ci_PendingAmount := 0, ci_AddFundsMsg := None\<rparr>) = funded"
      by (simp_all add: created_at_def funded_def fun_eq_iff)
    obtain wc where wc: "mutateChannelInfo s i (created_at robust) w1 = (Ok (), wc)"
        "chan_at s (contents wc) = (chan_at s (contents w1))(i \<mapsto> created_at robust ci)"
      by (rule channel_store.mutate_run [OF assms(1) ok1, where g = "created_at robust"]) (use assms(8) in \<open>simp_all add: created_at_def id\<close>)
    obtain wa where wa: "mutateChannelInfo s i funded w1 = (Ok (), wa)"
        "chan_at s (contents wa) = (chan_at s (contents w1))(i \<mapsto> funded ci)"
      by (rule channel_store.mutate_run [OF assms(1) ok1, where g = funded]) (use assms(9) in \<open>simp_all add: funded_def id\<close>)
    have "waitPaychCreateMsg ca i mcid w = (Ok None, wc)" "waitAddFundsMsg ca i mcid w = (Ok None, wa)"
      using assms(2,5,7) Ok True wc(1) wa(1) by (simp_all add: waitPaychCreateMsg_def waitAddFundsMsg_def upd ret_def)
    with Ok True wc(2) wa(2) assms(6) show ?thesis by simp
  next
    case False
    have upd: "(\<lambda>ci. ci\<lparr>ci_PendingAmount := 0, ci_AddFundsMsg := None\<rparr>) = not_funded"
      by (simp add: not_funded_def fun_eq_iff)
    obtain wc where wc: "RemoveChannel s i w1 = (Ok (), wc)"
        "chan_at s (contents wc) = (chan_at s (contents w1))(i := None)"
      by (rule channel_store.RemoveChannel_run [OF assms(1) ok1(1)])
    obtain wa where wa: "mutateChannelInfo s i not_funded w1 = (Ok (), wa)"
        "chan_at s (contents wa) = (chan_at s (contents w1))(i \<mapsto> not_funded ci)"
      by (rule channel_store.mutate_run [OF assms(1) ok1, where g = not_funded]) (use assms(10) in \<open>simp_all add: not_funded_def id\<close>)
    have "\<exists>e. waitPaychCreateMsg ca i mcid w = (Ok (Some e), wc)" "\<exists>e. waitAddFundsMsg ca i mcid w = (Ok (Some e), wa)"
      using assms(2,5) Ok False wc(1) wa(1)
      by (simp_all add: waitPaychCreateMsg_def waitAddFundsMsg_def logE_def upd ret_def)
    with Ok False wc(2) wa(2) assms(6) show ?thesis by auto
  qed
qed

theorem message_outcomes_witness:
  "\<exists>wa. waitAddFundsMsg (ex_ca 1000 []) ''c1'' ''msg'' ex_world = (Ok None, wa) \<and>
     chan_at ex_store (mem_contents wa) ''c1'' = Some (funded ex_ci)"
proof -
  have st: "storable ex_store (created_at ''f2paych'' ex_ci)" "storable ex_store (funded ex_ci)"
    "storable ex_store (not_funded ex_ci)"
    by (auto simp: storable_def filled_def fits_ChannelInfo_def ex_ci_def created_at_def funded_def not_funded_def
        AddressUndef_def intro!: ref_codecs)
  have call: "fn_StateWaitMsg (ca_api (ex_ca 1000 [])) ''msg'' ex_world = (Ok \<lparr>rcp_ExitCode = 0, rcp_Return = []\<rparr>, ex_world)"
    "\<forall>rcp. Ok \<lparr>rcp_ExitCode = 0, rcp_Return = []\<rparr> = Ok rcp \<longrightarrow>
       fn_DecodeExecReturn (ca_api (ex_ca 1000 [])) (rcp_Return rcp) = Ok ''f2paych''"
    by (simp_all add: ex_node_def ret_def)
  have at: "chan_at ex_store (mem_contents ex_world) ''c1'' = Some ex_ci" by (simp add: ex_world_chans(2))
  have "ca_store (ex_ca 1000 []) = ex_store" by simp
  from message_outcomes [OF mem_cs.channel_store_axioms this ex_world_chans(1) at call(1) refl call(2) st]
  show ?thesis by auto
qed

section \<open>Witnesses\<close>

lemma ex_mpoolPush:
  "mpoolPush (ex_node b c) m w = (Ok \<lparr>sm_Message = m\<lparr>msg_Nonce := 7\<rparr>, sm_Signature = ''sig''\<rparr>, w)"
  by (simp add: mpoolPush_def wrapE_def ex_node_def go_defs bindE_def tryE_def)

lemma ex_active:
  "OutboundActiveByFromTo ex_store ''f1client'' ''f1miner'' ex_world = (Ok ex_ci, ex_world)"
  unfolding OutboundActiveByFromTo_def
  by (rule mem_cs.findChan_unique [OF ex_world_chans(1), where i = "''c1''"])
     (simp_all add: ex_world_chans(2), auto simp: ex_ci_def split: if_splits)

theorem queue_waits_witness:
  "\<exists>q. processQueue (ex_ca 1000 []) {} {} '''' (no_funds\<lparr>fq_queue := [newFundsReq 0 0]\<rparr>, ex_world) =
     (Ok None, (no_funds\<lparr>fq_queue := q\<rparr>, ex_world)) \<and> length q = 1"
proof -
  have "[newFundsReq 0 0] = cancelReqs {} (filter fr_active (fq_queue (no_funds\<lparr>fq_queue := [newFundsReq 0 0]\<rparr>)))"
    "(\<Sum>r\<leftarrow>filter fr_active [newFundsReq 0 0]. fr_amt r) = 0"
    by (simp_all add: newFundsReq_def)
  from queue_waits [OF this(1) disjI1 [OF this(2)], where ca = "ex_ca 1000 []" and w = ex_world and ?c2.0 = "{}"] show ?thesis
    by (auto simp: no_funds_def)
qed

theorem requests_are_merged_witness:
  "\<exists>s. processQueue (ex_ca 1000 []) {} {2} ''''
       (no_funds\<lparr>fq_queue := [newFundsReq 0 300, newFundsReq 1 200, newFundsReq 2 400]\<rparr>, ex_world) = (Ok None, s) \<and>
     fq_queue (fst s) = [] \<and>
     fq_answers (fst s) = map (\<lambda>p. (p, \<lparr>pfr_channel = ''f2paych'', pfr_mcid = ''msg-'', pfr_err = None\<rparr>)) [0, 1]"
proof -
  let ?reqs = "[newFundsReq 0 300, newFundsReq 1 200, newFundsReq 2 400]"
  let ?f = "no_funds\<lparr>fq_queue := ?reqs\<rparr>"
  let ?g = "\<lambda>ci. ci\<lparr>ci_PendingAmount := 900, ci_AddFundsMsg := Some ''msg-''\<rparr>"
  have st: "storable ex_store (?g ex_ci)"
    by (auto simp: storable_def filled_def fits_ChannelInfo_def ex_ci_def AddressUndef_def intro!: ref_codecs)
  obtain w1 where w1: "mutateChannelInfo ex_store ''c1'' ?g ex_world = (Ok (), w1)"
    by (rule mem_cs.mutate_run [OF ex_world_chans(1), where i = "''c1''" and ci = ex_ci and g = ?g])
       (use st in \<open>simp_all add: ex_world_chans(2) ex_ci_def\<close>)
  obtain x w2 where w2: "SaveNewMessage ex_store ''c1'' ''msg-'' w1 = (x, w2)" by (rule prod.exhaust)
  have "x \<noteq> Panic"
  proof
    assume "x = Panic"
    have "fits_MsgInfo ref_cbg \<lparr>mi_ChannelID = ''c1'', mi_MsgCid = ''msg-'', mi_Received = False, mi_Err = ''''\<rparr>"
      by (auto simp: fits_MsgInfo_def intro!: ref_codecs)
    then obtain b where "Marshal_MsgInfo ref_cbg \<lparr>mi_ChannelID = ''c1'', mi_MsgCid = ''msg-'', mi_Received = False, mi_Err = ''''\<rparr> = Ok b"
      using ref.codec_MsgInfo unfolding codec_ok_def by blast
    with w2 \<open>x = Panic\<close> show False
      by (cases w1) (simp add: SaveNewMessage_def mem_ds_def ret_def)
  qed
  then have log: "logE (SaveNewMessage ex_store ''c1'' ''msg-'') w1 = (Ok (), w2)"
    using w2 by (cases x) (simp_all add: logE_def ret_def)
  have ex: "ca_from (ex_ca 1000 []) = ''f1client''" "ca_to (ex_ca 1000 []) = ''f1miner''"
    "fn_SmsgCid (ex_node 1000 []) = (\<lambda>m. ''msg-'' @ msg_Params (sm_Message m))"
    "ci_Channel ex_ci = Some ''f2paych''" "ci_CreateMsg ex_ci = None" "ci_AddFundsMsg ex_ci = None"
    by (simp_all add: ex_ca_def ex_node_def ex_ci_def)
  have task: "processTask (ex_ca 1000 []) 900 (?f, ex_world) =
      (Ok (Some \<lparr>pfr_channel = ''f2paych'', pfr_mcid = ''msg-'', pfr_err = None\<rparr>),
       (?f\<lparr>fq_tasks := [WaitForAddFundsMsg ''c1'' ''msg-'']\<rparr>, w2))"
    using w1 log ex_active
    by (simp add: processTask_def addFunds_def ex ex_mpoolPush on_node_def spawn_def upd_funds_def bindE_def tryE_def
        ret_def Let_def no_funds_def)
  have reqs: "?reqs = cancelReqs {} (filter fr_active (fq_queue ?f))"
    "900 = (\<Sum>r\<leftarrow>filter fr_active ?reqs. fr_amt r)" by (simp_all add: newFundsReq_def)
  have task': "processTask (ex_ca 1000 []) 900 (?f\<lparr>fq_queue := ?reqs\<rparr>, ex_world) =
      (Ok (Some \<lparr>pfr_channel = ''f2paych'', pfr_mcid = ''msg-'', pfr_err = None\<rparr>),
       (?f\<lparr>fq_tasks := [WaitForAddFundsMsg ''c1'' ''msg-'']\<rparr>, w2))"
    using task by simp
  have "(900 :: int) \<noteq> 0" by simp
  from requests_are_merged [OF reqs this task', of "{2}"]
  have "processQueue (ex_ca 1000 []) {} {2} '''' (?f, ex_world) = (Ok None,
      (?f\<lparr>fq_tasks := [WaitForAddFundsMsg ''c1'' ''msg-''], fq_queue := [], fq_answers := fq_answers ?f @
        map (\<lambda>r. (fr_promise r, \<lparr>pfr_channel = ''f2paych'', pfr_mcid = ''msg-'', pfr_err = None\<rparr>))
          (filter fr_active (cancelReqs {2} ?reqs))\<rparr>, w2))" by simp
  moreover have "filter fr_active (cancelReqs {2} ?reqs) = [newFundsReq 0 300, newFundsReq 1 200]"
    by (simp add: cancelReqs_def newFundsReq_def)
  ultimately show ?thesis by (simp add: no_funds_def newFundsReq_def)
qed

end
