(* ===== verification/FundsAgree.thy ===== *)
theory FundsAgree
  imports FundsProps
begin

text \<open>
  Two computations that have to agree: what \<open>CheckFunds\<close> learns of a channel's free funds, from
  \<open>currentAvailableFunds\<close>, and what \<open>createVoucher\<close> finds missing for the next voucher of a lane.
\<close>

text \<open>What the chain answers when the funds are looked at.\<close>

definition chain_lanes :: "'w FullNode \<Rightarrow> Address \<Rightarrow> ('w, Actor \<times> lanes) io" where
  "chain_lanes api ch =
     bindE (loadPaychActorState api ch) (\<lambda>(act, st).
     bindE (fn_AsArray api (ps_LaneStates st)) (\<lambda>_.
     bindE (fn_ForEach api (ps_LaneStates st)) (\<lambda>chain.
       ret (act, fold (\<lambda>(i, l). AList.update i l) chain []))))"

context voucher_channel
begin

lemma totalRedeemed_sole:
  assumes "ok w" "sole ch ci w" "chain_lanes (ca_api ca) ch w = (Ok (act, chain), w')"
    and "apply_vouchers (ci_Vouchers ci) chain = Ok lanes"
  shows "totalRedeemed ca (Some ch) w = (Ok (lanes_total lanes), w')"
proof -
  from assms(3) obtain st w1 where l: "loadPaychActorState (ca_api ca) ch w = (Ok (act, st), w1)"
    and r: "bindE (fn_AsArray (ca_api ca) (ps_LaneStates st)) (\<lambda>_.
      bindE (fn_ForEach (ca_api ca) (ps_LaneStates st)) (\<lambda>c.
        ret (act, fold (\<lambda>(i, l). AList.update i l) c []))) w1 = (Ok (act, chain), w')"
    unfolding chain_lanes_def by (elim bindE_Ok) (auto elim!: bindE_Ok)
  from r obtain n w2 c where c: "fn_AsArray (ca_api ca) (ps_LaneStates st) w1 = (Ok n, w2)"
    "fn_ForEach (ca_api ca) (ps_LaneStates st) w2 = (Ok c, w')" "chain = fold (\<lambda>(i, l). AList.update i l) c []"
    by (auto elim!: bindE_Ok)
  have "contents w1 = contents w" using keepsD [OF load_keeps l] .
  then have "laneStates ca st ch w1 = (Ok lanes, w')"
    using laneStates_sole [of w1 ch ci st] assms(1,2,4) c by (simp add: ret_def)
  with l show ?thesis by (simp add: totalRedeemed_def lanes_total_def ret_def)
qed

lemma currentAvailableFunds_sole:
  assumes "ok w" "sole ch ci w" "chain_lanes (ca_api ca) ch w = (Ok (act, chain), w')"
    and "apply_vouchers (ci_Vouchers ci) chain = Ok lanes"
  obtains af where "currentAvailableFunds ca (ci_ChannelID ci) q w = (Ok (Some af), w')"
    "af_ConfirmedAmt af = ci_Amount ci" "af_VoucherReedeemedAmt af = lanes_total lanes"
proof -
  have ci: "chan_at (ca_store ca) (contents w) (ci_ChannelID ci) = Some ci" "ci_Channel ci = Some ch"
    using assms(2) by (simp_all add: sole_channel_def)
  have "ci_ChannelID ci \<noteq> ''''" using store_ok_chan [OF assms(1) ci(1)] by simp
  with ci totalRedeemed_sole [OF assms] ByChannelID_eq [OF assms(1), of "ci_ChannelID ci"]
  show ?thesis
    by (intro that) (auto simp: currentAvailableFunds_def ret_def Let_def)
qed

end



end
