(* ===== verification/MergedReq.thy ===== *)
theory MergedReq
  imports Funds
begin

text \<open>
  One merge of requests for funds in \<open>paychmgr.go\<close>, step by step: \<open>mergedFundsReq\<close>, the methods of
  \<open>fundsReq\<close> and the two ends of a promise, \<open>getPaych\<close> and \<open>onComplete\<close>. The theory \<open>Funds\<close> takes
  \<open>processQueue\<close> for one step, because it holds the lock of its channel. Those who cancel a request
  do not hold that lock: here they run between any two steps of the merge, and the step of \<open>Funds\<close>
  is shown to be what the merge does in all interleavings.
\<close>

section \<open>The merge and its requesters\<close>

text \<open>
  Requests are known by their places in the merge. A requester waits in the \<open>select\<close> of \<open>getPaych\<close>;
  it leaves with the answer, or when its context is done, and then cancels its request: it
  marks it under the request's lock, and if the request has this merge for its parent it runs
  \<open>checkActive\<close>, one request after the other.
\<close>

datatype requester = Waiting | Answered | Cancelling | Checking nat | Left

text \<open>
  The side of \<open>processQueue\<close>: \<open>newMergedFundsReq\<close> sets the parents and runs \<open>checkActive\<close>; then \<open>sum\<close>,
  the message for the sum, and \<open>onComplete\<close> of the merge, which for each active request waits in the
  \<open>select\<close> of \<open>onComplete\<close>. Without a message or a result the requests are kept in the queue.
\<close>

datatype executor =
    SetParent nat
  | FirstCheck nat
  | Sum nat TokenAmount
  | Process TokenAmount
  | Complete TokenAmount nat
  | Deliver TokenAmount nat
  | Kept TokenAmount
  | Completed TokenAmount

record merge =
  mr_done :: "nat set" \<comment> \<open>contexts that are done\<close>
  mr_inactive :: "nat set"
  mr_parent :: "nat set" \<comment> \<open>requests that have this merge for their parent\<close>
  mr_cancelled :: bool \<comment> \<open>the merge's own context\<close>
  mr_requester :: "nat \<Rightarrow> requester"
  mr_executor :: executor
  mr_answers :: "nat list"

definition newMergedFundsReq :: merge where
  "newMergedFundsReq = \<lparr>mr_done = {}, mr_inactive = {}, mr_parent = {}, mr_cancelled = False,
     mr_requester = (\<lambda>_. Waiting), mr_executor = SetParent 0, mr_answers = []\<rparr>"

definition isActive :: "merge \<Rightarrow> nat \<Rightarrow> bool" where
  "isActive m i \<longleftrightarrow> i \<notin> mr_inactive m"

definition setMergeParent :: "nat \<Rightarrow> merge \<Rightarrow> merge" where
  "setMergeParent i m = m\<lparr>mr_parent := insert i (mr_parent m)\<rparr>"

definition becomes :: "nat \<Rightarrow> requester \<Rightarrow> merge \<Rightarrow> merge" where
  "becomes i r m = m\<lparr>mr_requester := (mr_requester m)(i := r)\<rparr>"

text \<open>The first part of \<open>cancel\<close>, under the request's lock.\<close>

definition cancel :: "nat \<Rightarrow> merge \<Rightarrow> merge" where
  "cancel i m = becomes i (if i \<in> mr_parent m then Checking 0 else Left) (m\<lparr>mr_inactive := insert i (mr_inactive m)\<rparr>)"

section \<open>Steps\<close>

text \<open>What a requester does next; \<open>n\<close> requests are merged.\<close>

inductive requester_step :: "nat \<Rightarrow> nat \<Rightarrow> merge \<Rightarrow> merge \<Rightarrow> bool" for n i where
  context_done: "requester_step n i m (m\<lparr>mr_done := insert i (mr_done m)\<rparr>)"
| give_up: "mr_requester m i = Waiting \<Longrightarrow> i \<in> mr_done m \<Longrightarrow> requester_step n i m (becomes i Cancelling m)"
| cancel: "mr_requester m i = Cancelling \<Longrightarrow> requester_step n i m (cancel i m)"
| check_next: "mr_requester m i = Checking k \<Longrightarrow> k < n \<Longrightarrow> \<not> isActive m k \<Longrightarrow>
    requester_step n i m (becomes i (Checking (Suc k)) m)"
| check_active: "mr_requester m i = Checking k \<Longrightarrow> k < n \<Longrightarrow> isActive m k \<Longrightarrow> requester_step n i m (becomes i Left m)"
| check_end: "mr_requester m i = Checking n \<Longrightarrow> requester_step n i m (becomes i Left (m\<lparr>mr_cancelled := True\<rparr>))"

text \<open>A step of the executor, with the state that its program is in next. The message may be sent or
  not; a promise is handed over when its requester waits, or given up when the context is done.\<close>

inductive executor_step :: "fundsReq list \<Rightarrow> merge \<Rightarrow> merge \<Rightarrow> bool" for rs where
  set_parent: "mr_executor m = SetParent k \<Longrightarrow> k < length rs \<Longrightarrow>
    executor_step rs m (setMergeParent k (m\<lparr>mr_executor := SetParent (Suc k)\<rparr>))"
| parents_set: "mr_executor m = SetParent (length rs) \<Longrightarrow> executor_step rs m (m\<lparr>mr_executor := FirstCheck 0\<rparr>)"
| first_next: "mr_executor m = FirstCheck k \<Longrightarrow> k < length rs \<Longrightarrow> \<not> isActive m k \<Longrightarrow>
    executor_step rs m (m\<lparr>mr_executor := FirstCheck (Suc k)\<rparr>)"
| first_active: "mr_executor m = FirstCheck k \<Longrightarrow> k < length rs \<Longrightarrow> isActive m k \<Longrightarrow>
    executor_step rs m (m\<lparr>mr_executor := Sum 0 0\<rparr>)"
| first_end: "mr_executor m = FirstCheck (length rs) \<Longrightarrow>
    executor_step rs m (m\<lparr>mr_cancelled := True, mr_executor := Sum 0 0\<rparr>)"
| sum: "mr_executor m = Sum k s \<Longrightarrow> k < length rs \<Longrightarrow>
    executor_step rs m (m\<lparr>mr_executor := Sum (Suc k) (if isActive m k then s + fr_amt (rs ! k) else s)\<rparr>)"
| summed: "mr_executor m = Sum (length rs) s \<Longrightarrow>
    executor_step rs m (m\<lparr>mr_executor := if s = 0 then Kept s else Process s\<rparr>)"
| no_result: "mr_executor m = Process s \<Longrightarrow> executor_step rs m (m\<lparr>mr_executor := Kept s\<rparr>)"
| result: "mr_executor m = Process s \<Longrightarrow> executor_step rs m (m\<lparr>mr_executor := Complete s 0\<rparr>)"
| skip: "mr_executor m = Complete s k \<Longrightarrow> k < length rs \<Longrightarrow> \<not> isActive m k \<Longrightarrow>
    executor_step rs m (m\<lparr>mr_executor := Complete s (Suc k)\<rparr>)"
| onComplete: "mr_executor m = Complete s k \<Longrightarrow> k < length rs \<Longrightarrow> isActive m k \<Longrightarrow>
    executor_step rs m (m\<lparr>mr_executor := Deliver s k\<rparr>)"
| deliver: "mr_executor m = Deliver s k \<Longrightarrow> mr_requester m k = Waiting \<Longrightarrow>
    executor_step rs m (becomes k Answered (m\<lparr>mr_answers := mr_answers m @ [k], mr_executor := Complete s (Suc k)\<rparr>))"
| context_over: "mr_executor m = Deliver s k \<Longrightarrow> k \<in> mr_done m \<Longrightarrow>
    executor_step rs m (m\<lparr>mr_executor := Complete s (Suc k)\<rparr>)"
| completed: "mr_executor m = Complete s (length rs) \<Longrightarrow> executor_step rs m (m\<lparr>mr_executor := Completed s\<rparr>)"

inductive merge_run :: "fundsReq list \<Rightarrow> merge \<Rightarrow> bool" for rs where
  start: "merge_run rs newMergedFundsReq"
| requester: "merge_run rs m \<Longrightarrow> i < length rs \<Longrightarrow> requester_step (length rs) i m m' \<Longrightarrow> merge_run rs m'"
| executor: "merge_run rs m \<Longrightarrow> executor_step rs m m' \<Longrightarrow> merge_run rs m'"

lemmas merge_defs = isActive_def setMergeParent_def becomes_def cancel_def

section \<open>What the executor computes\<close>

text \<open>The sum of the requests before \<open>k\<close> that are not in \<open>A\<close>.\<close>

definition sum_without :: "fundsReq list \<Rightarrow> nat set \<Rightarrow> nat \<Rightarrow> TokenAmount" where
  "sum_without rs A k = (\<Sum>i\<leftarrow>filter (\<lambda>i. i \<notin> A) [0..<k]. fr_amt (rs ! i))"

definition summed_over :: "fundsReq list \<Rightarrow> merge \<Rightarrow> nat \<Rightarrow> TokenAmount \<Rightarrow> nat set \<Rightarrow> bool" where
  "summed_over rs m k s A \<longleftrightarrow> A \<subseteq> mr_inactive m \<and> A \<subseteq> {..<k} \<and> s = sum_without rs A k"

definition answered_over :: "merge \<Rightarrow> nat \<Rightarrow> nat set \<Rightarrow> nat set \<Rightarrow> bool" where
  "answered_over m k A B \<longleftrightarrow> B \<subseteq> {..<k} \<and> A \<inter> {..<k} \<subseteq> B \<and> mr_answers m = filter (\<lambda>i. i \<notin> B) [0..<k]"

definition executor_inv :: "fundsReq list \<Rightarrow> merge \<Rightarrow> bool" where
  "executor_inv rs m \<longleftrightarrow> (case mr_executor m of
       SetParent k \<Rightarrow> mr_answers m = []
     | FirstCheck k \<Rightarrow> mr_answers m = []
     | Sum k s \<Rightarrow> mr_answers m = [] \<and> (\<exists>A. summed_over rs m k s A)
     | Process s \<Rightarrow> mr_answers m = [] \<and> (\<exists>A. summed_over rs m (length rs) s A)
     | Kept s \<Rightarrow> mr_answers m = [] \<and> (\<exists>A. summed_over rs m (length rs) s A)
     | Complete s k \<Rightarrow> \<exists>A B. summed_over rs m (length rs) s A \<and> answered_over m k A B
     | Deliver s k \<Rightarrow> k < length rs \<and> (\<exists>A B. summed_over rs m (length rs) s A \<and> answered_over m k A B \<and> k \<notin> A)
     | Completed s \<Rightarrow> \<exists>A B. summed_over rs m (length rs) s A \<and> answered_over m (length rs) A B)"

lemma sum_without_step:
  "A \<subseteq> {..<k} \<Longrightarrow> sum_without rs A (Suc k) = sum_without rs A k + fr_amt (rs ! k)"
  "A \<subseteq> {..<k} \<Longrightarrow> sum_without rs (insert k A) (Suc k) = sum_without rs A k"
  by (auto simp: sum_without_def intro!: arg_cong [where f = sum_list] map_cong filter_cong)

lemma summed_over_step:
  assumes "summed_over rs m k s A"
  shows "\<exists>A. summed_over rs (m\<lparr>mr_executor := e\<rparr>) (Suc k) (if isActive m k then s + fr_amt (rs ! k) else s) A"
proof (cases "isActive m k")
  case True
  with assms show ?thesis
    by (intro exI [of _ A]) (auto simp: summed_over_def sum_without_step less_Suc_eq)
next
  case False
  with assms show ?thesis
    by (intro exI [of _ "insert k A"]) (auto simp: summed_over_def sum_without_step isActive_def less_Suc_eq)
qed

lemma answered_over_skip:
  assumes "answered_over m k A B"
  shows "answered_over (m\<lparr>mr_executor := e\<rparr>) (Suc k) A (insert k B)"
proof -
  have "filter (\<lambda>i. i \<notin> B) [0..<k] = filter (\<lambda>i. i \<notin> insert k B) [0..<k]" by (auto intro!: filter_cong)
  with assms show ?thesis by (auto simp: answered_over_def less_Suc_eq)
qed

lemma answered_over_deliver:
  assumes "answered_over m k A B" "k \<notin> A"
  shows "answered_over (becomes k Answered (m\<lparr>mr_answers := mr_answers m @ [k], mr_executor := e\<rparr>)) (Suc k) A B"
  using assms by (auto simp: answered_over_def becomes_def less_Suc_eq)

text \<open>Requesters only make more requests inactive.\<close>

lemma requester_step_frame:
  assumes "requester_step n i m m'"
  shows "mr_executor m' = mr_executor m" "mr_answers m' = mr_answers m" "mr_inactive m \<subseteq> mr_inactive m'"
    "mr_done m \<subseteq> mr_done m'" "mr_parent m' = mr_parent m"
  using assms by (cases; auto simp: merge_defs)+

lemma executor_inv_requester:
  assumes "requester_step n i m m'" "executor_inv rs m"
  shows "executor_inv rs m'"
proof -
  note f = requester_step_frame [OF assms(1)]
  have "summed_over rs m k s A \<Longrightarrow> summed_over rs m' k s A" "answered_over m k A B \<Longrightarrow> answered_over m' k A B" for k s A B
    using f(2,3) by (auto simp: summed_over_def answered_over_def)
  with assms(2) f(1,2) show ?thesis by (auto simp: executor_inv_def split: executor.splits) blast+
qed

lemma over_frame [simp]:
  "summed_over rs (m\<lparr>mr_executor := e\<rparr>) = summed_over rs m"
  "answered_over (m\<lparr>mr_executor := e\<rparr>) = answered_over m"
  by (simp_all add: fun_eq_iff summed_over_def answered_over_def)

lemma executor_inv_executor:
  assumes "executor_step rs m m'" "executor_inv rs m"
  shows "executor_inv rs m'"
  using assms
proof cases
  case (first_active k)
  have "summed_over rs m' 0 0 {}" by (simp add: summed_over_def sum_without_def)
  with first_active assms(2) show ?thesis by (auto simp: executor_inv_def)
next
  case first_end
  have "summed_over rs m' 0 0 {}" by (simp add: summed_over_def sum_without_def)
  with first_end assms(2) show ?thesis by (auto simp: executor_inv_def)
next
  case (sum k s)
  with assms(2) obtain A where "summed_over rs m k s A" "mr_answers m = []" by (auto simp: executor_inv_def)
  with summed_over_step sum(1) show ?thesis by (simp add: executor_inv_def)
next
  case (result s)
  with assms(2) obtain A where "summed_over rs m (length rs) s A" "mr_answers m = []" by (auto simp: executor_inv_def)
  then have "summed_over rs m' (length rs) s A" "answered_over m' 0 A {}"
    using result(1) by (auto simp: summed_over_def answered_over_def)
  with result(1) show ?thesis by (auto simp: executor_inv_def)
next
  case (skip s k)
  with assms(2) obtain A B where "summed_over rs m (length rs) s A" "answered_over m k A B" by (auto simp: executor_inv_def)
  then have "summed_over rs m' (length rs) s A" "answered_over m' (Suc k) A (insert k B)"
    using skip(1) answered_over_skip by (auto simp: summed_over_def)
  with skip(1) show ?thesis by (auto simp: executor_inv_def)
next
  case (onComplete s k)
  with assms(2) obtain A B where "summed_over rs m (length rs) s A" "answered_over m k A B" by (auto simp: executor_inv_def)
  then have "summed_over rs m' (length rs) s A" "answered_over m' k A B" "k \<notin> A"
    using onComplete(1,4) by (auto simp: summed_over_def answered_over_def isActive_def)
  with onComplete(1,3) show ?thesis by (auto simp: executor_inv_def)
next
  case (deliver s k)
  with assms(2) obtain A B where "summed_over rs m (length rs) s A" "answered_over m k A B" "k \<notin> A"
    by (auto simp: executor_inv_def)
  then have "summed_over rs m' (length rs) s A" "answered_over m' (Suc k) A B"
    using deliver(1) answered_over_deliver by (auto simp: summed_over_def becomes_def)
  with deliver(1) show ?thesis by (auto simp: executor_inv_def becomes_def)
next
  case (context_over s k)
  with assms(2) obtain A B where "summed_over rs m (length rs) s A" "answered_over m k A B" by (auto simp: executor_inv_def)
  then have "summed_over rs m' (length rs) s A" "answered_over m' (Suc k) A (insert k B)"
    using context_over(1) answered_over_skip by (auto simp: summed_over_def)
  with context_over(1) show ?thesis by (auto simp: executor_inv_def)
qed (auto simp: executor_inv_def merge_defs split: executor.splits)

lemma merge_run_executor_inv: "merge_run rs m \<Longrightarrow> executor_inv rs m"
proof (induction rule: merge_run.induct)
  case start
  show ?case by (simp add: executor_inv_def newMergedFundsReq_def)
qed (auto intro: executor_inv_requester executor_inv_executor)

section \<open>The step of the queue\<close>

text \<open>The promises of the requests at some places.\<close>

definition promises :: "fundsReq list \<Rightarrow> nat set \<Rightarrow> nat set" where
  "promises rs A = (\<lambda>i. fr_promise (rs ! i)) ` (A \<inter> {..<length rs})"

lemma cancelled_places:
  assumes "distinct (map fr_promise rs)" "i < length rs"
  shows "fr_promise (rs ! i) \<in> promises rs A \<longleftrightarrow> i \<in> A"
  using assms by (auto simp: promises_def distinct_conv_nth)

lemma merged_sum_map: "merged_sum rs a = a + (\<Sum>r\<leftarrow>filter fr_active rs. fr_amt r)"
  by (induction rs arbitrary: a) auto

lemma merged_onComplete_map: "merged_onComplete rs res = map (\<lambda>r. (fr_promise r, res)) (filter fr_active rs)"
  by (induction rs) auto

text \<open>Requests that are all active, but for those cancelled.\<close>

lemma active_after:
  assumes "distinct (map fr_promise rs)" "\<forall>r\<in>set rs. fr_active r"
  shows "filter fr_active (cancelReqs (promises rs A) rs) = map (\<lambda>i. rs ! i) (filter (\<lambda>i. i \<notin> A) [0..<length rs])"
proof -
  have "cancelReqs (promises rs A) rs = map (\<lambda>i. if i \<in> A then (rs ! i)\<lparr>fr_active := False\<rparr> else rs ! i) [0..<length rs]"
    by (rule nth_equalityI) (simp_all add: cancelReqs_def cancelled_places [OF assms(1)])
  moreover have "filter fr_active (map (\<lambda>i. if i \<in> A then (rs ! i)\<lparr>fr_active := False\<rparr> else rs ! i) is) =
      map (\<lambda>i. rs ! i) (filter (\<lambda>i. i \<notin> A) is)" if "\<forall>i\<in>set is. i < length rs" for "is"
    using that assms(2) by (induction "is") auto
  ultimately show ?thesis by simp
qed


section \<open>The context of the merge and the promises\<close>

fun begun :: "executor \<Rightarrow> bool" where
  "begun (SetParent _) \<longleftrightarrow> False"
| "begun (FirstCheck _) \<longleftrightarrow> False"
| "begun _ \<longleftrightarrow> True"

fun place :: "executor \<Rightarrow> nat" where
  "place (SetParent k) = k"
| "place (FirstCheck k) = k"
| "place (Sum k s) = k"
| "place (Complete s k) = k"
| "place (Deliver s k) = Suc k"
| "place _ = 0"

definition context_inv :: "nat \<Rightarrow> merge \<Rightarrow> bool" where
  "context_inv n m \<longleftrightarrow>
     place (mr_executor m) \<le> n \<and>
     mr_parent m = (case mr_executor m of SetParent k \<Rightarrow> {..<k} | _ \<Rightarrow> {..<n}) \<and>
     (\<forall>k. mr_executor m = FirstCheck k \<longrightarrow> {..<k} \<subseteq> mr_inactive m) \<and>
     (\<forall>i k. mr_requester m i = Checking k \<longrightarrow> k \<le> n \<and> (\<forall>j<k. j \<in> mr_inactive m)) \<and>
     (mr_cancelled m \<longrightarrow> {..<n} \<subseteq> mr_inactive m) \<and>
     (begun (mr_executor m) \<longrightarrow> mr_cancelled m \<or> \<not> {..<n} \<subseteq> mr_inactive m \<or> (\<exists>i<n. \<exists>k. mr_requester m i = Checking k))"

text \<open>Who has left the \<open>select\<close> of \<open>getPaych\<close>, and why.\<close>

definition promise_inv :: "nat \<Rightarrow> merge \<Rightarrow> bool" where
  "promise_inv n m \<longleftrightarrow>
     mr_inactive m \<subseteq> mr_done m \<and>
     (\<forall>i. mr_requester m i = Answered \<longleftrightarrow> i \<in> set (mr_answers m)) \<and>
     (\<forall>i. mr_requester m i \<in> {Waiting, Answered} \<or> i \<in> mr_done m) \<and>
     (\<forall>s k. mr_executor m \<in> {Complete s k, Deliver s k} \<longrightarrow> {..<k} \<subseteq> set (mr_answers m) \<union> mr_done m) \<and>
     (\<forall>s. mr_executor m = Completed s \<longrightarrow> {..<n} \<subseteq> set (mr_answers m) \<union> mr_done m)"

lemma context_inv_requester:
  assumes "requester_step n i m m'" "i < n" "context_inv n m"
  shows "context_inv n m'"
proof -
  note f = requester_step_frame [OF assms(1)]
  have chk: "\<forall>i k. mr_requester m i = Checking k \<longrightarrow> k \<le> n \<and> (\<forall>j<k. j \<in> mr_inactive m)"
    and cancelled: "mr_cancelled m \<longrightarrow> {..<n} \<subseteq> mr_inactive m"
    and begun: "begun (mr_executor m) \<longrightarrow> mr_cancelled m \<or> \<not> {..<n} \<subseteq> mr_inactive m \<or> (\<exists>i<n. \<exists>k. mr_requester m i = Checking k)"
    and parent: "begun (mr_executor m) \<longrightarrow> mr_parent m = {..<n}"
    using assms(3) by (auto simp: context_inv_def split: executor.splits)
  have "mr_requester m' j = Checking k \<Longrightarrow> k \<le> n \<and> (\<forall>j<k. j \<in> mr_inactive m')" for j k
    using assms(1) chk by cases (auto simp: merge_defs less_Suc_eq Suc_le_eq split: if_splits)
  moreover have "mr_cancelled m' \<longrightarrow> {..<n} \<subseteq> mr_inactive m'"
    using assms(1) chk cancelled by cases (auto simp: merge_defs)
  moreover have "mr_cancelled m' \<or> \<not> {..<n} \<subseteq> mr_inactive m' \<or> (\<exists>i<n. \<exists>k. mr_requester m' i = Checking k)"
    if "begun (mr_executor m)"
  proof (cases "mr_cancelled m \<or> \<not> {..<n} \<subseteq> mr_inactive m'")
    case True
    with assms(1) show ?thesis by cases (auto simp: merge_defs)
  next
    case False
    then have all: "{..<n} \<subseteq> mr_inactive m'" and "\<not> mr_cancelled m" by simp_all
    show ?thesis
      using assms(1)
    proof cases
      case cancel
      with assms(2) parent that show ?thesis by (auto simp: merge_defs)
    next
      case (check_active k)
      with all show ?thesis by (auto simp: merge_defs)
    next
      case check_end
      then show ?thesis by (simp add: merge_defs)
    next
      case (check_next k)
      with assms(2) show ?thesis by (auto simp: merge_defs)
    next
      case give_up
      then have "mr_requester m' j = Checking k \<longleftrightarrow> mr_requester m j = Checking k" for j k by (auto simp: becomes_def)
      moreover have "mr_inactive m' = mr_inactive m" using give_up by (simp add: becomes_def)
      ultimately show ?thesis using begun that False by auto
    next
      case context_done
      with begun that False show ?thesis by auto
    qed
  qed
  ultimately show ?thesis
    using assms(3) f unfolding context_inv_def by (auto split: executor.splits)
qed

lemma context_inv_executor:
  assumes "executor_step rs m m'" "context_inv (length rs) m"
  shows "context_inv (length rs) m'"
  using assms
proof cases
  case (deliver s k)
  then have "mr_requester m' i = Checking j \<longleftrightarrow> mr_requester m i = Checking j" for i j by (auto simp: becomes_def)
  with deliver assms(2) show ?thesis by (auto simp: context_inv_def becomes_def)
qed (auto simp: context_inv_def merge_defs less_Suc_eq split: executor.splits if_splits)

lemma promise_inv_requester:
  assumes "requester_step n i m m'" "promise_inv n m"
  shows "promise_inv n m'"
proof -
  have "i \<in> set (mr_answers m) \<longleftrightarrow> mr_requester m i = Answered" "mr_requester m i \<in> {Waiting, Answered} \<or> i \<in> mr_done m"
    using assms(2) by (auto simp: promise_inv_def)
  with assms show ?thesis by cases (auto simp: promise_inv_def merge_defs)
qed

lemma promise_inv_executor:
  assumes "executor_step rs m m'" "promise_inv (length rs) m"
  shows "promise_inv (length rs) m'"
  using assms by cases (auto simp: promise_inv_def merge_defs less_Suc_eq split: if_splits)

lemma merge_run_invs: "merge_run rs m \<Longrightarrow> context_inv (length rs) m \<and> promise_inv (length rs) m"
proof (induction rule: merge_run.induct)
  case start
  show ?case by (simp add: context_inv_def promise_inv_def newMergedFundsReq_def)
qed (blast intro: context_inv_requester context_inv_executor promise_inv_requester promise_inv_executor)+


text \<open>C30: no promise is forgotten and none is waited on forever. The executor, which holds the lock of
  the channel, is never stuck at a promise: until it ends there is a step that it can take. When it has
  ended with a result, every requester has the answer or its context is done, so that its own \<open>select\<close>
  goes on; a requester has the answer exactly when it was given one.\<close>

theorem promises_never_block:
  assumes "merge_run rs m"
  shows "((\<exists>m'. executor_step rs m m') \<or> (\<exists>s. mr_executor m \<in> {Kept s, Completed s})) \<and>
    ((\<exists>s. mr_executor m = Completed s) \<longrightarrow> (\<forall>i<length rs. mr_requester m i = Answered \<or> i \<in> mr_done m)) \<and>
    (\<forall>i. mr_requester m i = Answered \<longleftrightarrow> i \<in> set (mr_answers m))"
proof -
  note inv = merge_run_invs [OF assms, unfolded context_inv_def promise_inv_def]
  have "\<exists>m'. executor_step rs m m'" if "\<forall>s. mr_executor m \<notin> {Kept s, Completed s}"
  proof (cases "mr_executor m")
    case (SetParent k)
    with inv have "k < length rs \<or> k = length rs" by auto
    with SetParent show ?thesis by (metis executor_step.set_parent executor_step.parents_set)
  next
    case (FirstCheck k)
    with inv have "k < length rs \<or> k = length rs" by auto
    with FirstCheck show ?thesis
      by (metis executor_step.first_next executor_step.first_active executor_step.first_end)
  next
    case (Sum k s)
    with inv have "k < length rs \<or> k = length rs" by auto
    with Sum show ?thesis by (metis executor_step.sum executor_step.summed)
  next
    case (Process s)
    then show ?thesis by (metis executor_step.result)
  next
    case (Complete s k)
    with inv have "k < length rs \<or> k = length rs" by auto
    with Complete show ?thesis by (metis executor_step.skip executor_step.onComplete executor_step.completed)
  next
    case (Deliver s k)
    with merge_run_executor_inv [OF assms] have "k \<notin> set (mr_answers m)"
      by (auto simp: executor_inv_def answered_over_def)
    moreover have "mr_requester m k = Answered \<longleftrightarrow> k \<in> set (mr_answers m)"
      "mr_requester m k \<in> {Waiting, Answered} \<or> k \<in> mr_done m" using inv by blast+
    ultimately have "mr_requester m k = Waiting \<or> k \<in> mr_done m" by auto
    then show ?thesis using executor_step.deliver [OF Deliver] executor_step.context_over [OF Deliver] by blast
  qed (use that in auto)
  moreover have "mr_requester m i = Answered \<or> i \<in> mr_done m" if "mr_executor m = Completed s" "i < length rs" for s i
    using inv that by auto
  moreover have "\<forall>i. mr_requester m i = Answered \<longleftrightarrow> i \<in> set (mr_answers m)" using inv by simp
  ultimately show ?thesis by blast
qed

section \<open>A run\<close>

text \<open>Runs can be evaluated: a context ends, a requester or the executor takes its next step; \<open>b\<close> chooses
  whether there is a result and which way a \<open>select\<close> goes.\<close>

datatype move = ContextDone nat | Requester nat | Executor bool

fun requester_next :: "nat \<Rightarrow> nat \<Rightarrow> merge \<Rightarrow> merge option" where
  "requester_next n i m = (case mr_requester m i of
       Waiting \<Rightarrow> if i \<in> mr_done m then Some (becomes i Cancelling m) else None
     | Cancelling \<Rightarrow> Some (cancel i m)
     | Checking k \<Rightarrow> if k < n then Some (becomes i (if isActive m k then Left else Checking (Suc k)) m)
         else if k = n then Some (becomes i Left (m\<lparr>mr_cancelled := True\<rparr>)) else None
     | _ \<Rightarrow> None)"

text \<open>The \<open>select\<close> of \<open>onComplete\<close>: the promise is taken, or the context is done.\<close>

definition onComplete_select :: "bool \<Rightarrow> TokenAmount \<Rightarrow> nat \<Rightarrow> merge \<Rightarrow> merge option" where
  "onComplete_select b s k m =
     (if b \<and> mr_requester m k = Waiting
      then Some (becomes k Answered (m\<lparr>mr_answers := mr_answers m @ [k], mr_executor := Complete s (Suc k)\<rparr>))
      else if \<not> b \<and> k \<in> mr_done m then Some (m\<lparr>mr_executor := Complete s (Suc k)\<rparr>)
      else None)"

fun executor_next :: "fundsReq list \<Rightarrow> bool \<Rightarrow> merge \<Rightarrow> merge option" where
  "executor_next rs b m = (case mr_executor m of
       SetParent k \<Rightarrow> if k < length rs then Some (setMergeParent k (m\<lparr>mr_executor := SetParent (Suc k)\<rparr>))
         else if k = length rs then Some (m\<lparr>mr_executor := FirstCheck 0\<rparr>) else None
     | FirstCheck k \<Rightarrow> if k < length rs then Some (m\<lparr>mr_executor := if isActive m k then Sum 0 0 else FirstCheck (Suc k)\<rparr>)
         else if k = length rs then Some (m\<lparr>mr_cancelled := True, mr_executor := Sum 0 0\<rparr>) else None
     | Sum k s \<Rightarrow> if k < length rs
         then Some (m\<lparr>mr_executor := Sum (Suc k) (if isActive m k then s + fr_amt (rs ! k) else s)\<rparr>)
         else if k = length rs then Some (m\<lparr>mr_executor := if s = 0 then Kept s else Process s\<rparr>) else None
     | Process s \<Rightarrow> Some (m\<lparr>mr_executor := if b then Complete s 0 else Kept s\<rparr>)
     | Complete s k \<Rightarrow> if k < length rs
         then Some (m\<lparr>mr_executor := if isActive m k then Deliver s k else Complete s (Suc k)\<rparr>)
         else if k = length rs then Some (m\<lparr>mr_executor := Completed s\<rparr>) else None
     | Deliver s k \<Rightarrow> onComplete_select b s k m
     | _ \<Rightarrow> None)"

fun run_moves :: "fundsReq list \<Rightarrow> move list \<Rightarrow> merge \<Rightarrow> merge option" where
  "run_moves rs [] m = Some m"
| "run_moves rs (ContextDone i # ms) m =
     (if i < length rs then run_moves rs ms (m\<lparr>mr_done := insert i (mr_done m)\<rparr>) else None)"
| "run_moves rs (Requester i # ms) m =
     (if i < length rs then Option.bind (requester_next (length rs) i m) (run_moves rs ms) else None)"
| "run_moves rs (Executor b # ms) m = Option.bind (executor_next rs b m) (run_moves rs ms)"

lemma requester_next_step: "requester_next n i m = Some m' \<Longrightarrow> requester_step n i m m'"
  by (auto split: requester.splits if_splits intro: requester_step.intros)

lemma executor_next_step: "executor_next rs b m = Some m' \<Longrightarrow> executor_step rs m m'"
proof (cases "mr_executor m")
  case (Sum k s)
  moreover assume "executor_next rs b m = Some m'"
  ultimately show ?thesis
    using executor_step.sum [OF Sum, of rs] executor_step.summed [of m rs s]
    by (cases k "length rs" rule: linorder_cases) simp_all
qed (auto simp: onComplete_select_def split: if_splits intro: executor_step.intros)

lemma run_moves_sound: "merge_run rs m \<Longrightarrow> run_moves rs ms m = Some m' \<Longrightarrow> merge_run rs m'"
proof (induction ms arbitrary: m)
  case (Cons x ms)
  show ?case
  proof (cases x)
    case (ContextDone i)
    with Cons.prems have i: "i < length rs" "run_moves rs ms (m\<lparr>mr_done := insert i (mr_done m)\<rparr>) = Some m'"
      by (auto split: if_splits)
    from merge_run.requester [OF Cons.prems(1) i(1) requester_step.context_done] i(2) show ?thesis by (rule Cons.IH)
  next
    case (Requester i)
    with Cons.prems obtain m1 where "i < length rs" "requester_next (length rs) i m = Some m1" "run_moves rs ms m1 = Some m'"
      by (auto simp: bind_eq_Some_conv split: if_splits simp del: requester_next.simps)
    with Cons requester_next_step merge_run.requester show ?thesis by blast
  next
    case (Executor b)
    with Cons.prems obtain m1 where "executor_next rs b m = Some m1" "run_moves rs ms m1 = Some m'"
      by (auto simp: bind_eq_Some_conv simp del: executor_next.simps)
    with Cons executor_next_step merge_run.executor show ?thesis by blast
  qed
qed simp

text \<open>Two requests; the first one's context is done after the sum was taken and before the answers.\<close>

definition ex_reqs :: "fundsReq list" where
  "ex_reqs = [newFundsReq 3 100, newFundsReq 4 50]"

definition ex_moves :: "move list" where
  "ex_moves = replicate 7 (Executor True) @ [ContextDone 0, Requester 0, Requester 0, Requester 0, Requester 0] @
     replicate 5 (Executor True)"

text \<open>Both contexts are done while the sum is taken, and the two look for an active request at the same time.\<close>

definition both_cancel :: "move list" where
  "both_cancel = replicate 5 (Executor True) @ [ContextDone 0, ContextDone 1, Requester 0, Requester 0, Requester 1] @
     [Requester 0, Requester 1, Requester 0, Requester 1, Requester 1, Requester 1, Requester 0]"

lemma ex_run: "\<exists>m. run_moves ex_reqs ex_moves newMergedFundsReq = Some m \<and>
    mr_executor m = Completed 150 \<and> mr_answers m = [1] \<and> mr_requester m 0 = Left \<and> mr_requester m 1 = Answered"
  by (simp add: ex_reqs_def ex_moves_def newMergedFundsReq_def onComplete_select_def merge_defs newFundsReq_def eval_nat_numeral)

lemma both_cancel_run: "\<exists>m. run_moves ex_reqs both_cancel newMergedFundsReq = Some m \<and>
    mr_requester m 0 = Left \<and> mr_requester m 1 = Left \<and> mr_inactive m = {0, 1} \<and> mr_executor m = Sum 1 100"
  by (simp add: insert_commute ex_reqs_def both_cancel_def newMergedFundsReq_def merge_defs newFundsReq_def eval_nat_numeral)

lemma ex_reqs_facts:
  "length ex_reqs = 2" "distinct (map fr_promise ex_reqs)" "\<forall>r\<in>set ex_reqs. fr_active r"
  by (simp_all add: ex_reqs_def newFundsReq_def)



theorem promises_never_block_witness:
  "\<exists>m. merge_run ex_reqs m \<and> mr_executor m = Completed 150 \<and> mr_requester m 1 = Answered \<and>
     mr_requester m 0 \<noteq> Answered \<and> 0 \<in> mr_done m"
proof -
  obtain m where m: "run_moves ex_reqs ex_moves newMergedFundsReq = Some m" "mr_executor m = Completed 150"
      "mr_answers m = [1]"
    using ex_run by blast
  have run: "merge_run ex_reqs m" by (rule run_moves_sound [OF merge_run.start m(1)])
  have left: "\<forall>i<length ex_reqs. mr_requester m i = Answered \<or> i \<in> mr_done m"
    and "\<forall>i. mr_requester m i = Answered \<longleftrightarrow> i \<in> set (mr_answers m)"
    using promises_never_block [OF run] m(2) by blast+
  then have "mr_requester m 1 = Answered" "mr_requester m 0 \<noteq> Answered" by (simp_all add: m(3))
  moreover from this(2) left have "0 \<in> mr_done m" by (metis ex_reqs_facts(1) zero_less_numeral)
  ultimately have "mr_requester m 1 = Answered" "mr_requester m 0 \<noteq> Answered" "0 \<in> mr_done m" by simp_all
  with m(2) run show ?thesis by blast
qed

end
