(* ===== verification/NodeProps.thy ===== *)
theory NodeProps
  imports Node FundsProps ValidatorProps
begin

text \<open>
  The composition of the provider's revalidator, the retrieval node, the payment channel manager
  and the vouchers of a channel: what a payment is worth to a deal.
\<close>

section \<open>Adding a voucher through the manager\<close>

definition pm_accessor :: "'w paychManager \<Rightarrow> 'w accessor" where
  "pm_accessor pm = newAccessor pm AddressUndef AddressUndef"

lemma newAccessor_simps [simp]:
  "ca_api (newAccessor pm f t) = pm_api pm" "ca_store (newAccessor pm f t) = pm_store pm"
  "ca_api (pm_accessor pm) = pm_api pm" "ca_store (pm_accessor pm) = pm_store pm"
  by (simp_all add: newAccessor_def pm_accessor_def)

text \<open>The parties of an accessor do not matter to its vouchers.\<close>

lemma addVoucher_accessor:
  "addVoucherUnlocked (newAccessor pm f t) ch sv d = addVoucherUnlocked (pm_accessor pm) ch sv d"
  unfolding addVoucherUnlocked_def checkVoucherValidUnlocked_def laneStates_def newAccessor_simps ..

text \<open>An accessor that is looked up is in the cache.\<close>

lemma accessorByFromTo_run:
  "\<exists>m'. accessorByFromTo pm from to (m, w) = (Ok (accessorCacheKey from to), (m', w)) \<and>
     (\<exists>f t fq. ms_channels m' (accessorCacheKey from to) = Some (f, t, fq))"
  by (cases "ms_channels m (accessorCacheKey from to)")
     (auto simp: accessorByFromTo_def addAccessorToCache_def get_funds_def upd_funds_def ret_def bindE_def Let_def)

lemma with_accessor_node:
  assumes "ms_channels m key = Some (f, t, fq)"
  shows "\<exists>m'. with_accessor pm key (\<lambda>ca. on_node (g ca)) (m, w) =
    (fst (g (newAccessor pm f t) w), (m', snd (g (newAccessor pm f t) w)))"
  using assms by (cases "g (newAccessor pm f t) w") (simp add: with_accessor_def on_node_def)

context voucher_channel
begin

lemma AddVoucherInbound_tracked:
  assumes "ca = pm_accessor pm" "ok w" "sole ch ci w"
  shows "\<exists>m'. AddVoucherInbound pm ch sv [] d (m, w) =
    (fst (addVoucherUnlocked ca ch sv d w), (m', snd (addVoucherUnlocked ca ch sv d w)))"
proof -
  have "ByAddress (pm_store pm) ch w = (Ok ci, w)" using ByAddress_sole [OF assms(2,3)] assms(1) by simp
  then have "trackInboundChannel pm ch w = (Ok ci, w)" by (simp add: trackInboundChannel_def ret_def)
  moreover obtain m1 f t fq where m1: "accessorByFromTo pm (ci_Target ci) (ci_Control ci) (m, w) =
      (Ok (accessorCacheKey (ci_Target ci) (ci_Control ci)), (m1, w))"
      "ms_channels m1 (accessorCacheKey (ci_Target ci) (ci_Control ci)) = Some (f, t, fq)"
    using accessorByFromTo_run [of pm "ci_Target ci" "ci_Control ci" m w] by blast
  ultimately have "AddVoucherInbound pm ch sv [] d (m, w) =
      with_accessor pm (accessorCacheKey (ci_Target ci) (ci_Control ci))
        (\<lambda>ca. on_node (addVoucherUnlocked ca ch sv d)) (m1, w)"
    by (simp add: AddVoucherInbound_def inboundChannelAccessor_def on_node_def bindE_def)
  with with_accessor_node [OF m1(2), of pm "\<lambda>ca. addVoucherUnlocked ca ch sv d" w] show ?thesis
    by (simp add: addVoucher_accessor assms(1))
qed

text \<open>A voucher that would be accepted but adds less than the minimum.\<close>

lemma addVoucher_too_low:
  assumes "ok w" "sole ch ci w" "\<forall>v\<in>set (ci_Vouchers ci). vi_Voucher v \<noteq> Some sv"
    and "encodable (cs_cbg (ca_store ca)) sv" "accepts ca ci ch sv m w act lanes"
    and "sv_Amount sv - redeemed_in lanes (sv_Lane sv) < minDelta"
  obtains e w' where "addVoucherUnlocked ca ch (Some sv) minDelta w = (Err e, w')" "contents w' = contents w"
proof -
  obtain chain w1 where c: "sv_ChannelAddr sv = ch" "chain_view (ca_api ca) ch sv w = (Ok (act, chain), w1)"
      "apply_vouchers (ci_Vouchers ci) chain = Ok lanes" "check_lanes act lanes sv = Ok lanes"
    using assms(5) unfolding accepts_def by blast
  have "checkVoucherValidUnlocked ca ch (Some sv) w = (Ok lanes, w1)"
    using c by (simp add: checkVoucher_sole [OF assms(1,2)] ret_def)
  with assms(6) have "\<exists>e. addVoucherUnlocked ca ch (Some sv) minDelta w = (Err e, w1)"
    by (simp add: addVoucher_new [OF assms(1-4)] Let_def fail_def)
  with keepsD [OF chain_view_keeps c(2)] show ?thesis using that by blast
qed

end

section \<open>Payments\<close>

text \<open>A provider whose node is the retrieval node, with its payments on, and a deal that is stored.\<close>

definition paid_through :: "(managerState \<times> 'w) RevalidatorEnvironment \<Rightarrow> 'w retrievalNode \<Rightarrow> bool" where
  "paid_through env rn \<longleftrightarrow> rtn_tmode rn = TestModeOff \<and> (\<exists>sched c1 c2. re_Node env = NewRetrievalNode rn sched c1 c2)"

lemma SavePaymentVoucher_through:
  "paid_through env rn \<Longrightarrow> rn_SavePaymentVoucher (re_Node env) ch sv proof d tok = AddVoucherInbound (rtn_pm rn) ch sv proof d"
  by (auto simp: paid_through_def NewRetrievalNode_def node_SavePaymentVoucher_def)



section \<open>Witnesses\<close>

definition ex_pm :: "unit mem paychManager" where
  "ex_pm = \<lparr>pm_api = ex_node 1000 [], pm_store = ex_store\<rparr>"

definition ex_rn :: "unit mem retrievalNode" where
  "ex_rn = \<lparr>rtn_tmode = TestModeOff,
     rtn_api = \<lparr>la_ChainHead = ret ([1], 5), la_StateMinerInfo = (\<lambda>_ _. ret []), la_TipSetKeyFromBytes = (\<lambda>_. Ok []),
       la_TokenOfKey = (\<lambda>_. ''tok''), la_NewMultiaddrBytes = (\<lambda>_. Ok ''addr''), la_NewActorAddress = (\<lambda>s. s),
       la_GenerateCid = ret ''cid'', la_MakeTestSignedVoucher = ret ex_voucher_1\<rparr>,
     rtn_pm = ex_pm\<rparr>"

definition ex_owing :: ProviderDealState where
  "ex_owing = ex_completed\<lparr>pds_Status := DealStatusFundsNeeded, pds_FundsReceived := 0\<rparr>"

definition ex_node_env :: "(managerState \<times> unit mem) RevalidatorEnvironment" where
  "ex_node_env = \<lparr>re_Node = NewRetrievalNode ex_rn (\<lambda>_. ret ()) {} {}, re_SendEvent = (\<lambda>_ _ _. ret ()),
     re_Get = (\<lambda>_. ret ex_owing)\<rparr>"

lemma ex_rn_pm [simp]: "rtn_pm ex_rn = ex_pm" "pm_store ex_pm = ex_store" "pm_api ex_pm = ex_node 1000 []"
  by (simp_all add: ex_rn_def ex_pm_def)

interpretation ex_pmc: voucher_channel "pm_accessor ex_pm" mem_contents snd mem_room
proof (intro voucher_channel.intro voucher_channel_axioms.intro, unfold newAccessor_simps ex_rn_pm)
  show "channel_store ex_store mem_contents snd mem_room" by (rule mem_cs.channel_store_axioms)
  show "quiet_node (ex_node 1000 []) mem_contents" by (simp add: quiet_node_def ex_node_def)
qed

lemma ex_node_env_calls:
  "paid_through ex_node_env ex_rn"
  "rn_GetChainHead (re_Node ex_node_env) (m, w) = (Ok (''tok'', 5), (m, w))"
  "re_Get ex_node_env dealID (m, w) = (Ok ex_owing, (m, w))"
  "re_SendEvent ex_node_env dealID e as s = (Ok (), s)"
  by (auto simp: paid_through_def ex_node_env_def ex_rn_def NewRetrievalNode_def node_GetChainHead_def on_node_def
      ret_def bindE_def)

lemma ex_owing_owed: "payment_owed ex_owing = 1000" "pds_FundsReceived ex_owing = 0" "pds_Status ex_owing = DealStatusFundsNeeded"
  by (simp_all add: payment_owed_def ex_owing_def ex_completed_def newProviderDeal_def ex_proposal_def ex_params_def int64_small)

definition ex_whole :: SignedVoucher where
  "ex_whole = ex_voucher_1\<lparr>sv_Amount := 1000\<rparr>"

definition pay_with :: "SignedVoucher \<Rightarrow> DealPayment" where
  "pay_with sv = \<lparr>pay_ID = 1, pay_PaymentChannel = ''f2paych'', pay_PaymentVoucher = Some sv\<rparr>"



end
