(* ===== verification/Exchange.thy ===== *)
theory Exchange
  imports NodeProps ClientProps
begin

text \<open>
  One deal seen from both sides: the client's machine and its entry function that pays, payments on
  their way, the provider's machine and its revalidator that takes them, and the node that keeps
  the vouchers. The locale \<open>lane_keeper\<close> is what the revalidator relies on when it saves a voucher;
  the node over the payment channel manager meets it.
\<close>

section \<open>What saving a voucher promises\<close>

text \<open>\<open>redeemed\<close> is the amount of the deal's lane that the vouchers saved so far are worth. A voucher
  that is saved answers the amount it adds, or 0 when it is not worth more; one that is not leaves
  the lane alone.\<close>

locale lane_keeper =
  fixes node :: "'w RetrievalNode"
    and ch :: Address
    and redeemed :: "'w \<Rightarrow> TokenAmount"
    and good :: "'w \<Rightarrow> bool"
    and fine :: "SignedVoucher \<Rightarrow> bool"
  assumes head: "good w \<Longrightarrow> rn_GetChainHead node w = (rh, w') \<Longrightarrow> good w' \<and> redeemed w' = redeemed w"
    and saved: "good w \<Longrightarrow> fine v \<Longrightarrow> rn_SavePaymentVoucher node ch (Some v) [] d tok w = (Ok r, w') \<Longrightarrow>
      good w' \<and> (if r = 0 then redeemed w' = redeemed w \<and> sv_Amount v \<le> redeemed w
        else redeemed w' = sv_Amount v \<and> r = sv_Amount v - redeemed w \<and> redeemed w < sv_Amount v)"
    and refused: "good w \<Longrightarrow> fine v \<Longrightarrow> rn_SavePaymentVoucher node ch (Some v) [] d tok w = (Err e, w') \<Longrightarrow>
      good w' \<and> redeemed w' = redeemed w"

section \<open>Taking a payment\<close>

definition beside :: "('w, 'a) io \<Rightarrow> ('s \<times> 'w, 'a) io" where
  "beside m = (\<lambda>(s, w). case m w of (r, w') \<Rightarrow> (r, (s, w')))"

lemma beside_run: "beside m (s, w) = (fst (m w), (s, snd (m w)))"
  by (simp add: beside_def split: prod.splits)

definition node_beside :: "'w RetrievalNode \<Rightarrow> ('s \<times> 'w) RetrievalNode" where
  "node_beside n =
     \<lparr>rn_GetChainHead = beside (rn_GetChainHead n),
      rn_GetOrCreatePaymentChannel = (\<lambda>a b c d. beside (rn_GetOrCreatePaymentChannel n a b c d)),
      rn_CheckAvailableFunds = (\<lambda>a. beside (rn_CheckAvailableFunds n a)),
      rn_AllocateLane = (\<lambda>a. beside (rn_AllocateLane n a)),
      rn_CreatePaymentVoucher = (\<lambda>a b c d. beside (rn_CreatePaymentVoucher n a b c d)),
      rn_WaitForPaymentChannelReady = (\<lambda>a. beside (rn_WaitForPaymentChannelReady n a)),
      rn_GetKnownAddresses = (\<lambda>a b. beside (rn_GetKnownAddresses n a b)),
      rn_SavePaymentVoucher = (\<lambda>a b c d e. beside (rn_SavePaymentVoucher n a b c d e))\<rparr>"

text \<open>The revalidator's environment over one deal: the group reads and changes the deal, and
  \<open>GetSync\<close> waits for the events sent before.\<close>

type_synonym provider_fire =
  "provider_event list \<Rightarrow> DealStatus list \<Rightarrow> ProviderEvent \<Rightarrow> provider_arg list \<Rightarrow> ProviderDealState \<Rightarrow>
     ProviderDealState fsm_result"

definition send_deal :: "provider_fire \<Rightarrow> ProviderEvent \<Rightarrow> provider_arg list \<Rightarrow> (ProviderDealState \<times> 'w, unit) io" where
  "send_deal fire e args = (\<lambda>(p, w).
     case fire FsmProviderEvents ProviderFinalityStates e args p of
       Entered p' \<Rightarrow> (Ok (), (p', w))
     | Recorded p' \<Rightarrow> (Ok (), (p', w))
     | Rejected \<Rightarrow> (Ok (), (p, w))
     | Panicked \<Rightarrow> (Panic, (p, w)))"

definition deal_env :: "provider_fire \<Rightarrow> 'w RetrievalNode \<Rightarrow> (ProviderDealState \<times> 'w) RevalidatorEnvironment" where
  "deal_env fire node =
     \<lparr>re_Node = node_beside node, re_SendEvent = (\<lambda>_. send_deal fire), re_Get = (\<lambda>_ (p, w). (Ok p, (p, w)))\<rparr>"

lemma deal_env_simps [simp]:
  "rn_GetChainHead (re_Node (deal_env fire node)) = beside (rn_GetChainHead node)"
  "rn_SavePaymentVoucher (re_Node (deal_env fire node)) a b c d e = beside (rn_SavePaymentVoucher node a b c d e)"
  "re_SendEvent (deal_env fire node) i = send_deal fire"
  "re_Get (deal_env fire node) i (p, w) = (Ok p, (p, w))"
  by (simp_all add: deal_env_def node_beside_def)

text \<open>An event that is sent changes the books by its amount, or not at all.\<close>

lemma send_deal_books:
  assumes "provider_engine fire" "opened p" "send_deal fire e args (p, w) = (r, (p', w'))"
  shows "w' = w \<and> opened p' \<and>
    (pds_FundsReceived p' = pds_FundsReceived p \<or> pds_FundsReceived p' = pds_FundsReceived p + funds_of e args)"
proof (cases "fire FsmProviderEvents ProviderFinalityStates e args p")
  case (Entered p1)
  with provider_fire_books [OF assms(1,2) disjI1] assms(3) show ?thesis by (simp add: send_deal_def)
next
  case (Recorded p1)
  with provider_fire_books [OF assms(1,2) disjI2] assms(3) show ?thesis by (simp add: send_deal_def)
qed (use assms(2,3) in \<open>simp_all add: send_deal_def\<close>)

lemma settle_payment_books:
  assumes "provider_engine fire" "opened p"
    and "settle_payment (deal_env fire node) i p a (p, w) = (Ok reply, (p', w'))"
  shows "w' = w \<and> opened p' \<and>
    (pds_FundsReceived p' = pds_FundsReceived p \<or> pds_FundsReceived p' = pds_FundsReceived p + a)"
proof -
  have *: "w' = w \<and> opened p' \<and> (pds_FundsReceived p' = pds_FundsReceived p \<or> pds_FundsReceived p' = pds_FundsReceived p + a)"
    if "ignoreE (send_deal fire e [PArgAmount a]) (ret x) (p, w) = (Ok reply, (p', w'))" "funds_of e [PArgAmount a] = a"
    for e x
  proof -
    obtain r p1 w1 where s: "send_deal fire e [PArgAmount a] (p, w) = (r, (p1, w1))" by (metis prod_cases3)
    have "p' = p1 \<and> w' = w1" using that(1) s by (cases r) (auto simp: ignoreE_def ret_def)
    with send_deal_books [OF assms(1,2) s] that(2) show ?thesis by simp
  qed
  show ?thesis
    using assms(3) * by (auto simp: settle_payment_def Let_def split: if_splits)
qed

lemma failed_payment_books:
  assumes "provider_engine fire" "opened p"
    and "ignoreE (send_deal fire ProviderEventSaveVoucherFailed [PArgErr e]) (ret x) (p, w) = (Ok reply, (p', w'))"
  shows "w' = w \<and> opened p' \<and> pds_FundsReceived p' = pds_FundsReceived p"
proof -
  obtain r p1 w1 where s: "send_deal fire ProviderEventSaveVoucherFailed [PArgErr e] (p, w) = (r, (p1, w1))"
    by (metis prod_cases3)
  have "p' = p1 \<and> w' = w1" using assms(3) s by (cases r) (auto simp: ignoreE_def ret_def)
  with send_deal_books [OF assms(1,2) s] show ?thesis by simp
qed

context lane_keeper
begin

lemma processPayment_books:
  assumes "provider_engine fire" "opened p" "good w" "fine v" "pds_FundsReceived p \<le> redeemed w"
    and "pay_PaymentVoucher pay = Some v" "pay_PaymentChannel pay = ch"
    and "processPayment (deal_env fire node) i pay (p, w) = (Ok reply, (p', w'))"
  shows "good w' \<and> opened p' \<and> pds_FundsReceived p' \<le> redeemed w' \<and> (redeemed w' = redeemed w \<or> redeemed w' = sv_Amount v)"
proof -
  obtain rh w1 where h: "rn_GetChainHead node w = (rh, w1)" by fastforce
  then have g1: "good w1" "redeemed w1 = redeemed w" using head [OF assms(3)] by blast+
  obtain rs w2 where s: "rn_SavePaymentVoucher node ch (Some v) [] (payment_owed p) (fst (case rh of Ok x \<Rightarrow> x)) w1 = (rs, w2)"
    by fastforce
  show ?thesis
  proof (cases rh)
    case (Err e)
    with h assms(8) have "ignoreE (send_deal fire ProviderEventSaveVoucherFailed [PArgErr e])
        (ret (Some (errorDealResponse i e), Some e)) (p, w1) = (Ok reply, (p', w'))"
      by (simp add: processPayment_def tryE_def beside_run)
    from failed_payment_books [OF assms(1,2) this] g1 assms(5) show ?thesis by simp
  next
    case Panic
    with h assms(8) show ?thesis by (simp add: processPayment_def tryE_def beside_run)
  next
    case (Ok x)
    obtain tok height where x: "x = (tok, height)" by fastforce
    note s' = s [unfolded Ok x, simplified]
    show ?thesis
    proof (cases rs)
      case (Err e)
      with h Ok x s' assms(6-8) have "ignoreE (send_deal fire ProviderEventSaveVoucherFailed [PArgErr e])
          (ret (Some (errorDealResponse i e), Some e)) (p, w2) = (Ok reply, (p', w'))"
        by (simp add: processPayment_def tryE_def beside_run)
      from failed_payment_books [OF assms(1,2) this] refused [OF g1(1) assms(4) s' [unfolded Err]] g1 assms(5)
      show ?thesis by simp
    next
      case Panic
      with h Ok x s' assms(6-8) show ?thesis by (simp add: processPayment_def tryE_def beside_run)
    next
      case r: (Ok r)
      note sv = saved [OF g1(1) assms(4) s' [unfolded r]]
      have "settle_payment (deal_env fire node) i p (if r = 0 then sv_Amount v - pds_FundsReceived p else r) (p, w2) =
          (Ok reply, (p', w'))"
        using h Ok x s' r assms(6-8) by (simp add: processPayment_def tryE_def beside_run split: if_splits)
      from settle_payment_books [OF assms(1,2) this] sv g1 assms(5) show ?thesis by (auto split: if_splits)
    qed
  qed
qed

end

section \<open>Paying\<close>

text \<open>
  What the client's side promises: \<open>wire\<close> are the payments on their way. Sending one puts it behind
  the others or fails; creating a voucher for an amount that is not negative gives one of that
  amount that the provider's node can check; neither touches payments on their way.
\<close>

definition pays_by :: "'c ClientDealEnvironment \<Rightarrow> ('c \<Rightarrow> DealPayment list) \<Rightarrow> Address \<Rightarrow> (SignedVoucher \<Rightarrow> bool) \<Rightarrow> bool" where
  "pays_by env wire ch fine \<longleftrightarrow>
     (\<forall>m r m'. rn_GetChainHead (cde_Node env) m = (r, m') \<longrightarrow> wire m' = wire m) \<and>
     (\<forall>amt l tok m r m'. rn_CreatePaymentVoucher (cde_Node env) ch amt l tok m = (r, m') \<longrightarrow> wire m' = wire m \<and>
        (\<forall>v. r = Ok v \<longrightarrow> 0 \<le> amt \<longrightarrow> sv_Amount v = amt \<and> fine v)) \<and>
     (\<forall>c pay m r m'. cde_SendDataTransferVoucher env c pay m = (r, m') \<longrightarrow> wire m' = wire m \<or> wire m' = wire m @ [pay])"

lemma pays_byD:
  assumes "pays_by env wire ch fine"
  shows "rn_GetChainHead (cde_Node env) m = (rh, m') \<Longrightarrow> wire m' = wire m"
    and "rn_CreatePaymentVoucher (cde_Node env) ch amt l tok m = (rv, m') \<Longrightarrow> wire m' = wire m"
    and "rn_CreatePaymentVoucher (cde_Node env) ch amt l tok m = (Ok v, m') \<Longrightarrow> 0 \<le> amt \<Longrightarrow> sv_Amount v = amt \<and> fine v"
    and "cde_SendDataTransferVoucher env c pay m = (rs, m') \<Longrightarrow> wire m' = wire m \<or> wire m' = wire m @ [pay]"
  using assms unfolding pays_by_def by blast+

lemma SendFunds_pays:
  assumes "pays_by env wire ch fine" "cds_PaymentInfo d = Some info" "PayCh info = ch" "0 \<le> client_account d"
    and "SendFunds env d m = (r, m')"
  shows "wire m' = wire m \<or> (\<exists>v. wire m' = wire m @ [\<lparr>pay_ID = cds_ID d, pay_PaymentChannel = ch, pay_PaymentVoucher = Some v\<rparr>] \<and>
    sv_Amount v = client_account d \<and> fine v)"
proof (cases "cds_PaymentRequested d > retrievalPrice d")
  case True
  with assms(5) show ?thesis by (simp add: SendFunds_def trigger_def ret_def)
next
  case False
  obtain rh m1 where h: "rn_GetChainHead (cde_Node env) m = (rh, m1)" by fastforce
  note w1 = pays_byD(1) [OF assms(1) h]
  show ?thesis
  proof (cases rh)
    case (Ok x)
    obtain tok height where x: "x = (tok, height)" by fastforce
    obtain rv m2 where v: "rn_CreatePaymentVoucher (cde_Node env) ch (client_account d) (Lane info) tok m1 = (rv, m2)"
      by fastforce
    note w2 = pays_byD(2) [OF assms(1) v]
    show ?thesis
    proof (cases rv)
      case voucher: (Ok sv)
      let ?pay = "\<lparr>pay_ID = cds_ID d, pay_PaymentChannel = ch, pay_PaymentVoucher = Some sv\<rparr>"
      obtain rs m3 where s: "cde_SendDataTransferVoucher env (cds_ChannelID d) ?pay m2 = (rs, m3)" by fastforce
      have "m' = m3"
        using assms(2,3,5) False h Ok x v voucher s
        by (cases rs) (simp_all add: SendFunds_def tryE_def trigger_def ret_def client_account_def)
      with pays_byD(4) [OF assms(1) s] pays_byD(3) [OF assms(1) v [unfolded voucher] assms(4)] w1 w2
      show ?thesis by auto
    next
      case (Err e)
      have "m' = m2"
        using assms(2,3,5) False h Ok x v Err
        by (cases e) (simp_all add: SendFunds_def tryE_def trigger_def ret_def client_account_def)
      with w1 w2 show ?thesis by simp
    next
      case Panic
      with assms(2,3,5) False h Ok x v have "m' = m2"
        by (simp add: SendFunds_def tryE_def client_account_def)
      with w1 w2 show ?thesis by simp
    qed
  qed (use assms(5) False h w1 in \<open>simp_all add: SendFunds_def tryE_def trigger_def ret_def\<close>)
qed

section \<open>The exchange\<close>

record ('c, 'w) exchange =
  xc :: ClientDealState
  xm :: 'c \<comment> \<open>the client's world, with the payments on their way\<close>
  xp :: ProviderDealState
  xn :: 'w \<comment> \<open>the world of the provider's node\<close>

type_synonym client_fire =
  "client_event list \<Rightarrow> DealStatus list \<Rightarrow> ClientEvent \<Rightarrow> client_arg list \<Rightarrow> ClientDealState \<Rightarrow> ClientDealState fsm_result"

text \<open>
  The steps of both sides in any order: an event of the client's machine (the requests for payment
  are not negative); its entry function that pays; anything in the client's world that leaves the
  payments alone; a payment that is lost; an event of the provider's machine that books no payment;
  and a payment that arrives.
\<close>

inductive exchanges ::
    "client_fire \<Rightarrow> provider_fire \<Rightarrow> 'c ClientDealEnvironment \<Rightarrow> ('c \<Rightarrow> DealPayment list) \<Rightarrow> 'w RetrievalNode \<Rightarrow>
     Address \<Rightarrow> ('c, 'w) exchange \<Rightarrow> ('c, 'w) exchange \<Rightarrow> bool"
  for cfire pfire env wire node ch where
  client_event: "cfire FsmClientEvents ClientFinalityStates e args (xc s) = Entered c \<or>
       cfire FsmClientEvents ClientFinalityStates e args (xc s) = Recorded c \<Longrightarrow>
     0 \<le> owed_of e args \<Longrightarrow> exchanges cfire pfire env wire node ch s (s\<lparr>xc := c\<rparr>)"
| client_pays: "cds_Status (xc s) \<in> {DealStatusSendFunds, DealStatusSendFundsLastPayment} \<Longrightarrow>
     cds_PaymentInfo (xc s) = Some info \<Longrightarrow> PayCh info = ch \<Longrightarrow> SendFunds env (xc s) (xm s) = (r, m) \<Longrightarrow>
     exchanges cfire pfire env wire node ch s (s\<lparr>xm := m\<rparr>)"
| client_world: "wire m = wire (xm s) \<Longrightarrow> exchanges cfire pfire env wire node ch s (s\<lparr>xm := m\<rparr>)"
| lost: "wire (xm s) = pay # wire m \<Longrightarrow> exchanges cfire pfire env wire node ch s (s\<lparr>xm := m\<rparr>)"
| provider_event: "pfire FsmProviderEvents ProviderFinalityStates e args (xp s) = Entered p \<or>
       pfire FsmProviderEvents ProviderFinalityStates e args (xp s) = Recorded p \<Longrightarrow>
     funds_of e args = 0 \<Longrightarrow> exchanges cfire pfire env wire node ch s (s\<lparr>xp := p\<rparr>)"
| received: "wire (xm s) = pay # wire m \<Longrightarrow>
     processPayment (deal_env pfire node) i pay (xp s, xn s) = (Ok reply, (p, n)) \<Longrightarrow>
     exchanges cfire pfire env wire node ch s (s\<lparr>xm := m, xp := p, xn := n\<rparr>)"

text \<open>Runs of one machine are runs of the exchange.\<close>

lemma exchanges_client_run:
  assumes "fsm_run (cfire FsmClientEvents ClientFinalityStates) evs (xc s) = Some c"
    and "\<forall>(e, args) \<in> set evs. 0 \<le> owed_of e args"
  shows "(exchanges cfire pfire env wire node ch)\<^sup>*\<^sup>* s (s\<lparr>xc := c\<rparr>)"
  using assms
proof (induction evs arbitrary: s)
  case (Cons ev evs)
  obtain e args where ev: "ev = (e, args)" by fastforce
  have "(exchanges cfire pfire env wire node ch)\<^sup>*\<^sup>* s (s\<lparr>xc := c\<rparr>)"
    if f: "cfire FsmClientEvents ClientFinalityStates e args (xc s) = Entered c1 \<or>
        cfire FsmClientEvents ClientFinalityStates e args (xc s) = Recorded c1" for c1
  proof -
    have "exchanges cfire pfire env wire node ch s (s\<lparr>xc := c1\<rparr>)"
      using f Cons.prems(2) by (intro exchanges.client_event) (auto simp: ev)
    moreover have "(exchanges cfire pfire env wire node ch)\<^sup>*\<^sup>* (s\<lparr>xc := c1\<rparr>) (s\<lparr>xc := c1\<rparr>\<lparr>xc := c\<rparr>)"
      using f Cons.prems by (intro Cons.IH) (auto simp: ev)
    ultimately show ?thesis by simp
  qed
  with Cons show ?case by (auto simp: ev split: fsm_result.splits)
qed auto

lemma exchanges_provider_run:
  assumes "fsm_run (pfire FsmProviderEvents ProviderFinalityStates) evs (xp s) = Some p"
    and "\<forall>(e, args) \<in> set evs. funds_of e args = 0"
  shows "(exchanges cfire pfire env wire node ch)\<^sup>*\<^sup>* s (s\<lparr>xp := p\<rparr>)"
  using assms
proof (induction evs arbitrary: s)
  case (Cons ev evs)
  obtain e args where ev: "ev = (e, args)" by fastforce
  have "(exchanges cfire pfire env wire node ch)\<^sup>*\<^sup>* s (s\<lparr>xp := p\<rparr>)"
    if f: "pfire FsmProviderEvents ProviderFinalityStates e args (xp s) = Entered p1 \<or>
        pfire FsmProviderEvents ProviderFinalityStates e args (xp s) = Recorded p1" for p1
  proof -
    have "exchanges cfire pfire env wire node ch s (s\<lparr>xp := p1\<rparr>)"
      using f Cons.prems(2) by (intro exchanges.provider_event) (auto simp: ev)
    moreover have "(exchanges cfire pfire env wire node ch)\<^sup>*\<^sup>* (s\<lparr>xp := p1\<rparr>) (s\<lparr>xp := p1\<rparr>\<lparr>xp := p\<rparr>)"
      using f Cons.prems by (intro Cons.IH) (auto simp: ev)
    ultimately show ?thesis by simp
  qed
  with Cons show ?case by (auto simp: ev split: fsm_result.splits)
qed auto

definition payment_ok :: "Address \<Rightarrow> (SignedVoucher \<Rightarrow> bool) \<Rightarrow> TokenAmount \<Rightarrow> DealPayment \<Rightarrow> bool" where
  "payment_ok ch fine most pay \<longleftrightarrow> pay_PaymentChannel pay = ch \<and>
     (\<exists>v. pay_PaymentVoucher pay = Some v \<and> fine v \<and> sv_Amount v \<le> most)"

lemma payment_ok_mono: "payment_ok ch fine a pay \<Longrightarrow> a \<le> b \<Longrightarrow> payment_ok ch fine b pay"
  by (auto simp: payment_ok_def)

context lane_keeper
begin

definition exchange_inv :: "('c \<Rightarrow> DealPayment list) \<Rightarrow> ('c, 'w) exchange \<Rightarrow> bool" where
  "exchange_inv wire s \<longleftrightarrow> 0 \<le> client_account (xc s) \<and> opened (xp s) \<and> good (xn s) \<and>
     pds_FundsReceived (xp s) \<le> redeemed (xn s) \<and> redeemed (xn s) \<le> client_account (xc s) \<and>
     list_all (payment_ok ch fine (client_account (xc s))) (wire (xm s))"

lemma exchange_inv_step:
  assumes "client_engine cfire" "provider_engine pfire" "pays_by env wire ch fine"
    and "exchanges cfire pfire env wire node ch s s'" "exchange_inv wire s"
  shows "exchange_inv wire s'"
  using assms(4)
proof cases
  case (client_event e args c)
  have "client_account c = client_account (xc s) + owed_of e args"
    using client_fire_account [OF assms(1) client_event(2)] .
  with client_event(3) assms(5) show ?thesis
    by (auto simp: client_event(1) exchange_inv_def list_all_iff intro: payment_ok_mono)
next
  case (client_pays info r m)
  have "0 \<le> client_account (xc s)" using assms(5) by (simp add: exchange_inv_def)
  from SendFunds_pays [OF assms(3) client_pays(3,4) this client_pays(5)] assms(5) show ?thesis
    by (auto simp: client_pays(1) exchange_inv_def payment_ok_def)
next
  case (client_world m)
  with assms(5) show ?thesis by (simp add: exchange_inv_def)
next
  case (lost pay m)
  with assms(5) show ?thesis by (simp add: exchange_inv_def)
next
  case (provider_event e args p)
  with provider_fire_books [OF assms(2) _ provider_event(2)] assms(5) show ?thesis by (simp add: exchange_inv_def)
next
  case (received pay m i reply p n)
  have inv: "opened (xp s)" "good (xn s)" "pds_FundsReceived (xp s) \<le> redeemed (xn s)"
    "payment_ok ch fine (client_account (xc s)) pay"
    using assms(5) received(2) by (simp_all add: exchange_inv_def)
  then obtain v where v: "pay_PaymentVoucher pay = Some v" "pay_PaymentChannel pay = ch" "fine v"
      "sv_Amount v \<le> client_account (xc s)" by (auto simp: payment_ok_def)
  from processPayment_books [OF assms(2) inv(1,2) v(3) inv(3) v(1,2) received(3)] v(4) assms(5) received(2)
  show ?thesis by (auto simp: received(1) exchange_inv_def)
qed

lemma exchange_inv_reach:
  assumes "client_engine cfire" "provider_engine pfire" "pays_by env wire ch fine"
    and "(exchanges cfire pfire env wire node ch)\<^sup>*\<^sup>* s s'" "exchange_inv wire s"
  shows "exchange_inv wire s'"
  using assms(4,5) by induction (auto intro: exchange_inv_step [OF assms(1-3)])

lemma exchange_inv_start:
  assumes "provider_engine pfire" "client_started (xc s)" "wire (xm s) = []" "good (xn s)" "redeemed (xn s) = 0"
    and "pfire FsmProviderEvents ProviderFinalityStates ProviderEventOpen [] (newProviderDeal proposal peer) = Entered (xp s)"
  shows "exchange_inv wire s"
proof -
  have "xp s = (newProviderDeal proposal peer)\<lparr>pds_CurrentInterval := PaymentInterval (dp_Params proposal)\<rparr>"
    using assms(6) by (simp add: provider_fire_eq [OF assms(1)] newProviderDeal_def set_ProviderFinalityStates)
  moreover have "client_account (xc s) = 0"
    using assms(2) by (auto simp: client_started_def newClientDeal_def client_account_def)
  ultimately show ?thesis
    using assms(3-5) by (simp add: exchange_inv_def newProviderDeal_def opened_def)
qed

end

section \<open>The provider's books and the client's\<close>


end
