(* ===== verification/LaneKeeper.thy ===== *)
theory LaneKeeper
  imports Exchange
begin

text \<open>
  The node over the payment channel manager meets \<open>lane_keeper\<close> for a lane of a channel that it
  tracks, as long as nothing of the lane is on the chain.
\<close>

section \<open>The lanes of the stored vouchers\<close>

lemma apply_vouchers_append:
  "apply_vouchers (us @ vs) lanes = bind_go (apply_vouchers us lanes) (apply_vouchers vs)"
  by (induction us lanes rule: apply_vouchers.induct) (auto simp: Let_def split: option.splits)

text \<open>An accepted voucher becomes the worth of its lane.\<close>

lemma redeemed_with_voucher:
  assumes "apply_vouchers vs [] = Ok lanes" "sv_Merges sv = []"
    and "\<forall>ls. map_of lanes (sv_Lane sv) = Some ls \<longrightarrow> ls_nonce ls < sv_Nonce sv"
  shows "\<exists>lanes'. apply_vouchers (vs @ [\<lparr>vi_Voucher = Some sv, vi_Proof = p, vi_Submitted = b\<rparr>]) [] = Ok lanes' \<and>
    redeemed_in lanes' (sv_Lane sv) = sv_Amount sv \<and> (\<forall>l. l \<noteq> sv_Lane sv \<longrightarrow> redeemed_in lanes' l = redeemed_in lanes l)"
  using assms
  by (cases "map_of lanes (sv_Lane sv)") (auto simp: apply_vouchers_append redeemed_in_def update_conv' not_less_iff_gr_or_eq)

definition lane_worth :: "'w channelStore \<Rightarrow> Address \<Rightarrow> u64 \<Rightarrow> 'w \<Rightarrow> TokenAmount" where
  "lane_worth s ch l w = (case fst (ByAddress s ch w) of
       Ok ci \<Rightarrow> (case apply_vouchers (ci_Vouchers ci) [] of Ok lanes \<Rightarrow> redeemed_in lanes l | _ \<Rightarrow> 0)
     | _ \<Rightarrow> 0)"

text \<open>No more than 8192 vouchers can be written.\<close>

lemma seq_w_all: "seq_w ms = Ok b \<Longrightarrow> m \<in> set ms \<Longrightarrow> \<exists>c. m = Ok c"
  by (induction ms arbitrary: b) (auto elim!: bind_go_Ok)

lemma Marshal_ChannelInfo_length:
  assumes "Marshal_ChannelInfo cb ci = Ok b"
  shows "length (ci_Vouchers ci) \<le> cg_MaxLength cb"
proof -
  have "w_array cb ''Vouchers'' (Marshal_VoucherInfo cb) (ci_Vouchers ci) \<in>
      set (Ok [172] # Marshal_ChannelInfo_1 cb ci @ Marshal_ChannelInfo_2 cb ci)"
    by (simp add: Marshal_ChannelInfo_1_def)
  from seq_w_all [OF assms [unfolded Marshal_ChannelInfo_def] this] show ?thesis
    by (auto simp: w_array_def split: if_splits)
qed

context channel_store
begin

lemma put_result:
  assumes "ci_ChannelID ci \<noteq> ''''" "putChannelInfo s ci w = (r, w')"
  shows "r = Ok x \<Longrightarrow> length (ci_Vouchers ci) \<le> 8192" and "r = Err e \<Longrightarrow> w' = w"
proof -
  note run = assms(2) [unfolded putChannelInfo_def marshallChannelInfo_def Let_def]
  show "length (ci_Vouchers ci) \<le> 8192" if "r = Ok x"
  proof (cases "Marshal_ChannelInfo (cs_cbg s) (filled s ci)")
    case (Ok b)
    from Marshal_ChannelInfo_length [OF this] show ?thesis by (simp add: MaxLength filled_def split: if_splits)
  qed (use run that assms(1) in \<open>auto simp: filled_def fail_def panic_def bindE_def ret_def split: if_splits\<close>)
  show "w' = w" if "r = Err e"
  proof (cases "Marshal_ChannelInfo (cs_cbg s) (filled s ci)")
    case (Ok b)
    obtain w1 where "ds_Put (cs_ds s) (dskeyForChannel (ci_ChannelID ci)) b w = (Ok (), w1)" by (rule PutE)
    with Ok run that assms(1) show ?thesis by (auto simp: filled_def bindE_def ret_def split: if_splits)
  qed (use run that assms(1) in \<open>auto simp: filled_def fail_def panic_def bindE_def ret_def split: if_splits\<close>)
qed

end

context voucher_channel
begin

lemma with_voucher_ID: "ok w \<Longrightarrow> sole ch ci w \<Longrightarrow> ci_ChannelID (with_voucher ci sv) \<noteq> ''''"
  using store_ok_chan [of "ca_store ca" "contents w"] by (auto simp: sole_channel_def with_voucher_def)

lemma stored_voucher_room:
  assumes "ok w" "sole ch ci w" "\<forall>v\<in>set (ci_Vouchers ci). vi_Voucher v \<noteq> Some sv"
    and "encodable (cs_cbg (ca_store ca)) sv"
    and "addVoucherUnlocked ca ch (Some sv) minDelta w = (Ok d, w')"
  shows "length (ci_Vouchers ci) < 8192"
proof -
  obtain x w1 w2 where put: "putChannelInfo (ca_store ca) (with_voucher ci sv) w1 = (Ok x, w2)"
    using assms(5) unfolding addVoucher_new [OF assms(1-4)] Let_def
  proof (rule bindE_Ok, goal_cases)
    case (1 lanes w1)
    then show ?case by (cases "minDelta > sv_Amount sv - redeemed_in lanes (sv_Lane sv)") (auto elim!: bindE_Ok)
  qed
  from put_result(1) [OF with_voucher_ID [OF assms(1,2)] put refl] show ?thesis by (simp add: with_voucher_def)
qed

lemma addVoucher_new_Err:
  assumes "ok w" "sole ch ci w" "\<forall>v\<in>set (ci_Vouchers ci). vi_Voucher v \<noteq> Some sv"
    and "encodable (cs_cbg (ca_store ca)) sv" "sv_ChannelAddr sv = ch"
    and "addVoucherUnlocked ca ch (Some sv) minDelta w = (Err e, w')"
  shows "contents w' = contents w"
proof -
  obtain r w1 where check: "checkVoucherValidUnlocked ca ch (Some sv) w = (r, w1)" by fastforce
  have "keeps contents (bindE (chain_view (ca_api ca) ch sv) (\<lambda>(act, chain).
      lift_go (bind_go (apply_vouchers (ci_Vouchers ci) chain) (\<lambda>lanes. check_lanes act lanes sv))))"
    by (auto intro!: keeps_bindE)
  from keepsD [OF this check [unfolded checkVoucher_sole [OF assms(1,2,5)]]] have w1: "contents w1 = contents w" .
  show ?thesis
  proof (cases r)
    case (Ok lanes)
    obtain rp w2 where put: "putChannelInfo (ca_store ca) (with_voucher ci sv) w1 = (rp, w2)" by fastforce
    have "w' = w1 \<or> (w' = w2 \<and> rp = Err e)"
      using assms(6) check Ok put unfolding addVoucher_new [OF assms(1-4)]
      by (cases rp) (auto simp: Let_def fail_def bindE_def ret_def split: if_splits)
    with put_result(2) [OF with_voucher_ID [OF assms(1,2)] put] w1 show ?thesis by auto
  qed (use assms(6) check w1 in \<open>simp_all add: addVoucher_new [OF assms(1-4)]\<close>)
qed

end

text \<open>What an operation returns, whatever it was called in.\<close>

definition yields :: "('a \<Rightarrow> bool) \<Rightarrow> ('w, 'a) io \<Rightarrow> bool" where
  "yields P m \<longleftrightarrow> (\<forall>w x w'. m w = (Ok x, w') \<longrightarrow> P x)"

lemma yields_bindE: "(\<And>x. yields P (f x)) \<Longrightarrow> yields P (bindE m f)"
  unfolding yields_def by (metis bindE_Ok)

section \<open>A lane that is off the chain\<close>

text \<open>The lane \<open>l\<close> of the channel \<open>ch\<close>; the chain has no lane of a channel that was not settled.\<close>

locale off_chain_lane = voucher_channel ca contents rest room
  for ca :: "'w accessor" and contents :: "'w \<Rightarrow> ds_key \<Rightarrow> bytes option" and rest :: "'w \<Rightarrow> 'r"
    and room :: "'w \<Rightarrow> bool" +
  fixes rn :: "'w retrievalNode" and ch :: Address and l :: u64
  assumes manager: "ca = pm_accessor (rtn_pm rn)"
    and payments: "rtn_tmode rn = TestModeOff"
    and no_lanes: "fn_ForEach (ca_api ca) st w = (Ok ls, w') \<Longrightarrow> ls = []"
    and chain_head: "keeps contents (la_ChainHead (rtn_api rn))"
begin

definition lane_good :: "'w \<Rightarrow> bool" where
  "lane_good w \<longleftrightarrow> ok w \<and> (\<exists>ci lanes. sole ch ci w \<and> apply_vouchers (ci_Vouchers ci) [] = Ok lanes \<and>
     (\<forall>v\<in>set (ci_Vouchers ci). \<forall>sv. vi_Voucher v = Some sv \<longrightarrow> sv_Lane sv = l \<longrightarrow> sv_Amount sv \<le> redeemed_in lanes l))"

definition lane_fine :: "SignedVoucher \<Rightarrow> bool" where
  "lane_fine sv \<longleftrightarrow> encodable (cs_cbg (ca_store ca)) sv \<and> sv_ChannelAddr sv = ch \<and> sv_Lane sv = l \<and> 0 \<le> sv_Amount sv"

lemma lane_worth_sole:
  "ok w \<Longrightarrow> sole ch ci w \<Longrightarrow> apply_vouchers (ci_Vouchers ci) [] = Ok lanes \<Longrightarrow>
     lane_worth (ca_store ca) ch l w = redeemed_in lanes l"
  using ByAddress_sole [of w ch ci] by (simp add: lane_worth_def)

lemma lane_cong:
  assumes "lane_good w" "contents w' = contents w"
  shows "lane_good w' \<and> lane_worth (ca_store ca) ch l w' = lane_worth (ca_store ca) ch l w"
proof -
  obtain ci lanes where ci: "ok w" "sole ch ci w" "apply_vouchers (ci_Vouchers ci) [] = Ok lanes"
    using assms(1) unfolding lane_good_def by blast
  then have "ok w'" "sole ch ci w'" using assms(2) by simp_all
  from lane_worth_sole [OF this ci(3)] lane_worth_sole [OF ci] show ?thesis
    using assms unfolding lane_good_def by simp
qed

lemma chain_view_empty:
  assumes "chain_view (ca_api ca) ch sv w = (Ok (act, chain), w')"
  shows "chain = []"
proof -
  have lanes: "yields (\<lambda>p. snd p = []) (bindE (fn_ForEach (ca_api ca) x) (\<lambda>ls. ret (act, fold (\<lambda>(i, l). AList.update i l) ls [])))"
    for x act
    unfolding yields_def
  proof (intro allI impI)
    fix w p w'
    assume run: "bindE (fn_ForEach (ca_api ca) x) (\<lambda>ls. ret (act, fold (\<lambda>(i, l). AList.update i l) ls [])) w = (Ok p, w')"
    obtain ls w1 where "fn_ForEach (ca_api ca) x w = (Ok ls, w1)"
        "ret (act, fold (\<lambda>(i, l). AList.update i l) ls []) w1 = (Ok p, w')"
      using run by (rule bindE_Ok)
    with no_lanes show "snd p = []" by fastforce
  qed
  have "yields (\<lambda>p. snd p = []) (chain_view (ca_api ca) ch sv)"
    unfolding chain_view_def by (auto simp: split_def intro!: yields_bindE lanes [unfolded split_def])
  with assms show ?thesis unfolding yields_def by fastforce
qed

text \<open>Saving a voucher of the lane.\<close>

lemma add_fine:
  assumes "lane_good w" "lane_fine v" "addVoucherUnlocked ca ch (Some v) d w = (r, w')"
  shows "r = Ok x \<Longrightarrow> lane_good w' \<and>
      (if x = 0 then lane_worth (ca_store ca) ch l w' = lane_worth (ca_store ca) ch l w \<and>
         sv_Amount v \<le> lane_worth (ca_store ca) ch l w
       else lane_worth (ca_store ca) ch l w' = sv_Amount v \<and> x = sv_Amount v - lane_worth (ca_store ca) ch l w \<and>
         lane_worth (ca_store ca) ch l w < sv_Amount v)"
    and "r = Err e \<Longrightarrow> contents w' = contents w"
proof -
  obtain ci lanes where ci: "ok w" "sole ch ci w" "apply_vouchers (ci_Vouchers ci) [] = Ok lanes"
      "\<forall>v\<in>set (ci_Vouchers ci). \<forall>sv. vi_Voucher v = Some sv \<longrightarrow> sv_Lane sv = l \<longrightarrow> sv_Amount sv \<le> redeemed_in lanes l"
    using assms(1) unfolding lane_good_def by blast
  note worth = lane_worth_sole [OF ci(1-3)]
  have v: "encodable (cs_cbg (ca_store ca)) v" "sv_ChannelAddr v = ch" "sv_Lane v = l" "0 \<le> sv_Amount v"
    using assms(2) by (simp_all add: lane_fine_def)
  show "lane_good w' \<and>
      (if x = 0 then lane_worth (ca_store ca) ch l w' = lane_worth (ca_store ca) ch l w \<and>
         sv_Amount v \<le> lane_worth (ca_store ca) ch l w
       else lane_worth (ca_store ca) ch l w' = sv_Amount v \<and> x = sv_Amount v - lane_worth (ca_store ca) ch l w \<and>
         lane_worth (ca_store ca) ch l w < sv_Amount v)" if r: "r = Ok x"
  proof (cases "\<exists>u\<in>set (ci_Vouchers ci). vi_Voucher u = Some v")
    case True
    then obtain u where u: "u \<in> set (ci_Vouchers ci)" "vi_Voucher u = Some v" by blast
    from addVoucher_again [OF ci(1,2) u] r assms(3) have "x = 0" "w' = w" by simp_all
    with ci(4) u v(3) assms(1) worth show ?thesis by auto
  next
    case False
    then have new: "\<forall>u\<in>set (ci_Vouchers ci). vi_Voucher u \<noteq> Some v" by blast
    obtain act lanes' where acc: "accepts ca ci ch v d w act lanes'" "x = sv_Amount v - redeemed_in lanes' (sv_Lane v)"
      by (rule addVoucher_new_OkD [OF ci(1,2) new v(1) assms(3) [unfolded r]])
    obtain chain w1 where c: "chain_view (ca_api ca) ch v w = (Ok (act, chain), w1)" "apply_vouchers (ci_Vouchers ci) chain = Ok lanes'"
      using acc(1) unfolding accepts_def by blast
    have l': "lanes' = lanes" using c(2) ci(3) chain_view_empty [OF c(1)] by simp
    note accl = accepts_lanes [OF acc(1)]
    have room: "length (ci_Vouchers ci) < 8192" by (rule stored_voucher_room [OF ci(1,2) new v(1) assms(3) [unfolded r]])
    obtain w2 where w2: "addVoucherUnlocked ca ch (Some v) d w = (Ok (sv_Amount v - redeemed_in lanes' (sv_Lane v)), w2)"
        "ok w2" "sole ch (with_voucher ci v) w2"
      by (rule addVoucher_new_Ok [OF ci(1,2) new storable_with_voucher [OF sole_storable [OF ci(1,2)] v(1) room] v(1) acc(1)])
    then have w': "w' = w2" using assms(3) by simp
    obtain lanes2 where lanes2: "apply_vouchers (ci_Vouchers (with_voucher ci v)) [] = Ok lanes2" "redeemed_in lanes2 l = sv_Amount v"
      using redeemed_with_voucher [OF ci(3) accl(2)] accl(4) l' v(3) by (fastforce simp: with_voucher_def)
    have worth': "lane_worth (ca_store ca) ch l w' = sv_Amount v"
      using lane_worth_sole [OF w2(2,3) lanes2(1)] lanes2(2) w' by simp
    have more: "redeemed_in lanes l < sv_Amount v \<or> redeemed_in lanes l = 0 \<and> sv_Amount v \<ge> 0"
      using accl(4) l' v(3,4) by (cases "map_of lanes l") (auto simp: redeemed_in_def)
    have "redeemed_in lanes l \<le> sv_Amount v" using more by auto
    then have "lane_good w'"
      unfolding lane_good_def w'
      using w2(2,3) lanes2 ci(4) by (intro conjI exI [of _ "with_voucher ci v"] exI [of _ lanes2])
        (auto simp: with_voucher_def intro: order_trans)
    then show ?thesis using acc(2) worth worth' l' v(3) more by auto
  qed
  show "contents w' = contents w" if r: "r = Err e"
  proof (cases "\<exists>u\<in>set (ci_Vouchers ci). vi_Voucher u = Some v")
    case True
    then show ?thesis using addVoucher_again [OF ci(1,2)] r assms(3) by auto
  next
    case False
    then have new: "\<forall>u\<in>set (ci_Vouchers ci). vi_Voucher u \<noteq> Some v" by blast
    show ?thesis by (rule addVoucher_new_Err [OF ci(1,2) new v(1,2) assms(3) [unfolded r]])
  qed
qed

text \<open>The node's calls, in the world of the manager.\<close>

lemma node_SavePaymentVoucher_run:
  assumes "lane_good w"
  shows "\<exists>m'. rn_SavePaymentVoucher (NewRetrievalNode rn sched c1 c2) ch (Some v) [] d tok (m, w) =
    (fst (addVoucherUnlocked ca ch (Some v) d w), (m', snd (addVoucherUnlocked ca ch (Some v) d w)))"
proof -
  obtain ci where "ok w" "sole ch ci w" using assms unfolding lane_good_def by blast
  from AddVoucherInbound_tracked [OF manager this, of "Some v" d m] payments show ?thesis
    by (simp add: NewRetrievalNode_def node_SavePaymentVoucher_def)
qed

lemma node_GetChainHead_keeps:
  assumes "rn_GetChainHead (NewRetrievalNode rn sched c1 c2) (m, w) = (r, (m', w'))"
  shows "contents w' = contents w"
proof -
  obtain rh w1 where h: "la_ChainHead (rtn_api rn) w = (rh, w1)" by fastforce
  have "w' = w1" using assms payments h
    by (cases rh) (auto simp: NewRetrievalNode_def node_GetChainHead_def on_node_def ret_def bindE_def split: prod.splits)
  with keepsD [OF chain_head h] show ?thesis by simp
qed

sublocale lane_keeper "NewRetrievalNode rn sched c1 c2" ch "\<lambda>(m, w). lane_worth (ca_store ca) ch l w"
  "\<lambda>(m, w). lane_good w" lane_fine for sched c1 c2
proof
  fix s s' :: "managerState \<times> 'w" and rh v d tok r e
  obtain m w m' w' where s: "s = (m, w)" "s' = (m', w')" by (metis surj_pair)
  let ?node = "NewRetrievalNode rn sched c1 c2" and ?good = "\<lambda>(m, w). lane_good w"
    and ?worth = "\<lambda>(m, w). lane_worth (ca_store ca) ch l w"
  show "?good s' \<and> ?worth s' = ?worth s" if "?good s" "rn_GetChainHead ?node s = (rh, s')"
    using lane_cong [of w w'] node_GetChainHead_keeps [of sched c1 c2 m w rh m' w'] that by (simp add: s)
  have add: "addVoucherUnlocked ca ch (Some v) d w = (x, w')"
    if "?good s" "rn_SavePaymentVoucher ?node ch (Some v) [] d tok s = (x, s')" for x
    using node_SavePaymentVoucher_run [of w sched c1 c2 v d tok m] that by (cases "addVoucherUnlocked ca ch (Some v) d w") (auto simp: s)
  show "?good s' \<and> (if r = 0 then ?worth s' = ?worth s \<and> sv_Amount v \<le> ?worth s
      else ?worth s' = sv_Amount v \<and> r = sv_Amount v - ?worth s \<and> ?worth s < sv_Amount v)"
    if g: "?good s" and f: "lane_fine v" and run: "rn_SavePaymentVoucher ?node ch (Some v) [] d tok s = (Ok r, s')"
    using add_fine(1) [OF _ f add [OF g run] refl] g by (simp add: s)
  show "?good s' \<and> ?worth s' = ?worth s"
    if g: "?good s" and f: "lane_fine v" and run: "rn_SavePaymentVoucher ?node ch (Some v) [] d tok s = (Err e, s')"
    using add_fine(2) [OF _ f add [OF g run] refl] lane_cong [of w w'] g by (simp add: s)
qed

end

section \<open>Witness\<close>

text \<open>Lane 3 of the example channel, and a client whose world is the payments on their way.\<close>

interpretation ex_lane: off_chain_lane "pm_accessor ex_pm" mem_contents snd mem_room ex_rn "''f2paych''" 3
proof (intro off_chain_lane.intro off_chain_lane_axioms.intro)
  show "voucher_channel (pm_accessor ex_pm) mem_contents snd mem_room" by (rule ex_pmc.voucher_channel_axioms)
  show "keeps mem_contents (la_ChainHead (rtn_api ex_rn))" by (simp add: ex_rn_def)
qed (auto simp: ex_rn_def ex_pm_def ex_node_def ret_def)

definition ex_lane_voucher :: "TokenAmount \<Rightarrow> SignedVoucher" where
  "ex_lane_voucher amt = ex_voucher_1\<lparr>sv_Lane := 3, sv_Amount := amt\<rparr>"

definition ex_paying :: "DealPayment list ClientDealEnvironment" where
  "ex_paying =
     \<lparr>cde_Node =
        \<lparr>rn_GetChainHead = ret (''tok'', 0),
         rn_GetOrCreatePaymentChannel = (\<lambda>_ _ _ _. ret (''f2paych'', ''msg'')),
         rn_CheckAvailableFunds = (\<lambda>_. fail (GErr ''no node'')),
         rn_AllocateLane = (\<lambda>_. ret 3),
         rn_CreatePaymentVoucher = (\<lambda>_ amt l _. if l = 3 \<and> amt < 256 ^ 16 then ret (ex_lane_voucher amt)
           else fail (ShortfallError 7)),
         rn_WaitForPaymentChannelReady = (\<lambda>_. ret ''f2paych''),
         rn_GetKnownAddresses = (\<lambda>_ _. ret []),
         rn_SavePaymentVoucher = (\<lambda>_ _ _ n _. ret n)\<rparr>,
      cde_OpenDataTransfer = (\<lambda>_ _. ret ''ch''),
      cde_SendDataTransferVoucher = (\<lambda>_ pay wire. (Ok (), wire @ [pay])),
      cde_CloseDataTransfer = (\<lambda>_. ret ())\<rparr>"

lemma ex_lane_voucher_fine: "0 \<le> amt \<Longrightarrow> amt < 256 ^ 16 \<Longrightarrow> ex_lane.lane_fine (ex_lane_voucher amt)"
  by (auto simp: ex_lane.lane_fine_def encodable_def ex_lane_voucher_def ex_voucher_1_def ref_voucher_fits_def
      intro!: ref_codecs)

lemma ex_paying_pays: "pays_by ex_paying (\<lambda>wire. wire) ''f2paych'' ex_lane.lane_fine"
  by (auto simp: pays_by_def ex_paying_def ret_def fail_def ex_lane_voucher_fine split: if_splits)
     (simp add: ex_lane_voucher_def)

definition ex_opened :: ProviderDealState where
  "ex_opened = (newProviderDeal ex_proposal ''peer'')\<lparr>pds_CurrentInterval := 100\<rparr>"

definition ex_exchange :: "(DealPayment list, managerState \<times> unit mem) exchange" where
  "ex_exchange = \<lparr>xc = ex_deal, xm = [], xp = ex_opened, xn = (NewPaychManager, ex_world)\<rparr>"

abbreviation ex_lane_node :: "(managerState \<times> unit mem) RetrievalNode" where
  "ex_lane_node \<equiv> NewRetrievalNode ex_rn (\<lambda>_. ret ()) {} {}"

abbreviation ex_step where
  "ex_step \<equiv> exchanges client_apply provider_apply ex_paying (\<lambda>wire. wire) ex_lane_node ''f2paych''"

text \<open>Both sides come to the first payment; the client pays.\<close>

definition ex_asked :: ClientDealState where
  "ex_asked = ex_ongoing\<lparr>cds_Status := DealStatusSendFunds, cds_PaymentRequested := 1000\<rparr>"

definition ex_sent :: DealPayment where
  "ex_sent = \<lparr>pay_ID = 1, pay_PaymentChannel = ''f2paych'', pay_PaymentVoucher = Some (ex_lane_voucher 1000)\<rparr>"

definition ex_asks :: ProviderDealState where
  "ex_asks = ex_opened\<lparr>pds_ChannelID := ''ch'', pds_Status := DealStatusFundsNeeded, pds_TotalSent := 100\<rparr>"

lemma ex_asked_run:
  "fsm_run (client_apply FsmClientEvents ClientFinalityStates) (ex_setup @ take 2 ex_payment) ex_deal = Some ex_asked"
  by (simp add: fsm_run_append ex_setup_run)
     (simp add: ex_payment_def ex_asked_def ex_ongoing_def ex_deal_def newClientDeal_def client_eval ex_params_def)

lemma ex_asks_run:
  "fsm_run (provider_apply FsmProviderEvents ProviderFinalityStates) (take 2 ex_served) ex_opened = Some ex_asks"
  by (simp add: ex_served_def ex_opened_def ex_asks_def provider_eval)

lemma ex_pays: "SendFunds ex_paying ex_asked [] = (Ok (Some (ClientEventPaymentSent, [])), [ex_sent])"
  by (simp add: SendFunds_def ex_paying_def ex_asked_def ex_ongoing_def ex_deal_def newClientDeal_def ex_params_def
      ex_sent_def retrievalPrice_def int64_def tryE_def ret_def trigger_def)

lemma ex_lane_start:
  "store_ok (ca_store (pm_accessor ex_pm)) (mem_contents ex_world)"
  "sole_channel (ca_store (pm_accessor ex_pm)) (mem_contents ex_world) ''f2paych'' ex_ci"
  "ex_lane.lane_good ex_world" "lane_worth ex_store ''f2paych'' 3 ex_world = 0"
proof -
  show w0: "store_ok (ca_store (pm_accessor ex_pm)) (mem_contents ex_world)"
    "sole_channel (ca_store (pm_accessor ex_pm)) (mem_contents ex_world) ''f2paych'' ex_ci"
    using ex_world_chans(1) ex_world_sole by simp_all
  show "ex_lane.lane_good ex_world"
    unfolding ex_lane.lane_good_def
    using w0 by (intro conjI exI [of _ ex_ci] exI [of _ "[]"]) (simp_all add: ex_ci_def)
  show "lane_worth ex_store ''f2paych'' 3 ex_world = 0"
    using ex_lane.lane_worth_sole [OF w0, of "[]"] by (simp add: ex_ci_def redeemed_in_def)
qed

text \<open>The payment arrives: its voucher is worth the whole request.\<close>

lemma ex_received:
  obtains p n where
    "processPayment (deal_env provider_apply ex_lane_node) i ex_sent (ex_asks, (NewPaychManager, ex_world)) =
       (Ok (None, None), (p, n))" "pds_FundsReceived p = 1000"
proof -
  let ?v = "ex_lane_voucher 1000"
  have enc: "encodable (cs_cbg (ca_store (pm_accessor ex_pm))) ?v"
    using ex_lane_voucher_fine [of 1000] by (simp add: ex_lane.lane_fine_def)
  have new: "\<forall>v\<in>set (ci_Vouchers ex_ci). vi_Voucher v \<noteq> Some ?v" by (simp add: ex_ci_def)
  have st: "storable (ca_store (pm_accessor ex_pm)) (with_voucher ex_ci ?v)"
    using storable_with_voucher [OF ex_ci_storable, of ?v] enc by (simp add: ex_ci_def)
  have acc: "accepts (pm_accessor ex_pm) ex_ci ''f2paych'' ?v 1000 ex_world \<lparr>act_Balance = 1000\<rparr> []"
    by (simp add: accepts_def ex_chain_view ex_ci_def ex_lane_voucher_def ex_voucher_1_def check_lanes_def redeemed_in_def
        totalRedeemedWithVoucher_def)
  obtain w :: "unit mem" where w: "addVoucherUnlocked (pm_accessor ex_pm) ''f2paych'' (Some ?v) 1000 ex_world =
      (Ok (sv_Amount ?v - redeemed_in [] (sv_Lane ?v)), w)"
    by (rule ex_pmc.addVoucher_new_Ok [OF ex_lane_start(1,2) new st enc acc])
  have owed: "payment_owed ex_asks = 1000"
    by (simp add: payment_owed_def ex_asks_def ex_opened_def newProviderDeal_def ex_proposal_def ex_params_def int64_small)
  have head: "rn_GetChainHead ex_lane_node (m, w) = (Ok (''tok'', 5), (m, w))" for m w
    by (simp add: ex_rn_def NewRetrievalNode_def node_GetChainHead_def on_node_def ret_def bindE_def)
  obtain m where m: "rn_SavePaymentVoucher ex_lane_node ''f2paych'' (Some ?v) [] 1000 ''tok'' (NewPaychManager, ex_world) =
      (Ok 1000, (m, w))"
    using ex_lane.node_SavePaymentVoucher_run [OF ex_lane_start(3), of "\<lambda>_. ret ()" "{}" "{}" ?v 1000 "''tok''" NewPaychManager] w
    by (auto simp: ex_lane_voucher_def redeemed_in_def)
  have "processPayment (deal_env provider_apply ex_lane_node) i ex_sent (ex_asks, (NewPaychManager, ex_world)) =
      settle_payment (deal_env provider_apply ex_lane_node) i ex_asks 1000 (ex_asks, (m, w))"
    by (simp add: processPayment_def tryE_def beside_run head owed m ex_sent_def)
  moreover have "\<exists>p. settle_payment (deal_env provider_apply ex_lane_node) i ex_asks 1000 (ex_asks, (m, w)) =
      (Ok (None, None), (p, (m, w))) \<and> pds_FundsReceived p = 1000"
    by (simp add: settle_payment_def owed ignoreE_def send_deal_def ret_def)
       (simp add: ex_asks_def ex_opened_def provider_eval)
  ultimately show ?thesis using that by metis
qed


end
