(* ===== verification/FileStoreProps.thy ===== *)
theory FileStoreProps
  imports FileStore "HOL-Library.Char_ord"
begin

text \<open>
  The file store over an API of blocks that keeps what it is given: blocks that were put are found,
  the first peer is waited for, the peers to connect to are collected by their identifiers.
\<close>

section \<open>Blocks\<close>

text \<open>
  What the API of an offline node promises. \<open>blocks\<close> are the blocks it has; \<open>key_of\<close> is the CID
  under which it keeps data that is put with a hash code and length and a format.
\<close>

locale block_api =
  fixes lib :: "('api, 'w) ipfs_lib" and api :: 'api
    and blocks :: "'w \<Rightarrow> Cid \<Rightarrow> bytes option"
    and key_of :: "u64 \<Rightarrow> int \<Rightarrow> string \<Rightarrow> bytes \<Rightarrow> Cid"
  assumes stat: "il_Block_Stat lib api (il_IpldPath lib c) w =
      (if blocks w c = None then Err (GErr ''blockservice: key not found'') else Ok (), w)"
    and get: "blocks w c = Some b \<Longrightarrow>
      \<exists>rd. il_Block_Get lib api (il_IpldPath lib c) w = (Ok rd, w) \<and> il_ReadAll lib rd w = (Ok b, w)"
    and put: "il_Block_Put lib api b code len fmt w = (Ok (), w') \<Longrightarrow> blocks w' = (blocks w)(key_of code len fmt b \<mapsto> b)"
    and put_fails: "il_Block_Put lib api b code len fmt w = (Err e, w') \<Longrightarrow> blocks w' = blocks w"
    and with_cid: "il_NewBlockWithCid lib b c = Ok \<lparr>bk_Cid = c, bk_RawData = b\<rparr>"

text \<open>A block whose CID is the one under which its data is kept.\<close>

definition addressed :: "('api, 'w) ipfs_lib \<Rightarrow> (u64 \<Rightarrow> int \<Rightarrow> string \<Rightarrow> bytes \<Rightarrow> Cid) \<Rightarrow> Block \<Rightarrow> bool" where
  "addressed lib key_of b \<longleftrightarrow> (case il_DecodeHash lib (il_Hash lib (bk_Cid b)) of
     Ok (code, len) \<Rightarrow> key_of code len (il_CodecToStr lib (il_Type lib (bk_Cid b))) (bk_RawData b) = bk_Cid b
   | _ \<Rightarrow> False)"

text \<open>What the API has after some blocks were put.\<close>

fun with_blocks :: "Block list \<Rightarrow> (Cid \<Rightarrow> bytes option) \<Rightarrow> Cid \<Rightarrow> bytes option" where
  "with_blocks [] m = m"
| "with_blocks (b # bs) m = with_blocks bs (m(bk_Cid b \<mapsto> bk_RawData b))"

lemma with_blocks_other: "c \<notin> bk_Cid ` set bs \<Longrightarrow> with_blocks bs m c = m c"
  by (induction bs arbitrary: m) auto

lemma with_blocks_put:
  assumes "b \<in> set bs" "\<forall>a\<in>set bs. \<forall>b\<in>set bs. bk_Cid a = bk_Cid b \<longrightarrow> a = b"
  shows "with_blocks bs m (bk_Cid b) = Some (bk_RawData b)"
  using assms
proof (induction bs arbitrary: m)
  case (Cons a bs)
  show ?case
  proof (cases "b \<in> set bs")
    case True
    with Cons show ?thesis by simp
  next
    case False
    with Cons.prems have "b = a" "bk_Cid b \<notin> bk_Cid ` set bs" by auto
    then show ?thesis by (simp add: with_blocks_other)
  qed
qed simp

context block_api
begin

lemma Has_run: "is_api s = api \<Longrightarrow> Has lib s c w = (Ok (blocks w c \<noteq> None), w)"
  by (simp add: Has_def stat tryE_def ret_def)

lemma Get_run: "is_api s = api \<Longrightarrow> blocks w c = Some b \<Longrightarrow> Get lib s c w = (Ok \<lparr>bk_Cid = c, bk_RawData = b\<rparr>, w)"
  using get [of w c b] by (auto simp: Get_def wrapE_def bindE_def tryE_def ret_def with_cid)

lemma Put_blocks:
  assumes "is_api s = api" "addressed lib key_of b" "Put lib s b w = (r, w')" "r \<noteq> Panic"
  shows "blocks w' = (if r = Ok () then (blocks w)(bk_Cid b \<mapsto> bk_RawData b) else blocks w)"
proof -
  obtain code len where h: "il_DecodeHash lib (il_Hash lib (bk_Cid b)) = Ok (code, len)"
      "key_of code len (il_CodecToStr lib (il_Type lib (bk_Cid b))) (bk_RawData b) = bk_Cid b"
    using assms(2) by (auto simp: addressed_def split: go.splits)
  then have run: "il_Block_Put lib api (bk_RawData b) code len (il_CodecToStr lib (il_Type lib (bk_Cid b))) w = (r, w')"
    using assms(1,3) by (simp add: Put_def)
  show ?thesis
    using put put_fails run h(2) assms(4) by (cases r) fastforce+
qed

text \<open>Blocks go in one after another until one fails.\<close>

lemma PutMany_blocks:
  assumes "is_api s = api" "\<forall>b\<in>set bs. addressed lib key_of b" "PutMany lib s bs w = (r, w')" "r \<noteq> Panic"
  obtains stored rest where "bs = stored @ rest" "r = Ok () \<longleftrightarrow> rest = []"
    "blocks w' = with_blocks stored (blocks w)"
  using assms(2,3)
proof (induction bs arbitrary: w thesis)
  case Nil
  then show ?case using Nil(1) [of "[]" "[]"] by (simp add: ret_def)
next
  case (Cons b bs)
  obtain r1 w1 where p: "Put lib s b w = (r1, w1)" by fastforce
  show ?case
  proof (cases r1)
    case (Ok u)
    then have w1: "blocks w1 = (blocks w)(bk_Cid b \<mapsto> bk_RawData b)"
      using Put_blocks [OF assms(1) _ p] Cons.prems(2) by simp
    have "PutMany lib s bs w1 = (r, w')" using Cons.prems(3) p Ok by simp
    moreover have "\<forall>b\<in>set bs. addressed lib key_of b" using Cons.prems(2) by simp
    ultimately obtain stored rest where *: "bs = stored @ rest" "r = Ok () \<longleftrightarrow> rest = []"
        "blocks w' = with_blocks stored (blocks w1)"
      using Cons.IH by blast
    show ?thesis using Cons.prems(1) [of "b # stored" rest] * w1 by simp
  next
    case (Err e)
    then have "r = Err e" "w' = w1" using Cons.prems(3) p by simp_all
    then show ?thesis
      using Cons.prems(1) [of "[]" "b # bs"] Put_blocks [OF assms(1) _ p] Cons.prems(2) Err by simp
  qed (use Cons.prems(3) p assms(4) in simp)
qed

end


text \<open>A node in memory: its blocks and a clock. It knows no peer at first, then two.\<close>

type_synonym mem_node = "(Cid \<times> bytes) list \<times> nat"

definition mem_key :: "u64 \<Rightarrow> int \<Rightarrow> string \<Rightarrow> bytes \<Rightarrow> Cid" where
  "mem_key code len fmt b = fmt @ CHR '':'' # map (\<lambda>x. char_of (unat x)) b"

definition mem_ipfs :: "(unit, mem_node) ipfs_lib" where
  "mem_ipfs = \<lparr>
     il_Unixfs_Get = (\<lambda>_ p. ret p), il_Unixfs_Add = (\<lambda>_ f. ret f),
     il_Swarm_Peers = (\<lambda>_ (bs, n). (if n = 0 then Err (GErr ''offline'') else if n = 1 then Ok []
       else Ok [''near'', ''far''], (bs, n))),
     il_Swarm_Connect = (\<lambda>_ p. if pin_ID p = ''far'' then fail (GErr ''no route'') else ret ()),
     il_Block_Stat = (\<lambda>_ c (bs, n). (if map_of bs c = None then Err (GErr ''blockservice: key not found'') else Ok (), (bs, n))),
     il_Block_Get = (\<lambda>_ c. ret c),
     il_Block_Put = (\<lambda>_ b code len fmt (bs, n).
       (if length b > 1000 then (Err (GErr ''too long''), (bs, n)) else (Ok (), ((mem_key code len fmt b, b) # bs, n)))),
     il_WithOffline = ret, il_WriteTo = (\<lambda>_ _. ret ()), il_Size = (\<lambda>_. ret 1), il_ParseURL = Ok,
     il_NewWebFile = (\<lambda>u. u), il_Stat = ret, il_NewSerialFile = (\<lambda>p _ _. ret p),
     il_ReadAll = (\<lambda>c (bs, n). (case map_of bs c of None \<Rightarrow> Err (GErr ''closed'') | Some b \<Rightarrow> Ok b, (bs, n))),
     il_NewPath = (\<lambda>p. p), il_IpldPath = (\<lambda>c. c), il_Hash = (\<lambda>c. c), il_Type = (\<lambda>_. 85), il_CodecToStr = (\<lambda>_. ''raw''),
     il_DecodeHash = (\<lambda>_. Ok (18, 32)), il_NewBlockWithCid = (\<lambda>b c. Ok \<lparr>bk_Cid = c, bk_RawData = b\<rparr>),
     il_NewMultiaddr = Ok,
     il_InfoFromP2pAddr = (\<lambda>a. case a of [] \<Rightarrow> Err (GErr ''empty address'')
       | x # _ \<Rightarrow> Ok \<lparr>pin_ID = (if x = CHR ''n'' then ''near'' else ''far''), pin_Addrs = [a]\<rparr>),
     il_Sleep = (\<lambda>_ (bs, n). (bs, n + 1))\<rparr>"

interpretation mem_blocks: block_api mem_ipfs "()" "\<lambda>(bs, _). map_of bs" mem_key
  by unfold_locales (auto simp: mem_ipfs_def ret_def split: if_splits)

definition ex_block :: "u8 \<Rightarrow> Block" where
  "ex_block x = \<lparr>bk_Cid = ''raw:'' @ [char_of (unat x)], bk_RawData = [x]\<rparr>"

definition ex_files :: "unit ipfsStore" where
  "ex_files = \<lparr>is_api = (), is_node = ''node''\<rparr>"

lemma ex_block_addressed: "addressed mem_ipfs mem_key (ex_block x)"
  by (simp add: addressed_def mem_ipfs_def mem_key_def ex_block_def)


section \<open>The first peer\<close>

text \<open>A poll of the peers that finds none, and the world after some such polls.\<close>

definition no_peer :: "('api, 'w) ipfs_lib \<Rightarrow> 'api ipfsStore \<Rightarrow> 'w \<Rightarrow> bool" where
  "no_peer lib s w \<longleftrightarrow> (case fst (il_Swarm_Peers lib (is_api s) w) of Ok prs \<Rightarrow> prs = [] | Err _ \<Rightarrow> True | Panic \<Rightarrow> False)"

fun after_polls :: "('api, 'w) ipfs_lib \<Rightarrow> 'api ipfsStore \<Rightarrow> nat \<Rightarrow> 'w \<Rightarrow> 'w" where
  "after_polls lib s 0 w = w"
| "after_polls lib s (Suc n) w = after_polls lib s n (il_Sleep lib (5 * 10 ^ 9) (snd (il_Swarm_Peers lib (is_api s) w)))"

lemma GetFirstPeer_again:
  "no_peer lib s w \<Longrightarrow>
     Store_GetFirstPeer lib s w = Store_GetFirstPeer lib s (il_Sleep lib (5 * 10 ^ 9) (snd (il_Swarm_Peers lib (is_api s) w)))"
  by (subst Store_GetFirstPeer.simps) (auto simp: no_peer_def split: prod.splits go.splits)

lemma GetFirstPeer_after:
  "\<forall>i<n. no_peer lib s (after_polls lib s i w) \<Longrightarrow> Store_GetFirstPeer lib s w = Store_GetFirstPeer lib s (after_polls lib s n w)"
proof (induction n arbitrary: w)
  case (Suc n)
  then have first: "no_peer lib s w" using zero_less_Suc by fastforce
  have rest: "\<forall>i<n. no_peer lib s (after_polls lib s i (il_Sleep lib (5 * 10 ^ 9) (snd (il_Swarm_Peers lib (is_api s) w))))"
    using Suc.prems by (metis Suc_less_eq after_polls.simps(2))
  show ?case using GetFirstPeer_again [OF first] Suc.IH [OF rest] by simp
qed simp

lemma GetFirstPeer_found:
  "il_Swarm_Peers lib (is_api s) w = (Ok (p # prs), w') \<Longrightarrow> Store_GetFirstPeer lib s w = Some (Ok p, w')"
  by (subst Store_GetFirstPeer.simps) simp

lemma GetFirstPeer_polls:
  fixes lib :: "('api, 'w) ipfs_lib"
  assumes "Store_GetFirstPeer lib s w = Some (r, w')"
  shows "\<exists>n. (\<forall>i<n. no_peer lib s (after_polls lib s i w)) \<and> \<not> no_peer lib s (after_polls lib s n w)"
proof -
  have "\<exists>n. (\<forall>i<n. no_peer lib s (after_polls lib s i w)) \<and> \<not> no_peer lib s (after_polls lib s n w)"
    if "Store_GetFirstPeer lib s w = Some y" for y
  proof (rule Store_GetFirstPeer.raw_induct
      [where P = "\<lambda>lib s w y. \<exists>n. (\<forall>i<n. no_peer lib s (after_polls lib s i w)) \<and> \<not> no_peer lib s (after_polls lib s n w)", OF _ that])
    fix f :: "('api, 'w) ipfs_lib \<Rightarrow> 'api ipfsStore \<Rightarrow> ('w, PeerID) may"
      and lib :: "('api, 'w) ipfs_lib" and s :: "'api ipfsStore" and w :: 'w and y
    assume IH: "\<And>lib s w y. f lib s w = Some y \<Longrightarrow>
        \<exists>n. (\<forall>i<n. no_peer lib s (after_polls lib s i w)) \<and> \<not> no_peer lib s (after_polls lib s n w)"
      and run: "(case il_Swarm_Peers lib (is_api s) w of
          (Ok prs, w1) \<Rightarrow> if length prs > 0 then Some (Ok (prs ! 0), w1) else f lib s (il_Sleep lib (5 * 10 ^ 9) w1)
        | (Err _, w1) \<Rightarrow> f lib s (il_Sleep lib (5 * 10 ^ 9) w1)
        | (Panic, w1) \<Rightarrow> Some (Panic, w1)) = Some y"
    show "\<exists>n. (\<forall>i<n. no_peer lib s (after_polls lib s i w)) \<and> \<not> no_peer lib s (after_polls lib s n w)"
    proof (cases "no_peer lib s w")
      case True
      let ?w = "il_Sleep lib (5 * 10 ^ 9) (snd (il_Swarm_Peers lib (is_api s) w))"
      have "f lib s ?w = Some y" using run True by (auto simp: no_peer_def split: prod.splits go.splits)
      from IH [OF this] obtain n where "\<forall>i<n. no_peer lib s (after_polls lib s i ?w)" "\<not> no_peer lib s (after_polls lib s n ?w)"
        by blast
      then show ?thesis using True by (intro exI [of _ "Suc n"]) (auto simp: less_Suc_eq_0_disj)
    qed (auto intro: exI [of _ 0])
  qed
  with assms show ?thesis by blast
qed

text \<open>The loop that waits for a peer ends exactly when some poll finds one, and then gives the first
  that this poll found; errors of the polls before are never reported. When no poll finds a peer, the
  caller waits forever.\<close>

theorem first_peer_is_waited_for:
  "(Store_GetFirstPeer lib s w = Some (Ok p, w') \<longleftrightarrow>
      (\<exists>n prs. (\<forall>i<n. no_peer lib s (after_polls lib s i w)) \<and>
         il_Swarm_Peers lib (is_api s) (after_polls lib s n w) = (Ok (p # prs), w'))) \<and>
   (Store_GetFirstPeer lib s w = None \<longleftrightarrow> (\<forall>n. no_peer lib s (after_polls lib s n w)))"
proof -
  let ?at = "\<lambda>n. after_polls lib s n w"
  have "\<exists>n prs. (\<forall>i<n. no_peer lib s (?at i)) \<and> il_Swarm_Peers lib (is_api s) (?at n) = (Ok (p # prs), w')"
    if run: "Store_GetFirstPeer lib s w = Some (Ok p, w')"
  proof -
    obtain n where n: "\<forall>i<n. no_peer lib s (?at i)" "\<not> no_peer lib s (?at n)" using GetFirstPeer_polls [OF run] by blast
    have "Store_GetFirstPeer lib s (?at n) = Some (Ok p, w')" using GetFirstPeer_after [OF n(1)] run by simp
    then have "\<exists>prs. il_Swarm_Peers lib (is_api s) (?at n) = (Ok (p # prs), w')"
      using n(2) by (subst (asm) Store_GetFirstPeer.simps)
        (auto simp: no_peer_def neq_Nil_conv split: prod.splits go.splits if_splits)
    with n(1) show ?thesis by blast
  qed
  moreover have "Store_GetFirstPeer lib s w = Some (Ok p, w')"
    if "\<forall>i<n. no_peer lib s (?at i)" "il_Swarm_Peers lib (is_api s) (?at n) = (Ok (p # prs), w')" for n prs
    using GetFirstPeer_after [OF that(1)] GetFirstPeer_found [OF that(2)] by simp
  moreover have "Store_GetFirstPeer lib s w \<noteq> None" if "\<not> no_peer lib s (?at n)" for n
  proof -
    define m where "m = (LEAST n. \<not> no_peer lib s (?at n))"
    have m: "\<not> no_peer lib s (?at m)" "\<forall>i<m. no_peer lib s (?at i)"
      unfolding m_def using LeastI [of "\<lambda>n. \<not> no_peer lib s (?at n)", OF that] not_less_Least by blast+
    have "Store_GetFirstPeer lib s (?at m) \<noteq> None"
      using m(1) by (subst Store_GetFirstPeer.simps) (auto simp: no_peer_def split: prod.splits go.splits)
    then show ?thesis using GetFirstPeer_after [OF m(2)] by simp
  qed
  moreover have "Store_GetFirstPeer lib s w = None" if "\<forall>n. no_peer lib s (?at n)"
    using GetFirstPeer_polls that by (cases "Store_GetFirstPeer lib s w") fastforce+
  ultimately show ?thesis by blast
qed

theorem first_peer_is_waited_for_witness:
  "Store_GetFirstPeer mem_ipfs ex_files ([], 0) = Some (Ok ''near'', ([], 2))"
proof -
  have polls: "after_polls mem_ipfs ex_files 1 ([], 0) = ([], 1)" "after_polls mem_ipfs ex_files 2 ([], 0) = ([], 2)"
    by (simp_all add: mem_ipfs_def numeral_2_eq_2)
  have "\<forall>i<2. no_peer mem_ipfs ex_files (after_polls mem_ipfs ex_files i ([], 0))"
    using polls by (auto simp: no_peer_def less_2_cases_iff) (simp_all add: mem_ipfs_def)
  moreover have "il_Swarm_Peers mem_ipfs (is_api ex_files) (after_polls mem_ipfs ex_files 2 ([], 0)) =
      (Ok [''near'', ''far''], ([], 2))"
    by (simp add: polls) (simp add: mem_ipfs_def)
  ultimately show ?thesis using first_peer_is_waited_for [of mem_ipfs ex_files "([], 0)" "''near''" "([], 2)"] by blast
qed

section \<open>The peers to connect to\<close>

definition parsed :: "('api, 'w) ipfs_lib \<Rightarrow> string \<Rightarrow> PeerInfo go" where
  "parsed lib a = bind_go (il_NewMultiaddr lib a) (il_InfoFromP2pAddr lib)"

definition with_addrs :: "string list option \<Rightarrow> string list list \<Rightarrow> string list option" where
  "with_addrs old new = (if old = None \<and> new = [] then None else Some ((case old of None \<Rightarrow> [] | Some as \<Rightarrow> as) @ concat new))"

text \<open>The collection against its reference: each peer with all its addresses in their order.\<close>

lemma peer_infos_collect:
  assumes "peer_infos lib peers infos = Ok infos'" "distinct (map fst infos)"
  obtains ps where "map (parsed lib) peers = map Ok ps" "distinct (map fst infos')"
    "\<And>i. map_of infos' i = with_addrs (map_of infos i) (map pin_Addrs (filter (\<lambda>p. pin_ID p = i) ps))"
  using assms
proof (induction peers arbitrary: infos thesis)
  case Nil
  show ?case by (rule Nil(1) [of "[]"]) (use Nil in \<open>auto simp: with_addrs_def split: option.splits\<close>)
next
  case (Cons a peers)
  obtain p where p: "parsed lib a = Ok p"
      "peer_infos lib peers (AList.map_default (pin_ID p) (pin_Addrs p) (\<lambda>addrs. addrs @ pin_Addrs p) infos) = Ok infos'"
    using Cons.prems(2) by (auto simp: parsed_def elim!: bind_go_Ok)
  obtain ps where ps: "map (parsed lib) peers = map Ok ps" "distinct (map fst infos')"
    "\<And>i. map_of infos' i = with_addrs (map_of (AList.map_default (pin_ID p) (pin_Addrs p) (\<lambda>addrs. addrs @ pin_Addrs p) infos) i)
       (map pin_Addrs (filter (\<lambda>p. pin_ID p = i) ps))"
    by (rule Cons.IH [OF _ p(2)]) (use Cons.prems(3) in \<open>auto intro: distinct_map_default\<close>)
  show ?case
    by (rule Cons.prems(1) [of "p # ps"])
       (use p(1) ps in \<open>auto simp: with_addrs_def map_of_map_default split: option.splits\<close>)
qed

lemma connect_all_sent: "connect_all lib api ps w = (Ok sent, w') \<Longrightarrow> sent = ps"
  by (induction ps arbitrary: w sent) (auto elim!: bindE_Ok)

text \<open>When every address parses, each peer named by one is connected to once, with all of its
  addresses in the order in which they were given, and is reported afterwards whether it could be
  connected to or not.\<close>

theorem every_peer_is_reported:
  assumes "\<And>infos. mset (order infos) = mset infos"
    and "connectToPeers lib order api peers w = (Ok sent, w')"
  shows "\<exists>ps. map (parsed lib) peers = map Ok ps \<and> distinct (map pin_ID sent) \<and>
    pin_ID ` set sent = pin_ID ` set ps \<and>
    (\<forall>p\<in>set sent. pin_Addrs p = concat (map pin_Addrs (filter (\<lambda>q. pin_ID q = pin_ID p) ps)))"
proof -
  let ?mk = "\<lambda>(i, addrs). \<lparr>pin_ID = i, pin_Addrs = addrs\<rparr>"
  obtain infos where infos: "peer_infos lib peers [] = Ok infos" "connect_all lib api (order (map ?mk infos)) w = (Ok sent, w')"
    using assms(2) unfolding connectToPeers_def by (cases "peer_infos lib peers []") (auto simp: panic_def)
  then have sent: "mset sent = mset (map ?mk infos)" using connect_all_sent assms(1) by metis
  obtain ps where ps: "map (parsed lib) peers = map Ok ps" "distinct (map fst infos)"
      "\<And>i. map_of infos i = with_addrs None (map pin_Addrs (filter (\<lambda>p. pin_ID p = i) ps))"
    by (rule peer_infos_collect [OF infos(1)]) auto
  have ids: "mset (map pin_ID sent) = mset (map fst infos)"
    using arg_cong [OF sent, of "image_mset pin_ID"] by (simp add: image_mset.compositionality comp_def split_def)
  have set: "set sent = ?mk ` set infos" using arg_cong [OF sent, of set_mset] by simp
  have "i \<in> fst ` set infos \<longleftrightarrow> i \<in> pin_ID ` set ps" for i
  proof -
    have "i \<in> fst ` set infos \<longleftrightarrow> map_of infos i \<noteq> None" by (simp add: map_of_eq_None_iff)
    also have "\<dots> \<longleftrightarrow> filter (\<lambda>p. pin_ID p = i) ps \<noteq> []" by (simp add: ps(3) with_addrs_def)
    also have "\<dots> \<longleftrightarrow> i \<in> pin_ID ` set ps" by (auto simp: filter_empty_conv)
    finally show ?thesis .
  qed
  moreover have "pin_ID ` set sent = fst ` set infos" by (simp add: set image_image split_def)
  moreover have "pin_Addrs p = concat (map pin_Addrs (filter (\<lambda>q. pin_ID q = pin_ID p) ps))" if p: "p \<in> set sent" for p
  proof -
    obtain i as where i: "(i, as) \<in> set infos" "p = \<lparr>pin_ID = i, pin_Addrs = as\<rparr>" using p set by auto
    then have "map_of infos i = Some as" using ps(2) by simp
    with i(2) show ?thesis by (simp add: ps(3) with_addrs_def split: if_splits)
  qed
  moreover have "distinct (map pin_ID sent)" using ps(2) mset_eq_imp_distinct_iff [OF ids] by simp
  ultimately show ?thesis using ps(1) by (intro exI [of _ ps]) auto
qed

theorem every_peer_is_reported_witness:
  "\<exists>sent w'. connectToPeers mem_ipfs rev () [''n1'', ''f'', ''n2''] ([], 0) = (Ok sent, w') \<and>
     distinct (map pin_ID sent) \<and> pin_ID ` set sent = {''near'', ''far''}"
proof -
  obtain sent w' where run: "connectToPeers mem_ipfs rev () [''n1'', ''f'', ''n2''] ([], 0) = (Ok sent, w')"
    by (simp add: connectToPeers_def mem_ipfs_def ret_def fail_def bindE_def tryE_def)
  have parsed: "map (parsed mem_ipfs) [''n1'', ''f'', ''n2''] =
      map Ok [\<lparr>pin_ID = ''near'', pin_Addrs = [''n1'']\<rparr>, \<lparr>pin_ID = ''far'', pin_Addrs = [''f'']\<rparr>,
        \<lparr>pin_ID = ''near'', pin_Addrs = [''n2'']\<rparr>]"
    by (simp add: parsed_def mem_ipfs_def)
  obtain ps where ps: "map (parsed mem_ipfs) [''n1'', ''f'', ''n2''] = map Ok ps" "distinct (map pin_ID sent)"
      "pin_ID ` set sent = pin_ID ` set ps"
    using every_peer_is_reported [OF mset_rev run] by blast
  have "ps = [\<lparr>pin_ID = ''near'', pin_Addrs = [''n1'']\<rparr>, \<lparr>pin_ID = ''far'', pin_Addrs = [''f'']\<rparr>,
        \<lparr>pin_ID = ''near'', pin_Addrs = [''n2'']\<rparr>]"
    using ps(1) unfolding parsed by (auto simp: Cons_eq_map_conv)
  with ps run show ?thesis by (auto simp: insert_commute)
qed

end
