(* ===== verification/ChannelLock.thy ===== *)
theory ChannelLock
  imports Main
begin

text \<open>
  The locks of \<open>paychmgr.go\<close>: the manager's \<open>RWMutex\<close>, the mutex of each channel accessor and
  the \<open>channelLock\<close> that joins them. The other theories take an operation under a lock for one
  step; here the operations are threads whose locking is interleaved, and it is shown that those
  that may not overlap do not, and that no set of them comes to a standstill.
\<close>

section \<open>Locks\<close>

text \<open>
  Go's \<open>sync.Mutex\<close> is free or held. Its \<open>sync.RWMutex\<close> is held by readers or by one writer; a
  writer first announces itself, from then on new readers wait, and it enters when the readers have
  left. Threads and the mutexes of accessors have numbers.
\<close>

record locks =
  chanLocks :: "nat \<Rightarrow> nat option"
  readers :: "nat set"
  announced :: "nat option"
  writer :: "nat option"

datatype region = ChannelOp nat | ReadCache | Exclusive

datatype lock_op = Acquire nat | Release nat | RLock | RUnlock | Announce | WLock | WUnlock | Body region

text \<open>What an operation of a lock does for a thread; \<open>None\<close> when the thread has to wait.\<close>

fun exec :: "nat \<Rightarrow> lock_op \<Rightarrow> locks \<Rightarrow> locks option" where
  "exec t (Acquire c) l =
     (if chanLocks l c = None then Some (l\<lparr>chanLocks := (chanLocks l)(c := Some t)\<rparr>) else None)"
| "exec t (Release c) l = Some (l\<lparr>chanLocks := (chanLocks l)(c := None)\<rparr>)"
| "exec t RLock l =
     (if writer l = None \<and> announced l = None then Some (l\<lparr>readers := insert t (readers l)\<rparr>) else None)"
| "exec t RUnlock l = Some (l\<lparr>readers := readers l - {t}\<rparr>)"
| "exec t Announce l =
     (if writer l = None \<and> announced l = None then Some (l\<lparr>announced := Some t\<rparr>) else None)"
| "exec t WLock l =
     (if readers l = {} then Some (l\<lparr>announced := None, writer := Some t\<rparr>) else None)"
| "exec t WUnlock l = Some (l\<lparr>writer := None\<rparr>)"
| "exec t (Body s) l = Some l"

text \<open>\<open>channelLock\<close>; its global lock is the manager's for every accessor.\<close>

record channelLock =
  chanLock :: nat

definition Lock :: "channelLock \<Rightarrow> lock_op list" where
  "Lock l = [Acquire (chanLock l), RLock]"

definition Unlock :: "channelLock \<Rightarrow> lock_op list" where
  "Unlock l = [RUnlock, Release (chanLock l)]"

text \<open>
  Every operation of the manager and its accessors is a sequence of regions: under the lock of an
  accessor, under the manager's lock for reading (the look into the cache or the store), under the
  manager's lock for writing. No region contains another.
\<close>

fun lock_ops :: "region \<Rightarrow> lock_op list" where
  "lock_ops (ChannelOp c) = Lock \<lparr>chanLock = c\<rparr> @ [Body (ChannelOp c)] @ Unlock \<lparr>chanLock = c\<rparr>"
| "lock_ops ReadCache = [RLock, Body ReadCache, RUnlock]"
| "lock_ops Exclusive = [Announce, WLock, Body Exclusive, WUnlock]"

definition accessorByFromTo_regions :: "bool \<Rightarrow> region list" where
  "accessorByFromTo_regions cached = (if cached then [ReadCache] else [ReadCache, Exclusive])"

definition accessorByAddress_regions :: "bool \<Rightarrow> bool \<Rightarrow> region list" where
  "accessorByAddress_regions found cached =
     ReadCache # (if found then accessorByFromTo_regions cached else [])"

text \<open>A call that finds its accessor by address and then works on the channel.\<close>

definition channel_call_regions :: "bool \<Rightarrow> bool \<Rightarrow> nat \<Rightarrow> region list" where
  "channel_call_regions found cached c =
     accessorByAddress_regions found cached @ (if found then [ChannelOp c] else [])"

section \<open>Interleaving\<close>

text \<open>A thread: what is left of its present region, and the regions that follow.\<close>

type_synonym thread = "lock_op list \<times> region list"

inductive lock_step :: "locks \<times> (nat \<Rightarrow> thread) \<Rightarrow> locks \<times> (nat \<Rightarrow> thread) \<Rightarrow> bool" where
  enter: "th t = ([], s # ss) \<Longrightarrow> lock_step (l, th) (l, th(t := (lock_ops s, ss)))"
| act: "th t = (a # r, ss) \<Longrightarrow> exec t a l = Some l' \<Longrightarrow> lock_step (l, th) (l', th(t := (r, ss)))"

definition free :: locks where
  "free = \<lparr>chanLocks = \<lambda>_. None, readers = {}, announced = None, writer = None\<rparr>"

definition idle :: "(nat \<Rightarrow> region list) \<Rightarrow> nat \<Rightarrow> thread" where
  "idle prog = (\<lambda>t. ([], prog t))"

definition lock_run :: "(nat \<Rightarrow> region list) \<Rightarrow> locks \<times> (nat \<Rightarrow> thread) \<Rightarrow> bool" where
  "lock_run prog = lock_step\<^sup>*\<^sup>* (free, idle prog)"

text \<open>The regions that may overlap.\<close>

fun may_overlap :: "region \<Rightarrow> region \<Rightarrow> bool" where
  "may_overlap (ChannelOp c) (ChannelOp d) = (c \<noteq> d)"
| "may_overlap Exclusive _ = False"
| "may_overlap _ Exclusive = False"
| "may_overlap _ _ = True"

section \<open>What a thread holds\<close>

text \<open>What a thread holds is what it will still give back and has no longer to take.\<close>

definition has_chan :: "nat \<Rightarrow> lock_op list \<Rightarrow> bool" where
  "has_chan c r \<longleftrightarrow> Release c \<in> set r \<and> Acquire c \<notin> set r"

definition has_read :: "lock_op list \<Rightarrow> bool" where
  "has_read r \<longleftrightarrow> RUnlock \<in> set r \<and> RLock \<notin> set r"

definition has_announced :: "lock_op list \<Rightarrow> bool" where
  "has_announced r \<longleftrightarrow> WLock \<in> set r \<and> Announce \<notin> set r"

definition has_write :: "lock_op list \<Rightarrow> bool" where
  "has_write r \<longleftrightarrow> WUnlock \<in> set r \<and> WLock \<notin> set r"

lemmas has_defs = has_chan_def has_read_def has_announced_def has_write_def

definition in_region :: "lock_op list \<Rightarrow> bool" where
  "in_region r \<longleftrightarrow> (\<exists>s pre. pre @ r = lock_ops s)"

lemma in_region_tl: "in_region (a # r) \<Longrightarrow> in_region r"
  by (metis append.assoc append_Cons append_Nil in_region_def)

lemma in_region_ops: "in_region (lock_ops s)" "in_region []"
  unfolding in_region_def by (metis append_Nil) (metis append_Nil2)

lemma in_region_cases:
  assumes "in_region r"
  obtains "r = []"
    | c where "r = [Acquire c, RLock, Body (ChannelOp c), RUnlock, Release c]"
    | c where "r = [RLock, Body (ChannelOp c), RUnlock, Release c]"
    | c where "r = [Body (ChannelOp c), RUnlock, Release c]"
    | c where "r = [RUnlock, Release c]"
    | c where "r = [Release c]"
    | "r = [RLock, Body ReadCache, RUnlock]"
    | "r = [Body ReadCache, RUnlock]"
    | "r = [RUnlock]"
    | "r = [Announce, WLock, Body Exclusive, WUnlock]"
    | "r = [WLock, Body Exclusive, WUnlock]"
    | "r = [Body Exclusive, WUnlock]"
    | "r = [WUnlock]"
proof -
  from assms obtain s pre where "pre @ r = lock_ops s"
    by (auto simp: in_region_def)
  then show thesis
    by (cases s) (auto simp: Lock_def Unlock_def append_eq_Cons_conv intro: that)
qed

section \<open>The invariant\<close>

definition lock_inv :: "locks \<times> (nat \<Rightarrow> thread) \<Rightarrow> bool" where
  "lock_inv = (\<lambda>(l, th).
     (\<forall>t. in_region (fst (th t))) \<and>
     (\<forall>t c. chanLocks l c = Some t \<longleftrightarrow> has_chan c (fst (th t))) \<and>
     (\<forall>t. t \<in> readers l \<longleftrightarrow> has_read (fst (th t))) \<and>
     (\<forall>t. announced l = Some t \<longleftrightarrow> has_announced (fst (th t))) \<and>
     (\<forall>t. writer l = Some t \<longleftrightarrow> has_write (fst (th t))) \<and>
     (writer l \<noteq> None \<longrightarrow> readers l = {} \<and> announced l = None))"

lemma lock_inv_start: "lock_inv (free, idle prog)"
  by (simp add: lock_inv_def free_def idle_def in_region_ops has_defs)

lemma has_lock_ops [simp]:
  "\<not> has_chan c (lock_ops s)" "\<not> has_read (lock_ops s)"
  "\<not> has_announced (lock_ops s)" "\<not> has_write (lock_ops s)"
  "\<not> has_chan c []" "\<not> has_read []" "\<not> has_announced []" "\<not> has_write []"
  by (cases s; auto simp: has_defs Lock_def Unlock_def)+

lemma has_chan_act:
  "in_region (a # r) \<Longrightarrow> has_chan c r \<longleftrightarrow> a = Acquire c \<or> has_chan c (a # r) \<and> a \<noteq> Release c"
  by (erule in_region_cases) (auto simp: has_chan_def)

lemma has_read_act:
  "in_region (a # r) \<Longrightarrow> has_read r \<longleftrightarrow> a = RLock \<or> has_read (a # r) \<and> a \<noteq> RUnlock"
  by (erule in_region_cases) (auto simp: has_read_def)

lemma has_announced_act:
  "in_region (a # r) \<Longrightarrow>
     has_announced r \<longleftrightarrow> a = Announce \<or> has_announced (a # r) \<and> a \<noteq> WLock"
  by (erule in_region_cases) (auto simp: has_announced_def)

lemma has_write_act:
  "in_region (a # r) \<Longrightarrow> has_write r \<longleftrightarrow> a = WLock \<or> has_write (a # r) \<and> a \<noteq> WUnlock"
  by (erule in_region_cases) (auto simp: has_write_def)

lemmas has_act = has_chan_act has_read_act has_announced_act has_write_act

text \<open>Only who holds a lock gives it back, and only who announced itself enters to write.\<close>

lemma has_head:
  assumes "in_region (a # r)"
  shows "a = Release c \<Longrightarrow> has_chan c (a # r)" "a = RUnlock \<Longrightarrow> has_read (a # r)"
    "a = WLock \<Longrightarrow> has_announced (a # r)" "a = WUnlock \<Longrightarrow> has_write (a # r)"
  using assms by (auto simp: has_defs elim: in_region_cases)

lemma lock_invD:
  assumes "lock_inv (l, th)"
  shows "in_region (fst (th t))" "chanLocks l c = Some t \<longleftrightarrow> has_chan c (fst (th t))"
    "t \<in> readers l \<longleftrightarrow> has_read (fst (th t))" "announced l = Some t \<longleftrightarrow> has_announced (fst (th t))"
    "writer l = Some t \<longleftrightarrow> has_write (fst (th t))"
    "writer l \<noteq> None \<Longrightarrow> readers l = {} \<and> announced l = None"
  using assms by (auto simp: lock_inv_def)

text \<open>What an operation does to the holders of each lock.\<close>

lemma exec_holders:
  assumes "exec t a l = Some l'"
  shows "chanLocks l' c = Some u \<longleftrightarrow> a = Acquire c \<and> u = t \<or> chanLocks l c = Some u \<and> a \<noteq> Release c"
    "u \<in> readers l' \<longleftrightarrow> a = RLock \<and> u = t \<or> u \<in> readers l \<and> \<not> (a = RUnlock \<and> u = t)"
    "announced l' = Some u \<longleftrightarrow> a = Announce \<and> u = t \<or> announced l = Some u \<and> a \<noteq> WLock"
    "a = WLock \<longrightarrow> writer l = None \<Longrightarrow>
       writer l' = Some u \<longleftrightarrow> a = WLock \<and> u = t \<or> writer l = Some u \<and> a \<noteq> WUnlock"
    "a = WLock \<Longrightarrow> readers l' = {} \<and> announced l' = None"
    "a = RLock \<or> a = Announce \<Longrightarrow> writer l' = None"
  using assms by (cases a; auto split: if_splits)+

lemma lock_inv_act:
  assumes I: "lock_inv (l, th)" and t: "th t = (a # r, ss)" and ex: "exec t a l = Some l'"
  shows "lock_inv (l', th(t := (r, ss)))"
proof -
  note D = lock_invD [OF I]
  have R: "in_region (a # r)" using D(1) [of t] t by simp
  have T: "chanLocks l c = Some t \<longleftrightarrow> has_chan c (a # r)" "t \<in> readers l \<longleftrightarrow> has_read (a # r)"
    "announced l = Some t \<longleftrightarrow> has_announced (a # r)" "writer l = Some t \<longleftrightarrow> has_write (a # r)" for c
    using D(2) [of _ t] D(3-5) [of t] t by simp_all
  have W: "a = WLock \<longrightarrow> writer l = None"
    using has_head(3) [OF R] T(3) D(6) by fastforce
  note X = exec_holders [OF ex]
  have "chanLocks l' c = Some u \<longleftrightarrow> has_chan c (fst ((th(t := (r, ss))) u))" for u c
    using X(1) [of c u] D(2) [of c u] T(1) [of c] has_chan_act [OF R, of c] has_head(1) [OF R, of c]
    by (cases "u = t") auto
  moreover have "u \<in> readers l' \<longleftrightarrow> has_read (fst ((th(t := (r, ss))) u))" for u
    using X(2) [of u] D(3) [of u] T(2) has_read_act [OF R] by (cases "u = t") auto
  moreover have "announced l' = Some u \<longleftrightarrow> has_announced (fst ((th(t := (r, ss))) u))" for u
    using X(3) [of u] D(4) [of u] T(3) has_announced_act [OF R] has_head(3) [OF R]
    by (cases "u = t") auto
  moreover have "writer l' = Some u \<longleftrightarrow> has_write (fst ((th(t := (r, ss))) u))" for u
    using X(4) [OF W, of u] D(5) [of u] T(4) has_write_act [OF R] has_head(4) [OF R]
    by (cases "u = t") auto
  moreover have "writer l' \<noteq> None \<longrightarrow> readers l' = {} \<and> announced l' = None"
    using D(6) ex by (cases a) (auto split: if_splits)
  moreover have "in_region (fst ((th(t := (r, ss))) u))" for u
    using D(1) [of u] in_region_tl [OF R] by simp
  ultimately show ?thesis by (simp add: lock_inv_def)
qed

lemma lock_inv_step: "lock_step x y \<Longrightarrow> lock_inv x \<Longrightarrow> lock_inv y"
proof (induction rule: lock_step.induct)
  case (enter th t s ss l)
  then show ?case by (auto simp: lock_inv_def in_region_ops)
qed (rule lock_inv_act)

lemma lock_inv_run: "lock_run prog y \<Longrightarrow> lock_inv y"
  unfolding lock_run_def by (induction rule: rtranclp_induct) (auto intro: lock_inv_start lock_inv_step)

section \<open>Exclusion and progress\<close>

text \<open>What the body of a region runs under.\<close>

lemma body_holds:
  assumes "in_region (Body s # r)"
  shows "s = ChannelOp c \<Longrightarrow> has_chan c (Body s # r)" "s = Exclusive \<Longrightarrow> has_write (Body s # r)"
    "s \<noteq> Exclusive \<Longrightarrow> has_read (Body s # r)"
  using assms by (auto simp: has_defs elim: in_region_cases)

text \<open>C18: Two threads of the manager are in regions at the same time only if those may overlap: the
  operations of one channel accessor exclude each other, and what runs under the manager's lock for
  writing excludes everything, whatever the threads do and however they are interleaved.\<close>

theorem regions_exclude:
  assumes run: "lock_run prog (l, th)" and ne: "t \<noteq> u"
    and t: "fst (th t) = Body s # r" and u: "fst (th u) = Body s' # r'"
  shows "may_overlap s s'"
proof -
  note D = lock_invD [OF lock_inv_run [OF run]]
  have R: "in_region (Body s # r)" "in_region (Body s' # r')" using D(1) t u by metis+
  note H = body_holds [OF R(1)] body_holds [OF R(2)]
  have "\<not> (s = ChannelOp c \<and> s' = ChannelOp c)" for c
    using H(1,4) D(2) [of c t] D(2) [of c u] t u ne by fastforce
  moreover have "\<not> (s = Exclusive \<and> s' = Exclusive)"
    using H(2,5) D(5) [of t] D(5) [of u] t u ne by fastforce
  moreover have "\<not> (s = Exclusive \<and> s' \<noteq> Exclusive)" "\<not> (s' = Exclusive \<and> s \<noteq> Exclusive)"
    using H D(5) [of t] D(5) [of u] D(3) [of t] D(3) [of u] D(6) t u by fastforce+
  ultimately show ?thesis by (cases s; cases s') auto
qed

text \<open>Threads that run in a given order.\<close>

fun run_thread :: "nat \<Rightarrow> locks \<times> (nat \<Rightarrow> thread) \<Rightarrow> (locks \<times> (nat \<Rightarrow> thread)) option" where
  "run_thread t (l, th) = (case th t of
       ([], []) \<Rightarrow> None
     | ([], s # ss) \<Rightarrow> Some (l, th(t := (lock_ops s, ss)))
     | (a # r, ss) \<Rightarrow> (case exec t a l of None \<Rightarrow> None | Some l' \<Rightarrow> Some (l', th(t := (r, ss)))))"

fun run_threads :: "nat list \<Rightarrow> locks \<times> (nat \<Rightarrow> thread) \<Rightarrow> (locks \<times> (nat \<Rightarrow> thread)) option" where
  "run_threads [] x = Some x"
| "run_threads (t # ts) x = (case run_thread t x of None \<Rightarrow> None | Some y \<Rightarrow> run_threads ts y)"

lemma run_thread_step: "run_thread t x = Some y \<Longrightarrow> lock_step x y"
  by (cases x) (auto split: prod.splits list.splits option.splits intro: lock_step.intros)

lemma run_threads_steps: "run_threads ts x = Some y \<Longrightarrow> lock_step\<^sup>*\<^sup>* x y"
  by (induction ts arbitrary: x)
    (auto split: option.splits intro: run_thread_step converse_rtranclp_into_rtranclp)

lemma run_threads_run: "run_threads ts (free, idle prog) = Some y \<Longrightarrow> lock_run prog y"
  unfolding lock_run_def by (rule run_threads_steps)

definition two_channels :: "nat \<Rightarrow> region list" where
  "two_channels = (\<lambda>_. [])(0 := [ChannelOp 0], 1 := channel_call_regions True True 1)"

lemma regions_exclude_witness:
  "\<exists>l th. lock_run two_channels (l, th) \<and>
     fst (th 0) = Body (ChannelOp 0) # Unlock \<lparr>chanLock = 0\<rparr> \<and>
     fst (th 1) = Body (ChannelOp 1) # Unlock \<lparr>chanLock = 1\<rparr> \<and>
     may_overlap (ChannelOp 0) (ChannelOp 1)"
proof -
  define x where "x = run_threads ([0, 0, 0] @ replicate 11 1) (free, idle two_channels)"
  have "\<exists>l th. x = Some (l, th) \<and> fst (th 0) = Body (ChannelOp 0) # Unlock \<lparr>chanLock = 0\<rparr> \<and>
      fst (th 1) = Body (ChannelOp 1) # Unlock \<lparr>chanLock = 1\<rparr>"
    unfolding x_def
    by (simp add: two_channels_def idle_def free_def Lock_def numeral_eq_Suc channel_call_regions_def
        accessorByAddress_regions_def accessorByFromTo_regions_def)
  then obtain l th where lt: "x = Some (l, th)"
    "fst (th 0) = Body (ChannelOp 0) # Unlock \<lparr>chanLock = 0\<rparr>"
    "fst (th 1) = Body (ChannelOp 1) # Unlock \<lparr>chanLock = 1\<rparr>" by auto
  have run: "lock_run two_channels (l, th)"
    using lt(1) unfolding x_def by (rule run_threads_run)
  from regions_exclude [OF run _ lt(2,3)] run lt(2,3) show ?thesis by auto
qed

text \<open>Who holds a lock in a region goes on without waiting, but for a reader that holds the lock of an
  accessor and waits for the manager's.\<close>

fun waits :: "lock_op \<Rightarrow> bool" where
  "waits (Acquire c) = True"
| "waits RLock = True"
| "waits Announce = True"
| "waits WLock = True"
| "waits _ = False"

lemma exec_goes_on: "\<not> waits a \<Longrightarrow> exec t a l \<noteq> None"
  by (cases a) auto

lemma holder_heads:
  assumes "in_region r"
  shows "has_chan c r \<Longrightarrow> \<exists>a r'. r = a # r' \<and> (waits a \<longrightarrow> a = RLock)"
    "has_read r \<Longrightarrow> \<exists>a r'. r = a # r' \<and> \<not> waits a"
    "has_write r \<Longrightarrow> \<exists>a r'. r = a # r' \<and> \<not> waits a"
    "has_announced r \<Longrightarrow> \<exists>r'. r = WLock # r'"
  using assms by (auto simp: has_defs elim: in_region_cases)

lemma stuck_head:
  assumes "\<nexists>y. lock_step (l, th) y" "fst (th t) = a # r"
  shows "exec t a l = None"
proof (rule ccontr)
  assume "exec t a l \<noteq> None"
  then obtain l' where "exec t a l = Some l'" by auto
  with assms show False by (metis lock_step.act prod.collapse)
qed

lemma lock_never_stuck:
  assumes run: "lock_run prog (l, th)" and left: "th t \<noteq> ([], [])"
  shows "\<exists>y. lock_step (l, th) y"
proof (rule ccontr)
  assume stuck: "\<nexists>y. lock_step (l, th) y"
  note D = lock_invD [OF lock_inv_run [OF run]]
  note S = stuck_head [OF stuck]
  note H = holder_heads [OF D(1)]
  have wr: "writer l = None"
    using H(3) D(5) S exec_goes_on by (metis option.exhaust)
  have rd: "readers l = {}"
    using H(2) D(3) S exec_goes_on by (metis all_not_in_conv)
  have an: "announced l = None"
  proof (rule ccontr)
    assume "announced l \<noteq> None"
    then obtain u where "announced l = Some u" by auto
    with H(4) [of u] D(4) [of u] obtain r where "fst (th u) = WLock # r" by auto
    from S [OF this] rd show False by simp
  qed
  have ch: "chanLocks l c = None" for c
  proof (rule ccontr)
    assume "chanLocks l c \<noteq> None"
    then obtain u where "chanLocks l c = Some u" by auto
    with H(1) [of c u] D(2) [of c u] obtain a r where
      a: "fst (th u) = a # r" "waits a \<longrightarrow> a = RLock" by auto
    from S [OF a(1)] a(2) wr an exec_goes_on show False by (cases "waits a") auto
  qed
  have go: "exec u a l \<noteq> None" for u a
    using wr rd an ch by (cases a) auto
  have "fst (th t) = []"
    using S go by (metis neq_Nil_conv)
  then show False
    using left stuck lock_step.enter by (metis neq_Nil_conv prod.collapse)
qed

text \<open>The steps that a thread has still to make.\<close>

definition steps_left :: "thread \<Rightarrow> nat" where
  "steps_left = (\<lambda>(ops, rs). length ops + (\<Sum>s\<leftarrow>rs. Suc (length (lock_ops s))))"

lemma lock_step_uses_one:
  assumes "lock_step (l, th) (l', th')" "finite T" "\<forall>t. t \<notin> T \<longrightarrow> th t = ([], [])"
  shows "(\<Sum>t\<in>T. steps_left (th t)) = Suc (\<Sum>t\<in>T. steps_left (th' t)) \<and>
    (\<forall>t. t \<notin> T \<longrightarrow> th' t = ([], []))"
  using assms(1)
proof cases
  case (enter t s ss)
  moreover from enter assms(3) have "t \<in> T" by auto
  ultimately show ?thesis using assms(2,3)
    by (auto simp: sum.remove [of T t] steps_left_def)
next
  case (act t a r ss)
  moreover from act assms(3) have "t \<in> T" by auto
  ultimately show ?thesis using assms(2,3)
    by (auto simp: sum.remove [of T t] steps_left_def)
qed

lemma idle_outside: "lock_run prog x \<Longrightarrow> finite T \<Longrightarrow> \<forall>t. t \<notin> T \<longrightarrow> prog t = [] \<Longrightarrow>
    \<forall>t. t \<notin> T \<longrightarrow> snd x t = ([], [])"
  unfolding lock_run_def
proof (induction rule: rtranclp_induct)
  case (step y z)
  then show ?case
    using lock_step_uses_one [of "fst y" "snd y" "fst z" "snd z" T] by simp
qed (simp add: idle_def)

lemma lock_run_ends:
  assumes "lock_run prog (l, th)" "finite T" "\<forall>t. t \<notin> T \<longrightarrow> prog t = []"
  shows "\<exists>l' th'. lock_step\<^sup>*\<^sup>* (l, th) (l', th') \<and> (\<forall>t. th' t = ([], []))"
proof -
  have "\<forall>t. t \<notin> T \<longrightarrow> th t = ([], [])"
    using idle_outside [OF assms] by simp
  with assms(1) show ?thesis
  proof (induction "\<Sum>t\<in>T. steps_left (th t)" arbitrary: l th rule: less_induct)
    case less
    show ?case
    proof (cases "\<forall>t. th t = ([], [])")
      case False
      with lock_never_stuck [OF less.prems(1)] obtain l1 th1 where
        st: "lock_step (l, th) (l1, th1)" by (metis surj_pair)
      note one = lock_step_uses_one [OF st assms(2) less.prems(2)]
      have "lock_run prog (l1, th1)"
        using less.prems(1) st unfolding lock_run_def by (rule rtranclp.rtrancl_into_rtrancl)
      with less.hyps [of th1 l1] one st show ?thesis
        by (metis converse_rtranclp_into_rtranclp lessI)
    qed blast
  qed
qed

lemma steps_bounded:
  assumes "finite T"
  shows "(lock_step ^^ n) (l, th) (l', th') \<Longrightarrow> \<forall>t. t \<notin> T \<longrightarrow> th t = ([], []) \<Longrightarrow>
    n \<le> (\<Sum>t\<in>T. steps_left (th t))"
proof (induction n arbitrary: l th)
  case (Suc n)
  from Suc.prems(1) obtain l1 th1 where
    1: "lock_step (l, th) (l1, th1)" "(lock_step ^^ n) (l1, th1) (l', th')"
    by (metis relpowp_Suc_D2 surj_pair)
  with lock_step_uses_one [OF 1(1) assms Suc.prems(2)] Suc.IH [OF 1(2)] show ?case by simp
qed simp

text \<open>C19: The locks never bring the manager to a standstill: wherever finitely many threads have got
  to, the number of steps that they can still make is bounded, as long as one of them has something
  left to do a step is possible, and so all of them come to their end.\<close>

theorem locks_never_deadlock:
  assumes run: "lock_run prog (l, th)" and T: "finite T" "\<forall>t. t \<notin> T \<longrightarrow> prog t = []"
  shows "(\<forall>n l' th'. (lock_step ^^ n) (l, th) (l', th') \<longrightarrow> n \<le> (\<Sum>t\<in>T. steps_left (th t))) \<and>
    ((\<exists>t. th t \<noteq> ([], [])) \<longrightarrow> (\<exists>y. lock_step (l, th) y)) \<and>
    (\<exists>l' th'. lock_step\<^sup>*\<^sup>* (l, th) (l', th') \<and> (\<forall>t. th' t = ([], [])))"
  using idle_outside [OF run T] steps_bounded [OF T(1)] lock_never_stuck [OF run]
    lock_run_ends [OF run T]
  by auto

lemma locks_never_deadlock_witness:
  "\<exists>l th. lock_step\<^sup>*\<^sup>* (free, idle two_channels) (l, th) \<and> (\<forall>t. th t = ([], []))"
proof -
  have "lock_run two_channels (free, idle two_channels)" by (simp add: lock_run_def)
  moreover have "\<forall>t. t \<notin> {0, 1} \<longrightarrow> two_channels t = []" by (simp add: two_channels_def)
  ultimately show ?thesis
    using locks_never_deadlock [of two_channels free "idle two_channels" "{0, 1}"] by simp
qed

end
