(* ===== verification/Oracle.thy ===== *)
theory Oracle
  imports Prelude
begin

text \<open>
  \<open>ChannelVerify.go\<close> and \<open>client.go\<close> of the oracle's Go client: the bindings of the contract that
  asks an oracle whether a payment channel settles, and the program that calls it. The bound
  contract of go-ethereum (its calls, transactions, log filters and the unpacking of logs), the
  parsing of ABIs, the deployment and the connection to a node are parameters.
\<close>

section \<open>Values\<close>

type_synonym EthAddress = "160 word"
type_synonym bytes32 = "256 word"
type_synonym bytes4 = "32 word"
type_synonym uint256 = "int option" \<comment> \<open>\<open>*big.Int\<close>; \<open>None\<close> is nil\<close>

text \<open>The values that arguments and results of the contract take (Go's \<open>interface{}\<close>).\<close>

datatype abi_val = V_address EthAddress | V_bytes32 bytes32 | V_bytes4 bytes4 | V_uint256 uint256 | V_string string

text \<open>\<open>bind.TransactOpts\<close> as far as the code fills it in.\<close>

record TransactOpts =
  to_From :: EthAddress
  to_Nonce :: uint256
  to_Value :: uint256
  to_GasLimit :: u64
  to_GasPrice :: uint256

text \<open>A transaction is known by its hash.\<close>

type_synonym Transaction = string

section \<open>Events\<close>

text \<open>The structures of the events; \<open>Raw\<close> is the log an event was found in, \<open>None\<close> where the zero
  value of the log was left in place.\<close>

record 'l ChainlinkCancelled =
  cc_Id :: bytes32
  cc_Raw :: "'l option"

record 'l ChainlinkFulfilled =
  cf_Id :: bytes32
  cf_Raw :: "'l option"

record 'l ChainlinkRequested =
  cr_Id :: bytes32
  cr_Raw :: "'l option"

record 'l OwnershipRenounced =
  orn_PreviousOwner :: EthAddress
  orn_Raw :: "'l option"

record 'l OwnershipTransferred =
  otr_PreviousOwner :: EthAddress
  otr_NewOwner :: EthAddress
  otr_Raw :: "'l option"

record 'l RequestVerifyChannelFulfilled =
  rvf_RequestId :: bytes32
  rvf_SettleHeight :: uint256
  rvf_Raw :: "'l option"

text \<open>
  \<open>bind.BoundContract\<close>. Options of calls, filters and subscriptions are passed on as they are. The
  logs that a filter or subscription finds come through a channel, with a subscription that ends at
  some time, with or without an error. \<open>UnpackLog\<close> fills in an event and may fail, at each of the
  types it is used at.
\<close>

datatype subscription = Delivering | Ended "gerr option"

record ('w, 'l, 'o) BoundContract =
  bc_Call :: "'o \<Rightarrow> string \<Rightarrow> abi_val list \<Rightarrow> ('w, abi_val list) io"
  bc_Transact :: "TransactOpts \<Rightarrow> string \<Rightarrow> abi_val list \<Rightarrow> ('w, Transaction) io"
  bc_RawTransact :: "TransactOpts \<Rightarrow> u8 list \<Rightarrow> ('w, Transaction) io"
  bc_Transfer :: "TransactOpts \<Rightarrow> ('w, Transaction) io"
  bc_FilterLogs :: "'o \<Rightarrow> string \<Rightarrow> abi_val list list \<Rightarrow> ('w, 'l list \<times> subscription) io"
  bc_WatchLogs :: "'o \<Rightarrow> string \<Rightarrow> abi_val list list \<Rightarrow> ('w, 'l list \<times> subscription) io"
  bc_Unsubscribe :: "subscription \<Rightarrow> subscription"
  bc_UnpackChainlinkCancelled :: "string \<Rightarrow> 'l \<Rightarrow> 'l ChainlinkCancelled \<Rightarrow> 'l ChainlinkCancelled \<times> gerr option"
  bc_UnpackChainlinkFulfilled :: "string \<Rightarrow> 'l \<Rightarrow> 'l ChainlinkFulfilled \<Rightarrow> 'l ChainlinkFulfilled \<times> gerr option"
  bc_UnpackChainlinkRequested :: "string \<Rightarrow> 'l \<Rightarrow> 'l ChainlinkRequested \<Rightarrow> 'l ChainlinkRequested \<times> gerr option"
  bc_UnpackOwnershipRenounced :: "string \<Rightarrow> 'l \<Rightarrow> 'l OwnershipRenounced \<Rightarrow> 'l OwnershipRenounced \<times> gerr option"
  bc_UnpackOwnershipTransferred :: "string \<Rightarrow> 'l \<Rightarrow> 'l OwnershipTransferred \<Rightarrow> 'l OwnershipTransferred \<times> gerr option"
  bc_UnpackRequestVerifyChannelFulfilled :: "string \<Rightarrow> 'l \<Rightarrow> 'l RequestVerifyChannelFulfilled \<Rightarrow> 'l RequestVerifyChannelFulfilled \<times> gerr option"

section \<open>Bindings\<close>

record ('w, 'l, 'o) ChannelverifyCaller =
  cvc_contract :: "('w, 'l, 'o) BoundContract"

record ('w, 'l, 'o) ChannelverifyTransactor =
  cvt_contract :: "('w, 'l, 'o) BoundContract"

record ('w, 'l, 'o) ChannelverifyFilterer =
  cvf_contract :: "('w, 'l, 'o) BoundContract"

record ('w, 'l, 'o) Channelverify =
  cv_Caller :: "('w, 'l, 'o) ChannelverifyCaller"
  cv_Transactor :: "('w, 'l, 'o) ChannelverifyTransactor"
  cv_Filterer :: "('w, 'l, 'o) ChannelverifyFilterer"

record ('w, 'l, 'o) ChannelverifySession =
  cvs_Contract :: "('w, 'l, 'o) Channelverify"
  cvs_CallOpts :: 'o
  cvs_TransactOpts :: TransactOpts

record ('w, 'l, 'o) ChannelverifyCallerSession =
  cvcs_Contract :: "('w, 'l, 'o) ChannelverifyCaller"
  cvcs_CallOpts :: 'o

record ('w, 'l, 'o) ChannelverifyTransactorSession =
  cvts_Contract :: "('w, 'l, 'o) ChannelverifyTransactor"
  cvts_TransactOpts :: TransactOpts

record ('w, 'l, 'o) ChannelverifyRaw =
  cvr_Contract :: "('w, 'l, 'o) Channelverify"

record ('w, 'l, 'o) ChannelverifyCallerRaw =
  cvcr_Contract :: "('w, 'l, 'o) ChannelverifyCaller"

record ('w, 'l, 'o) ChannelverifyTransactorRaw =
  cvtr_Contract :: "('w, 'l, 'o) ChannelverifyTransactor"

text \<open>
  The library: the parsing of ABIs and hexadecimal strings, the binding of a contract with the
  backends it may use, the deployment, and the conversion of a result to the type of a prototype,
  which panics where it is impossible. The ABI and the byte code, constants of the file, are data
  that come with it.
\<close>

record ('w, 'l, 'o, 'a, 'b) bind_lib =
  ChannelverifyABI :: string
  ChannelverifyBin :: string
  abi_JSON :: "string \<Rightarrow> 'a go"
  FromHex :: "string \<Rightarrow> u8 list"
  NewBoundContract :: "EthAddress \<Rightarrow> 'a \<Rightarrow> 'b option \<Rightarrow> 'b option \<Rightarrow> 'b option \<Rightarrow> ('w, 'l, 'o) BoundContract"
  DeployContract :: "TransactOpts \<Rightarrow> 'a \<Rightarrow> u8 list \<Rightarrow> 'b \<Rightarrow> abi_val list \<Rightarrow>
    ('w, EthAddress \<times> Transaction \<times> ('w, 'l, 'o) BoundContract) io"
  ConvertType :: "abi_val \<Rightarrow> abi_val \<Rightarrow> abi_val go"

definition bound_to :: "('w, 'l, 'o) BoundContract \<Rightarrow> ('w, 'l, 'o) Channelverify" where
  "bound_to contract =
     \<lparr>cv_Caller = \<lparr>cvc_contract = contract\<rparr>, cv_Transactor = \<lparr>cvt_contract = contract\<rparr>,
      cv_Filterer = \<lparr>cvf_contract = contract\<rparr>\<rparr>"

definition DeployChannelverify ::
    "('w, 'l, 'o, 'a, 'b) bind_lib \<Rightarrow> TransactOpts \<Rightarrow> 'b \<Rightarrow> EthAddress \<Rightarrow>
      ('w, EthAddress \<times> Transaction \<times> ('w, 'l, 'o) Channelverify) io" where
  "DeployChannelverify lib auth backend link =
     bindE (lift_go (abi_JSON lib (ChannelverifyABI lib))) (\<lambda>parsed.
     bindE (DeployContract lib auth parsed (FromHex lib (ChannelverifyBin lib)) backend [V_address link])
       (\<lambda>(address, tx, contract). ret (address, tx, bound_to contract)))"

definition bindChannelverify ::
    "('w, 'l, 'o, 'a, 'b) bind_lib \<Rightarrow> EthAddress \<Rightarrow> 'b option \<Rightarrow> 'b option \<Rightarrow> 'b option \<Rightarrow>
      ('w, 'l, 'o) BoundContract go" where
  "bindChannelverify lib address caller transactor filterer =
     bind_go (abi_JSON lib (ChannelverifyABI lib)) (\<lambda>parsed.
       Ok (NewBoundContract lib address parsed caller transactor filterer))"

definition NewChannelverify ::
    "('w, 'l, 'o, 'a, 'b) bind_lib \<Rightarrow> EthAddress \<Rightarrow> 'b \<Rightarrow> ('w, 'l, 'o) Channelverify go" where
  "NewChannelverify lib address backend =
     bind_go (bindChannelverify lib address (Some backend) (Some backend) (Some backend))
       (\<lambda>contract. Ok (bound_to contract))"

definition NewChannelverifyCaller ::
    "('w, 'l, 'o, 'a, 'b) bind_lib \<Rightarrow> EthAddress \<Rightarrow> 'b \<Rightarrow> ('w, 'l, 'o) ChannelverifyCaller go" where
  "NewChannelverifyCaller lib address caller =
     bind_go (bindChannelverify lib address (Some caller) None None)
       (\<lambda>contract. Ok \<lparr>cvc_contract = contract\<rparr>)"

definition NewChannelverifyTransactor ::
    "('w, 'l, 'o, 'a, 'b) bind_lib \<Rightarrow> EthAddress \<Rightarrow> 'b \<Rightarrow> ('w, 'l, 'o) ChannelverifyTransactor go" where
  "NewChannelverifyTransactor lib address transactor =
     bind_go (bindChannelverify lib address None (Some transactor) None)
       (\<lambda>contract. Ok \<lparr>cvt_contract = contract\<rparr>)"

definition NewChannelverifyFilterer ::
    "('w, 'l, 'o, 'a, 'b) bind_lib \<Rightarrow> EthAddress \<Rightarrow> 'b \<Rightarrow> ('w, 'l, 'o) ChannelverifyFilterer go" where
  "NewChannelverifyFilterer lib address filterer =
     bind_go (bindChannelverify lib address None None (Some filterer))
       (\<lambda>contract. Ok \<lparr>cvf_contract = contract\<rparr>)"

section \<open>Raw access\<close>

definition Raw_Call ::
    "('w, 'l, 'o) ChannelverifyRaw \<Rightarrow> 'o \<Rightarrow> string \<Rightarrow> abi_val list \<Rightarrow> ('w, abi_val list) io" where
  "Raw_Call raw = bc_Call (cvc_contract (cv_Caller (cvr_Contract raw)))"

definition Raw_Transfer ::
    "('w, 'l, 'o) ChannelverifyRaw \<Rightarrow> TransactOpts \<Rightarrow> ('w, Transaction) io" where
  "Raw_Transfer raw = bc_Transfer (cvt_contract (cv_Transactor (cvr_Contract raw)))"

definition Raw_Transact ::
    "('w, 'l, 'o) ChannelverifyRaw \<Rightarrow> TransactOpts \<Rightarrow> string \<Rightarrow> abi_val list \<Rightarrow> ('w, Transaction) io" where
  "Raw_Transact raw = bc_Transact (cvt_contract (cv_Transactor (cvr_Contract raw)))"

definition CallerRaw_Call ::
    "('w, 'l, 'o) ChannelverifyCallerRaw \<Rightarrow> 'o \<Rightarrow> string \<Rightarrow> abi_val list \<Rightarrow> ('w, abi_val list) io" where
  "CallerRaw_Call raw = bc_Call (cvc_contract (cvcr_Contract raw))"

definition TransactorRaw_Transfer ::
    "('w, 'l, 'o) ChannelverifyTransactorRaw \<Rightarrow> TransactOpts \<Rightarrow> ('w, Transaction) io" where
  "TransactorRaw_Transfer raw = bc_Transfer (cvt_contract (cvtr_Contract raw))"

definition TransactorRaw_Transact ::
    "('w, 'l, 'o) ChannelverifyTransactorRaw \<Rightarrow> TransactOpts \<Rightarrow> string \<Rightarrow> abi_val list \<Rightarrow>
      ('w, Transaction) io" where
  "TransactorRaw_Transact raw = bc_Transact (cvt_contract (cvtr_Contract raw))"

section \<open>Calls\<close>

text \<open>The first result of a call, converted to the type of a prototype; \<open>out[0]\<close> panics where
  there is none, and so does a type assertion that fails.\<close>

definition first_result :: "('w, 'l, 'o, 'a, 'b) bind_lib \<Rightarrow> abi_val \<Rightarrow> abi_val list \<Rightarrow> abi_val go" where
  "first_result lib proto out = (case out of [] \<Rightarrow> Panic | v # _ \<Rightarrow> ConvertType lib v proto)"

fun as_address :: "abi_val \<Rightarrow> EthAddress go" where
  "as_address (V_address a) = Ok a"
| "as_address _ = Panic"

fun as_uint256 :: "abi_val \<Rightarrow> uint256 go" where
  "as_uint256 (V_uint256 n) = Ok n"
| "as_uint256 _ = Panic"

definition GetChainlinkToken ::
    "('w, 'l, 'o, 'a, 'b) bind_lib \<Rightarrow> ('w, 'l, 'o) ChannelverifyCaller \<Rightarrow> 'o \<Rightarrow> ('w, EthAddress) io" where
  "GetChainlinkToken lib c opts = bindE (bc_Call (cvc_contract c) opts ''getChainlinkToken'' []) (\<lambda>out.
     lift_go (bind_go (first_result lib (V_address 0) out) as_address))"

definition Session_GetChainlinkToken ::
    "('w, 'l, 'o, 'a, 'b) bind_lib \<Rightarrow> ('w, 'l, 'o) ChannelverifySession \<Rightarrow> ('w, EthAddress) io" where
  "Session_GetChainlinkToken lib s = GetChainlinkToken lib (cv_Caller (cvs_Contract s)) (cvs_CallOpts s)"

definition CallerSession_GetChainlinkToken ::
    "('w, 'l, 'o, 'a, 'b) bind_lib \<Rightarrow> ('w, 'l, 'o) ChannelverifyCallerSession \<Rightarrow> ('w, EthAddress) io" where
  "CallerSession_GetChainlinkToken lib s = GetChainlinkToken lib (cvcs_Contract s) (cvcs_CallOpts s)"

definition Owner ::
    "('w, 'l, 'o, 'a, 'b) bind_lib \<Rightarrow> ('w, 'l, 'o) ChannelverifyCaller \<Rightarrow> 'o \<Rightarrow> ('w, EthAddress) io" where
  "Owner lib c opts = bindE (bc_Call (cvc_contract c) opts ''owner'' []) (\<lambda>out.
     lift_go (bind_go (first_result lib (V_address 0) out) as_address))"

definition Session_Owner ::
    "('w, 'l, 'o, 'a, 'b) bind_lib \<Rightarrow> ('w, 'l, 'o) ChannelverifySession \<Rightarrow> ('w, EthAddress) io" where
  "Session_Owner lib s = Owner lib (cv_Caller (cvs_Contract s)) (cvs_CallOpts s)"

definition CallerSession_Owner ::
    "('w, 'l, 'o, 'a, 'b) bind_lib \<Rightarrow> ('w, 'l, 'o) ChannelverifyCallerSession \<Rightarrow> ('w, EthAddress) io" where
  "CallerSession_Owner lib s = Owner lib (cvcs_Contract s) (cvcs_CallOpts s)"

definition Succeeded ::
    "('w, 'l, 'o, 'a, 'b) bind_lib \<Rightarrow> ('w, 'l, 'o) ChannelverifyCaller \<Rightarrow> 'o \<Rightarrow> ('w, uint256) io" where
  "Succeeded lib c opts = bindE (bc_Call (cvc_contract c) opts ''succeeded'' []) (\<lambda>out.
     lift_go (bind_go (first_result lib (V_uint256 None) out) as_uint256))"

definition Session_Succeeded ::
    "('w, 'l, 'o, 'a, 'b) bind_lib \<Rightarrow> ('w, 'l, 'o) ChannelverifySession \<Rightarrow> ('w, uint256) io" where
  "Session_Succeeded lib s = Succeeded lib (cv_Caller (cvs_Contract s)) (cvs_CallOpts s)"

definition CallerSession_Succeeded ::
    "('w, 'l, 'o, 'a, 'b) bind_lib \<Rightarrow> ('w, 'l, 'o) ChannelverifyCallerSession \<Rightarrow> ('w, uint256) io" where
  "CallerSession_Succeeded lib s = Succeeded lib (cvcs_Contract s) (cvcs_CallOpts s)"

section \<open>Transactions\<close>

definition CancelRequest ::
    "('w, 'l, 'o) ChannelverifyTransactor \<Rightarrow> TransactOpts \<Rightarrow> bytes32 \<Rightarrow> uint256 \<Rightarrow> bytes4 \<Rightarrow> uint256 \<Rightarrow> ('w, Transaction) io" where
  "CancelRequest t opts requestId payment callbackFunctionId expiration = bc_Transact (cvt_contract t) opts ''cancelRequest''
     [V_bytes32 requestId, V_uint256 payment, V_bytes4 callbackFunctionId, V_uint256 expiration]"

definition Session_CancelRequest ::
    "('w, 'l, 'o) ChannelverifySession \<Rightarrow> bytes32 \<Rightarrow> uint256 \<Rightarrow> bytes4 \<Rightarrow> uint256 \<Rightarrow> ('w, Transaction) io" where
  "Session_CancelRequest s = CancelRequest (cv_Transactor (cvs_Contract s)) (cvs_TransactOpts s)"

definition TransactorSession_CancelRequest ::
    "('w, 'l, 'o) ChannelverifyTransactorSession \<Rightarrow> bytes32 \<Rightarrow> uint256 \<Rightarrow> bytes4 \<Rightarrow> uint256 \<Rightarrow> ('w, Transaction) io" where
  "TransactorSession_CancelRequest s = CancelRequest (cvts_Contract s) (cvts_TransactOpts s)"

definition FulfillVerifyChannel ::
    "('w, 'l, 'o) ChannelverifyTransactor \<Rightarrow> TransactOpts \<Rightarrow> bytes32 \<Rightarrow> uint256 \<Rightarrow> ('w, Transaction) io" where
  "FulfillVerifyChannel t opts requestId settleheight = bc_Transact (cvt_contract t) opts ''fulfillVerifyChannel''
     [V_bytes32 requestId, V_uint256 settleheight]"

definition Session_FulfillVerifyChannel ::
    "('w, 'l, 'o) ChannelverifySession \<Rightarrow> bytes32 \<Rightarrow> uint256 \<Rightarrow> ('w, Transaction) io" where
  "Session_FulfillVerifyChannel s = FulfillVerifyChannel (cv_Transactor (cvs_Contract s)) (cvs_TransactOpts s)"

definition TransactorSession_FulfillVerifyChannel ::
    "('w, 'l, 'o) ChannelverifyTransactorSession \<Rightarrow> bytes32 \<Rightarrow> uint256 \<Rightarrow> ('w, Transaction) io" where
  "TransactorSession_FulfillVerifyChannel s = FulfillVerifyChannel (cvts_Contract s) (cvts_TransactOpts s)"

definition RenounceOwnership ::
    "('w, 'l, 'o) ChannelverifyTransactor \<Rightarrow> TransactOpts \<Rightarrow> ('w, Transaction) io" where
  "RenounceOwnership t opts = bc_Transact (cvt_contract t) opts ''renounceOwnership'' []"

definition Session_RenounceOwnership ::
    "('w, 'l, 'o) ChannelverifySession \<Rightarrow> ('w, Transaction) io" where
  "Session_RenounceOwnership s = RenounceOwnership (cv_Transactor (cvs_Contract s)) (cvs_TransactOpts s)"

definition TransactorSession_RenounceOwnership ::
    "('w, 'l, 'o) ChannelverifyTransactorSession \<Rightarrow> ('w, Transaction) io" where
  "TransactorSession_RenounceOwnership s = RenounceOwnership (cvts_Contract s) (cvts_TransactOpts s)"

definition TransferOwnership ::
    "('w, 'l, 'o) ChannelverifyTransactor \<Rightarrow> TransactOpts \<Rightarrow> EthAddress \<Rightarrow> ('w, Transaction) io" where
  "TransferOwnership t opts newOwner = bc_Transact (cvt_contract t) opts ''transferOwnership''
     [V_address newOwner]"

definition Session_TransferOwnership ::
    "('w, 'l, 'o) ChannelverifySession \<Rightarrow> EthAddress \<Rightarrow> ('w, Transaction) io" where
  "Session_TransferOwnership s = TransferOwnership (cv_Transactor (cvs_Contract s)) (cvs_TransactOpts s)"

definition TransactorSession_TransferOwnership ::
    "('w, 'l, 'o) ChannelverifyTransactorSession \<Rightarrow> EthAddress \<Rightarrow> ('w, Transaction) io" where
  "TransactorSession_TransferOwnership s = TransferOwnership (cvts_Contract s) (cvts_TransactOpts s)"

definition VerifyChannel ::
    "('w, 'l, 'o) ChannelverifyTransactor \<Rightarrow> TransactOpts \<Rightarrow> EthAddress \<Rightarrow> string \<Rightarrow> string \<Rightarrow> ('w, Transaction) io" where
  "VerifyChannel t opts oracle jobId channel = bc_Transact (cvt_contract t) opts ''verifyChannel''
     [V_address oracle, V_string jobId, V_string channel]"

definition Session_VerifyChannel ::
    "('w, 'l, 'o) ChannelverifySession \<Rightarrow> EthAddress \<Rightarrow> string \<Rightarrow> string \<Rightarrow> ('w, Transaction) io" where
  "Session_VerifyChannel s = VerifyChannel (cv_Transactor (cvs_Contract s)) (cvs_TransactOpts s)"

definition TransactorSession_VerifyChannel ::
    "('w, 'l, 'o) ChannelverifyTransactorSession \<Rightarrow> EthAddress \<Rightarrow> string \<Rightarrow> string \<Rightarrow> ('w, Transaction) io" where
  "TransactorSession_VerifyChannel s = VerifyChannel (cvts_Contract s) (cvts_TransactOpts s)"

definition WithdrawLink ::
    "('w, 'l, 'o) ChannelverifyTransactor \<Rightarrow> TransactOpts \<Rightarrow> ('w, Transaction) io" where
  "WithdrawLink t opts = bc_Transact (cvt_contract t) opts ''withdrawLink'' []"

definition Session_WithdrawLink ::
    "('w, 'l, 'o) ChannelverifySession \<Rightarrow> ('w, Transaction) io" where
  "Session_WithdrawLink s = WithdrawLink (cv_Transactor (cvs_Contract s)) (cvs_TransactOpts s)"

definition TransactorSession_WithdrawLink ::
    "('w, 'l, 'o) ChannelverifyTransactorSession \<Rightarrow> ('w, Transaction) io" where
  "TransactorSession_WithdrawLink s = WithdrawLink (cvts_Contract s) (cvts_TransactOpts s)"

definition Fallback ::
    "('w, 'l, 'o) ChannelverifyTransactor \<Rightarrow> TransactOpts \<Rightarrow> u8 list \<Rightarrow> ('w, Transaction) io" where
  "Fallback t opts calldata = bc_RawTransact (cvt_contract t) opts calldata"

definition Session_Fallback ::
    "('w, 'l, 'o) ChannelverifySession \<Rightarrow> u8 list \<Rightarrow> ('w, Transaction) io" where
  "Session_Fallback s = Fallback (cv_Transactor (cvs_Contract s)) (cvs_TransactOpts s)"

definition TransactorSession_Fallback ::
    "('w, 'l, 'o) ChannelverifyTransactorSession \<Rightarrow> u8 list \<Rightarrow> ('w, Transaction) io" where
  "TransactorSession_Fallback s = Fallback (cvts_Contract s) (cvts_TransactOpts s)"

section \<open>Iterators and watchers\<close>

text \<open>
  The file repeats the same iterator and the same forwarding loop for each event; here they are
  written once, for the function that unpacks a log into the new event and the one that sets its
  \<open>Raw\<close> field. A channel of logs is the list of the logs that wait in it. Where a \<open>select\<close> has
  several arms, the caller says which one was taken; \<open>None\<close> means that this arm has to wait.
\<close>

datatype arm = LogArm | ErrArm | SinkArm | QuitArm

record ('e, 'c, 'l) iterator =
  it_Event :: "'e option"
  it_contract :: 'c
  it_event :: string
  it_logs :: "'l list"
  it_sub :: subscription
  it_done :: bool
  it_fail :: "gerr option"

definition iterator_start :: "'c \<Rightarrow> string \<Rightarrow> 'l list \<Rightarrow> subscription \<Rightarrow> ('e, 'c, 'l) iterator" where
  "iterator_start c ev logs sub =
     \<lparr>it_Event = None, it_contract = c, it_event = ev, it_logs = logs, it_sub = sub,
      it_done = False, it_fail = None\<rparr>"

text \<open>A new event is unpacked from the next log; it stays in the iterator even where that fails.\<close>

fun take_log ::
    "('c \<Rightarrow> string \<Rightarrow> 'l \<Rightarrow> 'e \<times> gerr option) \<Rightarrow> ('l \<Rightarrow> 'e \<Rightarrow> 'e) \<Rightarrow> ('e, 'c, 'l) iterator \<Rightarrow>
      (bool \<times> ('e, 'c, 'l) iterator) option" where
  "take_log unpack raw it = (case it_logs it of
       [] \<Rightarrow> None
     | log # rest \<Rightarrow> (case unpack (it_contract it) (it_event it) log of
           (event, Some err) \<Rightarrow>
             Some (False, it\<lparr>it_logs := rest, it_Event := Some event, it_fail := Some err\<rparr>)
         | (event, None) \<Rightarrow> Some (True, it\<lparr>it_logs := rest, it_Event := Some (raw log event)\<rparr>)))"

text \<open>What \<open>Next\<close> does where the iterator failed or completed.\<close>

definition iterator_drain ::
    "('c \<Rightarrow> string \<Rightarrow> 'l \<Rightarrow> 'e \<times> gerr option) \<Rightarrow> ('l \<Rightarrow> 'e \<Rightarrow> 'e) \<Rightarrow> ('e, 'c, 'l) iterator \<Rightarrow>
      bool \<times> ('e, 'c, 'l) iterator" where
  "iterator_drain unpack raw it =
     (if it_fail it \<noteq> None then (False, it)
      else case take_log unpack raw it of None \<Rightarrow> (False, it) | Some r \<Rightarrow> r)"

text \<open>The call of \<open>Next\<close> on itself, after the subscription has ended, finds the iterator done.\<close>

definition iterator_Next ::
    "('c \<Rightarrow> string \<Rightarrow> 'l \<Rightarrow> 'e \<times> gerr option) \<Rightarrow> ('l \<Rightarrow> 'e \<Rightarrow> 'e) \<Rightarrow> arm \<Rightarrow> ('e, 'c, 'l) iterator \<Rightarrow>
      (bool \<times> ('e, 'c, 'l) iterator) option" where
  "iterator_Next unpack raw a it =
     (if it_fail it \<noteq> None then Some (False, it)
      else if it_done it then Some (iterator_drain unpack raw it)
      else case a of
        LogArm \<Rightarrow> take_log unpack raw it
      | ErrArm \<Rightarrow> (case it_sub it of
            Delivering \<Rightarrow> None
          | Ended err \<Rightarrow> Some (iterator_drain unpack raw (it\<lparr>it_done := True, it_fail := err\<rparr>)))
      | _ \<Rightarrow> None)"

text \<open>The goroutine of a watcher: it waits for a log, or has an event to send, or has returned.\<close>

datatype 'e position = Waiting | Sending 'e | Returned "gerr option"

record ('e, 'c, 'l) watcher =
  wt_contract :: 'c
  wt_event :: string
  wt_logs :: "'l list"
  wt_sub :: subscription
  wt_pos :: "'e position"

definition watcher_start :: "'c \<Rightarrow> string \<Rightarrow> 'l list \<Rightarrow> subscription \<Rightarrow> ('e, 'c, 'l) watcher" where
  "watcher_start c ev logs sub =
     \<lparr>wt_contract = c, wt_event = ev, wt_logs = logs, wt_sub = sub, wt_pos = Waiting\<rparr>"

text \<open>Whichever way it returns, the deferred call unsubscribes.\<close>

definition watcher_return ::
    "('c \<Rightarrow> subscription \<Rightarrow> subscription) \<Rightarrow> gerr option \<Rightarrow> ('e, 'c, 'l) watcher \<Rightarrow> ('e, 'c, 'l) watcher" where
  "watcher_return unsub err w =
     w\<lparr>wt_pos := Returned err, wt_sub := unsub (wt_contract w) (wt_sub w)\<rparr>"

definition watcher_receive ::
    "('c \<Rightarrow> subscription \<Rightarrow> subscription) \<Rightarrow> ('c \<Rightarrow> string \<Rightarrow> 'l \<Rightarrow> 'e \<times> gerr option) \<Rightarrow> ('l \<Rightarrow> 'e \<Rightarrow> 'e) \<Rightarrow> ('e, 'c, 'l) watcher \<Rightarrow>
      ('e, 'c, 'l) watcher option" where
  "watcher_receive unsub unpack raw w = (case wt_logs w of
       [] \<Rightarrow> None
     | log # rest \<Rightarrow> (case unpack (wt_contract w) (wt_event w) log of
           (event, Some err) \<Rightarrow> Some (watcher_return unsub (Some err) (w\<lparr>wt_logs := rest\<rparr>))
         | (event, None) \<Rightarrow> Some (w\<lparr>wt_logs := rest, wt_pos := Sending (raw log event)\<rparr>)))"

text \<open>One turn of a \<open>select\<close>, with the event that the sink has taken.\<close>

definition watcher_turn ::
    "('c \<Rightarrow> subscription \<Rightarrow> subscription) \<Rightarrow> ('c \<Rightarrow> string \<Rightarrow> 'l \<Rightarrow> 'e \<times> gerr option) \<Rightarrow> ('l \<Rightarrow> 'e \<Rightarrow> 'e) \<Rightarrow> arm \<Rightarrow> ('e, 'c, 'l) watcher \<Rightarrow>
      ('e list \<times> ('e, 'c, 'l) watcher) option" where
  "watcher_turn unsub unpack raw a w =
     (case (wt_pos w, a) of
        (Waiting, LogArm) \<Rightarrow> map_option (Pair []) (watcher_receive unsub unpack raw w)
      | (Sending event, SinkArm) \<Rightarrow> Some ([event], w\<lparr>wt_pos := Waiting\<rparr>)
      | (Returned _, _) \<Rightarrow> None
      | (_, ErrArm) \<Rightarrow> (case wt_sub w of
            Delivering \<Rightarrow> None
          | Ended err \<Rightarrow> Some ([], watcher_return unsub err w))
      | (_, QuitArm) \<Rightarrow> Some ([], watcher_return unsub None w)
      | _ \<Rightarrow> None)"

text \<open>Parsing unpacks a log and leaves \<open>Raw\<close> as it is.\<close>

definition parse_log :: "('c \<Rightarrow> string \<Rightarrow> 'l \<Rightarrow> 'e \<times> gerr option) \<Rightarrow> 'c \<Rightarrow> string \<Rightarrow> 'l \<Rightarrow> 'e go" where
  "parse_log unpack c ev log = (case unpack c ev log of
       (event, Some err) \<Rightarrow> Err err
     | (event, None) \<Rightarrow> Ok event)"

subsection \<open>ChainlinkCancelled\<close>

type_synonym ('w, 'l, 'o) ChainlinkCancelledIterator = "('l ChainlinkCancelled, ('w, 'l, 'o) BoundContract, 'l) iterator"
type_synonym ('w, 'l, 'o) ChainlinkCancelledWatcher = "('l ChainlinkCancelled, ('w, 'l, 'o) BoundContract, 'l) watcher"

definition ChainlinkCancelled_unpack ::
    "('w, 'l, 'o) BoundContract \<Rightarrow> string \<Rightarrow> 'l \<Rightarrow> 'l ChainlinkCancelled \<times> gerr option" where
  "ChainlinkCancelled_unpack c ev log = bc_UnpackChainlinkCancelled c ev log \<lparr>cc_Id = 0, cc_Raw = None\<rparr>"

definition ChainlinkCancelled_raw :: "'l \<Rightarrow> 'l ChainlinkCancelled \<Rightarrow> 'l ChainlinkCancelled" where
  "ChainlinkCancelled_raw log event = event\<lparr>cc_Raw := Some log\<rparr>"

definition ChainlinkCancelledIterator_Next ::
    "arm \<Rightarrow> ('w, 'l, 'o) ChainlinkCancelledIterator \<Rightarrow>
      (bool \<times> ('w, 'l, 'o) ChainlinkCancelledIterator) option" where
  "ChainlinkCancelledIterator_Next = iterator_Next ChainlinkCancelled_unpack ChainlinkCancelled_raw"

definition ChainlinkCancelledIterator_Error :: "('w, 'l, 'o) ChainlinkCancelledIterator \<Rightarrow> gerr option" where
  "ChainlinkCancelledIterator_Error it = it_fail it"

definition ChainlinkCancelledIterator_Close ::
    "('w, 'l, 'o) ChainlinkCancelledIterator \<Rightarrow> ('w, 'l, 'o) ChainlinkCancelledIterator" where
  "ChainlinkCancelledIterator_Close it = it\<lparr>it_sub := bc_Unsubscribe (it_contract it) (it_sub it)\<rparr>"

definition FilterChainlinkCancelled ::
    "('w, 'l, 'o) ChannelverifyFilterer \<Rightarrow> 'o \<Rightarrow> bytes32 list \<Rightarrow>
      ('w, ('w, 'l, 'o) ChainlinkCancelledIterator) io" where
  "FilterChainlinkCancelled f opts ids =
     bindE (bc_FilterLogs (cvf_contract f) opts ''ChainlinkCancelled'' [map V_bytes32 ids])
       (\<lambda>(logs, sub). ret (iterator_start (cvf_contract f) ''ChainlinkCancelled'' logs sub))"

definition WatchChainlinkCancelled ::
    "('w, 'l, 'o) ChannelverifyFilterer \<Rightarrow> 'o \<Rightarrow> bytes32 list \<Rightarrow>
      ('w, ('w, 'l, 'o) ChainlinkCancelledWatcher) io" where
  "WatchChainlinkCancelled f opts ids =
     bindE (bc_WatchLogs (cvf_contract f) opts ''ChainlinkCancelled'' [map V_bytes32 ids])
       (\<lambda>(logs, sub). ret (watcher_start (cvf_contract f) ''ChainlinkCancelled'' logs sub))"

definition WatchChainlinkCancelled_turn ::
    "arm \<Rightarrow> ('w, 'l, 'o) ChainlinkCancelledWatcher \<Rightarrow>
      ('l ChainlinkCancelled list \<times> ('w, 'l, 'o) ChainlinkCancelledWatcher) option" where
  "WatchChainlinkCancelled_turn = watcher_turn bc_Unsubscribe ChainlinkCancelled_unpack ChainlinkCancelled_raw"

definition ParseChainlinkCancelled ::
    "('w, 'l, 'o) ChannelverifyFilterer \<Rightarrow> 'l \<Rightarrow> 'l ChainlinkCancelled go" where
  "ParseChainlinkCancelled f log = parse_log ChainlinkCancelled_unpack (cvf_contract f) ''ChainlinkCancelled'' log"

subsection \<open>ChainlinkFulfilled\<close>

type_synonym ('w, 'l, 'o) ChainlinkFulfilledIterator = "('l ChainlinkFulfilled, ('w, 'l, 'o) BoundContract, 'l) iterator"
type_synonym ('w, 'l, 'o) ChainlinkFulfilledWatcher = "('l ChainlinkFulfilled, ('w, 'l, 'o) BoundContract, 'l) watcher"

definition ChainlinkFulfilled_unpack ::
    "('w, 'l, 'o) BoundContract \<Rightarrow> string \<Rightarrow> 'l \<Rightarrow> 'l ChainlinkFulfilled \<times> gerr option" where
  "ChainlinkFulfilled_unpack c ev log = bc_UnpackChainlinkFulfilled c ev log \<lparr>cf_Id = 0, cf_Raw = None\<rparr>"

definition ChainlinkFulfilled_raw :: "'l \<Rightarrow> 'l ChainlinkFulfilled \<Rightarrow> 'l ChainlinkFulfilled" where
  "ChainlinkFulfilled_raw log event = event\<lparr>cf_Raw := Some log\<rparr>"

definition ChainlinkFulfilledIterator_Next ::
    "arm \<Rightarrow> ('w, 'l, 'o) ChainlinkFulfilledIterator \<Rightarrow>
      (bool \<times> ('w, 'l, 'o) ChainlinkFulfilledIterator) option" where
  "ChainlinkFulfilledIterator_Next = iterator_Next ChainlinkFulfilled_unpack ChainlinkFulfilled_raw"

definition ChainlinkFulfilledIterator_Error :: "('w, 'l, 'o) ChainlinkFulfilledIterator \<Rightarrow> gerr option" where
  "ChainlinkFulfilledIterator_Error it = it_fail it"

definition ChainlinkFulfilledIterator_Close ::
    "('w, 'l, 'o) ChainlinkFulfilledIterator \<Rightarrow> ('w, 'l, 'o) ChainlinkFulfilledIterator" where
  "ChainlinkFulfilledIterator_Close it = it\<lparr>it_sub := bc_Unsubscribe (it_contract it) (it_sub it)\<rparr>"

definition FilterChainlinkFulfilled ::
    "('w, 'l, 'o) ChannelverifyFilterer \<Rightarrow> 'o \<Rightarrow> bytes32 list \<Rightarrow>
      ('w, ('w, 'l, 'o) ChainlinkFulfilledIterator) io" where
  "FilterChainlinkFulfilled f opts ids =
     bindE (bc_FilterLogs (cvf_contract f) opts ''ChainlinkFulfilled'' [map V_bytes32 ids])
       (\<lambda>(logs, sub). ret (iterator_start (cvf_contract f) ''ChainlinkFulfilled'' logs sub))"

definition WatchChainlinkFulfilled ::
    "('w, 'l, 'o) ChannelverifyFilterer \<Rightarrow> 'o \<Rightarrow> bytes32 list \<Rightarrow>
      ('w, ('w, 'l, 'o) ChainlinkFulfilledWatcher) io" where
  "WatchChainlinkFulfilled f opts ids =
     bindE (bc_WatchLogs (cvf_contract f) opts ''ChainlinkFulfilled'' [map V_bytes32 ids])
       (\<lambda>(logs, sub). ret (watcher_start (cvf_contract f) ''ChainlinkFulfilled'' logs sub))"

definition WatchChainlinkFulfilled_turn ::
    "arm \<Rightarrow> ('w, 'l, 'o) ChainlinkFulfilledWatcher \<Rightarrow>
      ('l ChainlinkFulfilled list \<times> ('w, 'l, 'o) ChainlinkFulfilledWatcher) option" where
  "WatchChainlinkFulfilled_turn = watcher_turn bc_Unsubscribe ChainlinkFulfilled_unpack ChainlinkFulfilled_raw"

definition ParseChainlinkFulfilled ::
    "('w, 'l, 'o) ChannelverifyFilterer \<Rightarrow> 'l \<Rightarrow> 'l ChainlinkFulfilled go" where
  "ParseChainlinkFulfilled f log = parse_log ChainlinkFulfilled_unpack (cvf_contract f) ''ChainlinkFulfilled'' log"

subsection \<open>ChainlinkRequested\<close>

type_synonym ('w, 'l, 'o) ChainlinkRequestedIterator = "('l ChainlinkRequested, ('w, 'l, 'o) BoundContract, 'l) iterator"
type_synonym ('w, 'l, 'o) ChainlinkRequestedWatcher = "('l ChainlinkRequested, ('w, 'l, 'o) BoundContract, 'l) watcher"

definition ChainlinkRequested_unpack ::
    "('w, 'l, 'o) BoundContract \<Rightarrow> string \<Rightarrow> 'l \<Rightarrow> 'l ChainlinkRequested \<times> gerr option" where
  "ChainlinkRequested_unpack c ev log = bc_UnpackChainlinkRequested c ev log \<lparr>cr_Id = 0, cr_Raw = None\<rparr>"

definition ChainlinkRequested_raw :: "'l \<Rightarrow> 'l ChainlinkRequested \<Rightarrow> 'l ChainlinkRequested" where
  "ChainlinkRequested_raw log event = event\<lparr>cr_Raw := Some log\<rparr>"

definition ChainlinkRequestedIterator_Next ::
    "arm \<Rightarrow> ('w, 'l, 'o) ChainlinkRequestedIterator \<Rightarrow>
      (bool \<times> ('w, 'l, 'o) ChainlinkRequestedIterator) option" where
  "ChainlinkRequestedIterator_Next = iterator_Next ChainlinkRequested_unpack ChainlinkRequested_raw"

definition ChainlinkRequestedIterator_Error :: "('w, 'l, 'o) ChainlinkRequestedIterator \<Rightarrow> gerr option" where
  "ChainlinkRequestedIterator_Error it = it_fail it"

definition ChainlinkRequestedIterator_Close ::
    "('w, 'l, 'o) ChainlinkRequestedIterator \<Rightarrow> ('w, 'l, 'o) ChainlinkRequestedIterator" where
  "ChainlinkRequestedIterator_Close it = it\<lparr>it_sub := bc_Unsubscribe (it_contract it) (it_sub it)\<rparr>"

definition FilterChainlinkRequested ::
    "('w, 'l, 'o) ChannelverifyFilterer \<Rightarrow> 'o \<Rightarrow> bytes32 list \<Rightarrow>
      ('w, ('w, 'l, 'o) ChainlinkRequestedIterator) io" where
  "FilterChainlinkRequested f opts ids =
     bindE (bc_FilterLogs (cvf_contract f) opts ''ChainlinkRequested'' [map V_bytes32 ids])
       (\<lambda>(logs, sub). ret (iterator_start (cvf_contract f) ''ChainlinkRequested'' logs sub))"

definition WatchChainlinkRequested ::
    "('w, 'l, 'o) ChannelverifyFilterer \<Rightarrow> 'o \<Rightarrow> bytes32 list \<Rightarrow>
      ('w, ('w, 'l, 'o) ChainlinkRequestedWatcher) io" where
  "WatchChainlinkRequested f opts ids =
     bindE (bc_WatchLogs (cvf_contract f) opts ''ChainlinkRequested'' [map V_bytes32 ids])
       (\<lambda>(logs, sub). ret (watcher_start (cvf_contract f) ''ChainlinkRequested'' logs sub))"

definition WatchChainlinkRequested_turn ::
    "arm \<Rightarrow> ('w, 'l, 'o) ChainlinkRequestedWatcher \<Rightarrow>
      ('l ChainlinkRequested list \<times> ('w, 'l, 'o) ChainlinkRequestedWatcher) option" where
  "WatchChainlinkRequested_turn = watcher_turn bc_Unsubscribe ChainlinkRequested_unpack ChainlinkRequested_raw"

definition ParseChainlinkRequested ::
    "('w, 'l, 'o) ChannelverifyFilterer \<Rightarrow> 'l \<Rightarrow> 'l ChainlinkRequested go" where
  "ParseChainlinkRequested f log = parse_log ChainlinkRequested_unpack (cvf_contract f) ''ChainlinkRequested'' log"

subsection \<open>OwnershipRenounced\<close>

type_synonym ('w, 'l, 'o) OwnershipRenouncedIterator = "('l OwnershipRenounced, ('w, 'l, 'o) BoundContract, 'l) iterator"
type_synonym ('w, 'l, 'o) OwnershipRenouncedWatcher = "('l OwnershipRenounced, ('w, 'l, 'o) BoundContract, 'l) watcher"

definition OwnershipRenounced_unpack ::
    "('w, 'l, 'o) BoundContract \<Rightarrow> string \<Rightarrow> 'l \<Rightarrow> 'l OwnershipRenounced \<times> gerr option" where
  "OwnershipRenounced_unpack c ev log = bc_UnpackOwnershipRenounced c ev log \<lparr>orn_PreviousOwner = 0, orn_Raw = None\<rparr>"

definition OwnershipRenounced_raw :: "'l \<Rightarrow> 'l OwnershipRenounced \<Rightarrow> 'l OwnershipRenounced" where
  "OwnershipRenounced_raw log event = event\<lparr>orn_Raw := Some log\<rparr>"

definition OwnershipRenouncedIterator_Next ::
    "arm \<Rightarrow> ('w, 'l, 'o) OwnershipRenouncedIterator \<Rightarrow>
      (bool \<times> ('w, 'l, 'o) OwnershipRenouncedIterator) option" where
  "OwnershipRenouncedIterator_Next = iterator_Next OwnershipRenounced_unpack OwnershipRenounced_raw"

definition OwnershipRenouncedIterator_Error :: "('w, 'l, 'o) OwnershipRenouncedIterator \<Rightarrow> gerr option" where
  "OwnershipRenouncedIterator_Error it = it_fail it"

definition OwnershipRenouncedIterator_Close ::
    "('w, 'l, 'o) OwnershipRenouncedIterator \<Rightarrow> ('w, 'l, 'o) OwnershipRenouncedIterator" where
  "OwnershipRenouncedIterator_Close it = it\<lparr>it_sub := bc_Unsubscribe (it_contract it) (it_sub it)\<rparr>"

definition FilterOwnershipRenounced ::
    "('w, 'l, 'o) ChannelverifyFilterer \<Rightarrow> 'o \<Rightarrow> EthAddress list \<Rightarrow>
      ('w, ('w, 'l, 'o) OwnershipRenouncedIterator) io" where
  "FilterOwnershipRenounced f opts previousOwners =
     bindE (bc_FilterLogs (cvf_contract f) opts ''OwnershipRenounced'' [map V_address previousOwners])
       (\<lambda>(logs, sub). ret (iterator_start (cvf_contract f) ''OwnershipRenounced'' logs sub))"

definition WatchOwnershipRenounced ::
    "('w, 'l, 'o) ChannelverifyFilterer \<Rightarrow> 'o \<Rightarrow> EthAddress list \<Rightarrow>
      ('w, ('w, 'l, 'o) OwnershipRenouncedWatcher) io" where
  "WatchOwnershipRenounced f opts previousOwners =
     bindE (bc_WatchLogs (cvf_contract f) opts ''OwnershipRenounced'' [map V_address previousOwners])
       (\<lambda>(logs, sub). ret (watcher_start (cvf_contract f) ''OwnershipRenounced'' logs sub))"

definition WatchOwnershipRenounced_turn ::
    "arm \<Rightarrow> ('w, 'l, 'o) OwnershipRenouncedWatcher \<Rightarrow>
      ('l OwnershipRenounced list \<times> ('w, 'l, 'o) OwnershipRenouncedWatcher) option" where
  "WatchOwnershipRenounced_turn = watcher_turn bc_Unsubscribe OwnershipRenounced_unpack OwnershipRenounced_raw"

definition ParseOwnershipRenounced ::
    "('w, 'l, 'o) ChannelverifyFilterer \<Rightarrow> 'l \<Rightarrow> 'l OwnershipRenounced go" where
  "ParseOwnershipRenounced f log = parse_log OwnershipRenounced_unpack (cvf_contract f) ''OwnershipRenounced'' log"

subsection \<open>OwnershipTransferred\<close>

type_synonym ('w, 'l, 'o) OwnershipTransferredIterator = "('l OwnershipTransferred, ('w, 'l, 'o) BoundContract, 'l) iterator"
type_synonym ('w, 'l, 'o) OwnershipTransferredWatcher = "('l OwnershipTransferred, ('w, 'l, 'o) BoundContract, 'l) watcher"

definition OwnershipTransferred_unpack ::
    "('w, 'l, 'o) BoundContract \<Rightarrow> string \<Rightarrow> 'l \<Rightarrow> 'l OwnershipTransferred \<times> gerr option" where
  "OwnershipTransferred_unpack c ev log = bc_UnpackOwnershipTransferred c ev log \<lparr>otr_PreviousOwner = 0, otr_NewOwner = 0, otr_Raw = None\<rparr>"

definition OwnershipTransferred_raw :: "'l \<Rightarrow> 'l OwnershipTransferred \<Rightarrow> 'l OwnershipTransferred" where
  "OwnershipTransferred_raw log event = event\<lparr>otr_Raw := Some log\<rparr>"

definition OwnershipTransferredIterator_Next ::
    "arm \<Rightarrow> ('w, 'l, 'o) OwnershipTransferredIterator \<Rightarrow>
      (bool \<times> ('w, 'l, 'o) OwnershipTransferredIterator) option" where
  "OwnershipTransferredIterator_Next = iterator_Next OwnershipTransferred_unpack OwnershipTransferred_raw"

definition OwnershipTransferredIterator_Error :: "('w, 'l, 'o) OwnershipTransferredIterator \<Rightarrow> gerr option" where
  "OwnershipTransferredIterator_Error it = it_fail it"

definition OwnershipTransferredIterator_Close ::
    "('w, 'l, 'o) OwnershipTransferredIterator \<Rightarrow> ('w, 'l, 'o) OwnershipTransferredIterator" where
  "OwnershipTransferredIterator_Close it = it\<lparr>it_sub := bc_Unsubscribe (it_contract it) (it_sub it)\<rparr>"

definition FilterOwnershipTransferred ::
    "('w, 'l, 'o) ChannelverifyFilterer \<Rightarrow> 'o \<Rightarrow> EthAddress list \<Rightarrow> EthAddress list \<Rightarrow>
      ('w, ('w, 'l, 'o) OwnershipTransferredIterator) io" where
  "FilterOwnershipTransferred f opts previousOwners newOwners =
     bindE (bc_FilterLogs (cvf_contract f) opts ''OwnershipTransferred'' [map V_address previousOwners, map V_address newOwners])
       (\<lambda>(logs, sub). ret (iterator_start (cvf_contract f) ''OwnershipTransferred'' logs sub))"

definition WatchOwnershipTransferred ::
    "('w, 'l, 'o) ChannelverifyFilterer \<Rightarrow> 'o \<Rightarrow> EthAddress list \<Rightarrow> EthAddress list \<Rightarrow>
      ('w, ('w, 'l, 'o) OwnershipTransferredWatcher) io" where
  "WatchOwnershipTransferred f opts previousOwners newOwners =
     bindE (bc_WatchLogs (cvf_contract f) opts ''OwnershipTransferred'' [map V_address previousOwners, map V_address newOwners])
       (\<lambda>(logs, sub). ret (watcher_start (cvf_contract f) ''OwnershipTransferred'' logs sub))"

definition WatchOwnershipTransferred_turn ::
    "arm \<Rightarrow> ('w, 'l, 'o) OwnershipTransferredWatcher \<Rightarrow>
      ('l OwnershipTransferred list \<times> ('w, 'l, 'o) OwnershipTransferredWatcher) option" where
  "WatchOwnershipTransferred_turn = watcher_turn bc_Unsubscribe OwnershipTransferred_unpack OwnershipTransferred_raw"

definition ParseOwnershipTransferred ::
    "('w, 'l, 'o) ChannelverifyFilterer \<Rightarrow> 'l \<Rightarrow> 'l OwnershipTransferred go" where
  "ParseOwnershipTransferred f log = parse_log OwnershipTransferred_unpack (cvf_contract f) ''OwnershipTransferred'' log"

subsection \<open>RequestVerifyChannelFulfilled\<close>

type_synonym ('w, 'l, 'o) RequestVerifyChannelFulfilledIterator = "('l RequestVerifyChannelFulfilled, ('w, 'l, 'o) BoundContract, 'l) iterator"
type_synonym ('w, 'l, 'o) RequestVerifyChannelFulfilledWatcher = "('l RequestVerifyChannelFulfilled, ('w, 'l, 'o) BoundContract, 'l) watcher"

definition RequestVerifyChannelFulfilled_unpack ::
    "('w, 'l, 'o) BoundContract \<Rightarrow> string \<Rightarrow> 'l \<Rightarrow> 'l RequestVerifyChannelFulfilled \<times> gerr option" where
  "RequestVerifyChannelFulfilled_unpack c ev log = bc_UnpackRequestVerifyChannelFulfilled c ev log \<lparr>rvf_RequestId = 0, rvf_SettleHeight = None, rvf_Raw = None\<rparr>"

definition RequestVerifyChannelFulfilled_raw :: "'l \<Rightarrow> 'l RequestVerifyChannelFulfilled \<Rightarrow> 'l RequestVerifyChannelFulfilled" where
  "RequestVerifyChannelFulfilled_raw log event = event\<lparr>rvf_Raw := Some log\<rparr>"

definition RequestVerifyChannelFulfilledIterator_Next ::
    "arm \<Rightarrow> ('w, 'l, 'o) RequestVerifyChannelFulfilledIterator \<Rightarrow>
      (bool \<times> ('w, 'l, 'o) RequestVerifyChannelFulfilledIterator) option" where
  "RequestVerifyChannelFulfilledIterator_Next = iterator_Next RequestVerifyChannelFulfilled_unpack RequestVerifyChannelFulfilled_raw"

definition RequestVerifyChannelFulfilledIterator_Error :: "('w, 'l, 'o) RequestVerifyChannelFulfilledIterator \<Rightarrow> gerr option" where
  "RequestVerifyChannelFulfilledIterator_Error it = it_fail it"

definition RequestVerifyChannelFulfilledIterator_Close ::
    "('w, 'l, 'o) RequestVerifyChannelFulfilledIterator \<Rightarrow> ('w, 'l, 'o) RequestVerifyChannelFulfilledIterator" where
  "RequestVerifyChannelFulfilledIterator_Close it = it\<lparr>it_sub := bc_Unsubscribe (it_contract it) (it_sub it)\<rparr>"

definition FilterRequestVerifyChannelFulfilled ::
    "('w, 'l, 'o) ChannelverifyFilterer \<Rightarrow> 'o \<Rightarrow> bytes32 list \<Rightarrow> uint256 list \<Rightarrow>
      ('w, ('w, 'l, 'o) RequestVerifyChannelFulfilledIterator) io" where
  "FilterRequestVerifyChannelFulfilled f opts requestIds settleHeights =
     bindE (bc_FilterLogs (cvf_contract f) opts ''RequestVerifyChannelFulfilled'' [map V_bytes32 requestIds, map V_uint256 settleHeights])
       (\<lambda>(logs, sub). ret (iterator_start (cvf_contract f) ''RequestVerifyChannelFulfilled'' logs sub))"

definition WatchRequestVerifyChannelFulfilled ::
    "('w, 'l, 'o) ChannelverifyFilterer \<Rightarrow> 'o \<Rightarrow> bytes32 list \<Rightarrow> uint256 list \<Rightarrow>
      ('w, ('w, 'l, 'o) RequestVerifyChannelFulfilledWatcher) io" where
  "WatchRequestVerifyChannelFulfilled f opts requestIds settleHeights =
     bindE (bc_WatchLogs (cvf_contract f) opts ''RequestVerifyChannelFulfilled'' [map V_bytes32 requestIds, map V_uint256 settleHeights])
       (\<lambda>(logs, sub). ret (watcher_start (cvf_contract f) ''RequestVerifyChannelFulfilled'' logs sub))"

definition WatchRequestVerifyChannelFulfilled_turn ::
    "arm \<Rightarrow> ('w, 'l, 'o) RequestVerifyChannelFulfilledWatcher \<Rightarrow>
      ('l RequestVerifyChannelFulfilled list \<times> ('w, 'l, 'o) RequestVerifyChannelFulfilledWatcher) option" where
  "WatchRequestVerifyChannelFulfilled_turn = watcher_turn bc_Unsubscribe RequestVerifyChannelFulfilled_unpack RequestVerifyChannelFulfilled_raw"

definition ParseRequestVerifyChannelFulfilled ::
    "('w, 'l, 'o) ChannelverifyFilterer \<Rightarrow> 'l \<Rightarrow> 'l RequestVerifyChannelFulfilled go" where
  "ParseRequestVerifyChannelFulfilled f log = parse_log RequestVerifyChannelFulfilled_unpack (cvf_contract f) ''RequestVerifyChannelFulfilled'' log"

section \<open>The client\<close>

text \<open>The libraries of the client program: the connection to a node and the keys. The public key
  that belongs to a private key may be of another kind (\<open>None\<close>).\<close>

record ('w, 'b, 'k, 'p) eth_lib =
  el_Dial :: "string \<Rightarrow> ('w, 'b) io"
  el_HexToECDSA :: "string \<Rightarrow> 'k go"
  el_Public :: "'k \<Rightarrow> 'p option"
  el_PubkeyToAddress :: "'p \<Rightarrow> EthAddress"
  el_PendingNonceAt :: "'b \<Rightarrow> EthAddress \<Rightarrow> ('w, u64) io"
  el_SuggestGasPrice :: "'b \<Rightarrow> ('w, uint256) io"
  el_NewKeyedTransactor :: "'k \<Rightarrow> TransactOpts"
  el_HexToAddress :: "string \<Rightarrow> EthAddress"

text \<open>The program ends with the first error (\<open>log.Fatal\<close>); its result is the transaction it sent.\<close>

definition oracle_main ::
    "('w, 'l, 'o, 'a, 'b) bind_lib \<Rightarrow> ('w, 'b, 'k, 'p) eth_lib \<Rightarrow> ('w, Transaction) io" where
  "oracle_main lib eth =
     bindE (el_Dial eth ''http://localhost:7545'') (\<lambda>client.
     bindE (lift_go (el_HexToECDSA eth ''447f92f685cc09d544c5b0dc83cc8358a5ea3b7740ad2a36ed8215f29c86ffab''))
       (\<lambda>privateKey.
     case el_Public eth privateKey of
       None \<Rightarrow> fail (GErr ''error casting public key to ECDSA'')
     | Some publicKeyECDSA \<Rightarrow>
         bindE (el_PendingNonceAt eth client (el_PubkeyToAddress eth publicKeyECDSA)) (\<lambda>nonce.
         bindE (el_SuggestGasPrice eth client) (\<lambda>gasPrice.
         let auth = (el_NewKeyedTransactor eth privateKey)
               \<lparr>to_Nonce := Some (int64 nonce), to_Value := Some 0, to_GasLimit := 300000,
                to_GasPrice := gasPrice\<rparr>;
             address = el_HexToAddress eth ''0xa0cEeCf0B1f9Ed7dF6287A09d188E949839DECC2''
         in bindE (lift_go (NewChannelverify lib address client)) (\<lambda>inst.
            VerifyChannel (cv_Transactor inst) auth
              (el_HexToAddress eth ''0x8af9fddd9f09e7b48c4291cf8d1ef5fe6ef1d806'')
              ''2263df3fc8524eb28e8eb28266c152db'' ''f033012'')))))"

end
