(* ===== verification/OracleProps.thy ===== *)
theory OracleProps
  imports Oracle
begin

text \<open>
  What the iterators and the forwarding loops of the contract's events deliver, however the arrival
  of logs, the end of the subscription and the arms of the \<open>select\<close>s are interleaved.
\<close>

section \<open>Iterators\<close>

text \<open>
  The runs of an iterator: logs arrive while the subscription delivers, it ends with or without an
  error and delivers nothing more, and \<open>Next\<close> is called. A run records all logs that came and the
  events that were found.
\<close>

inductive iteration ::
    "(arm \<Rightarrow> ('e, 'c, 'l) iterator \<Rightarrow> (bool \<times> ('e, 'c, 'l) iterator) option) \<Rightarrow>
      ('e, 'c, 'l) iterator \<Rightarrow> ('e, 'c, 'l) iterator \<Rightarrow> 'l list \<Rightarrow> 'e list \<Rightarrow> bool"
  for nxt it0 where
  start: "iteration nxt it0 it0 (it_logs it0) []"
| arrives: "iteration nxt it0 it ls es \<Longrightarrow> it_sub it = Delivering \<Longrightarrow>
    iteration nxt it0 (it\<lparr>it_logs := it_logs it @ [l]\<rparr>) (ls @ [l]) es"
| ends: "iteration nxt it0 it ls es \<Longrightarrow> it_sub it = Delivering \<Longrightarrow>
    iteration nxt it0 (it\<lparr>it_sub := Ended err\<rparr>) ls es"
| found: "iteration nxt it0 it ls es \<Longrightarrow> nxt a it = Some (True, it') \<Longrightarrow> it_Event it' = Some e \<Longrightarrow>
    iteration nxt it0 it' ls (es @ [e])"
| over: "iteration nxt it0 it ls es \<Longrightarrow> nxt a it = Some (False, it') \<Longrightarrow> iteration nxt it0 it' ls es"

text \<open>The events of logs that can be unpacked.\<close>

definition events_of ::
    "('l \<Rightarrow> 'e \<times> gerr option) \<Rightarrow> ('l \<Rightarrow> 'e \<Rightarrow> 'e) \<Rightarrow> 'l list \<Rightarrow> 'e list \<Rightarrow> bool" where
  "events_of unpack raw ls es \<longleftrightarrow>
     es = map (\<lambda>l. raw l (fst (unpack l))) ls \<and> (\<forall>l \<in> set ls. snd (unpack l) = None)"

text \<open>The events found so far are those of the first logs, in their order.\<close>

definition events_so_far ::
    "('l \<Rightarrow> 'e \<times> gerr option) \<Rightarrow> ('l \<Rightarrow> 'e \<Rightarrow> 'e) \<Rightarrow> 'l list \<Rightarrow> 'e list \<Rightarrow> bool" where
  "events_so_far unpack raw ls es \<longleftrightarrow>
     length es \<le> length ls \<and> events_of unpack raw (take (length es) ls) es"

lemma events_so_far_Nil [simp]: "events_so_far unpack raw ls []"
  by (simp add: events_so_far_def events_of_def)

lemma events_so_far_more:
  "events_so_far unpack raw ls es \<Longrightarrow> events_so_far unpack raw (ls @ [l]) es"
  by (simp add: events_so_far_def)

lemma events_so_far_next:
  assumes "events_so_far unpack raw ls es" "drop (length es) ls = l # rest" "unpack l = (e, None)"
  shows "events_so_far unpack raw ls (es @ [raw l e])" "drop (Suc (length es)) ls = rest"
    "length es < length ls" "ls ! length es = l"
proof -
  have lt: "length es < length ls"
    using assms(2) by (metis drop_all list.distinct(1) not_le)
  then have l: "ls ! length es = l" "drop (Suc (length es)) ls = rest"
    using assms(2) by (metis Cons_nth_drop_Suc list.inject)+
  then show "events_so_far unpack raw ls (es @ [raw l e])"
    using assms(1,3) lt
    by (auto simp: events_so_far_def events_of_def take_Suc_conv_app_nth)
  show "drop (Suc (length es)) ls = rest" "length es < length ls" "ls ! length es = l"
    using l lt by simp_all
qed

definition iteration_inv ::
    "('c \<Rightarrow> string \<Rightarrow> 'l \<Rightarrow> 'e \<times> gerr option) \<Rightarrow> ('l \<Rightarrow> 'e \<Rightarrow> 'e) \<Rightarrow> 'c \<Rightarrow> string \<Rightarrow>
      ('e, 'c, 'l) iterator \<Rightarrow> 'l list \<Rightarrow> 'e list \<Rightarrow> bool" where
  "iteration_inv unpack raw c ev it ls es \<longleftrightarrow>
     it_contract it = c \<and> it_event it = ev \<and> events_so_far (unpack c ev) raw ls es \<and>
     (it_fail it = None \<longrightarrow> it_logs it = drop (length es) ls) \<and>
     (it_done it \<longrightarrow> it_fail it = None \<longrightarrow> it_sub it = Ended None) \<and>
     (\<forall>e. it_fail it = Some e \<longrightarrow> it_sub it = Ended (Some e) \<or>
        length es < length ls \<and> snd (unpack c ev (ls ! length es)) = Some e)"

text \<open>A log that is taken leads on to the next one, or to the error of its unpacking.\<close>

lemma take_log_inv:
  assumes "iteration_inv unpack raw c ev it ls es" "take_log unpack raw it = Some (b, it')"
    "it_fail it = None"
  shows "b \<Longrightarrow> it_Event it' = Some e \<Longrightarrow> iteration_inv unpack raw c ev it' ls (es @ [e])"
    "\<not> b \<Longrightarrow> iteration_inv unpack raw c ev it' ls es \<and> it_fail it' \<noteq> None"
proof -
  note I = assms(1) [unfolded iteration_inv_def]
  from assms(2) obtain l rest x err where
    l: "it_logs it = l # rest" "unpack c ev l = (x, err)"
    using I by (cases "it_logs it"; cases "unpack c ev (hd (it_logs it))") auto
  have d: "drop (length es) ls = l # rest" using I l(1) assms(3) by simp
  have lt: "length es < length ls" "ls ! length es = l"
    using d by (metis drop_all list.distinct(1) not_le) (metis d drop_all hd_drop_conv_nth list.distinct(1) list.sel(1) not_le)
  show "iteration_inv unpack raw c ev it' ls (es @ [e])" if b: "b" "it_Event it' = Some e"
  proof -
    have "err = None" using assms(2) l I b(1) by (cases err) auto
    then have "it' = it\<lparr>it_logs := rest, it_Event := Some (raw l x)\<rparr>" "e = raw l x"
      using assms(2) l I b by auto
    with events_so_far_next [of "unpack c ev" raw ls es l rest x] I d l(2) \<open>err = None\<close> assms(3)
    show ?thesis by (simp add: iteration_inv_def)
  qed
  show "iteration_inv unpack raw c ev it' ls es \<and> it_fail it' \<noteq> None" if b: "\<not> b"
  proof -
    obtain er where "err = Some er" using assms(2) l I b by (cases err) auto
    then have "it' = it\<lparr>it_logs := rest, it_Event := Some x, it_fail := Some er\<rparr>"
      using assms(2) l I b by auto
    with I lt l(2) \<open>err = Some er\<close> show ?thesis by (simp add: iteration_inv_def)
  qed
qed

lemma take_log_None: "take_log unpack raw it = None \<longleftrightarrow> it_logs it = []"
  by (auto split: list.splits prod.splits option.splits)

declare take_log.simps [simp del]

lemma iterator_drain_cases:
  assumes "iterator_drain unpack raw it = (b, it')"
  obtains (failed) "it_fail it \<noteq> None" "\<not> b" "it' = it"
    | (log) "it_fail it = None" "take_log unpack raw it = Some (b, it')"
    | (empty) "it_fail it = None" "it_logs it = []" "\<not> b" "it' = it"
proof (cases "it_fail it = None")
  case False
  with assms have "\<not> b" "it' = it" by (simp_all add: iterator_drain_def)
  with False failed show thesis by simp
next
  case True
  show thesis
  proof (cases "take_log unpack raw it")
    case None
    with assms True have "\<not> b" "it' = it" by (simp_all add: iterator_drain_def)
    with None True empty show thesis by (simp add: take_log_None)
  next
    case (Some r)
    with assms True log show thesis by (simp add: iterator_drain_def)
  qed
qed

text \<open>Draining keeps the invariant, and says that nothing is left only where that is so.\<close>

lemma iterator_drain_inv:
  assumes I: "iteration_inv unpack raw c ev it ls es"
    and D: "iterator_drain unpack raw it = (b, it')" and dn: "it_done it"
  shows "b \<Longrightarrow> it_Event it' = Some e \<Longrightarrow> iteration_inv unpack raw c ev it' ls (es @ [e])"
    "\<not> b \<Longrightarrow> iteration_inv unpack raw c ev it' ls es \<and>
      (it_fail it' = None \<longrightarrow> it_logs it' = [] \<and> it_done it')"
proof -
  show "iteration_inv unpack raw c ev it' ls (es @ [e])" if "b" "it_Event it' = Some e"
    using D
  proof (cases rule: iterator_drain_cases)
    case log
    from take_log_inv(1) [OF I log(2,1) that] show ?thesis .
  qed (use that in simp_all)
  show "iteration_inv unpack raw c ev it' ls es \<and>
      (it_fail it' = None \<longrightarrow> it_logs it' = [] \<and> it_done it')" if "\<not> b"
    using D
  proof (cases rule: iterator_drain_cases)
    case log
    from take_log_inv(2) [OF I log(2,1) that] show ?thesis by auto
  qed (use I dn in auto)
qed

lemma iterator_Next_cases:
  assumes "iterator_Next unpack raw a it = Some (b, it')"
  obtains (failed) "it_fail it \<noteq> None" "\<not> b" "it' = it"
    | (finished) "it_done it" "iterator_drain unpack raw it = (b, it')"
    | (log) "it_fail it = None" "take_log unpack raw it = Some (b, it')"
    | (ended) err where "it_fail it = None" "it_sub it = Ended err"
        "iterator_drain unpack raw (it\<lparr>it_done := True, it_fail := err\<rparr>) = (b, it')"
  using assms unfolding iterator_Next_def
  by (cases a; cases "it_sub it"; simp split: if_splits)

lemma iterator_Next_inv:
  assumes I: "iteration_inv unpack raw c ev it ls es"
    and N: "iterator_Next unpack raw a it = Some (b, it')"
  shows "b \<Longrightarrow> it_Event it' = Some e \<Longrightarrow> iteration_inv unpack raw c ev it' ls (es @ [e])"
    "\<not> b \<Longrightarrow> iteration_inv unpack raw c ev it' ls es \<and>
      (it_fail it' = None \<longrightarrow> it_logs it' = [] \<and> it_done it')"
proof -
  have E: "iteration_inv unpack raw c ev (it\<lparr>it_done := True, it_fail := err\<rparr>) ls es"
    if "it_fail it = None" "it_sub it = Ended err" for err
    using I that by (simp add: iteration_inv_def)
  show "iteration_inv unpack raw c ev it' ls (es @ [e])" if "b" "it_Event it' = Some e"
    using N
  proof (cases rule: iterator_Next_cases)
    case (ended err)
    with iterator_drain_inv(1) [OF E ended(3)] that show ?thesis by simp
  next
    case finished
    from iterator_drain_inv(1) [OF I finished(2,1) that] show ?thesis .
  next
    case log
    from take_log_inv(1) [OF I log(2,1) that] show ?thesis .
  qed (use that in simp)
  show "iteration_inv unpack raw c ev it' ls es \<and>
      (it_fail it' = None \<longrightarrow> it_logs it' = [] \<and> it_done it')" if "\<not> b"
    using N
  proof (cases rule: iterator_Next_cases)
    case (ended err)
    with iterator_drain_inv(2) [OF E ended(3)] that show ?thesis by simp
  next
    case finished
    from iterator_drain_inv(2) [OF I finished(2,1) that] show ?thesis .
  next
    case log
    from take_log_inv(2) [OF I log(2,1) that] show ?thesis by auto
  qed (use I in auto)
qed

lemma iteration_inv:
  "iteration (iterator_Next unpack raw) (iterator_start c ev ls0 sub0) it ls es \<Longrightarrow>
     iteration_inv unpack raw c ev it ls es"
proof (induction rule: iteration.induct)
  case start
  then show ?case by (simp add: iteration_inv_def iterator_start_def)
next
  case (arrives it ls es l)
  then show ?case
    by (auto simp: iteration_inv_def events_so_far_more events_so_far_def nth_append)
next
  case (ends it ls es err)
  then show ?case by (auto simp: iteration_inv_def)
next
  case (found it ls es a it' e)
  from iterator_Next_inv(1) [OF found.IH found.hyps(2)] found.hyps(3) show ?case by simp
next
  case (over it ls es a it')
  from iterator_Next_inv(2) [OF over.IH over.hyps(2)] show ?case by simp
qed

text \<open>C33: An iterator loses no log and invents none: whatever the order in which logs arrive, the
  subscription ends and \<open>Next\<close> is called, the events found are those of the logs that came, in their
  order; a call that says there is nothing more and reports no error is made only when every log has
  been found and the subscription has ended; an error is the subscription's or that of unpacking the
  next log; and a call blocks only where nothing has come and the subscription still delivers.\<close>

theorem iterator_yields_every_log:
  assumes "iteration (iterator_Next unpack raw) (iterator_start c ev ls0 sub0) it ls es"
  shows "events_so_far (unpack c ev) raw ls es \<and>
    (\<forall>a it'. iterator_Next unpack raw a it = Some (False, it') \<and> it_fail it' = None \<longrightarrow>
       events_of (unpack c ev) raw ls es \<and> it_sub it' = Ended None) \<and>
    (\<forall>err. it_fail it = Some err \<longrightarrow> it_sub it = Ended (Some err) \<or>
       length es < length ls \<and> snd (unpack c ev (ls ! length es)) = Some err) \<and>
    ((\<forall>a. iterator_Next unpack raw a it = None) \<longrightarrow>
       events_of (unpack c ev) raw ls es \<and> it_sub it = Delivering)"
proof -
  note I = iteration_inv [OF assms]
  note D = I [unfolded iteration_inv_def]
  have all: "events_of (unpack c ev) raw ls es" if "drop (length es) ls = []"
    using D that by (simp add: events_so_far_def)
  have "events_of (unpack c ev) raw ls es \<and> it_sub it' = Ended None"
    if "iterator_Next unpack raw a it = Some (False, it')" "it_fail it' = None" for a it'
  proof -
    from iterator_Next_inv(2) [OF I that(1)] that(2)
    have J: "iteration_inv unpack raw c ev it' ls es" "it_logs it' = []" "it_done it'" by auto
    with that(2) all show ?thesis by (simp add: iteration_inv_def)
  qed
  moreover have "events_of (unpack c ev) raw ls es \<and> it_sub it = Delivering"
    if N: "\<forall>a. iterator_Next unpack raw a it = None"
  proof -
    from spec [OF N, of LogArm]
    have 1: "it_fail it = None" "\<not> it_done it" "take_log unpack raw it = None"
      by (simp_all add: iterator_Next_def split: if_splits)
    moreover from spec [OF N, of ErrArm] 1 have "it_sub it = Delivering"
      by (simp add: iterator_Next_def split: subscription.splits)
    ultimately show ?thesis using D all by (simp add: take_log_None)
  qed
  ultimately show ?thesis using D by blast
qed

definition plain_unpack :: "unit \<Rightarrow> string \<Rightarrow> nat \<Rightarrow> (nat \<times> bool) \<times> gerr option" where
  "plain_unpack c ev l = (if l < 10 then ((l, False), None) else ((0, False), Some (GErr ''abi'')))"

definition plain_raw :: "nat \<Rightarrow> nat \<times> bool \<Rightarrow> nat \<times> bool" where
  "plain_raw l e = (fst e, True)"

lemma iterator_yields_every_log_witness:
  "\<exists>it it'. iteration (iterator_Next plain_unpack plain_raw)
       (iterator_start () ''E'' [5, 7] (Ended None)) it [5, 7] [(5, True), (7, True)] \<and>
     iterator_Next plain_unpack plain_raw ErrArm it = Some (False, it') \<and> it_fail it' = None \<and>
     events_of (plain_unpack () ''E'') plain_raw [5, 7] [(5, True), (7, True)]"
proof -
  let ?n = "iterator_Next plain_unpack plain_raw" and ?s = "iterator_start () ''E'' [5, 7] (Ended None)"
  define it1 where "it1 = ?s\<lparr>it_logs := [7::nat], it_Event := Some (5::nat, True)\<rparr>"
  define it2 where "it2 = it1\<lparr>it_logs := [], it_Event := Some (7, True)\<rparr>"
  note ds = iterator_start_def it1_def it2_def iterator_Next_def iterator_drain_def take_log.simps
    plain_unpack_def plain_raw_def
  have 0: "iteration ?n ?s ?s [5, 7] []"
    using iteration.start [of ?n ?s] by (simp add: iterator_start_def)
  have 1: "iteration ?n ?s it1 [5, 7] ([] @ [(5, True)])"
    by (rule iteration.found [OF 0, of LogArm]) (simp_all add: ds)
  have 2: "iteration ?n ?s it2 [5, 7] (([] @ [(5, True)]) @ [(7, True)])"
    by (rule iteration.found [OF 1, of LogArm]) (simp_all add: ds)
  have 3: "?n ErrArm it2 = Some (False, it2\<lparr>it_done := True\<rparr>)" by (simp add: ds)
  moreover have "it_fail (it2\<lparr>it_done := True\<rparr>) = None" by (simp add: ds)
  ultimately show ?thesis
    using iterator_yields_every_log [OF 2] 2 by (metis append_Cons append_Nil)
qed

section \<open>Watchers\<close>

inductive watching ::
    "(arm \<Rightarrow> ('e, 'c, 'l) watcher \<Rightarrow> ('e list \<times> ('e, 'c, 'l) watcher) option) \<Rightarrow>
      ('e, 'c, 'l) watcher \<Rightarrow> ('e, 'c, 'l) watcher \<Rightarrow> 'l list \<Rightarrow> 'e list \<Rightarrow> bool"
  for turn w0 where
  start: "watching turn w0 w0 (wt_logs w0) []"
| arrives: "watching turn w0 w ls es \<Longrightarrow> wt_sub w = Delivering \<Longrightarrow>
    watching turn w0 (w\<lparr>wt_logs := wt_logs w @ [l]\<rparr>) (ls @ [l]) es"
| ends: "watching turn w0 w ls es \<Longrightarrow> wt_sub w = Delivering \<Longrightarrow>
    watching turn w0 (w\<lparr>wt_sub := Ended err\<rparr>) ls es"
| turns: "watching turn w0 w ls es \<Longrightarrow> turn a w = Some (sent, w') \<Longrightarrow>
    watching turn w0 w' ls (es @ sent)"

text \<open>What a watcher has sent, and what it holds, at each position.\<close>

definition watching_inv ::
    "('l \<Rightarrow> 'e \<times> gerr option) \<Rightarrow> ('l \<Rightarrow> 'e \<Rightarrow> 'e) \<Rightarrow> 'l list \<Rightarrow> 'l list \<Rightarrow> 'e list \<Rightarrow>
      'e position \<Rightarrow> bool" where
  "watching_inv unpack raw logs ls es pos \<longleftrightarrow>
     events_so_far unpack raw ls es \<and>
     (case pos of
        Waiting \<Rightarrow> logs = drop (length es) ls
      | Sending e \<Rightarrow> events_so_far unpack raw ls (es @ [e]) \<and> logs = drop (Suc (length es)) ls
      | Returned _ \<Rightarrow> logs = drop (length es) ls \<or>
          length es < length ls \<and> logs = drop (Suc (length es)) ls)"

lemma watching_inv_next:
  assumes "watching_inv unpack raw (l # rest) ls es Waiting" "unpack l = (x, err)"
  shows "err = None \<Longrightarrow> watching_inv unpack raw rest ls es (Sending (raw l x))"
    "watching_inv unpack raw rest ls es (Returned r)"
proof -
  from assms(1) have d: "events_so_far unpack raw ls es" "drop (length es) ls = l # rest"
    by (simp_all add: watching_inv_def)
  then have lt: "length es < length ls" by (metis drop_all list.distinct(1) not_le)
  have r: "drop (Suc (length es)) ls = rest" using d(2) lt by (metis Cons_nth_drop_Suc list.inject)
  show "watching_inv unpack raw rest ls es (Returned r)"
    using d(1) lt r by (simp add: watching_inv_def)
  show "watching_inv unpack raw rest ls es (Sending (raw l x))" if "err = None"
    using d(1) r events_so_far_next(1) [OF d, of x] assms(2) that by (simp add: watching_inv_def)
qed

lemma watching_inv_sent:
  "watching_inv unpack raw logs ls es (Sending e) \<Longrightarrow> watching_inv unpack raw logs ls (es @ [e]) Waiting"
  "watching_inv unpack raw logs ls es (Sending e) \<Longrightarrow> watching_inv unpack raw logs ls es (Returned r)"
  "watching_inv unpack raw logs ls es Waiting \<Longrightarrow> watching_inv unpack raw logs ls es (Returned r)"
  by (simp_all add: watching_inv_def events_so_far_def)

lemma watching_inv_more:
  "watching_inv unpack raw logs ls es pos \<Longrightarrow> watching_inv unpack raw (logs @ [l]) (ls @ [l]) es pos"
  by (cases pos) (auto simp: watching_inv_def events_so_far_more events_so_far_def)

lemma watcher_turn_inv:
  assumes T: "watcher_turn unsub unpack raw a w = Some (sent, w')"
    and I: "watching_inv (unpack (wt_contract w) (wt_event w)) raw (wt_logs w) ls es (wt_pos w)"
  shows "wt_contract w' = wt_contract w \<and> wt_event w' = wt_event w \<and>
    watching_inv (unpack (wt_contract w) (wt_event w)) raw (wt_logs w') ls (es @ sent) (wt_pos w')"
proof (cases "wt_pos w")
  case Waiting
  note I' = I [unfolded Waiting]
  show ?thesis
  proof (cases a)
    case LogArm
    with T Waiting obtain l rest x err where l: "wt_logs w = l # rest"
      "unpack (wt_contract w) (wt_event w) l = (x, err)"
      by (cases "wt_logs w"; cases "unpack (wt_contract w) (wt_event w) (hd (wt_logs w))")
        (auto simp: watcher_turn_def watcher_receive_def)
    with T LogArm Waiting watching_inv_next [OF I' [unfolded l(1)] l(2)] show ?thesis
      by (cases err) (auto simp: watcher_turn_def watcher_receive_def watcher_return_def)
  qed (use T Waiting watching_inv_sent(3) [OF I'] in
      \<open>auto simp: watcher_turn_def watcher_return_def split: subscription.splits\<close>)
next
  case (Sending e)
  note I' = I [unfolded Sending]
  show ?thesis
    using T Sending watching_inv_sent(1) [OF I'] watching_inv_sent(2) [OF I']
    by (cases a) (auto simp: watcher_turn_def watcher_return_def split: subscription.splits)
next
  case (Returned r)
  with T show ?thesis by (simp add: watcher_turn_def)
qed

lemma watching_holds:
  "watching (watcher_turn unsub unpack raw) (watcher_start c ev ls0 sub0) w ls es \<Longrightarrow>
     wt_contract w = c \<and> wt_event w = ev \<and>
     watching_inv (unpack c ev) raw (wt_logs w) ls es (wt_pos w)"
proof (induction rule: watching.induct)
  case start
  then show ?case by (simp add: watching_inv_def watcher_start_def)
next
  case (arrives w ls es l)
  then show ?case by (simp add: watching_inv_more)
next
  case (turns w ls es a sent w')
  with watcher_turn_inv [OF turns.hyps(2), of ls es] show ?case by simp
qed simp

text \<open>C34: A watcher forwards the events of the logs that came, in their order and each once; while it
  waits with no log left everything has been forwarded, what it is sending is the event of the next
  log, and once it has returned it never sends again, at most one log having been taken from the
  channel that was not forwarded.\<close>

theorem watcher_forwards_in_order:
  assumes "watching (watcher_turn unsub unpack raw) (watcher_start c ev ls0 sub0) w ls es"
  shows "events_so_far (unpack c ev) raw ls es \<and>
    (wt_pos w = Waiting \<and> wt_logs w = [] \<longrightarrow> events_of (unpack c ev) raw ls es) \<and>
    (\<forall>e. wt_pos w = Sending e \<longrightarrow> events_so_far (unpack c ev) raw ls (es @ [e])) \<and>
    (\<forall>err. wt_pos w = Returned err \<longrightarrow> (\<forall>a. watcher_turn unsub unpack raw a w = None) \<and>
       length ls \<le> Suc (length es + length (wt_logs w)))"
  using watching_holds [OF assms]
  by (auto simp: watching_inv_def events_so_far_def watcher_turn_def)

lemma watcher_forwards_in_order_witness:
  "\<exists>w. watching (watcher_turn (\<lambda>_ _. Ended None) plain_unpack plain_raw)
       (watcher_start () ''E'' [5] Delivering) w [5] [(5, True)] \<and> wt_pos w = Returned None \<and>
     (\<forall>a. watcher_turn (\<lambda>_ _. Ended None) plain_unpack plain_raw a w = None)"
proof -
  let ?t = "watcher_turn (\<lambda>_ _. Ended None) plain_unpack plain_raw"
  let ?s = "watcher_start () ''E'' [5] Delivering"
  define w1 where "w1 = ?s\<lparr>wt_logs := [] :: nat list, wt_pos := Sending (5::nat, True)\<rparr>"
  define w2 where "w2 = w1\<lparr>wt_pos := Waiting\<rparr>"
  define w3 where "w3 = w2\<lparr>wt_pos := Returned None, wt_sub := Ended None\<rparr>"
  note ds = watcher_start_def w1_def w2_def w3_def watcher_turn_def watcher_receive_def
    watcher_return_def plain_unpack_def plain_raw_def
  have 0: "watching ?t ?s ?s [5] []"
    using watching.start [of ?t ?s] by (simp add: watcher_start_def)
  have 1: "watching ?t ?s w1 [5] ([] @ [])"
    by (rule watching.turns [OF 0, of LogArm]) (simp add: ds)
  have 2: "watching ?t ?s w2 [5] (([] @ []) @ [(5, True)])"
    by (rule watching.turns [OF 1, of SinkArm]) (simp add: ds)
  have 3: "watching ?t ?s w3 [5] ((([] @ []) @ [(5, True)]) @ [])"
    by (rule watching.turns [OF 2, of QuitArm]) (simp add: ds)
  have "wt_pos w3 = Returned None" by (simp add: w3_def)
  with watcher_forwards_in_order [OF 3] 3 show ?thesis by auto
qed

end
