(* ===== verification/Spec2Isabelle.thy ===== *)
theory Spec2Isabelle
  imports Programs Subscribers Identifiers ActorState EventTypes ValidatorProps ChannelStoreProps CborProps FundsAgree MergedReq NodeProps LaneKeeper
    MarketProps FileStoreProps ChannelLock OracleProps
begin

text \<open>
  \<^bold>\<open>The retrieval market of Myel\<close> (\<open>src/rtmkt/lib\<close>, Go): a client pays a provider, voucher by
  voucher through a payment channel on the Filecoin chain, for the bytes that the provider sends.

  \<^bold>\<open>Parts and how they interact.\<close> A client finds providers (\<open>discovery.go\<close>), asks one for its
  prices over a query stream (\<open>network.go\<close>), which the provider answers from its ask store
  (\<open>askstore.go\<close>), and starts a deal (\<open>client.go\<close>). Each party runs the deal as a state machine
  (\<open>statemachine.go\<close>) fed by data transfer events (\<open>dtutils.go\<close>). The provider validates the
  proposal and meters the bytes sent (\<open>validators.go\<close>); when a payment interval is full it pauses the
  transfer and asks for a payment. The client's machine then creates a voucher through its node
  (\<open>node.go\<close>) and the payment channel manager (\<open>paychmgr.go\<close>), and the provider's revalidator
  checks it through the provider's own node and manager. Deals, channels, asks and peers are kept in a
  datastore in the generated CBOR encodings (\<open>types_cbor_gen.go\<close>, \<open>paychmgr_cbor_gen.go\<close>,
  \<open>discovery_types_cbor_gen.go\<close>).

  \<^bold>\<open>Theories.\<close>
  \<^item> \<open>Prelude\<close>: Go's outcomes (value, error, panic), its integers, and the operations \<open>('w, 'a) io\<close>
    through which code calls what is not under \<open>src/\<close>; \<open>'w\<close> is the world those calls act on.
  \<^item> \<open>DealTypes\<close>: \<open>types.go\<close>, \<open>dealstatus.go\<close>, \<open>clientevents.go\<close>, \<open>providerevents.go\<close>;
    \<open>Identifiers\<close>: the keys of deals, which no two deals share.
  \<^item> \<open>Fsm\<close>: tables of events and the contract \<open>fsm_engine\<close> of the state machine library;
    \<open>ClientFsm\<close>, \<open>ClientHandlers\<close>, \<open>ProviderFsm\<close>: the tables and entry functions of
    \<open>statemachine.go\<close>; \<open>DtUtils\<close>: \<open>dtutils.go\<close>.
  \<^item> \<open>Validators\<close>: \<open>validators.go\<close> and the provider's environments of \<open>environments.go\<close>.
  \<^item> \<open>Datastore\<close>, \<open>Cbor\<close>: the contracts of the datastore and of the encoding library;
    \<open>CborTypes\<close>, \<open>CborPaych\<close>: every generated encoder and decoder; \<open>CborRef\<close>: a library that
    meets the contract.
  \<^item> \<open>ChannelData\<close>, \<open>ChannelStore\<close>, \<open>Vouchers\<close>, \<open>Funds\<close>, \<open>Manager\<close>: \<open>paychmgr.go\<close>, from the
    store of channels over the vouchers and the queue of requests for funds of a channel accessor to
    the manager; \<open>Node\<close>: \<open>node.go\<close>.
  \<^item> \<open>AskStore\<close>, \<open>Discovery\<close>, \<open>Network\<close>: the files of these names; \<open>Market\<close>: \<open>client.go\<close>,
    \<open>provider.go\<close>, the client's environments and the orders of \<open>src/rtmkt/api/api.go\<close>;
    \<open>FileStore\<close>: \<open>ipfs.go\<close>; \<open>Server\<close>: the rest of \<open>api.go\<close> and the key files of \<open>spawn.go\<close>;
    \<open>Assembly\<close>: the rest of \<open>spawn.go\<close> and \<open>datatransfer.go\<close>, which put a node together;
    \<open>Commands\<close>: the programs under \<open>src/rtmkt/client\<close>, \<open>src/rtmkt/provider\<close>, \<open>src/rtmkt/filground\<close>;
    \<open>Programs\<close>: these and the API server over a node that they spawn.
  \<^item> \<open>Subscribers\<close>: the publishing of events in \<open>client.go\<close>, \<open>provider.go\<close> and \<open>paychmgr.go\<close> and the
    channels of events that \<open>api.go\<close> gives out.
  \<^item> \<open>ChannelLock\<close>: the locks of \<open>paychmgr.go\<close>.
  \<^item> \<open>Oracle\<close>: \<open>src/oracle/go-client\<close>, the bindings of the contract that asks an oracle whether a
    channel settles (calls, transactions, the events' iterators and watchers) and the program that
    calls it. The file repeats the iterator and the watcher for each of six events; \<open>iterator_Next\<close> and
    \<open>watcher_turn\<close> state them once.

  \<^bold>\<open>What is shown.\<close>
  \<^item> \<open>ClientProps\<close>, \<open>ProviderProps\<close>: invariants of all reachable deals (accounts balance, paid
    bytes are never overcounted, entry functions never follow a nil pointer, the events they trigger
    are declared) and the flaws of the tables (dead ends, lost events, completion without all
    blocks).
  \<^item> \<open>Machine\<close>, \<open>ClientRuns\<close>: the order in which the library runs events and entry functions, and a
    deal with an honest provider from its proposal to its completion; \<open>Commands\<close>: the client's
    command never hears of that completion.
  \<^item> \<open>EventTypes\<close>: a type system for events; what the code sends is typed.
  \<^item> \<open>ValidatorProps\<close>: the meter stays below the interval, payments shrink the debt.
  \<^item> \<open>CborProps\<close>: deals, payments and responses are read back unchanged; the round trips of all
    other types are lemmas of \<open>CborTypes\<close> and \<open>CborPaych\<close>.
  \<^item> \<open>ChannelStoreLaws\<close>, \<open>ChannelStoreProps\<close>: the store refines a finite map, lanes are never
    handed out twice, channels are found by message and by parties.
  \<^item> \<open>VoucherLaws\<close>, \<open>VoucherProps\<close>: when a voucher is accepted, that it is stored and never
    counted twice, what creating and submitting one does; \<open>ActorState\<close>: the actor's lanes with the
    array that the code keeps once it is loaded are the lanes that \<open>Vouchers\<close> reads each time.
  \<^item> \<open>FundsProps\<close>: the queue of requests under every interleaving of its tasks: no request is
    answered twice, queued requests are merged, failures of messages are recorded; \<open>FundsAgree\<close>:
    the shortfall that a client is told is the one that its next voucher would have.
  \<^item> \<open>MergedReq\<close>: one merge of requests, step by step, with requesters that cancel between any two
    steps: it has the effect of the one step \<open>processQueue\<close> of \<open>Funds\<close>, its context is cancelled when
    all requests are, and no promise is forgotten or blocks the channel.
  \<^item> \<open>NodeProps\<close>: the composition from the revalidator down to the stored voucher: a voucher pays
    again, a partial payment fails.
  \<^item> \<open>Exchange\<close>, \<open>LaneKeeper\<close>: both sides of a deal with the payments between them, as one step
    relation: in any order of events, losses and failures the provider books no more than the vouchers
    saved for the deal's lane are worth, and these no more than the client has spent and owes.
  \<^item> \<open>MarketProps\<close>: asks and peers survive in the datastore, opening a stream ends, a query is
    answered with the provider's offer, waiting deals are rechecked.
  \<^item> \<open>FileStoreProps\<close>: blocks that were put are found, the first peer is waited for, the peers to
    connect to are collected; \<open>Server\<close>: a key file gives back its key and sets the default address.
  \<^item> \<open>ChannelLock\<close>: in every interleaving the operations of a channel exclude each other, what holds
    the manager's lock excludes all, and no set of threads deadlocks; this is what lets the other
    theories take an operation under a lock for one step.
  \<^item> \<open>OracleProps\<close>: iterators and watchers of events lose, invent and reorder no log, whatever the
    interleaving of arrivals, the end of the subscription and the arms of their \<open>select\<close>s.
  \<^item> \<open>AssemblyProps\<close>: the parts that share the datastore of a node do not interfere, and a node that is
    spawned has the roles and keys it was asked for; \<open>Programs\<close>: a program that cannot spawn its node
    panics, and the API server never shuts down in order.
  \<^item> \<open>Subscribers\<close>: an event reaches every subscriber once, unless a channel that nobody reads is among
    them, which an order that fails leaves behind; the listeners in the state of \<open>Funds\<close> stand for the
    publisher of messages.

  \<^bold>\<open>Interfaces\<close> are locales: \<open>fsm_engine\<close>, \<open>datastore\<close>, \<open>cbg_lib\<close> for libraries the code calls,
  interpreted by implementations that show that their laws can hold; \<open>channel_store\<close> and
  \<open>voucher_channel\<close> for the store and the vouchers over it, \<open>lane_keeper\<close> for what the revalidator
  relies on when it saves a voucher, which \<open>off_chain_lane\<close> gives for the node over the manager, \<open>ask_store\<close>, \<open>ask_disk\<close>,
  \<open>peer_store\<close> and \<open>served\<close> for the market, interpreted by the code's own operations;
  \<open>block_api\<close>, \<open>wallet\<close>, \<open>namespaces\<close>, \<open>pubsub\<close> and \<open>http\<close> for the node of IPFS, the wallet, the
  namespaces of the datastore, publishers and the HTTP server, interpreted in memory.

  \<^bold>\<open>Bounds.\<close> Integers of fixed width are words, token amounts are integers, as in Go's
  \<open>math/big\<close>. Loops are structural but for opening a stream and waiting for a peer, which may run
  forever: their value is \<open>None\<close> then. No function takes fuel. The limits of the encodings (8192 elements or characters,
  two megabytes) are the library's constants.

  \<^bold>\<open>Concurrency.\<close> A lock makes an operation one step (see \<open>ChannelLock\<close>). Goroutines of a channel accessor are tasks in
  its state, and any task may run next; callers that wait let a scheduler, which is an argument,
  run tasks.

  \<^bold>\<open>Not modelled\<close>: the encoding of the JSON-RPC calls to \<open>api.go\<close>, the logging, signals and
  command lines of the programs; the contracts of \<open>src/oracle/truffle\<close>, which are not Go.
\<close>

end
